(* ===== verification/Prelude.thy ===== *)
theory Prelude
  imports Main "HOL-Library.Sublist"
begin

text \<open>
  The shared layer of the development: handlers as state transformers with
  exceptions, tables of rows with the query operations the repositories use,
  the two-state properties of handlers, and lemmas about lists and look-ups
  that every component needs.
\<close>

section \<open>Collections of facts\<close>

named_theorems prog_simps \<open>equations of the handler combinators\<close>
named_theorems table_simps \<open>equations of the row operations\<close>
named_theorems run_simps \<open>equations that run a handler on a concrete state\<close>

section \<open>Handlers\<close>

text \<open>
  An asynchronous method of a service is a function of the state it finds. It
  ends with a value or with a thrown exception, and leaves a state behind in
  both cases: writes made before a \<open>throw\<close> stay, unless they were made inside
  a database transaction.
\<close>

type_synonym ('e, 's, 'a) prog = "'s \<Rightarrow> ('e + 'a) \<times> 's"

definition ret :: "'a \<Rightarrow> ('e, 's, 'a) prog" where
  "ret a = (\<lambda>s. (Inr a, s))"

definition throw :: "'e \<Rightarrow> ('e, 's, 'a) prog" where
  "throw e = (\<lambda>s. (Inl e, s))"

definition reads :: "('s \<Rightarrow> 'a) \<Rightarrow> ('e, 's, 'a) prog" where
  "reads g = (\<lambda>s. (Inr (g s), s))"

definition modify :: "('s \<Rightarrow> 's) \<Rightarrow> ('e, 's, unit) prog" where
  "modify g = (\<lambda>s. (Inr (), g s))"

definition andThen :: "('e, 's, 'a) prog \<Rightarrow> ('a \<Rightarrow> ('e, 's, 'b) prog) \<Rightarrow> ('e, 's, 'b) prog" where
  "andThen m f = (\<lambda>s. case m s of (Inl e, t) \<Rightarrow> (Inl e, t) | (Inr a, t) \<Rightarrow> f a t)"

text \<open>\<open>if (!b) throw e;\<close>\<close>

definition check :: "bool \<Rightarrow> 'e \<Rightarrow> ('e, 's, unit) prog" where
  "check b e = (if b then ret () else throw e)"

text \<open>\<open>try { m } catch (e) { h(e) }\<close>\<close>

definition tryCatch :: "('e, 's, 'a) prog \<Rightarrow> ('e \<Rightarrow> ('e, 's, 'a) prog) \<Rightarrow> ('e, 's, 'a) prog" where
  "tryCatch m h = (\<lambda>s. case m s of (Inl e, t) \<Rightarrow> h e t | (Inr a, t) \<Rightarrow> (Inr a, t))"

text \<open>
  \<open>prisma.$transaction(fn)\<close>: the effects of \<open>fn\<close> are committed together when it
  returns and are all discarded when it throws.
\<close>

definition transaction :: "('e, 's, 'a) prog \<Rightarrow> ('e, 's, 'a) prog" where
  "transaction m = (\<lambda>s. case m s of (Inl e, t) \<Rightarrow> (Inl e, s) | (Inr a, t) \<Rightarrow> (Inr a, t))"

text \<open>\<open>for (const x of xs) { await f(x); }\<close>\<close>

fun forEach :: "'a list \<Rightarrow> ('a \<Rightarrow> ('e, 's, unit) prog) \<Rightarrow> ('e, 's, unit) prog" where
  "forEach [] f = ret ()"
| "forEach (x # xs) f = andThen (f x) (\<lambda>_. forEach xs f)"

text \<open>A run that ended with a value.\<close>

definition isOk :: "('e + 'a) \<times> 's \<Rightarrow> bool" where
  "isOk r = (case fst r of Inl e \<Rightarrow> False | Inr a \<Rightarrow> True)"

section \<open>Rows and queries\<close>

text \<open>
  A table is the list of its rows in insertion order. \<open>findUnique\<close> and
  \<open>findFirst\<close> read a row, \<open>insertRow\<close> is \<open>create\<close>, \<open>updateRow\<close> is \<open>update\<close>
  (which throws when no row matches), \<open>updateRows\<close> is \<open>updateMany\<close> (which
  returns the number of rows it changed) and \<open>deleteRows\<close> is \<open>deleteMany\<close>.
  The argument \<open>violates\<close> gives the error of the table's constraints for a new
  row version beside the other rows.
\<close>

definition findFirst :: "('r \<Rightarrow> bool) \<Rightarrow> 'r list \<Rightarrow> 'r option" where
  "findFirst p t = List.find p t"

definition findUnique :: "('r \<Rightarrow> 'k) \<Rightarrow> 'k \<Rightarrow> 'r list \<Rightarrow> 'r option" where
  "findUnique key k t = List.find (\<lambda>r. key r = k) t"

definition countRows :: "('r \<Rightarrow> bool) \<Rightarrow> 'r list \<Rightarrow> nat" where
  "countRows p t = length (filter p t)"

definition mapRows :: "('r \<Rightarrow> bool) \<Rightarrow> ('r \<Rightarrow> 'r) \<Rightarrow> 'r list \<Rightarrow> 'r list" where
  "mapRows p f t = map (\<lambda>r. if p r then f r else r) t"

definition insertRow ::
  "('s \<Rightarrow> 'r list) \<Rightarrow> (('r list \<Rightarrow> 'r list) \<Rightarrow> 's \<Rightarrow> 's) \<Rightarrow> ('r \<Rightarrow> 'r list \<Rightarrow> 'e option) \<Rightarrow>
   'r \<Rightarrow> ('e, 's, 'r) prog" where
  "insertRow table upd violates r = (\<lambda>s.
     case violates r (table s) of
       Some e \<Rightarrow> (Inl e, s)
     | None \<Rightarrow> (Inr r, upd (\<lambda>t. t @ [r]) s))"

definition updateRow ::
  "('s \<Rightarrow> 'r list) \<Rightarrow> (('r list \<Rightarrow> 'r list) \<Rightarrow> 's \<Rightarrow> 's) \<Rightarrow> ('r \<Rightarrow> 'r list \<Rightarrow> 'e option) \<Rightarrow>
   'e \<Rightarrow> ('r \<Rightarrow> 'k) \<Rightarrow> 'k \<Rightarrow> ('r \<Rightarrow> 'r) \<Rightarrow> ('e, 's, 'r) prog" where
  "updateRow table upd violates notFound key k f = (\<lambda>s.
     case findUnique key k (table s) of
       None \<Rightarrow> (Inl notFound, s)
     | Some r \<Rightarrow>
         (case violates (f r) (filter (\<lambda>x. key x \<noteq> k) (table s)) of
            Some e \<Rightarrow> (Inl e, s)
          | None \<Rightarrow> (Inr (f r), upd (mapRows (\<lambda>x. key x = k) f) s)))"

definition updateRows ::
  "('s \<Rightarrow> 'r list) \<Rightarrow> (('r list \<Rightarrow> 'r list) \<Rightarrow> 's \<Rightarrow> 's) \<Rightarrow>
   ('r \<Rightarrow> bool) \<Rightarrow> ('r \<Rightarrow> 'r) \<Rightarrow> ('e, 's, nat) prog" where
  "updateRows table upd p f = (\<lambda>s. (Inr (countRows p (table s)), upd (mapRows p f) s))"

definition deleteRows ::
  "('s \<Rightarrow> 'r list) \<Rightarrow> (('r list \<Rightarrow> 'r list) \<Rightarrow> 's \<Rightarrow> 's) \<Rightarrow> ('r \<Rightarrow> bool) \<Rightarrow> ('e, 's, nat) prog" where
  "deleteRows table upd p =
     (\<lambda>s. (Inr (countRows p (table s)), upd (filter (\<lambda>r. \<not> p r)) s))"

text \<open>\<open>x || d\<close> and \<open>x && ..\<close> on an optional string: the empty string is falsy.\<close>

definition truthy :: "string option \<Rightarrow> string option" where
  "truthy x = (case x of None \<Rightarrow> None | Some v \<Rightarrow> if v = [] then None else Some v)"

definition orElse :: "string option \<Rightarrow> string \<Rightarrow> string" where
  "orElse x d = (case truthy x of None \<Rightarrow> d | Some v \<Rightarrow> v)"

text \<open>\<open>orderBy\<close>: ascending and descending; equal keys keep the table's order.\<close>

definition orderAsc :: "('r \<Rightarrow> 'k::linorder) \<Rightarrow> 'r list \<Rightarrow> 'r list" where
  "orderAsc key t = sort_key key t"

definition orderDesc :: "('r \<Rightarrow> int) \<Rightarrow> 'r list \<Rightarrow> 'r list" where
  "orderDesc key t = sort_key (\<lambda>r. - key r) t"

section \<open>Equations of the combinators\<close>

lemma ret_app [prog_simps]: "ret a s = (Inr a, s)"
  by (simp add: ret_def)

lemma throw_app [prog_simps]: "throw e s = (Inl e, s)"
  by (simp add: throw_def)

lemma reads_app [prog_simps]: "reads g s = (Inr (g s), s)"
  by (simp add: reads_def)

lemma modify_app [prog_simps]: "modify g s = (Inr (), g s)"
  by (simp add: modify_def)

lemma check_app [prog_simps]: "check b e s = (if b then Inr () else Inl e, s)"
  by (simp add: check_def prog_simps)

lemma andThen_app [prog_simps]:
  "andThen m f s = (case m s of (Inl e, t) \<Rightarrow> (Inl e, t) | (Inr a, t) \<Rightarrow> f a t)"
  by (simp add: andThen_def)

lemma tryCatch_app [prog_simps]:
  "tryCatch m h s = (case m s of (Inl e, t) \<Rightarrow> h e t | (Inr a, t) \<Rightarrow> (Inr a, t))"
  by (simp add: tryCatch_def)

lemma transaction_app [prog_simps]:
  "transaction m s = (case m s of (Inl e, t) \<Rightarrow> (Inl e, s) | (Inr a, t) \<Rightarrow> (Inr a, t))"
  by (simp add: transaction_def)

lemma andThen_check [simp]:
  "andThen (check b e) f s = (if b then f () s else (Inl e, s))"
  by (simp add: prog_simps)

lemma andThen_reads [simp]: "andThen (reads g) f s = f (g s) s"
  by (simp add: prog_simps)

lemma andThen_ret [simp]: "andThen (ret a) f = f a"
  by (simp add: andThen_def ret_def)

lemma andThen_modify [simp]: "andThen (modify g) f s = f () (g s)"
  by (simp add: prog_simps)

lemma andThen_updateRows [simp]:
  "andThen (updateRows table upd p f) k s =
     k (countRows p (table s)) (upd (mapRows p f) s)"
  by (simp add: prog_simps updateRows_def)

text \<open>
  Running a handler: the first step is evaluated before the rest is looked at.
\<close>

lemma andThen_run:
  "andThen m f s = (case m s of (r, t) \<Rightarrow> (case r of Inl e \<Rightarrow> (Inl e, t) | Inr a \<Rightarrow> f a t))"
  by (auto simp: andThen_def split: prod.split sum.split)

lemma andThen_first: "m = m' \<Longrightarrow> s = s' \<Longrightarrow> andThen m f s = andThen m' f s'"
  by simp

lemmas run_equations [run_simps] = andThen_run ret_app throw_app reads_app modify_app check_app
  tryCatch_app transaction_app Let_def

lemma andThen_InrD:
  assumes "andThen m f s = (Inr b, u)"
  obtains a t where "m s = (Inr a, t)" and "f a t = (Inr b, u)"
  using assms by (auto simp: prog_simps split: prod.splits sum.splits)

lemma transaction_InrD: "transaction m s = (Inr a, t) \<Longrightarrow> m s = (Inr a, t)"
  by (auto simp: prog_simps split: prod.splits sum.splits)

lemma isOk_Inr: "isOk r \<Longrightarrow> \<exists>a s. r = (Inr a, s)"
  by (cases r) (auto simp: isOk_def split: sum.splits)

section \<open>Lists and look-ups\<close>

lemma image_key_neq: "k \<notin> key ` S \<Longrightarrow> r \<in> S \<Longrightarrow> key r \<noteq> k"
  by auto

lemma findUnique_SomeD:
  "findUnique key k t = Some r \<Longrightarrow> r \<in> set t \<and> key r = k"
  by (auto simp: findUnique_def find_Some_iff)

lemma findUnique_NoneD: "findUnique key k t = None \<Longrightarrow> r \<in> set t \<Longrightarrow> key r \<noteq> k"
  by (auto simp: findUnique_def find_None_iff)

lemma findUnique_mem:
  "distinct (map key t) \<Longrightarrow> r \<in> set t \<Longrightarrow> findUnique key (key r) t = Some r"
  by (induction t) (auto simp: findUnique_def)

lemma findUnique_Nil [simp]: "findUnique key k [] = None"
  by (simp add: findUnique_def)

lemma findUnique_Cons [simp]:
  "findUnique key k (r # t) = (if key r = k then Some r else findUnique key k t)"
  by (simp add: findUnique_def)

lemma findUnique_append:
  "findUnique key k (t @ u) =
     (case findUnique key k t of None \<Rightarrow> findUnique key k u | Some r \<Rightarrow> Some r)"
  by (induction t) auto

lemma mapRows_Nil [simp]: "mapRows p f [] = []"
  by (simp add: mapRows_def)

lemma mapRows_Cons [simp]: "mapRows p f (r # t) = (if p r then f r else r) # mapRows p f t"
  by (simp add: mapRows_def)

lemma set_mapRows: "set (mapRows p f t) = (\<lambda>r. if p r then f r else r) ` set t"
  by (simp add: mapRows_def)

lemma length_mapRows [simp]: "length (mapRows p f t) = length t"
  by (simp add: mapRows_def)

lemma map_mapRows: "(\<And>r. g (f r) = g r) \<Longrightarrow> map g (mapRows p f t) = map g t"
  by (simp add: mapRows_def)

text \<open>Reading a row by its key after an update that keeps the keys.\<close>

lemma findUnique_mapRows [table_simps]:
  assumes "\<And>r. key (f r) = key r"
  shows "findUnique key k (mapRows p f t) =
    map_option (\<lambda>r. if p r then f r else r) (findUnique key k t)"
  using assms by (induction t) auto

lemma findUnique_updated:
  "findUnique key k t = Some r \<Longrightarrow> (\<And>x. key (f x) = key x) \<Longrightarrow>
     findUnique key k (mapRows (\<lambda>x. key x = k) f t) = Some (f r)"
  by (auto simp: findUnique_mapRows dest: findUnique_SomeD)

lemma countRows_zero: "countRows p t = 0 \<longleftrightarrow> (\<forall>r \<in> set t. \<not> p r)"
  by (auto simp: countRows_def filter_empty_conv)

lemma countRows_pos: "r \<in> set t \<Longrightarrow> p r \<Longrightarrow> countRows p t \<noteq> 0"
  by (auto simp: countRows_zero)

lemma mapRows_id: "(\<And>r. r \<in> set t \<Longrightarrow> \<not> p r) \<Longrightarrow> mapRows p f t = t"
  by (induction t) auto

lemma filter_mapRows_other:
  "(\<And>r. p r \<Longrightarrow> \<not> q r \<and> \<not> q (f r)) \<Longrightarrow> filter q (mapRows p f t) = filter q t"
  by (induction t) auto

lemma findUnique_countRows:
  "findUnique key k t = Some r \<Longrightarrow> p r \<Longrightarrow> countRows (\<lambda>x. key x = k \<and> p x) t \<noteq> 0"
  by (auto simp: countRows_zero dest: findUnique_SomeD)

lemma orElse_simps [simp]: "orElse None d = d" "orElse (Some []) d = d"
  "orElse (Some (c # cs)) d = c # cs"
  by (simp_all add: orElse_def truthy_def)

lemma truthy_simps [simp]: "truthy None = None" "truthy (Some []) = None"
  "truthy (Some (c # cs)) = Some (c # cs)"
  by (simp_all add: truthy_def)

section \<open>Two-state properties of handlers\<close>

text \<open>
  \<open>steps R m\<close>: however \<open>m\<close> ends, the state it leaves is \<open>R\<close>-related to the one
  it found. For a preorder \<open>R\<close> the combinators compose such facts; the
  interpretation below specialises them to the invariants.
\<close>

definition steps :: "('s \<Rightarrow> 's \<Rightarrow> bool) \<Rightarrow> ('e, 's, 'a) prog \<Rightarrow> bool" where
  "steps R m \<longleftrightarrow> (\<forall>s. R s (snd (m s)))"

lemma stepsI: "(\<And>s. R s (snd (m s))) \<Longrightarrow> steps R m"
  by (simp add: steps_def)

lemma stepsD: "steps R m \<Longrightarrow> m s = (r, t) \<Longrightarrow> R s t"
  unfolding steps_def by (metis snd_conv)

lemma steps_snd: "steps R m \<Longrightarrow> R s (snd (m s))"
  by (simp add: steps_def)

locale state_order =
  fixes R :: "'s \<Rightarrow> 's \<Rightarrow> bool"
  assumes R_refl: "R s s"
    and R_trans: "R s t \<Longrightarrow> R t u \<Longrightarrow> R s u"
begin

lemma ret: "steps R (ret a)"
  by (simp add: steps_def prog_simps R_refl)

lemma throw: "steps R (throw e)"
  by (simp add: steps_def prog_simps R_refl)

lemma reads: "steps R (reads g)"
  by (simp add: steps_def prog_simps R_refl)

lemma check: "steps R (check b e)"
  by (simp add: steps_def prog_simps R_refl)

lemma andThen:
  assumes m: "steps R m" and f: "\<And>a. steps R (f a)"
  shows "steps R (andThen m f)"
proof (rule stepsI)
  fix s
  obtain r t where mt: "m s = (r, t)" by (cases "m s")
  then have "R s t" by (rule stepsD [OF m])
  then show "R s (snd (andThen m f s))"
    by (cases r) (auto simp: prog_simps mt intro: R_trans steps_snd [OF f])
qed

text \<open>A step whose write is guarded by what was read just before, in the same state.\<close>

lemma reads_andThen: "(\<And>s. R s (snd (f (g s) s))) \<Longrightarrow> steps R (andThen (reads g) f)"
  by (simp add: steps_def)

lemma andThen_at:
  assumes "R s (snd (m s))" and "\<And>a. steps R (f a)"
  shows "R s (snd (andThen m f s))"
proof (cases "m s")
  case (Pair r t)
  with assms show ?thesis
    by (cases r) (auto simp: prog_simps intro: R_trans steps_snd [OF assms(2)])
qed

lemma tryCatch:
  assumes m: "steps R m" and h: "\<And>e. steps R (h e)"
  shows "steps R (tryCatch m h)"
proof (rule stepsI)
  fix s
  obtain r t where mt: "m s = (r, t)" by (cases "m s")
  then have "R s t" by (rule stepsD [OF m])
  then show "R s (snd (tryCatch m h s))"
    by (cases r) (auto simp: prog_simps mt intro: R_trans steps_snd [OF h])
qed

lemma transaction:
  assumes m: "steps R m"
  shows "steps R (transaction m)"
proof (rule stepsI)
  fix s
  obtain r t where mt: "m s = (r, t)" by (cases "m s")
  then have "R s t" by (rule stepsD [OF m])
  then show "R s (snd (transaction m s))"
    by (cases r) (auto simp: prog_simps mt R_refl)
qed

lemma forEach: "(\<And>x. steps R (f x)) \<Longrightarrow> steps R (forEach xs f)"
  by (induction xs) (auto intro: ret andThen)

lemma modify: "(\<And>s. R s (g s)) \<Longrightarrow> steps R (modify g)"
  by (simp add: steps_def prog_simps)

lemma insertRow:
  "(\<And>s. violates r (table s) = None \<Longrightarrow> R s (upd (\<lambda>t. t @ [r]) s)) \<Longrightarrow>
     steps R (insertRow table upd violates r)"
  by (simp add: steps_def insertRow_def R_refl split: option.split)

lemma updateRow:
  assumes "\<And>s r. findUnique key k (table s) = Some r \<Longrightarrow>
      violates (f r) (filter (\<lambda>x. key x \<noteq> k) (table s)) = None \<Longrightarrow>
      R s (upd (mapRows (\<lambda>x. key x = k) f) s)"
  shows "steps R (updateRow table upd violates nf key k f)"
  using assms by (simp add: steps_def updateRow_def R_refl split: option.split)

lemma updateRows: "(\<And>s. R s (upd (mapRows p f) s)) \<Longrightarrow> steps R (updateRows table upd p f)"
  by (simp add: steps_def updateRows_def)

lemma deleteRows:
  "(\<And>s. R s (upd (filter (\<lambda>r. \<not> p r)) s)) \<Longrightarrow> steps R (deleteRows table upd p)"
  by (simp add: steps_def deleteRows_def)

lemma case_option:
  "(x = None \<Longrightarrow> steps R m) \<Longrightarrow> (\<And>a. x = Some a \<Longrightarrow> steps R (f a)) \<Longrightarrow>
     steps R (case x of None \<Rightarrow> m | Some a \<Rightarrow> f a)"
  by (cases x) auto

lemma if_then_else:
  "(b \<Longrightarrow> steps R m) \<Longrightarrow> (\<not> b \<Longrightarrow> steps R n) \<Longrightarrow> steps R (if b then m else n)"
  by simp

lemmas combinators = ret throw reads check andThen tryCatch transaction forEach
  modify insertRow updateRow updateRows deleteRows case_option if_then_else

end

text \<open>An invariant is the preorder "if it held before, it holds after".\<close>

abbreviation keeps :: "('s \<Rightarrow> bool) \<Rightarrow> ('e, 's, 'a) prog \<Rightarrow> bool" where
  "keeps I m \<equiv> steps (\<lambda>s t. I s \<longrightarrow> I t) m"

interpretation inv: state_order "\<lambda>s t. I s \<longrightarrow> I t" for I
  by unfold_locales auto

text \<open>A field that a handler never writes is the preorder "same value".\<close>

interpretation same: state_order "\<lambda>s t. g t = g s" for g
  by unfold_locales auto

text \<open>A log only grows.\<close>

interpretation grows: state_order "\<lambda>s t. prefix (g s) (g t)" for g
  by unfold_locales auto

section \<open>The contract of a table\<close>

text \<open>
  What the services rely on when they query a table: reading back what was
  written, the row count of \<open>updateMany\<close>, the error of \<open>update\<close> on a missing
  row, and that a failing statement changes nothing. The parameters are the
  table's field of the state, its update, its primary key and its constraints.
\<close>

locale table =
  fixes table :: "'s \<Rightarrow> 'r list"
    and upd :: "('r list \<Rightarrow> 'r list) \<Rightarrow> 's \<Rightarrow> 's"
    and violates :: "'r \<Rightarrow> 'r list \<Rightarrow> 'e option"
    and key :: "'r \<Rightarrow> 'k"
  assumes table_upd: "table (upd f s) = f (table s)"
    and violates_key: "violates r t = None \<Longrightarrow> r' \<in> set t \<Longrightarrow> key r' \<noteq> key r"
begin

lemma insert_error: "insertRow table upd violates r s = (Inl e, t) \<Longrightarrow> t = s"
  by (auto simp: insertRow_def split: option.splits)

lemma update_error: "updateRow table upd violates nf key k f s = (Inl e, t) \<Longrightarrow> t = s"
  by (auto simp: updateRow_def split: option.splits)

lemma insert_ok:
  assumes "insertRow table upd violates r s = (Inr r', t)"
  shows "r' = r" and "t = upd (\<lambda>xs. xs @ [r]) s" and "table t = table s @ [r]"
    and "violates r (table s) = None"
  using assms by (auto simp: insertRow_def table_upd split: option.splits)

lemma update_ok:
  assumes "updateRow table upd violates nf key k f s = (Inr r', t)"
  obtains r where "findUnique key k (table s) = Some r" and "r' = f r"
    and "t = upd (mapRows (\<lambda>x. key x = k) f) s"
    and "table t = mapRows (\<lambda>x. key x = k) f (table s)"
    and "violates (f r) (filter (\<lambda>x. key x \<noteq> k) (table s)) = None"
  using assms by (auto simp: updateRow_def table_upd split: option.splits)

lemma insert_distinct:
  assumes "insertRow table upd violates r s = (res, t)" and "distinct (map key (table s))"
  shows "distinct (map key (table t))"
proof (cases "violates r (table s)")
  case None
  then have "\<forall>r' \<in> set (table s). key r' \<noteq> key r"
    using violates_key by blast
  then have "key r \<notin> key ` set (table s)" by auto
  with assms None show ?thesis by (auto simp: insertRow_def table_upd)
next
  case (Some e)
  with assms show ?thesis by (auto simp: insertRow_def)
qed

lemma find_insert:
  assumes "insertRow table upd violates r s = (Inr r', t)"
  shows "findUnique key k (table t) =
    (if k = key r then Some r else findUnique key k (table s))"
proof -
  have "\<And>x. x \<in> set (table s) \<Longrightarrow> key x \<noteq> key r"
    using insert_ok(4) [OF assms] violates_key by blast
  then show ?thesis
    by (auto simp: insert_ok(3) [OF assms] findUnique_append dest: findUnique_SomeD
        split: option.splits)
qed

end

end
