(* ===== verification/Model.thy ===== *)
theory Model
  imports Prelude Complex_Main
begin

text \<open>
  The data of the system: the enums and tables of \<open>prisma/schema.prisma\<close>, the
  BullMQ queues and the Redis cache as one record of state, the exceptions the
  services throw, and the environment a request runs in (clock, generated
  identifiers and the functions of code outside the repository).
\<close>

section \<open>Enums\<close>

datatype Role = USER | ADMIN

datatype UserStatus = ACTIVE | INACTIVE | BLOCKED | SUSPENDED

datatype ServiceMode = AT_CUSTOMER_LOCATION | AT_PROVIDER_LOCATION | ONLINE

datatype VerificationStatus = PENDING | VERIFIED | REJECTED | SUSPENDED

datatype DocumentType = AADHAAR | PAN | BUSINESS_LICENSE | GST

datatype BookingStatus =
  PENDING_PAYMENT | PAYMENT_FAILED | CONFIRMED | COMPLETED | CANCELLED | EXPIRED

datatype PaymentGateway = RAZORPAY

datatype PaymentStatus = CREATED | PENDING | SUCCESS | FAILED | REFUNDED

datatype NotificationType =
  BOOKING_CONFIRMED | BOOKING_CANCELLED | PAYMENT_SUCCESS | PAYMENT_FAILED | REMINDER | REVIEW_REQUEST

datatype NotificationChannel = EMAIL | SMS | PUSH

datatype NotificationStatus = PENDING | SENT | FAILED

datatype AuditAction =
    BOOKING_CREATED | BOOKING_CONFIRMED | BOOKING_CANCELLED | BOOKING_COMPLETED
  | BOOKING_FLAGGED_OVERDUE | PROVIDER_VERIFIED | PROVIDER_SUSPENDED | PROVIDER_REJECTED
  | PAYMENT_SUCCESS | PAYMENT_FAILED | PAYMENT_REFUNDED | USER_SUSPENDED | USER_STATUS_UPDATED

section \<open>Values\<close>

type_synonym uuid = string

text \<open>A \<open>Date\<close> is its time value: milliseconds since 1970-01-01T00:00:00Z.\<close>

type_synonym date = int

text \<open>
  Amounts are exact: \<open>Decimal(10, 2)\<close> columns and the JavaScript numbers read
  from them are rationals. JSON values keep the order of object keys.
\<close>

datatype json =
  JNull | JBool bool | JNum rat | JStr string | JArr "json list" | JObj "(string \<times> json) list"

section \<open>Rows\<close>

record user =
  u_id :: uuid
  u_email :: string
  u_passwordHash :: string
  u_firstName :: string
  u_lastName :: string
  u_phone :: string
  u_role :: Role
  u_refreshTokenHash :: "string option"
  u_status :: UserStatus
  u_lastLoginAt :: "date option"
  u_createdAt :: date

record providerProfile =
  pp_id :: uuid
  pp_userId :: uuid
  pp_businessName :: string
  pp_description :: "string option"
  pp_experienceYears :: int
  pp_profileImageUrl :: "string option"
  pp_verificationStatus :: VerificationStatus
  pp_averageRating :: rat
  pp_totalReviews :: nat
  pp_createdAt :: date

record providerLocation =
  pl_id :: uuid
  pl_providerId :: uuid
  pl_addressLine1 :: string
  pl_addressLine2 :: "string option"
  pl_city :: string
  pl_state :: string
  pl_postalCode :: string
  pl_isPrimary :: bool

record providerDocument =
  pd_id :: uuid
  pd_providerId :: uuid
  pd_documentType :: DocumentType
  pd_fileUrl :: string
  pd_verificationStatus :: VerificationStatus
  pd_rejectionReason :: "string option"
  pd_verifiedAt :: "date option"

record category =
  cat_id :: uuid
  cat_name :: string
  cat_slug :: string
  cat_icon :: "string option"
  cat_description :: "string option"
  cat_displayOrder :: int
  cat_isActive :: bool
  cat_createdAt :: date

record service =
  sv_id :: uuid
  sv_categoryId :: uuid
  sv_name :: string
  sv_slug :: string
  sv_description :: "string option"
  sv_serviceMode :: ServiceMode
  sv_defaultDuration :: "int option"
  sv_isActive :: bool
  sv_createdAt :: date

record providerService =
  ps_id :: uuid
  ps_providerId :: uuid
  ps_serviceId :: uuid
  ps_price :: rat
  ps_currency :: string
  ps_durationMinutes :: int
  ps_bufferMinutes :: int
  ps_description :: "string option"
  ps_isActive :: bool
  ps_createdAt :: date

record availability =
  av_id :: uuid
  av_providerId :: uuid
  av_weekday :: int
  av_startTime :: string
  av_endTime :: string
  av_isAvailable :: bool

record booking =
  b_id :: uuid
  b_customerId :: uuid
  b_providerId :: uuid
  b_providerServiceId :: uuid
  b_bookingDate :: date
  b_startTime :: int
  b_endTime :: int
  b_bookingStatus :: BookingStatus
  b_bookedPrice :: rat
  b_bookedDuration :: int
  b_bookedServiceMode :: ServiceMode
  b_serviceName :: string
  b_providerBusinessName :: string
  b_customerNotes :: "string option"
  b_cancellationReason :: "string option"
  b_cancelledAt :: "date option"
  b_completedAt :: "date option"
  b_overdueAt :: "date option"
  b_needsReview :: bool
  b_createdAt :: date

record payment =
  pay_id :: uuid
  pay_bookingId :: uuid
  pay_gateway :: PaymentGateway
  pay_gatewayOrderId :: string
  pay_gatewayPaymentId :: "string option"
  pay_gatewaySignature :: "string option"
  pay_amount :: rat
  pay_currency :: string
  pay_status :: PaymentStatus
  pay_paidAt :: "date option"
  pay_refundedAt :: "date option"
  pay_createdAt :: date

record webhookEvent =
  we_id :: uuid
  we_gateway :: PaymentGateway
  we_eventId :: string
  we_eventType :: string
  we_payload :: json
  we_processedAt :: "date option"
  we_createdAt :: date

record review =
  rv_id :: uuid
  rv_bookingId :: uuid
  rv_customerId :: uuid
  rv_providerId :: uuid
  rv_rating :: int
  rv_comment :: "string option"
  rv_createdAt :: date

record notification =
  n_id :: uuid
  n_userId :: uuid
  n_bookingId :: "uuid option"
  n_type :: NotificationType
  n_channel :: NotificationChannel
  n_status :: NotificationStatus
  n_title :: string
  n_body :: string
  n_scheduledFor :: date
  n_sentAt :: "date option"
  n_readAt :: "date option"
  n_failedAt :: "date option"
  n_failureReason :: "string option"
  n_attemptCount :: nat
  n_createdAt :: date

record auditLog =
  al_id :: uuid
  al_actorUserId :: "uuid option"
  al_entityType :: string
  al_entityId :: uuid
  al_action :: AuditAction
  al_oldValue :: json
  al_newValue :: json
  al_createdAt :: date

section \<open>Queues and cache\<close>

datatype bookingJobName = EXPIRE_PAYMENT | PROCESS_NO_SHOW

datatype notificationJobName = BOOKING_CONFIRMATION | REMINDER_24H | REMINDER_2H | REVIEW_REQUEST

record bookingJob =
  bj_jobId :: string
  bj_name :: bookingJobName
  bj_bookingId :: uuid
  bj_delay :: int

record notificationPayload =
  np_notificationId :: "uuid option"
  np_userId :: uuid
  np_bookingId :: "uuid option"
  np_type :: NotificationType
  np_channel :: NotificationChannel
  np_title :: string
  np_body :: string
  np_scheduledFor :: "date option"

record notificationJob =
  nj_jobId :: string
  nj_name :: notificationJobName
  nj_data :: notificationPayload
  nj_delay :: int

text \<open>The result of \<open>BaseRepository.paginate\<close>.\<close>

record 'a paginated =
  pg_data :: "'a list"
  pg_total :: nat
  pg_page :: int
  pg_limit :: int
  pg_totalPages :: int
  pg_hasNextPage :: bool
  pg_hasPreviousPage :: bool

text \<open>The public view of a provider, and one page of the provider search.\<close>

record publicProfile =
  pub_profile :: providerProfile
  pub_userName :: "(string \<times> string) option"
  pub_locations :: "providerLocation list"
  pub_services :: "(providerService \<times> service option \<times> category option) list"

record searchService =
  ss_id :: uuid
  ss_name :: string
  ss_categoryName :: string
  ss_price :: rat

record searchItem =
  si_providerId :: uuid
  si_businessName :: string
  si_profileImage :: "string option"
  si_city :: "string option"
  si_averageRating :: rat
  si_totalReviews :: nat
  si_startingPrice :: "rat option"
  si_services :: "searchService list"

record searchResult =
  sr_items :: "searchItem list"
  sr_page :: int
  sr_limit :: int
  sr_total :: nat
  sr_totalPages :: int

text \<open>What the services store in Redis, and when the entry expires.\<close>

datatype cacheValue =
    CVersion int
  | CCategories "category paginated"
  | CServices "service paginated"
  | CPublicProfile publicProfile
  | CSearch searchResult

record cacheEntry =
  ce_value :: cacheValue
  ce_expiresAt :: "date option"

section \<open>The state\<close>

record mail =
  ml_to :: string
  ml_subject :: string
  ml_text :: string

record world =
  users :: "user list"
  providerProfiles :: "providerProfile list"
  providerLocations :: "providerLocation list"
  providerDocuments :: "providerDocument list"
  categories :: "category list"
  services :: "service list"
  providerServices :: "providerService list"
  availabilities :: "availability list"
  bookings :: "booking list"
  payments :: "payment list"
  webhookEvents :: "webhookEvent list"
  reviews :: "review list"
  notifications :: "notification list"
  auditLogs :: "auditLog list"
  bookingQueue :: "bookingJob list"
  notificationQueue :: "notificationJob list"
  redis :: "string \<rightharpoonup> cacheEntry"
  outbox :: "mail list"
  disk :: "string \<rightharpoonup> string"
  drawn :: nat

text \<open>
  \<open>outbox\<close> are the mails the mail provider accepted, in the order they were sent;
  \<open>disk\<close> are the uploaded files by absolute path.
  \<open>drawn\<close> counts the identifiers and random strings drawn so far; the
  environment says which value each draw gives.
\<close>

section \<open>Exceptions\<close>

text \<open>
  The HTTP exceptions of NestJS with their message text, and the errors the
  database client reports: a unique violation, a missing row, and the
  violation of the exclusion constraint on bookings.
\<close>

datatype prismaCode = P2002 | P2025 | EXCLUSION_23P01

datatype exn =
    BadRequestException string
  | NotFoundException string
  | ForbiddenException string
  | ConflictException string
  | UnauthorizedException string
  | RequestTimeoutException string
  | PrismaError prismaCode
  | JsError string

type_synonym 'a action = "(exn, world, 'a) prog"

section \<open>The environment of a request\<close>

text \<open>
  \<open>nowMs\<close> is the clock; \<open>uuidAt\<close> and \<open>randomHexAt\<close> are the successive draws of
  the generators. The other fields stand for code outside the repository:
  \<open>parseDate\<close> (\<open>new Date(s)\<close>, \<open>None\<close> an invalid date), \<open>plusLocalDays\<close>
  (\<open>setDate\<close> in the server's time zone), \<open>pgTime0\<close> (what a \<open>TIME(0)\<close> column
  keeps of an instant, as milliseconds of the day), \<open>hmacSha256\<close> (hexadecimal
  digest under a key), \<open>parseJson\<close> (\<open>JSON.parse\<close>, \<open>None\<close> a syntax error),
  \<open>isoString\<close> (\<open>toISOString\<close>), \<open>localDateString\<close> (\<open>toDateString\<close>) and
  \<open>localTimeString\<close> (\<open>toTimeString\<close>), \<open>numberText\<close> and \<open>textNumber\<close>
  (\<open>String\<close> of a number and \<open>Number\<close> of a text, \<open>None\<close> for \<open>NaN\<close>), \<open>configGet\<close>
  (\<open>ConfigService.get\<close>), \<open>redisReady\<close> (the Redis client is connected
  and answers: the cache service swallows the error of a command, which then has the effect of
  a client that is not ready), \<open>sha256Hex\<close>
  and \<open>urlSearchParams\<close> (the digest and the query string of a cache key),
  \<open>bcryptHashAt\<close> (hash of a text under the salt of a draw), \<open>bcryptCompare\<close>,
  \<open>jwtSign\<close> (secret, lifetime, time, payload), \<open>jwtVerify\<close> (secret, time, token,
  \<open>None\<close> for a token that is not valid), \<open>sendMail\<close> (the mail provider's answer
  for recipient, subject and text: whether it succeeded, and its error),
  \<open>queueError\<close> (the error with which BullMQ rejects the commands on a job identifier, if it
  does: a lost connection, a job locked by a worker),
  \<open>processCwd\<close> (\<open>process.cwd()\<close>, an absolute path), \<open>isUuid\<close>, \<open>isEmail\<close>, \<open>isIndianPhone\<close>,
  \<open>isUrl\<close> and \<open>isISO8601\<close> (the tests of the validation library), \<open>production\<close>
  (\<open>NODE_ENV\<close> is \<open>production\<close>), \<open>prismaTarget\<close> and \<open>prismaCause\<close> (the columns and the cause that the
  database client attaches to an error, if any).
\<close>

record jwtPayload =
  jp_sub :: uuid
  jp_email :: string
  jp_role :: Role

record env =
  nowMs :: date
  uuidAt :: "nat \<Rightarrow> uuid"
  randomHexAt :: "nat \<Rightarrow> string"
  parseDate :: "string \<Rightarrow> date option"
  plusLocalDays :: "date \<Rightarrow> int \<Rightarrow> date"
  pgTime0 :: "date \<Rightarrow> int"
  hmacSha256 :: "string \<Rightarrow> string \<Rightarrow> string"
  parseJson :: "string \<Rightarrow> json option"
  isoString :: "date \<Rightarrow> string"
  localDateString :: "date \<Rightarrow> string"
  localTimeString :: "date \<Rightarrow> string"
  numberText :: "rat \<Rightarrow> string"
  textNumber :: "string \<Rightarrow> rat option"
  configGet :: "string \<Rightarrow> string option"
  redisReady :: bool
  sha256Hex :: "string \<Rightarrow> string"
  urlSearchParams :: "(string \<times> string) list \<Rightarrow> string"
  bcryptHashAt :: "nat \<Rightarrow> string \<Rightarrow> string"
  bcryptCompare :: "string \<Rightarrow> string \<Rightarrow> bool"
  jwtSign :: "string option \<Rightarrow> string option \<Rightarrow> date \<Rightarrow> jwtPayload \<Rightarrow> string"
  jwtVerify :: "string option \<Rightarrow> date \<Rightarrow> string \<Rightarrow> jwtPayload option"
  sendMail :: "string \<Rightarrow> string \<Rightarrow> string \<Rightarrow> bool \<times> string option"
  queueError :: "string \<Rightarrow> string option"
  processCwd :: string
  isUuid :: "string \<Rightarrow> bool"
  isEmail :: "string \<Rightarrow> bool"
  isIndianPhone :: "string \<Rightarrow> bool"
  isUrl :: "string \<Rightarrow> bool"
  isISO8601 :: "string \<Rightarrow> bool"
  production :: bool
  prismaTarget :: "string option"
  prismaCause :: "string option"

definition drawUuid :: "env \<Rightarrow> uuid action" where
  "drawUuid e = (\<lambda>w. (Inr (uuidAt e (drawn w)), w\<lparr>drawn := Suc (drawn w)\<rparr>))"

definition drawHex :: "env \<Rightarrow> string action" where
  "drawHex e = (\<lambda>w. (Inr (randomHexAt e (drawn w)), w\<lparr>drawn := Suc (drawn w)\<rparr>))"

section \<open>Dates\<close>

definition dayMs :: int where "dayMs = 86400000"

definition getUTCDay :: "date \<Rightarrow> int" where
  "getUTCDay d = (d div dayMs + 4) mod 7"

definition getUTCHours :: "date \<Rightarrow> int" where
  "getUTCHours d = d div 3600000 mod 24"

definition getUTCMinutes :: "date \<Rightarrow> int" where
  "getUTCMinutes d = d div 60000 mod 60"

definition getUTCSeconds :: "date \<Rightarrow> int" where
  "getUTCSeconds d = d div 1000 mod 60"

definition setUTCHours :: "date \<Rightarrow> int \<Rightarrow> int \<Rightarrow> int \<Rightarrow> int \<Rightarrow> date" where
  "setUTCHours d h m s ms =
     d div dayMs * dayMs + h * 3600000 + m * 60000 + s * 1000 + ms"

section \<open>Names in JSON\<close>

fun bookingStatusName :: "BookingStatus \<Rightarrow> string" where
  "bookingStatusName PENDING_PAYMENT = ''PENDING_PAYMENT''"
| "bookingStatusName BookingStatus.PAYMENT_FAILED = ''PAYMENT_FAILED''"
| "bookingStatusName CONFIRMED = ''CONFIRMED''"
| "bookingStatusName COMPLETED = ''COMPLETED''"
| "bookingStatusName CANCELLED = ''CANCELLED''"
| "bookingStatusName EXPIRED = ''EXPIRED''"

fun paymentStatusName :: "PaymentStatus \<Rightarrow> string" where
  "paymentStatusName CREATED = ''CREATED''"
| "paymentStatusName PaymentStatus.PENDING = ''PENDING''"
| "paymentStatusName SUCCESS = ''SUCCESS''"
| "paymentStatusName PaymentStatus.FAILED = ''FAILED''"
| "paymentStatusName REFUNDED = ''REFUNDED''"

fun verificationStatusName :: "VerificationStatus \<Rightarrow> string" where
  "verificationStatusName VerificationStatus.PENDING = ''PENDING''"
| "verificationStatusName VERIFIED = ''VERIFIED''"
| "verificationStatusName REJECTED = ''REJECTED''"
| "verificationStatusName VerificationStatus.SUSPENDED = ''SUSPENDED''"

fun userStatusName :: "UserStatus \<Rightarrow> string" where
  "userStatusName ACTIVE = ''ACTIVE''"
| "userStatusName INACTIVE = ''INACTIVE''"
| "userStatusName BLOCKED = ''BLOCKED''"
| "userStatusName UserStatus.SUSPENDED = ''SUSPENDED''"

text \<open>
  Reading an object as \<open>v?.key\<close> does: \<open>None\<close> is \<open>undefined\<close>, which \<open>jget\<close> does
  not tell from \<open>null\<close>. \<open>jTruthy\<close> is a value as a condition, \<open>jOr\<close> is \<open>a || b\<close>,
  \<open>jsString\<close> is \<open>String(v)\<close> and \<open>jsNumberOf\<close> is \<open>Number(v)\<close>.
\<close>

fun jlookup :: "json \<Rightarrow> string \<Rightarrow> json option" where
  "jlookup (JObj kvs) k = map_of kvs k"
| "jlookup _ k = None"

definition jget :: "json \<Rightarrow> string \<Rightarrow> json" where
  "jget j k = (case jlookup j k of None \<Rightarrow> JNull | Some v \<Rightarrow> v)"

fun jTruthy :: "json \<Rightarrow> bool" where
  "jTruthy JNull = False"
| "jTruthy (JBool b) = b"
| "jTruthy (JNum n) = (n \<noteq> 0)"
| "jTruthy (JStr s) = (s \<noteq> [])"
| "jTruthy (JArr vs) = True"
| "jTruthy (JObj kvs) = True"

definition jOr :: "json \<Rightarrow> json \<Rightarrow> json" where
  "jOr a b = (if jTruthy a then a else b)"

fun joinComma :: "string list \<Rightarrow> string" where
  "joinComma [] = []"
| "joinComma [s] = s"
| "joinComma (s # t # ss) = s @ '','' @ joinComma (t # ss)"

fun jsString :: "env \<Rightarrow> json \<Rightarrow> string" where
  "jsString e JNull = ''null''"
| "jsString e (JBool b) = (if b then ''true'' else ''false'')"
| "jsString e (JNum n) = numberText e n"
| "jsString e (JStr s) = s"
| "jsString e (JArr vs) =
     joinComma (map (\<lambda>v. case v of JNull \<Rightarrow> [] | _ \<Rightarrow> jsString e v) vs)"
| "jsString e (JObj kvs) = ''[object Object]''"

definition templateText :: "env \<Rightarrow> json option \<Rightarrow> string" where
  "templateText e v = (case v of None \<Rightarrow> ''undefined'' | Some j \<Rightarrow> jsString e j)"

fun jsNumberOf :: "env \<Rightarrow> json \<Rightarrow> rat option" where
  "jsNumberOf e JNull = Some 0"
| "jsNumberOf e (JBool b) = Some (if b then 1 else 0)"
| "jsNumberOf e (JNum n) = Some n"
| "jsNumberOf e v = textNumber e (jsString e v)"

section \<open>Reading objects\<close>

lemma jget_simps [simp]:
  "jget (JObj []) k = JNull" "jget (JObj ((k', v) # kvs)) k = (if k' = k then v else jget (JObj kvs) k)"
  "jget JNull k = JNull" "jget (JStr s) k = JNull" "jget (JNum n) k = JNull" "jget (JBool b) k = JNull"
  "jget (JArr vs) k = JNull"
  by (simp_all add: jget_def)

section \<open>Lemmas on dates\<close>

lemma time_of_day_parts:
  assumes "0 \<le> t" and "t < dayMs" and "t mod 1000 = 0"
  shows "getUTCHours t * 3600000 + getUTCMinutes t * 60000 + getUTCSeconds t * 1000 = t"
proof -
  have "t div 3600000 mod 24 = t div 3600000"
    using assms(1,2) by (simp add: dayMs_def)
  moreover have "t div 60000 mod 60 = t div 60000 - t div 3600000 * 60"
    by (simp add: zdiv_zmult2_eq [of 60 t 60000, simplified] minus_div_mult_eq_mod)
  moreover have "t div 1000 mod 60 = t div 1000 - t div 60000 * 60"
    by (simp add: zdiv_zmult2_eq [of 60 t 1000, simplified] minus_div_mult_eq_mod)
  moreover have "t div 1000 * 1000 = t"
    using assms(3) by (simp add: mod_0_imp_dvd)
  ultimately show ?thesis
    unfolding getUTCHours_def getUTCMinutes_def getUTCSeconds_def by linarith
qed

lemma setUTCHours_time_of_day:
  assumes "d mod dayMs = 0" and "0 \<le> t" and "t < dayMs" and "t mod 1000 = 0"
  shows "setUTCHours d (getUTCHours t) (getUTCMinutes t) (getUTCSeconds t) 0 = d + t"
  using time_of_day_parts [OF assms(2-4)] assms(1)
  by (simp add: setUTCHours_def mod_0_imp_dvd)

lemma setUTCHours_midnight: "setUTCHours d 0 0 0 0 = d div dayMs * dayMs"
  by (simp add: setUTCHours_def)

end
