(* ===== verification/StateMachines.thy ===== *)
theory StateMachines
  imports Model
begin

text \<open>
  The transition tables of bookings and payments
  (\<open>modules/booking/domain/booking-state-machine.ts\<close> and
  \<open>modules/payment/domain/payment-state-machine.ts\<close>), the paths through them,
  and what they exclude.
\<close>

section \<open>Bookings\<close>

fun VALID_BOOKING_TRANSITIONS :: "BookingStatus \<Rightarrow> BookingStatus list" where
  "VALID_BOOKING_TRANSITIONS PENDING_PAYMENT =
     [CONFIRMED, BookingStatus.PAYMENT_FAILED, CANCELLED, EXPIRED]"
| "VALID_BOOKING_TRANSITIONS CONFIRMED = [COMPLETED, CANCELLED]"
| "VALID_BOOKING_TRANSITIONS BookingStatus.PAYMENT_FAILED = [PENDING_PAYMENT, EXPIRED]"
| "VALID_BOOKING_TRANSITIONS COMPLETED = []"
| "VALID_BOOKING_TRANSITIONS CANCELLED = []"
| "VALID_BOOKING_TRANSITIONS EXPIRED = []"

definition canTransitionBooking :: "BookingStatus \<Rightarrow> BookingStatus \<Rightarrow> bool" where
  "canTransitionBooking current next \<longleftrightarrow> next \<in> set (VALID_BOOKING_TRANSITIONS current)"

section \<open>Payments\<close>

fun VALID_PAYMENT_TRANSITIONS :: "PaymentStatus \<Rightarrow> PaymentStatus list" where
  "VALID_PAYMENT_TRANSITIONS CREATED = [PaymentStatus.PENDING, SUCCESS, PaymentStatus.FAILED]"
| "VALID_PAYMENT_TRANSITIONS PaymentStatus.PENDING = [SUCCESS, PaymentStatus.FAILED]"
| "VALID_PAYMENT_TRANSITIONS SUCCESS = [REFUNDED]"
| "VALID_PAYMENT_TRANSITIONS PaymentStatus.FAILED = []"
| "VALID_PAYMENT_TRANSITIONS REFUNDED = []"

definition canTransitionPayment :: "PaymentStatus \<Rightarrow> PaymentStatus \<Rightarrow> bool" where
  "canTransitionPayment current next \<longleftrightarrow>
     (if current = next then True else next \<in> set (VALID_PAYMENT_TRANSITIONS current))"

section \<open>Lifecycles\<close>

text \<open>The statuses a booking or a payment can go through, one transition at a time.\<close>

inductive bookingPath :: "BookingStatus \<Rightarrow> BookingStatus \<Rightarrow> bool" where
  bookingPath_refl: "bookingPath s s"
| bookingPath_step: "bookingPath s t \<Longrightarrow> canTransitionBooking t u \<Longrightarrow> bookingPath s u"

inductive paymentPath :: "PaymentStatus \<Rightarrow> PaymentStatus \<Rightarrow> bool" where
  paymentPath_refl: "paymentPath s s"
| paymentPath_step: "paymentPath s t \<Longrightarrow> canTransitionPayment t u \<Longrightarrow> paymentPath s u"

text \<open>
  The statuses that occupy the provider's time: those the exclusion constraint
  of the migration \<open>add_booking_exclusion_constraint\<close> lists.
\<close>

definition occupiesSlot :: "BookingStatus \<Rightarrow> bool" where
  "occupiesSlot s \<longleftrightarrow> s \<in> {PENDING_PAYMENT, CONFIRMED}"

section \<open>Facts\<close>

lemma canTransitionBooking_simps [simp]:
  "canTransitionBooking PENDING_PAYMENT t \<longleftrightarrow>
     t \<in> {CONFIRMED, BookingStatus.PAYMENT_FAILED, CANCELLED, EXPIRED}"
  "canTransitionBooking CONFIRMED t \<longleftrightarrow> t \<in> {COMPLETED, CANCELLED}"
  "canTransitionBooking BookingStatus.PAYMENT_FAILED t \<longleftrightarrow> t \<in> {PENDING_PAYMENT, EXPIRED}"
  "\<not> canTransitionBooking COMPLETED t"
  "\<not> canTransitionBooking CANCELLED t"
  "\<not> canTransitionBooking EXPIRED t"
  by (simp_all add: canTransitionBooking_def)

lemma canTransitionBooking_CANCELLED:
  "canTransitionBooking s CANCELLED \<longleftrightarrow> s \<in> {PENDING_PAYMENT, CONFIRMED}"
  by (cases s) simp_all

lemma canTransitionBooking_COMPLETED: "canTransitionBooking s COMPLETED \<longleftrightarrow> s = CONFIRMED"
  by (cases s) simp_all

lemma canTransitionBooking_CONFIRMED: "canTransitionBooking s CONFIRMED \<longleftrightarrow> s = PENDING_PAYMENT"
  by (cases s) simp_all

lemma canTransitionPayment_SUCCESS:
  "canTransitionPayment s SUCCESS \<longleftrightarrow> s \<in> {CREATED, PaymentStatus.PENDING, SUCCESS}"
  by (cases s) (simp_all add: canTransitionPayment_def)

lemma canTransitionPayment_refl [simp]: "canTransitionPayment s s"
  by (simp add: canTransitionPayment_def)

lemma canTransitionPayment_REFUNDED:
  "canTransitionPayment s REFUNDED \<longleftrightarrow> s \<in> {SUCCESS, REFUNDED}"
  by (cases s) (simp_all add: canTransitionPayment_def)

lemma bookingPath_terminal:
  "bookingPath s t \<Longrightarrow> s \<in> {COMPLETED, CANCELLED, EXPIRED} \<Longrightarrow> t = s"
  by (induction rule: bookingPath.induct) auto

lemma bookingPath_from_CONFIRMED:
  "bookingPath s t \<Longrightarrow> s = CONFIRMED \<Longrightarrow> t \<in> {CONFIRMED, COMPLETED, CANCELLED}"
  by (induction rule: bookingPath.induct) auto

lemma bookingPath_into_CONFIRMED:
  "bookingPath s t \<Longrightarrow> t \<in> {CONFIRMED, COMPLETED} \<Longrightarrow>
     s \<in> {PENDING_PAYMENT, BookingStatus.PAYMENT_FAILED, CONFIRMED, COMPLETED}"
proof (induction rule: bookingPath.induct)
  case (bookingPath_refl s)
  then show ?case by auto
next
  case (bookingPath_step s t u)
  show ?case
  proof (cases "t \<in> {CONFIRMED, COMPLETED}")
    case True
    then show ?thesis using bookingPath_step.IH by blast
  next
    case False
    with bookingPath_step.hyps bookingPath_step.prems have "t = PENDING_PAYMENT"
      by (cases t) auto
    then show ?thesis
      using bookingPath_step.hyps(1) bookingPath_terminal [of s t] bookingPath_from_CONFIRMED [of s t]
      by (cases s) auto
  qed
qed

lemma paymentPath_from_FAILED: "paymentPath s t \<Longrightarrow> s = PaymentStatus.FAILED \<Longrightarrow> t = PaymentStatus.FAILED"
  by (induction rule: paymentPath.induct) (auto simp: canTransitionPayment_def split: if_splits)

lemma paymentPath_from_REFUNDED: "paymentPath s t \<Longrightarrow> s = REFUNDED \<Longrightarrow> t = REFUNDED"
  by (induction rule: paymentPath.induct) (auto simp: canTransitionPayment_def split: if_splits)

lemma paymentPath_from_SUCCESS: "paymentPath s t \<Longrightarrow> s = SUCCESS \<Longrightarrow> t \<in> {SUCCESS, REFUNDED}"
  by (induction rule: paymentPath.induct) (auto simp: canTransitionPayment_def split: if_splits)

end
