(* ===== verification/Repositories.thy ===== *)
theory Repositories
  imports StateMachines "HOL-Library.List_Lexorder"
begin

text \<open>
  The repositories over the tables that several services share: pagination
  (\<open>database/repositories/base.repository.ts\<close>), audit logs
  (\<open>database/repositories/audit-log.repository.ts\<close>), bookings
  (\<open>modules/booking/repositories/booking.repository.ts\<close>) and payments with their
  webhook events (\<open>modules/payment/repositories/payment.repository.ts\<close>), with
  the constraints the schema and the migrations put on these tables.
\<close>

section \<open>Pagination\<close>

definition paginate :: "'a list \<Rightarrow> nat \<Rightarrow> int \<Rightarrow> int \<Rightarrow> 'a paginated" where
  "paginate query totalItems page limit =
     (let totalPages = \<lceil>(of_nat totalItems :: rat) / of_int limit\<rceil> in
      \<lparr>pg_data = query, pg_total = totalItems, pg_page = page, pg_limit = limit,
       pg_totalPages = totalPages, pg_hasNextPage = page < totalPages,
       pg_hasPreviousPage = page > 1\<rparr>)"

text \<open>\<open>findMany({ skip, take })\<close> with \<open>skip = (page - 1) * limit\<close> and \<open>take = limit\<close>.\<close>

definition pageRows :: "int \<Rightarrow> int \<Rightarrow> 'a list \<Rightarrow> 'a list" where
  "pageRows page limit rows = take (nat limit) (drop (nat ((page - 1) * limit)) rows)"

text \<open>The date bounds of a query: \<open>gte\<close> and \<open>lte\<close> from optional strings.\<close>

definition dateOrThrow :: "env \<Rightarrow> string \<Rightarrow> date action" where
  "dateOrThrow e s = (case parseDate e s of
     None \<Rightarrow> throw (JsError ''Invalid Date'') | Some d \<Rightarrow> ret d)"

definition optDate :: "(string \<Rightarrow> date action) \<Rightarrow> string option \<Rightarrow> date option action" where
  "optDate f s = (case truthy s of
     None \<Rightarrow> ret None | Some v \<Rightarrow> andThen (f v) (\<lambda>d. ret (Some d)))"

definition withinDates :: "date option \<Rightarrow> date option \<Rightarrow> date \<Rightarrow> bool" where
  "withinDates lo hi d \<longleftrightarrow>
     (case lo of None \<Rightarrow> True | Some l \<Rightarrow> l \<le> d) \<and> (case hi of None \<Rightarrow> True | Some h \<Rightarrow> d \<le> h)"

text \<open>A filter that is left out when its value is not given.\<close>

definition optEq :: "'a option \<Rightarrow> 'a \<Rightarrow> bool" where
  "optEq x v \<longleftrightarrow> (case x of None \<Rightarrow> True | Some y \<Rightarrow> v = y)"

section \<open>Audit logs\<close>

record createAuditLogParams =
  ap_actorUserId :: "uuid option"
  ap_entityType :: string
  ap_entityId :: uuid
  ap_action :: AuditAction
  ap_oldValue :: "json option"
  ap_newValue :: "json option"

definition orJsonNull :: "json option \<Rightarrow> json" where
  "orJsonNull j = (case j of None \<Rightarrow> JNull | Some v \<Rightarrow> v)"

definition idViolation :: "('r \<Rightarrow> uuid) \<Rightarrow> 'r \<Rightarrow> 'r list \<Rightarrow> exn option" where
  "idViolation key r t = (if key r \<in> key ` set t then Some (PrismaError P2002) else None)"

definition auditLog_create :: "env \<Rightarrow> createAuditLogParams \<Rightarrow> auditLog action" where
  "auditLog_create e params =
     andThen (drawUuid e) (\<lambda>i.
       insertRow auditLogs auditLogs_update (idViolation al_id)
         \<lparr>al_id = i, al_actorUserId = ap_actorUserId params, al_entityType = ap_entityType params,
          al_entityId = ap_entityId params, al_action = ap_action params,
          al_oldValue = orJsonNull (ap_oldValue params),
          al_newValue = orJsonNull (ap_newValue params), al_createdAt = nowMs e\<rparr>)"

record auditLogQuery =
  aq_action :: "AuditAction option"
  aq_entityType :: "string option"
  aq_entityId :: "string option"
  aq_adminId :: "string option"
  aq_actorUserId :: "string option"
  aq_dateFrom :: "string option"
  aq_dateTo :: "string option"
  aq_page :: "int option"
  aq_limit :: "int option"

definition orInt :: "int option \<Rightarrow> int \<Rightarrow> int" where
  "orInt x d = (case x of None \<Rightarrow> d | Some v \<Rightarrow> v)"

text \<open>\<open>dateTo.includes("T") ? new Date(dateTo) : new Date(`${dateTo}T23:59:59.999Z`)\<close>\<close>

definition endOfDayUnlessTime :: "env \<Rightarrow> string \<Rightarrow> date action" where
  "endOfDayUnlessTime e s =
     dateOrThrow e (if CHR ''T'' \<in> set s then s else s @ ''T23:59:59.999Z'')"

definition auditLog_findAll :: "env \<Rightarrow> auditLogQuery \<Rightarrow> auditLog paginated action" where
  "auditLog_findAll e q =
     (let page = orInt (aq_page q) 1; limit = orInt (aq_limit q) 10;
          actorUserId = (case truthy (aq_adminId q) of
            None \<Rightarrow> truthy (aq_actorUserId q) | Some a \<Rightarrow> Some a) in
      andThen (optDate (dateOrThrow e) (aq_dateFrom q)) (\<lambda>gte.
      andThen (optDate (endOfDayUnlessTime e) (aq_dateTo q)) (\<lambda>lte.
      reads (\<lambda>w.
        let rows = filter (\<lambda>l. optEq (aq_action q) (al_action l)
              \<and> optEq (truthy (aq_entityType q)) (al_entityType l)
              \<and> optEq (truthy (aq_entityId q)) (al_entityId l)
              \<and> (case actorUserId of None \<Rightarrow> True | Some a \<Rightarrow> al_actorUserId l = Some a)
              \<and> withinDates gte lte (al_createdAt l)) (auditLogs w)
        in paginate (pageRows page limit (orderDesc al_createdAt rows)) (length rows) page limit))))"

definition auditLog_findById :: "uuid \<Rightarrow> world \<Rightarrow> auditLog option" where
  "auditLog_findById i w = findUnique al_id i (auditLogs w)"

definition auditLog_findByEntity :: "string \<Rightarrow> uuid \<Rightarrow> world \<Rightarrow> auditLog list" where
  "auditLog_findByEntity ty i w =
     orderDesc al_createdAt (filter (\<lambda>l. al_entityType l = ty \<and> al_entityId l = i) (auditLogs w))"

section \<open>Offerings and availability\<close>

text \<open>
  The reads of \<open>provider-service.repository.ts\<close> and
  \<open>provider-availability.repositor.ts\<close>, with the relations \<open>provider\<close>,
  \<open>provider.user\<close> and \<open>service\<close> that \<open>include\<close> joins to an offering.
\<close>

definition providerService_findById :: "uuid \<Rightarrow> world \<Rightarrow> providerService option" where
  "providerService_findById i w = findUnique ps_id i (providerServices w)"

definition providerService_provider :: "providerService \<Rightarrow> world \<Rightarrow> providerProfile option" where
  "providerService_provider ps w = findUnique pp_id (ps_providerId ps) (providerProfiles w)"

definition providerService_user :: "providerProfile \<Rightarrow> world \<Rightarrow> user option" where
  "providerService_user pp w = findUnique u_id (pp_userId pp) (users w)"

definition providerService_service :: "providerService \<Rightarrow> world \<Rightarrow> service option" where
  "providerService_service ps w = findUnique sv_id (ps_serviceId ps) (services w)"

definition providerService_findByProviderId :: "uuid \<Rightarrow> world \<Rightarrow> providerService list" where
  "providerService_findByProviderId i w = filter (\<lambda>ps. ps_providerId ps = i) (providerServices w)"

definition providerService_findByProviderAndServiceId ::
  "uuid \<Rightarrow> uuid \<Rightarrow> world \<Rightarrow> providerService option" where
  "providerService_findByProviderAndServiceId providerId serviceId w =
     findUnique (\<lambda>ps. (ps_providerId ps, ps_serviceId ps)) (providerId, serviceId) (providerServices w)"

text \<open>\<open>orderBy: [{ weekday: "asc" }, { startTime: "asc" }]\<close>; times compare as text.\<close>

definition availability_findByProviderId :: "uuid \<Rightarrow> world \<Rightarrow> availability list" where
  "availability_findByProviderId i w =
     orderAsc av_weekday (orderAsc (\<lambda>a. map (of_char :: char \<Rightarrow> nat) (av_startTime a))
       (filter (\<lambda>a. av_providerId a = i) (availabilities w)))"

definition availability_findByProviderIdAndWeekday :: "uuid \<Rightarrow> int \<Rightarrow> world \<Rightarrow> availability list" where
  "availability_findByProviderIdAndWeekday i weekday w =
     orderAsc (\<lambda>a. map (of_char :: char \<Rightarrow> nat) (av_startTime a))
       (filter (\<lambda>a. av_providerId a = i \<and> av_weekday a = weekday \<and> av_isAvailable a)
         (availabilities w))"

section \<open>Bookings\<close>

text \<open>
  The interval \<open>tsrange(bookingDate + startTime, bookingDate + endTime)\<close> of a
  booking: closed below, open above, empty when both ends agree.
\<close>

definition slotStart :: "booking \<Rightarrow> date" where
  "slotStart b = b_bookingDate b + b_startTime b"

definition slotEnd :: "booking \<Rightarrow> date" where
  "slotEnd b = b_bookingDate b + b_endTime b"

definition slotsOverlap :: "booking \<Rightarrow> booking \<Rightarrow> bool" where
  "slotsOverlap a b \<longleftrightarrow>
     slotStart a < slotEnd a \<and> slotStart b < slotEnd b \<and>
     slotStart a < slotEnd b \<and> slotStart b < slotEnd a"

text \<open>The constraint \<open>no_provider_booking_overlap\<close> of the migration.\<close>

definition conflicting :: "booking \<Rightarrow> booking \<Rightarrow> bool" where
  "conflicting a b \<longleftrightarrow>
     b_providerId a = b_providerId b \<and> occupiesSlot (b_bookingStatus a)
     \<and> occupiesSlot (b_bookingStatus b) \<and> slotsOverlap a b"

definition bookingViolation :: "booking \<Rightarrow> booking list \<Rightarrow> exn option" where
  "bookingViolation r t =
     (if b_id r \<in> b_id ` set t then Some (PrismaError P2002)
      else if occupiesSlot (b_bookingStatus r) \<and> slotEnd r < slotStart r
      then Some (JsError ''range lower bound must be less than or equal to range upper bound'')
      else if \<exists>x \<in> set t. conflicting r x then Some (PrismaError EXCLUSION_23P01)
      else None)"

record bookingCreateInput =
  bi_customerId :: uuid
  bi_providerId :: uuid
  bi_providerServiceId :: uuid
  bi_bookingDate :: date
  bi_startTime :: date
  bi_endTime :: date
  bi_bookingStatus :: BookingStatus
  bi_bookedPrice :: rat
  bi_bookedDuration :: int
  bi_bookedServiceMode :: ServiceMode
  bi_serviceName :: string
  bi_providerBusinessName :: string
  bi_customerNotes :: "string option"

text \<open>The row an insert stores: \<open>DATE\<close> and \<open>TIME(0)\<close> columns, column defaults.\<close>

definition bookingRow :: "env \<Rightarrow> uuid \<Rightarrow> bookingCreateInput \<Rightarrow> booking" where
  "bookingRow e i d =
     \<lparr>b_id = i, b_customerId = bi_customerId d, b_providerId = bi_providerId d,
      b_providerServiceId = bi_providerServiceId d,
      b_bookingDate = bi_bookingDate d div dayMs * dayMs,
      b_startTime = pgTime0 e (bi_startTime d), b_endTime = pgTime0 e (bi_endTime d),
      b_bookingStatus = bi_bookingStatus d, b_bookedPrice = bi_bookedPrice d,
      b_bookedDuration = bi_bookedDuration d, b_bookedServiceMode = bi_bookedServiceMode d,
      b_serviceName = bi_serviceName d, b_providerBusinessName = bi_providerBusinessName d,
      b_customerNotes = bi_customerNotes d, b_cancellationReason = None, b_cancelledAt = None,
      b_completedAt = None, b_overdueAt = None, b_needsReview = False, b_createdAt = nowMs e\<rparr>"

definition booking_create :: "env \<Rightarrow> bookingCreateInput \<Rightarrow> booking action" where
  "booking_create e d = andThen (drawUuid e) (\<lambda>i.
     insertRow bookings bookings_update bookingViolation (bookingRow e i d))"

definition booking_findById :: "uuid \<Rightarrow> world \<Rightarrow> booking option" where
  "booking_findById i w = findUnique b_id i (bookings w)"

text \<open>\<open>booking.provider.userId\<close> of the included relation.\<close>

definition booking_providerUserId :: "world \<Rightarrow> booking \<Rightarrow> uuid option" where
  "booking_providerUserId w b =
     map_option pp_userId (findUnique pp_id (b_providerId b) (providerProfiles w))"

definition booking_update :: "uuid \<Rightarrow> (booking \<Rightarrow> booking) \<Rightarrow> booking action" where
  "booking_update i f =
     updateRow bookings bookings_update bookingViolation (PrismaError P2025) b_id i f"

definition booking_updateMany :: "(booking \<Rightarrow> bool) \<Rightarrow> (booking \<Rightarrow> booking) \<Rightarrow> nat action" where
  "booking_updateMany p f = updateRows bookings bookings_update p f"

definition booking_updateStatus ::
  "env \<Rightarrow> uuid \<Rightarrow> BookingStatus \<Rightarrow> string option \<Rightarrow> booking action" where
  "booking_updateStatus e i status cancellationReason =
     updateRow bookings bookings_update bookingViolation (PrismaError P2025) b_id i
       (\<lambda>b. b\<lparr>b_bookingStatus := status,
              b_cancellationReason := (case truthy cancellationReason of
                None \<Rightarrow> b_cancellationReason b | Some r \<Rightarrow> Some r),
              b_cancelledAt := (if status = CANCELLED then Some (nowMs e) else b_cancelledAt b)\<rparr>)"

record bookingQuery =
  bq_status :: "BookingStatus option"
  bq_from :: "string option"
  bq_to :: "string option"
  bq_dateFrom :: "string option"
  bq_dateTo :: "string option"
  bq_customerId :: "string option"
  bq_providerId :: "string option"
  bq_paymentStatus :: "PaymentStatus option"
  bq_page :: "int option"
  bq_limit :: "int option"

definition orOpt :: "string option \<Rightarrow> string option \<Rightarrow> string option" where
  "orOpt x y = (case truthy x of None \<Rightarrow> truthy y | Some v \<Rightarrow> Some v)"

text \<open>\<open>toDate.length === 10 ? new Date(`${toDate}T23:59:59.999Z`) : new Date(toDate)\<close>\<close>

definition endOfDayIfDate :: "env \<Rightarrow> string \<Rightarrow> date action" where
  "endOfDayIfDate e s = dateOrThrow e (if length s = 10 then s @ ''T23:59:59.999Z'' else s)"

text \<open>
  \<open>orderBy: [{ bookingDate: "desc" }, { startTime: "desc" }]\<close>, one stable sort
  per key.
\<close>

definition booking_findAll ::
  "env \<Rightarrow> bookingQuery \<Rightarrow> string option \<Rightarrow> string option \<Rightarrow> booking paginated action" where
  "booking_findAll e q filterCustomerId filterProviderId =
     (let page = orInt (bq_page q) 1; limit = orInt (bq_limit q) 10;
          customerId = orOpt filterCustomerId (bq_customerId q);
          providerId = orOpt filterProviderId (bq_providerId q) in
      andThen (optDate (dateOrThrow e) (orOpt (bq_dateFrom q) (bq_from q))) (\<lambda>gte.
      andThen (optDate (endOfDayIfDate e) (orOpt (bq_dateTo q) (bq_to q))) (\<lambda>lte.
      reads (\<lambda>w.
        let rows = filter (\<lambda>b. optEq customerId (b_customerId b)
              \<and> optEq providerId (b_providerId b)
              \<and> optEq (bq_status q) (b_bookingStatus b)
              \<and> withinDates gte lte (b_bookingDate b)
              \<and> (case bq_paymentStatus q of None \<Rightarrow> True | Some s \<Rightarrow>
                   list_ex (\<lambda>p. pay_bookingId p = b_id b \<and> pay_status p = s) (payments w)))
              (bookings w)
        in paginate (pageRows page limit (orderDesc b_bookingDate (orderDesc b_startTime rows)))
             (length rows) page limit))))"

definition booking_findCustomerBooking ::
  "env \<Rightarrow> uuid \<Rightarrow> bookingQuery \<Rightarrow> booking paginated action" where
  "booking_findCustomerBooking e customerId q = booking_findAll e q (Some customerId) None"

section \<open>Payments and webhook events\<close>

text \<open>\<open>gatewayOrderId\<close> is unique; \<open>gatewayPaymentId\<close> is unique where it is set.\<close>

definition paymentViolation :: "payment \<Rightarrow> payment list \<Rightarrow> exn option" where
  "paymentViolation r t =
     (if pay_id r \<in> pay_id ` set t
        \<or> pay_gatewayOrderId r \<in> pay_gatewayOrderId ` set t
        \<or> (pay_gatewayPaymentId r \<noteq> None \<and> pay_gatewayPaymentId r \<in> pay_gatewayPaymentId ` set t)
      then Some (PrismaError P2002) else None)"

record paymentCreateInput =
  pi_bookingId :: uuid
  pi_gateway :: PaymentGateway
  pi_gatewayOrderId :: string
  pi_amount :: rat
  pi_currency :: string
  pi_status :: PaymentStatus

definition paymentRow :: "env \<Rightarrow> uuid \<Rightarrow> paymentCreateInput \<Rightarrow> payment" where
  "paymentRow e i d =
     \<lparr>pay_id = i, pay_bookingId = pi_bookingId d, pay_gateway = pi_gateway d,
      pay_gatewayOrderId = pi_gatewayOrderId d, pay_gatewayPaymentId = None,
      pay_gatewaySignature = None, pay_amount = pi_amount d, pay_currency = pi_currency d,
      pay_status = pi_status d, pay_paidAt = None, pay_refundedAt = None, pay_createdAt = nowMs e\<rparr>"

definition payment_create :: "env \<Rightarrow> paymentCreateInput \<Rightarrow> payment action" where
  "payment_create e d = andThen (drawUuid e) (\<lambda>i.
     insertRow payments payments_update paymentViolation (paymentRow e i d))"

definition payment_updateMany :: "(payment \<Rightarrow> bool) \<Rightarrow> (payment \<Rightarrow> payment) \<Rightarrow> nat action" where
  "payment_updateMany p f = updateRows payments payments_update p f"

definition payment_findById :: "uuid \<Rightarrow> world \<Rightarrow> payment option" where
  "payment_findById i w = findUnique pay_id i (payments w)"

text \<open>\<open>findFirst({ where: { bookingId }, orderBy: { createdAt: "desc" } })\<close>\<close>

definition payment_findByBookingId :: "uuid \<Rightarrow> world \<Rightarrow> payment option" where
  "payment_findByBookingId i w =
     findFirst (\<lambda>p. True) (orderDesc pay_createdAt (filter (\<lambda>p. pay_bookingId p = i) (payments w)))"

definition payment_findByGatewayOrderId :: "string \<Rightarrow> world \<Rightarrow> payment option" where
  "payment_findByGatewayOrderId i w = findUnique pay_gatewayOrderId i (payments w)"

record paymentDetails =
  d_gatewayPaymentId :: "string option"
  d_gatewaySignature :: "string option"
  d_paidAt :: "date option"
  d_refundedAt :: "date option"

definition noDetails :: paymentDetails where
  "noDetails = \<lparr>d_gatewayPaymentId = None, d_gatewaySignature = None, d_paidAt = None,
                d_refundedAt = None\<rparr>"

definition orKeep :: "'a option \<Rightarrow> 'a option \<Rightarrow> 'a option" where
  "orKeep x y = (case x of None \<Rightarrow> y | Some v \<Rightarrow> Some v)"

definition paymentWith :: "PaymentStatus \<Rightarrow> paymentDetails \<Rightarrow> payment \<Rightarrow> payment" where
  "paymentWith status d p =
     p\<lparr>pay_status := status,
       pay_gatewayPaymentId := orKeep (truthy (d_gatewayPaymentId d)) (pay_gatewayPaymentId p),
       pay_gatewaySignature := orKeep (truthy (d_gatewaySignature d)) (pay_gatewaySignature p),
       pay_paidAt := orKeep (d_paidAt d) (pay_paidAt p),
       pay_refundedAt := orKeep (d_refundedAt d) (pay_refundedAt p)\<rparr>"

definition payment_updateStatus ::
  "uuid \<Rightarrow> PaymentStatus \<Rightarrow> paymentDetails \<Rightarrow> payment action" where
  "payment_updateStatus i status d =
     updateRow payments payments_update paymentViolation (PrismaError P2025) pay_id i
       (paymentWith status d)"

record paymentQuery =
  pq_status :: "PaymentStatus option"
  pq_gateway :: "PaymentGateway option"
  pq_bookingId :: "string option"
  pq_dateFrom :: "string option"
  pq_dateTo :: "string option"
  pq_page :: "int option"
  pq_limit :: "int option"

definition payment_findAll :: "env \<Rightarrow> paymentQuery \<Rightarrow> payment paginated action" where
  "payment_findAll e q =
     (let page = orInt (pq_page q) 1; limit = orInt (pq_limit q) 10 in
      andThen (optDate (dateOrThrow e) (pq_dateFrom q)) (\<lambda>gte.
      andThen (optDate (endOfDayUnlessTime e) (pq_dateTo q)) (\<lambda>lte.
      reads (\<lambda>w.
        let rows = filter (\<lambda>p. optEq (pq_status q) (pay_status p)
              \<and> optEq (pq_gateway q) (pay_gateway p)
              \<and> optEq (truthy (pq_bookingId q)) (pay_bookingId p)
              \<and> withinDates gte lte (pay_createdAt p)) (payments w)
        in paginate (pageRows page limit (orderDesc pay_createdAt rows)) (length rows) page limit))))"

text \<open>\<open>@@unique([gateway, eventId])\<close>\<close>

definition webhookViolation :: "webhookEvent \<Rightarrow> webhookEvent list \<Rightarrow> exn option" where
  "webhookViolation r t =
     (if we_id r \<in> we_id ` set t
        \<or> (we_gateway r, we_eventId r) \<in> (\<lambda>x. (we_gateway x, we_eventId x)) ` set t
      then Some (PrismaError P2002) else None)"

definition findWebhookEvent :: "PaymentGateway \<Rightarrow> string \<Rightarrow> world \<Rightarrow> webhookEvent option" where
  "findWebhookEvent g i w =
     findUnique (\<lambda>x. (we_gateway x, we_eventId x)) (g, i) (webhookEvents w)"

definition recordWebhookEvent ::
  "env \<Rightarrow> PaymentGateway \<Rightarrow> string \<Rightarrow> string \<Rightarrow> json \<Rightarrow> date option \<Rightarrow> webhookEvent action" where
  "recordWebhookEvent e gateway eventId eventType payload processedAt =
     andThen (drawUuid e) (\<lambda>i.
       insertRow webhookEvents webhookEvents_update webhookViolation
         \<lparr>we_id = i, we_gateway = gateway, we_eventId = eventId, we_eventType = eventType,
          we_payload = payload, we_processedAt = processedAt, we_createdAt = nowMs e\<rparr>)"

definition markWebhookEventProcessed :: "env \<Rightarrow> uuid \<Rightarrow> webhookEvent action" where
  "markWebhookEventProcessed e i =
     updateRow webhookEvents webhookEvents_update webhookViolation (PrismaError P2025) we_id i
       (\<lambda>x. x\<lparr>we_processedAt := Some (nowMs e)\<rparr>)"

section \<open>The tables implement the contract\<close>

lemma idViolation_key: "idViolation key r t = None \<Longrightarrow> r' \<in> set t \<Longrightarrow> key r' \<noteq> key r"
  by (auto simp: idViolation_def rev_image_eqI split: if_splits)

lemma bookingViolation_None:
  "bookingViolation r t = None \<longleftrightarrow>
     b_id r \<notin> b_id ` set t \<and> \<not> (occupiesSlot (b_bookingStatus r) \<and> slotEnd r < slotStart r)
     \<and> (\<forall>x \<in> set t. \<not> conflicting r x)"
  by (auto simp: bookingViolation_def)

interpretation auditT: table auditLogs auditLogs_update "idViolation al_id" al_id
  by unfold_locales (simp_all add: idViolation_key)

interpretation bookingT: table bookings bookings_update bookingViolation b_id
  by unfold_locales (auto simp: bookingViolation_None rev_image_eqI)

interpretation paymentT: table payments payments_update paymentViolation pay_id
  by unfold_locales (auto simp: paymentViolation_def rev_image_eqI split: if_splits)

interpretation webhookT: table webhookEvents webhookEvents_update webhookViolation we_id
  by unfold_locales (auto simp: webhookViolation_def rev_image_eqI split: if_splits)

end
