(* ===== verification/Queues.thy ===== *)
theory Queues
  imports Repositories
begin

text \<open>
  The BullMQ queues and the services that schedule and cancel their jobs
  (\<open>jobs/queues/queue.constants.ts\<close>, \<open>jobs/queues/booking.queue.ts\<close>,
  \<open>jobs/queues/notification.queue.ts\<close>). A queue is the list of the jobs it knows;
  adding a job under an identifier it already knows changes nothing.
\<close>

section \<open>Constants\<close>

record retryPolicy =
  rp_attempts :: nat
  rp_backoffDelay :: nat

definition DEFAULT_RETRY_POLICY :: retryPolicy where
  "DEFAULT_RETRY_POLICY = \<lparr>rp_attempts = 3, rp_backoffDelay = 5000\<rparr>"

text \<open>The exponential backoff of the policy: the wait before the n-th retry.\<close>

definition backoffMs :: "retryPolicy \<Rightarrow> nat \<Rightarrow> nat" where
  "backoffMs p n = 2 ^ (n - 1) * rp_backoffDelay p"

fun BOOKING_JOBS :: "bookingJobName \<Rightarrow> string" where
  "BOOKING_JOBS EXPIRE_PAYMENT = ''booking.expire-payment''"
| "BOOKING_JOBS PROCESS_NO_SHOW = ''booking.process-no-show''"

fun NOTIFICATION_JOBS :: "notificationJobName \<Rightarrow> string" where
  "NOTIFICATION_JOBS BOOKING_CONFIRMATION = ''booking.confirmation''"
| "NOTIFICATION_JOBS REMINDER_24H = ''reminder.24h''"
| "NOTIFICATION_JOBS REMINDER_2H = ''reminder.2h''"
| "NOTIFICATION_JOBS notificationJobName.REVIEW_REQUEST = ''review.request''"

section \<open>Queue operations\<close>

definition addJob :: "('j \<Rightarrow> string) \<Rightarrow> 'j \<Rightarrow> 'j list \<Rightarrow> 'j list" where
  "addJob jobId j q = (if jobId j \<in> jobId ` set q then q else q @ [j])"

definition removeJob :: "('j \<Rightarrow> string) \<Rightarrow> string \<Rightarrow> 'j list \<Rightarrow> 'j list" where
  "removeJob jobId i q = filter (\<lambda>j. jobId j \<noteq> i) q"

text \<open>A command on a job: BullMQ may reject it, and nothing here catches that.\<close>

definition queueCommand :: "env \<Rightarrow> string \<Rightarrow> 'a action \<Rightarrow> 'a action" where
  "queueCommand e jobId command =
     (case queueError e jobId of None \<Rightarrow> command | Some m \<Rightarrow> throw (JsError m))"

section \<open>BookingQueueService\<close>

definition expireJobId :: "uuid \<Rightarrow> string" where
  "expireJobId bookingId = ''expire-payment_'' @ bookingId"

definition overdueJobId :: "uuid \<Rightarrow> string" where
  "overdueJobId bookingId = ''overdue-check_'' @ bookingId"

definition schedulePaymentExpiration :: "env \<Rightarrow> uuid \<Rightarrow> int \<Rightarrow> unit action" where
  "schedulePaymentExpiration e bookingId delayMs =
     queueCommand e (expireJobId bookingId) (modify (bookingQueue_update (addJob bj_jobId
       \<lparr>bj_jobId = expireJobId bookingId, bj_name = EXPIRE_PAYMENT, bj_bookingId = bookingId,
        bj_delay = delayMs\<rparr>)))"

definition cancelBookingJob :: "env \<Rightarrow> string \<Rightarrow> bool action" where
  "cancelBookingJob e jobId = queueCommand e jobId
     (andThen (reads (\<lambda>w. findUnique bj_jobId jobId (bookingQueue w))) (\<lambda>job.
      case job of
        None \<Rightarrow> ret False
      | Some j \<Rightarrow> andThen (modify (bookingQueue_update (removeJob bj_jobId jobId))) (\<lambda>_. ret True)))"

definition cancelPaymentExpiration :: "env \<Rightarrow> uuid \<Rightarrow> bool action" where
  "cancelPaymentExpiration e bookingId = cancelBookingJob e (expireJobId bookingId)"

definition scheduleOverdueCheck :: "env \<Rightarrow> uuid \<Rightarrow> int \<Rightarrow> unit action" where
  "scheduleOverdueCheck e bookingId delayMs =
     queueCommand e (overdueJobId bookingId) (modify (bookingQueue_update (addJob bj_jobId
       \<lparr>bj_jobId = overdueJobId bookingId, bj_name = PROCESS_NO_SHOW, bj_bookingId = bookingId,
        bj_delay = delayMs\<rparr>)))"

definition appointmentStart :: "booking \<Rightarrow> date" where
  "appointmentStart b = setUTCHours (b_bookingDate b) (getUTCHours (b_startTime b))
     (getUTCMinutes (b_startTime b)) (getUTCSeconds (b_startTime b)) 0"

definition appointmentEnd :: "booking \<Rightarrow> date" where
  "appointmentEnd b = setUTCHours (b_bookingDate b) (getUTCHours (b_endTime b))
     (getUTCMinutes (b_endTime b)) (getUTCSeconds (b_endTime b)) 0"

definition scheduleBookingOverdueCheck :: "env \<Rightarrow> uuid \<Rightarrow> int \<Rightarrow> unit action" where
  "scheduleBookingOverdueCheck e bookingId gracePeriodMs =
     andThen (reads (booking_findById bookingId)) (\<lambda>booking.
     case booking of
       None \<Rightarrow> ret ()
     | Some b \<Rightarrow>
         (let delayOverdue = appointmentEnd b + gracePeriodMs - nowMs e in
          if delayOverdue > 0 then scheduleOverdueCheck e bookingId delayOverdue else ret ()))"

definition gracePeriodDefault :: int where
  "gracePeriodDefault = 2 * 60 * 60 * 1000"

definition cancelOverdueCheck :: "env \<Rightarrow> uuid \<Rightarrow> bool action" where
  "cancelOverdueCheck e bookingId = cancelBookingJob e (overdueJobId bookingId)"

section \<open>NotificationQueueService\<close>

definition notificationRow ::
  "env \<Rightarrow> uuid \<Rightarrow> notificationPayload \<Rightarrow> NotificationChannel \<Rightarrow> date \<Rightarrow> notification" where
  "notificationRow e i d channel scheduledFor =
     \<lparr>n_id = i, n_userId = np_userId d, n_bookingId = np_bookingId d, n_type = np_type d,
      n_channel = channel, n_status = NotificationStatus.PENDING, n_title = np_title d,
      n_body = np_body d, n_scheduledFor = scheduledFor, n_sentAt = None, n_readAt = None,
      n_failedAt = None, n_failureReason = None, n_attemptCount = 0, n_createdAt = nowMs e\<rparr>"

definition notification_create :: "env \<Rightarrow> (uuid \<Rightarrow> notification) \<Rightarrow> notification action" where
  "notification_create e row = andThen (drawUuid e) (\<lambda>i.
     insertRow notifications notifications_update (idViolation n_id) (row i))"

definition sendNotification ::
  "env \<Rightarrow> notificationJobName \<Rightarrow> notificationPayload \<Rightarrow> int \<Rightarrow> string \<Rightarrow> unit action" where
  "sendNotification e jobName d delayMs jobId =
     andThen
       (case np_notificationId d of
          Some i \<Rightarrow> ret i
        | None \<Rightarrow>
            (let scheduleDate = (case np_scheduledFor d of
                   Some t \<Rightarrow> t | None \<Rightarrow> nowMs e + delayMs) in
             andThen (notification_create e
               (\<lambda>i. notificationRow e i d (np_channel d) scheduleDate)) (\<lambda>n. ret (n_id n))))
       (\<lambda>notificationId.
          queueCommand e jobId (modify (notificationQueue_update (addJob nj_jobId
            \<lparr>nj_jobId = jobId, nj_name = jobName,
             nj_data = d\<lparr>np_notificationId := Some notificationId\<rparr>, nj_delay = delayMs\<rparr>))))"

definition lifecyclePayload ::
  "booking \<Rightarrow> NotificationType \<Rightarrow> NotificationChannel \<Rightarrow> string \<Rightarrow> string \<Rightarrow> date \<Rightarrow>
   notificationPayload" where
  "lifecyclePayload b ty ch title body scheduledFor =
     \<lparr>np_notificationId = None, np_userId = b_customerId b, np_bookingId = Some (b_id b),
      np_type = ty, np_channel = ch, np_title = title, np_body = body, np_scheduledFor = Some scheduledFor\<rparr>"

definition hourMs :: int where "hourMs = 3600000"

definition scheduleBookingLifecycleNotifications :: "env \<Rightarrow> uuid \<Rightarrow> unit action" where
  "scheduleBookingLifecycleNotifications e bookingId =
     andThen (reads (booking_findById bookingId)) (\<lambda>booking.
     case booking of
       None \<Rightarrow> ret ()
     | Some b \<Rightarrow>
       (let now = nowMs e; start = appointmentStart b; finish = appointmentEnd b in
        andThen
          (sendNotification e BOOKING_CONFIRMATION
             (lifecyclePayload b NotificationType.BOOKING_CONFIRMED EMAIL
                (''Booking Confirmed! '' @ [CHR 0xF0, CHR 0x9F, CHR 0x8E, CHR 0x89])
                (''Your booking for \"'' @ b_serviceName b @ ''\" with '' @ b_providerBusinessName b
                 @ '' on '' @ localDateString e start @ '' is confirmed.'') now)
             0 (''booking-confirm_'' @ b_id b)) (\<lambda>_.
        andThen
          (let delay24h = start - 24 * hourMs - now in
           if delay24h > 0 then
             sendNotification e REMINDER_24H
               (lifecyclePayload b REMINDER EMAIL
                  (''Reminder: Service Tomorrow '' @ [CHR 0xE2, CHR 0x8F, CHR 0xB0])
                  (''Reminder: Your service \"'' @ b_serviceName b @ ''\" is scheduled for tomorrow at ''
                   @ take 5 (localTimeString e start) @ '' UTC.'') (start - 24 * hourMs))
               delay24h (''reminder-24h_'' @ b_id b)
           else ret ()) (\<lambda>_.
        andThen
          (let delay2h = start - 2 * hourMs - now in
           if delay2h > 0 then
             sendNotification e REMINDER_2H
               (lifecyclePayload b REMINDER PUSH
                  (''Reminder: Provider Arriving in 2 Hours '' @ [CHR 0xF0, CHR 0x9F, CHR 0x9A, CHR 0x80])
                  (''Your provider '' @ b_providerBusinessName b @ '' will arrive in 2 hours for \"''
                   @ b_serviceName b @ ''\".'') (start - 2 * hourMs))
               delay2h (''reminder-2h_'' @ b_id b)
           else ret ()) (\<lambda>_.
        let delayReview = finish + 1 * hourMs - now in
        if delayReview > 0 then
          sendNotification e notificationJobName.REVIEW_REQUEST
            (lifecyclePayload b NotificationType.REVIEW_REQUEST EMAIL
               (''How was your service? '' @ [CHR 0xE2, CHR 0xAD, CHR 0x90])
               (''Please rate your experience with '' @ b_providerBusinessName b @ '' for \"''
                @ b_serviceName b @ ''\".'') (finish + 1 * hourMs))
            delayReview (''review-request_'' @ b_id b)
        else ret ())))))"

definition reminderJobIds :: "uuid \<Rightarrow> string list" where
  "reminderJobIds bookingId =
     [''reminder-24h_'' @ bookingId, ''reminder-2h_'' @ bookingId, ''review-request_'' @ bookingId]"

definition removeReminder :: "env \<Rightarrow> string \<Rightarrow> unit action" where
  "removeReminder e jobId = queueCommand e jobId
     (andThen (reads (\<lambda>w. findUnique nj_jobId jobId (notificationQueue w))) (\<lambda>job.
      case job of
        None \<Rightarrow> ret ()
      | Some j \<Rightarrow> modify (notificationQueue_update (removeJob nj_jobId jobId))))"

definition cancelBookingReminders :: "env \<Rightarrow> uuid \<Rightarrow> nat action" where
  "cancelBookingReminders e bookingId =
     andThen (forEach (reminderJobIds bookingId) (removeReminder e)) (\<lambda>_.
     deleteRows notifications notifications_update
       (\<lambda>n. n_bookingId n = Some bookingId \<and> n_status n = NotificationStatus.PENDING))"

section \<open>The contract of a queue\<close>

text \<open>
  What the schedulers rely on: a job identifier is known at most once, adding is
  idempotent, and a removed identifier is unknown until it is added again.
\<close>

locale job_queue =
  fixes jobId :: "'j \<Rightarrow> string"
    and add :: "'j \<Rightarrow> 'j list \<Rightarrow> 'j list"
    and remove :: "string \<Rightarrow> 'j list \<Rightarrow> 'j list"
  assumes add_known: "jobId j \<in> jobId ` set q \<Longrightarrow> add j q = q"
    and add_unknown: "jobId j \<notin> jobId ` set q \<Longrightarrow> add j q = q @ [j]"
    and set_remove: "set (remove i q) = {j \<in> set q. jobId j \<noteq> i}"
    and distinct_remove: "distinct (map jobId q) \<Longrightarrow> distinct (map jobId (remove i q))"
begin

lemma add_distinct: "distinct (map jobId q) \<Longrightarrow> distinct (map jobId (add j q))"
  by (cases "jobId j \<in> jobId ` set q") (auto simp: add_known add_unknown)

lemma add_idem: "add j (add j q) = add j q"
  by (cases "jobId j \<in> jobId ` set q") (auto simp: add_known add_unknown)

lemma add_dedup: "jobId j = jobId j' \<Longrightarrow> add j' (add j q) = add j q"
  by (cases "jobId j \<in> jobId ` set q") (auto simp: add_known add_unknown)

lemma add_present: "jobId j \<in> jobId ` set (add j q)"
  by (cases "jobId j \<in> jobId ` set q") (auto simp: add_known add_unknown)

lemma remove_absent: "i \<notin> jobId ` set (remove i q)"
  by (auto simp: set_remove)

lemma remove_other: "jobId j \<noteq> i \<Longrightarrow> j \<in> set (remove i q) \<longleftrightarrow> j \<in> set q"
  by (auto simp: set_remove)

lemma add_after_remove: "jobId j = i \<Longrightarrow> add j (remove i q) = remove i q @ [j]"
  by (rule add_unknown) (auto simp: set_remove)

end

interpretation bookingQ: job_queue bj_jobId "addJob bj_jobId" "removeJob bj_jobId"
  by unfold_locales (auto simp: addJob_def removeJob_def distinct_map_filter)

interpretation notificationQ: job_queue nj_jobId "addJob nj_jobId" "removeJob nj_jobId"
  by unfold_locales (auto simp: addJob_def removeJob_def distinct_map_filter)

interpretation notificationT: table notifications notifications_update "idViolation n_id" n_id
  by unfold_locales (simp_all add: idViolation_key)

section \<open>What the queue services do\<close>

lemma queueCommand_app:
  "queueCommand e i m w = (case queueError e i of None \<Rightarrow> m w | Some x \<Rightarrow> (Inl (JsError x), w))"
  by (simp add: queueCommand_def throw_app split: option.split)

lemma queueCommand_InrD:
  "queueCommand e i m w = (Inr a, w') \<Longrightarrow> queueError e i = None \<and> m w = (Inr a, w')"
  by (simp add: queueCommand_app split: option.splits)

lemma cancelBookingJob_eq:
  "cancelBookingJob e i w =
     (case queueError e i of
        Some x \<Rightarrow> (Inl (JsError x), w)
      | None \<Rightarrow> (Inr (i \<in> bj_jobId ` set (bookingQueue w)),
          w\<lparr>bookingQueue := removeJob bj_jobId i (bookingQueue w)\<rparr>))"
proof (cases "findUnique bj_jobId i (bookingQueue w)")
  case None
  then have "\<forall>j \<in> set (bookingQueue w). bj_jobId j \<noteq> i"
    by (auto dest: findUnique_NoneD)
  then have "removeJob bj_jobId i (bookingQueue w) = bookingQueue w"
    and "i \<notin> bj_jobId ` set (bookingQueue w)"
    by (auto simp: removeJob_def)
  with None show ?thesis by (simp add: cancelBookingJob_def queueCommand_app prog_simps split: option.split)
next
  case (Some j)
  then have "i \<in> bj_jobId ` set (bookingQueue w)" by (auto dest: findUnique_SomeD)
  with Some show ?thesis by (simp add: cancelBookingJob_def queueCommand_app prog_simps split: option.split)
qed

lemma removeReminder_app:
  "removeReminder e i w =
     (case queueError e i of
        Some x \<Rightarrow> (Inl (JsError x), w)
      | None \<Rightarrow> (Inr (), w\<lparr>notificationQueue := removeJob nj_jobId i (notificationQueue w)\<rparr>))"
proof (cases "findUnique nj_jobId i (notificationQueue w)")
  case None
  then have "removeJob nj_jobId i (notificationQueue w) = notificationQueue w"
    by (auto simp: removeJob_def filter_id_conv dest: findUnique_NoneD)
  with None show ?thesis by (simp add: removeReminder_def queueCommand_app prog_simps split: option.split)
next
  case (Some j)
  then show ?thesis by (simp add: removeReminder_def queueCommand_app prog_simps split: option.split)
qed

text \<open>The reminders of a booking, when no command is rejected, and what a completed call did.\<close>

lemma forEach_removeReminder:
  assumes "\<forall>i \<in> set is. queueError e i = None"
  shows "forEach is (removeReminder e) w =
     (Inr (), w\<lparr>notificationQueue := filter (\<lambda>j. nj_jobId j \<notin> set is) (notificationQueue w)\<rparr>)"
  using assms
proof (induction "is" arbitrary: w)
  case Nil
  show ?case by (simp add: ret_app)
next
  case (Cons i "is")
  then show ?case
    by (simp add: andThen_run removeReminder_app [of e i w] removeJob_def conj_commute cong: filter_cong)
qed

lemma forEach_removeReminder_ok:
  "forEach is (removeReminder e) w = (Inr u, w') \<Longrightarrow> \<forall>i \<in> set is. queueError e i = None"
  by (induction "is" arbitrary: w)
    (auto simp: removeReminder_app elim!: andThen_InrD split: option.splits)

lemma cancelBookingReminders_app:
  assumes "\<forall>j \<in> set (reminderJobIds i). queueError e j = None"
  shows "cancelBookingReminders e i w =
     (Inr (countRows (\<lambda>n. n_bookingId n = Some i \<and> n_status n = NotificationStatus.PENDING)
             (notifications w)),
      w\<lparr>notificationQueue := filter (\<lambda>j. nj_jobId j \<notin> set (reminderJobIds i)) (notificationQueue w),
        notifications := filter (\<lambda>n. \<not> (n_bookingId n = Some i \<and> n_status n = NotificationStatus.PENDING))
          (notifications w)\<rparr>)"
  using assms by (simp add: cancelBookingReminders_def andThen_run deleteRows_def forEach_removeReminder)

lemma cancelBookingReminders_ok:
  assumes "cancelBookingReminders e i w = (Inr n, w')"
  shows "w' = w\<lparr>notificationQueue := filter (\<lambda>j. nj_jobId j \<notin> set (reminderJobIds i)) (notificationQueue w),
      notifications := filter (\<lambda>n. \<not> (n_bookingId n = Some i \<and> n_status n = NotificationStatus.PENDING))
        (notifications w)\<rparr>"
proof -
  have "\<forall>j \<in> set (reminderJobIds i). queueError e j = None"
    using assms forEach_removeReminder_ok unfolding cancelBookingReminders_def by (elim andThen_InrD) blast
  then show ?thesis using assms cancelBookingReminders_app by simp
qed

end
