(* ===== verification/JsText.thy ===== *)
theory JsText
  imports Main
begin

text \<open>
  The string operations of JavaScript that the services use: splitting,
  numerals, padding, trimming and case conversion on ASCII text.
\<close>

section \<open>Definitions\<close>

definition isDigit :: "char \<Rightarrow> bool" where
  "isDigit c \<longleftrightarrow> 48 \<le> (of_char c :: nat) \<and> (of_char c :: nat) \<le> 57"

definition digitChar :: "nat \<Rightarrow> char" where
  "digitChar d = char_of (48 + d)"

definition digitValue :: "char \<Rightarrow> nat" where
  "digitValue c = of_char c - 48"

definition digitsValue :: "string \<Rightarrow> nat" where
  "digitsValue s = foldl (\<lambda>n c. n * 10 + digitValue c) 0 s"

text \<open>
  \<open>Number(s)\<close> on decimal digits, with \<open>NaN\<close> as \<open>None\<close>; the empty string is 0.
  Signs, fractions and exponents do not occur in the texts it is applied to.
\<close>

definition jsNumber :: "string \<Rightarrow> int option" where
  "jsNumber s = (if list_all isDigit s then Some (int (digitsValue s)) else None)"

text \<open>\<open>n.toString()\<close> for a natural number.\<close>

fun natString :: "nat \<Rightarrow> string" where
  "natString n = (if n < 10 then [digitChar n] else natString (n div 10) @ [digitChar (n mod 10)])"

declare natString.simps [simp del]

definition intString :: "int \<Rightarrow> string" where
  "intString i = (if i < 0 then ''-'' @ natString (nat (- i)) else natString (nat i))"

text \<open>\<open>s.padStart(2, "0")\<close>\<close>

definition padStart2 :: "string \<Rightarrow> string" where
  "padStart2 s = replicate (2 - length s) (CHR ''0'') @ s"

text \<open>\<open>s.split(c)\<close>\<close>

fun splitOn :: "char \<Rightarrow> string \<Rightarrow> string list" where
  "splitOn c [] = [[]]"
| "splitOn c (x # xs) =
     (if x = c then [] # splitOn c xs
      else (case splitOn c xs of [] \<Rightarrow> [[x]] | p # ps \<Rightarrow> (x # p) # ps))"

definition isSpace :: "char \<Rightarrow> bool" where
  "isSpace c \<longleftrightarrow> (of_char c :: nat) \<in> {9, 10, 11, 12, 13, 32}"

definition trim :: "string \<Rightarrow> string" where
  "trim s = rev (dropWhile isSpace (rev (dropWhile isSpace s)))"

text \<open>\<open>s.includes(t)\<close>\<close>

fun includesText :: "string \<Rightarrow> string \<Rightarrow> bool" where
  "includesText [] t = (t = [])"
| "includesText (c # cs) t = (take (length t) (c # cs) = t \<or> includesText cs t)"

definition toLowerChar :: "char \<Rightarrow> char" where
  "toLowerChar c = (let n = (of_char c :: nat) in if 65 \<le> n \<and> n \<le> 90 then char_of (n + 32) else c)"

definition toLowerCase :: "string \<Rightarrow> string" where
  "toLowerCase s = map toLowerChar s"

definition toUpperChar :: "char \<Rightarrow> char" where
  "toUpperChar c = (let n = (of_char c :: nat) in if 97 \<le> n \<and> n \<le> 122 then char_of (n - 32) else c)"

definition toUpperCase :: "string \<Rightarrow> string" where
  "toUpperCase s = map toUpperChar s"

text \<open>\<open>h * 60 + m\<close> of a time \<open>"h:m"\<close>; a missing or malformed part gives \<open>NaN\<close>.\<close>

definition timeToMinutes :: "string \<Rightarrow> int option" where
  "timeToMinutes timeStr = (case splitOn (CHR '':'') timeStr of
     h # m # _ \<Rightarrow>
       (case (jsNumber h, jsNumber m) of (Some hours, Some minutes) \<Rightarrow> Some (hours * 60 + minutes)
        | _ \<Rightarrow> None)
   | _ \<Rightarrow> None)"

definition minutesToTimeString :: "int \<Rightarrow> string" where
  "minutesToTimeString totalMinutes =
     (let hours = totalMinutes div 60; minutes = totalMinutes mod 60;
          hh = padStart2 (intString hours); mm = padStart2 (intString minutes)
      in hh @ '':'' @ mm)"

section \<open>Numerals\<close>

lemma of_char_digitChar: "d < 10 \<Longrightarrow> (of_char (digitChar d) :: nat) = 48 + d"
  by (simp add: digitChar_def)

lemma isDigit_digitChar [simp]: "d < 10 \<Longrightarrow> isDigit (digitChar d)"
  by (simp add: isDigit_def of_char_digitChar)

lemma digitValue_digitChar [simp]: "d < 10 \<Longrightarrow> digitValue (digitChar d) = d"
  by (simp add: digitValue_def of_char_digitChar)

lemma digitsValue_snoc [simp]: "digitsValue (s @ [c]) = digitsValue s * 10 + digitValue c"
  by (simp add: digitsValue_def)

lemma digitsValue_natString: "digitsValue (natString n) = n"
proof (induction n rule: natString.induct)
  case (1 n)
  show ?case
  proof (cases "n < 10")
    case True
    then show ?thesis by (simp add: natString.simps [of n] digitsValue_def)
  next
    case False
    with "1.IH" show ?thesis by (simp add: natString.simps [of n])
  qed
qed

lemma list_all_natString: "list_all isDigit (natString n)"
proof (induction n rule: natString.induct)
  case (1 n)
  then show ?case by (cases "n < 10") (simp_all add: natString.simps [of n])
qed

lemma digitsValue_zeros: "digitsValue (replicate k (CHR ''0'') @ s) = digitsValue s"
proof (induction k)
  case (Suc k)
  then show ?case by (simp add: digitsValue_def digitValue_def)
qed simp

lemma list_all_padStart2: "list_all isDigit s \<Longrightarrow> list_all isDigit (padStart2 s)"
  by (auto simp: padStart2_def isDigit_def list_all_iff)

lemma list_all_intString: "0 \<le> i \<Longrightarrow> list_all isDigit (intString i)"
  by (simp add: intString_def list_all_natString)

lemma jsNumber_padStart2_intString:
  assumes "0 \<le> i"
  shows "jsNumber (padStart2 (intString i)) = Some i"
  using assms list_all_padStart2 [OF list_all_intString [OF assms]]
  by (simp add: jsNumber_def)
    (simp add: intString_def padStart2_def digitsValue_zeros digitsValue_natString)

lemma splitOn_append:
  assumes "c \<notin> set s"
  shows "splitOn c (s @ c # t) = s # splitOn c t"
  using assms by (induction s) auto

lemma splitOn_none: "c \<notin> set s \<Longrightarrow> splitOn c s = [s]"
  by (induction s) auto

lemma colon_not_digit: "list_all isDigit s \<Longrightarrow> CHR '':'' \<notin> set s"
  by (auto simp: list_all_iff isDigit_def)

text \<open>Formatting minutes and reading them back.\<close>

lemma timeToMinutes_minutesToTimeString:
  assumes "0 \<le> m"
  shows "timeToMinutes (minutesToTimeString m) = Some m"
proof -
  have h: "0 \<le> m div 60" and mm: "0 \<le> m mod 60" using assms by simp_all
  let ?h = "padStart2 (intString (m div 60))" and ?m = "padStart2 (intString (m mod 60))"
  have "CHR '':'' \<notin> set ?h" and "CHR '':'' \<notin> set ?m"
    by (rule colon_not_digit, rule list_all_padStart2, rule list_all_intString, fact)+
  then have "splitOn (CHR '':'') (?h @ CHR '':'' # ?m) = [?h, ?m]"
    by (simp add: splitOn_append splitOn_none)
  then show ?thesis
    using h mm
    by (simp add: timeToMinutes_def minutesToTimeString_def Let_def jsNumber_padStart2_intString)
qed

end
