(* ===== verification/Gateway.thy ===== *)
theory Gateway
  imports Repositories JsText
begin

text \<open>
  Amounts in the smallest currency unit (\<open>common/utils/currency.util.ts\<close>) and the
  Razorpay gateway (\<open>modules/payment/gateway/razor.gateway.ts\<close>,
  \<open>payment-gateway.interface.ts\<close>): orders, refunds and the two signature checks.
\<close>

section \<open>Currency\<close>

definition mathRound :: "rat \<Rightarrow> int" where
  "mathRound x = \<lfloor>x + 1 / 2\<rfloor>"

definition toSmallestCurrencyUnit :: "rat \<Rightarrow> string \<Rightarrow> int" where
  "toSmallestCurrencyUnit amount currency =
     (if currency \<in> {''INR'', ''USD'', ''EUR'', ''GBP''} then mathRound (amount * 100)
      else if currency = ''JPY'' then mathRound amount
      else mathRound (amount * 100))"

definition fromSmallestCurrencyUnit :: "int \<Rightarrow> string \<Rightarrow> rat" where
  "fromSmallestCurrencyUnit amountInSmallestUnit currency =
     (if toUpperCase currency \<in> {''INR'', ''USD'', ''EUR'', ''GBP''}
      then of_int amountInSmallestUnit / 100
      else if toUpperCase currency = ''JPY'' then of_int amountInSmallestUnit
      else of_int amountInSmallestUnit / 100)"

section \<open>The gateway\<close>

record createGatewayOrderParams =
  go_bookingId :: string
  go_amount :: rat
  go_currency :: string
  go_receipt :: string

record gatewayOrderResult =
  gr_gatewayOrderId :: string
  gr_amount :: rat
  gr_currency :: string
  gr_receipt :: string
  gr_rawAmount :: int

record gatewayRefundResult =
  rr_refundId :: string
  rr_amount :: rat
  rr_status :: string

definition keySecret :: "env \<Rightarrow> string" where
  "keySecret e = orElse (configGet e ''RAZORPAY_KEY_SECRET'') ''rzp_test_mock_secret''"

definition webhookSecret :: "env \<Rightarrow> string" where
  "webhookSecret e = orElse (configGet e ''RAZORPAY_WEBHOOK_SECRET'') ''rzp_test_webhook_secret''"

definition createOrder :: "env \<Rightarrow> createGatewayOrderParams \<Rightarrow> gatewayOrderResult action" where
  "createOrder e params =
     (let amountInPaise = toSmallestCurrencyUnit (go_amount params) (go_currency params) in
      andThen (drawHex e) (\<lambda>hex.
      ret \<lparr>gr_gatewayOrderId = ''order_'' @ hex, gr_amount = go_amount params,
           gr_currency = go_currency params, gr_receipt = go_receipt params,
           gr_rawAmount = amountInPaise\<rparr>))"

definition createRefund :: "env \<Rightarrow> string \<Rightarrow> rat option \<Rightarrow> gatewayRefundResult action" where
  "createRefund e paymentId amount =
     andThen (drawHex e) (\<lambda>hex.
     ret \<lparr>rr_refundId = ''rfnd_'' @ hex,
          rr_amount = (case amount of None \<Rightarrow> 0 | Some a \<Rightarrow> a), rr_status = ''processed''\<rparr>)"

text \<open>\<open>crypto.timingSafeEqual\<close> on buffers of the same length: equal bytes.\<close>

definition timingSafeEqual :: "string \<Rightarrow> string \<Rightarrow> bool" where
  "timingSafeEqual a b \<longleftrightarrow> list_all2 (=) a b"

definition verifyPaymentSignature ::
  "env \<Rightarrow> string \<Rightarrow> string \<Rightarrow> string \<Rightarrow> string option \<Rightarrow> bool" where
  "verifyPaymentSignature e orderId paymentId signature secret =
     (let txt = orderId @ ''|'' @ paymentId;
          expectedSignature = hmacSha256 e (orElse secret (keySecret e)) txt in
      if length expectedSignature \<noteq> length signature then False
      else timingSafeEqual expectedSignature signature)"

definition verifyWebhookSignature :: "env \<Rightarrow> string \<Rightarrow> string \<Rightarrow> string option \<Rightarrow> bool" where
  "verifyWebhookSignature e rawBody signature secret =
     (let expectedSignature = hmacSha256 e (orElse secret (webhookSecret e)) rawBody in
      if length expectedSignature \<noteq> length signature then False
      else timingSafeEqual expectedSignature signature)"

section \<open>Facts\<close>

lemma timingSafeEqual_iff [simp]: "timingSafeEqual a b \<longleftrightarrow> a = b"
  by (simp add: timingSafeEqual_def list.rel_eq)

lemma verifyPaymentSignature_iff:
  "verifyPaymentSignature e o' p s None \<longleftrightarrow> s = hmacSha256 e (keySecret e) (o' @ ''|'' @ p)"
  by (auto simp: verifyPaymentSignature_def Let_def)

lemma verifyWebhookSignature_iff:
  "verifyWebhookSignature e body s None \<longleftrightarrow> s = hmacSha256 e (webhookSecret e) body"
  by (auto simp: verifyWebhookSignature_def Let_def)

lemma mathRound_of_int: "mathRound (of_int n) = n"
  by (simp add: mathRound_def floor_eq_iff)

lemma mathRound_bounds: "of_int (mathRound x) - 1 / 2 \<le> x" "x < of_int (mathRound x) + 1 / 2"
  unfolding mathRound_def by linarith+

lemma toSmallest_cents:
  "currency \<noteq> ''JPY'' \<Longrightarrow> toSmallestCurrencyUnit (of_int n / 100) currency = n"
  by (simp add: toSmallestCurrencyUnit_def mathRound_of_int)

lemma createOrder_eq:
  "createOrder e params w =
     (Inr \<lparr>gr_gatewayOrderId = ''order_'' @ randomHexAt e (drawn w), gr_amount = go_amount params,
           gr_currency = go_currency params, gr_receipt = go_receipt params,
           gr_rawAmount = toSmallestCurrencyUnit (go_amount params) (go_currency params)\<rparr>,
      w\<lparr>drawn := Suc (drawn w)\<rparr>)"
  by (simp add: createOrder_def drawHex_def prog_simps Let_def)

lemma createRefund_eq:
  "createRefund e i a w =
     (Inr \<lparr>rr_refundId = ''rfnd_'' @ randomHexAt e (drawn w),
           rr_amount = (case a of None \<Rightarrow> 0 | Some x \<Rightarrow> x), rr_status = ''processed''\<rparr>,
      w\<lparr>drawn := Suc (drawn w)\<rparr>)"
  by (simp add: createRefund_def drawHex_def prog_simps)

end
