(* ===== verification/Contracts.thy ===== *)
theory Contracts
  imports Queues Gateway
begin

text \<open>
  The contract between the booking and payment services and the storage they
  write to. A preorder on states that every write of the repositories and queue
  services respects is respected by every handler: the handlers are checked
  once against this contract, and each invariant of the system is an
  interpretation of it.
\<close>

section \<open>The contract\<close>

locale repository_order = state_order R
  for R :: "world \<Rightarrow> world \<Rightarrow> bool" +
  assumes R_drawn: "R w (w\<lparr>drawn := Suc (drawn w)\<rparr>)"
    and auditLog_create: "steps R (auditLog_create e params)"
    and booking_create: "steps R (booking_create e d)"
    and booking_updateStatus: "steps R (booking_updateStatus e i s r)"
    and booking_complete:
      "steps R (booking_update i (\<lambda>x. x\<lparr>b_bookingStatus := COMPLETED, b_completedAt := t\<rparr>))"
    and booking_expireMany:
      "steps R (booking_updateMany (\<lambda>x. b_id x = i \<and> b_bookingStatus x = PENDING_PAYMENT)
         (\<lambda>x. x\<lparr>b_bookingStatus := EXPIRED\<rparr>))"
    and booking_flagMany:
      "steps R (booking_updateMany
         (\<lambda>x. b_id x = i \<and> b_bookingStatus x = CONFIRMED \<and> \<not> b_needsReview x)
         (\<lambda>x. x\<lparr>b_needsReview := True, b_overdueAt := t\<rparr>))"
    and payment_create: "steps R (payment_create e pd)"
    and payment_updateStatus: "steps R (payment_updateStatus i ps details)"
    and payment_failMany:
      "steps R (payment_updateMany
         (\<lambda>p. pay_bookingId p = i \<and> pay_status p \<in> {CREATED, PaymentStatus.PENDING})
         (\<lambda>p. p\<lparr>pay_status := PaymentStatus.FAILED\<rparr>))"
    and recordWebhookEvent: "steps R (recordWebhookEvent e g i n payload processedAt)"
    and markWebhookEventProcessed: "steps R (markWebhookEventProcessed e i)"
    and R_addBookingJob: "R w (bookingQueue_update (addJob bj_jobId bj) w)"
    and R_removeBookingJob: "R w (bookingQueue_update (removeJob bj_jobId i) w)"
    and R_addNotificationJob: "R w (notificationQueue_update (addJob nj_jobId nj) w)"
    and R_removeNotificationJob: "R w (notificationQueue_update (removeJob nj_jobId i) w)"
    and notification_create: "steps R (notification_create e row)"
    and R_dropNotifications:
      "R w (notifications_update (filter (\<lambda>n. \<not> (n_bookingId n = Some i \<and> n_status n = NotificationStatus.PENDING))) w)"
begin

lemma createOrder: "steps R (createOrder e params)"
  by (simp add: steps_def createOrder_eq R_drawn)

lemma createRefund: "steps R (createRefund e i a)"
  by (simp add: steps_def createRefund_eq R_drawn)

lemma schedulePaymentExpiration: "steps R (schedulePaymentExpiration e i d)"
  unfolding schedulePaymentExpiration_def queueCommand_def by (intro combinators R_addBookingJob)

lemma scheduleOverdueCheck: "steps R (scheduleOverdueCheck e i d)"
  unfolding scheduleOverdueCheck_def queueCommand_def by (intro combinators R_addBookingJob)

lemma cancelBookingJob: "steps R (cancelBookingJob e i)"
  unfolding cancelBookingJob_def queueCommand_def by (intro combinators R_removeBookingJob)

lemma cancelPaymentExpiration: "steps R (cancelPaymentExpiration e i)"
  unfolding cancelPaymentExpiration_def by (rule cancelBookingJob)

lemma cancelOverdueCheck: "steps R (cancelOverdueCheck e i)"
  unfolding cancelOverdueCheck_def by (rule cancelBookingJob)

lemma scheduleBookingOverdueCheck: "steps R (scheduleBookingOverdueCheck e i g)"
  unfolding scheduleBookingOverdueCheck_def Let_def
  by (intro combinators scheduleOverdueCheck)

lemma sendNotification: "steps R (sendNotification e n d delay i)"
  unfolding sendNotification_def queueCommand_def Let_def
  by (intro combinators notification_create R_addNotificationJob)

lemma scheduleBookingLifecycleNotifications:
  "steps R (scheduleBookingLifecycleNotifications e i)"
  unfolding scheduleBookingLifecycleNotifications_def Let_def
  by (intro combinators sendNotification)

lemma cancelBookingReminders: "steps R (cancelBookingReminders e i)"
  unfolding cancelBookingReminders_def removeReminder_def queueCommand_def
  by (intro combinators R_removeNotificationJob R_dropNotifications)

lemmas repository_steps = auditLog_create booking_create booking_updateStatus booking_complete
  booking_expireMany booking_flagMany payment_create payment_updateStatus payment_failMany
  recordWebhookEvent markWebhookEventProcessed createOrder createRefund
  schedulePaymentExpiration cancelPaymentExpiration cancelOverdueCheck
  scheduleBookingOverdueCheck scheduleBookingLifecycleNotifications cancelBookingReminders

end

end
