(* ===== verification/Booking.thy ===== *)
theory Booking
  imports Contracts
begin

text \<open>
  The booking service (\<open>modules/booking/services/booking.service.ts\<close>): creating a
  reservation with its payment order, reading, cancelling, expiring, completing
  and flagging bookings.
\<close>

section \<open>Requests and results\<close>

record createBookingDto =
  cb_providerServiceId :: string
  cb_startsAt :: string
  cb_notes :: "string option"

record cancelBookingDto =
  cd_reason :: "string option"

record checkout =
  co_id :: uuid
  co_gateway :: PaymentGateway
  co_orderId :: string
  co_amount :: int
  co_currency :: string
  co_status :: PaymentStatus

datatype jobResult =
    Expired uuid
  | Flagged uuid
  | Skipped string "BookingStatus option"

section \<open>createBooking\<close>

text \<open>
  One shift of the day: \<open>startMinutes >= shiftStart && occupiedEndMinutes <= shiftEnd\<close>,
  false when a time is not a number.
\<close>

definition fitsInShift :: "int \<Rightarrow> int \<Rightarrow> availability \<Rightarrow> bool" where
  "fitsInShift startMinutes occupiedEndMinutes shift =
     (case (timeToMinutes (av_startTime shift), timeToMinutes (av_endTime shift)) of
        (Some shiftStart, Some shiftEnd) \<Rightarrow>
          startMinutes \<ge> shiftStart \<and> occupiedEndMinutes \<le> shiftEnd
      | _ \<Rightarrow> False)"

text \<open>
  The errors of the transaction that the \<open>catch\<close> clause reports as a taken slot:
  by the code of a known database error, or by a word of the message.
\<close>

fun errorMessage :: "exn \<Rightarrow> string" where
  "errorMessage (BadRequestException m) = m"
| "errorMessage (NotFoundException m) = m"
| "errorMessage (ForbiddenException m) = m"
| "errorMessage (ConflictException m) = m"
| "errorMessage (UnauthorizedException m) = m"
| "errorMessage (RequestTimeoutException m) = m"
| "errorMessage (JsError m) = m"
| "errorMessage (PrismaError c) = []"

definition isBookingConflict :: "exn \<Rightarrow> bool" where
  "isBookingConflict err \<longleftrightarrow>
     err = PrismaError P2002 \<or> err = PrismaError EXCLUSION_23P01
     \<or> includesText (errorMessage err) ''no_provider_booking_overlap''
     \<or> includesText (errorMessage err) ''exclusion'' \<or> includesText (errorMessage err) ''conflict''"

definition statusJson :: "BookingStatus \<Rightarrow> json" where
  "statusJson s = JObj [(''status'', JStr (bookingStatusName s))]"

text \<open>The three inserts of the transaction.\<close>

definition createBookingTx ::
  "env \<Rightarrow> uuid \<Rightarrow> createBookingDto \<Rightarrow> providerService \<Rightarrow> providerProfile \<Rightarrow> date \<Rightarrow> date \<Rightarrow> date \<Rightarrow>
   gatewayOrderResult \<Rightarrow> (booking \<times> checkout) action" where
  "createBookingTx e customerId dto ps provider bookingDate startsAt endsAt order =
     andThen (reads (providerService_service ps)) (\<lambda>service.
     case service of
       None \<Rightarrow> throw (JsError ''Cannot read properties of null'')
     | Some sv \<Rightarrow>
     andThen (booking_create e
       \<lparr>bi_customerId = customerId, bi_providerId = ps_providerId ps, bi_providerServiceId = ps_id ps,
        bi_bookingDate = bookingDate, bi_startTime = startsAt, bi_endTime = endsAt,
        bi_bookingStatus = PENDING_PAYMENT, bi_bookedPrice = ps_price ps,
        bi_bookedDuration = ps_durationMinutes ps, bi_bookedServiceMode = sv_serviceMode sv,
        bi_serviceName = sv_name sv, bi_providerBusinessName = pp_businessName provider,
        bi_customerNotes = cb_notes dto\<rparr>) (\<lambda>booking.
     andThen (payment_create e
       \<lparr>pi_bookingId = b_id booking, pi_gateway = RAZORPAY,
        pi_gatewayOrderId = gr_gatewayOrderId order, pi_amount = ps_price ps,
        pi_currency = orElse (Some (ps_currency ps)) ''INR'', pi_status = CREATED\<rparr>) (\<lambda>payment.
     andThen (auditLog_create e
       \<lparr>ap_actorUserId = Some customerId, ap_entityType = ''Booking'', ap_entityId = b_id booking,
        ap_action = BOOKING_CREATED, ap_oldValue = None,
        ap_newValue = Some (JObj
          [(''bookingStatus'', JStr (bookingStatusName (b_bookingStatus booking))),
           (''startsAt'', JStr (isoString e startsAt)), (''endsAt'', JStr (isoString e endsAt)),
           (''price'', JNum (b_bookedPrice booking)),
           (''gatewayOrderId'', JStr (gr_gatewayOrderId order))])\<rparr>) (\<lambda>_.
     ret (booking,
       \<lparr>co_id = pay_id payment, co_gateway = pay_gateway payment,
        co_orderId = pay_gatewayOrderId payment,
        co_amount = toSmallestCurrencyUnit (pay_amount payment) (pay_currency payment),
        co_currency = pay_currency payment, co_status = pay_status payment\<rparr>)))))"

definition paymentExpirationDelayMs :: int where
  "paymentExpirationDelayMs = 15 * 60 * 1000"

definition createBooking :: "env \<Rightarrow> uuid \<Rightarrow> createBookingDto \<Rightarrow> (booking \<times> checkout) action" where
  "createBooking e customerId dto =
     andThen (reads (providerService_findById (cb_providerServiceId dto))) (\<lambda>providerService.
     case providerService of
       None \<Rightarrow> throw (NotFoundException ''Provider service offering not found or inactive'')
     | Some ps \<Rightarrow>
     andThen (check (ps_isActive ps)
       (NotFoundException ''Provider service offering not found or inactive'')) (\<lambda>_.
     andThen (reads (providerService_provider ps)) (\<lambda>providerOpt.
     case providerOpt of
       None \<Rightarrow> throw (BadRequestException ''Provider profile is not verified'')
     | Some provider \<Rightarrow>
     andThen (check (pp_verificationStatus provider = VERIFIED)
       (BadRequestException ''Provider profile is not verified'')) (\<lambda>_.
     andThen (reads (providerService_user provider)) (\<lambda>providerUser.
     andThen (check (map_option u_status providerUser = Some ACTIVE)
       (ForbiddenException ''Provider account is currently suspended or inactive'')) (\<lambda>_.
     case parseDate e (cb_startsAt dto) of
       None \<Rightarrow> throw (BadRequestException ''Invalid date format for startsAt'')
     | Some startsAtDate \<Rightarrow>
     andThen (check (\<not> startsAtDate < nowMs e)
       (BadRequestException ''Booking start time cannot be in the past'')) (\<lambda>_.
     andThen (check (\<not> startsAtDate > plusLocalDays e (nowMs e) 30)
       (BadRequestException ''Bookings can only be scheduled up to 30 days in advance'')) (\<lambda>_.
     andThen (reads (availability_findByProviderId (ps_providerId ps))) (\<lambda>schedules.
     let requestedWeekday = getUTCDay startsAtDate;
         daySchedules = filter (\<lambda>s. av_weekday s = requestedWeekday \<and> av_isAvailable s) schedules in
     andThen (check (daySchedules \<noteq> [])
       (BadRequestException ''Provider is not available on this day of the week'')) (\<lambda>_.
     let startMinutes = getUTCHours startsAtDate * 60 + getUTCMinutes startsAtDate;
         occupiedEndMinutes = startMinutes + ps_durationMinutes ps + ps_bufferMinutes ps in
     andThen (check (list_ex (fitsInShift startMinutes occupiedEndMinutes) daySchedules)
       (BadRequestException ''Requested booking slot (including post-service buffer) exceeds provider working shift hours'')) (\<lambda>_.
     let durationMs = ps_durationMinutes ps * 60 * 1000;
         endsAtDate = startsAtDate + durationMs;
         bookingDate = setUTCHours startsAtDate 0 0 0 0 in
     andThen (createOrder e
       \<lparr>go_bookingId = ''temp'', go_amount = ps_price ps,
        go_currency = orElse (Some (ps_currency ps)) ''INR'',
        go_receipt = ''rcpt_'' @ intString (nowMs e)\<rparr>) (\<lambda>gatewayOrder.
     tryCatch
       (andThen (transaction
          (createBookingTx e customerId dto ps provider bookingDate startsAtDate endsAtDate gatewayOrder))
          (\<lambda>result.
        andThen (schedulePaymentExpiration e (b_id (fst result)) paymentExpirationDelayMs) (\<lambda>_.
        ret result)))
       (\<lambda>err. if isBookingConflict err
          then throw (ConflictException ''The selected time slot is no longer available. Please select another slot.'')
          else throw err)))))))))))))"

section \<open>Reading bookings\<close>

definition bookingNotFound :: "uuid \<Rightarrow> exn" where
  "bookingNotFound bookingId =
     NotFoundException (''Booking with ID \"'' @ bookingId @ ''\" not found'')"

definition getCustomerBookings :: "env \<Rightarrow> uuid \<Rightarrow> bookingQuery \<Rightarrow> booking paginated action" where
  "getCustomerBookings e customerId q = booking_findCustomerBooking e customerId q"

definition getBookingById :: "uuid \<Rightarrow> uuid \<Rightarrow> booking action" where
  "getBookingById bookingId userId =
     andThen (reads (booking_findById bookingId)) (\<lambda>booking.
     case booking of
       None \<Rightarrow> throw (bookingNotFound bookingId)
     | Some b \<Rightarrow>
     andThen (reads (\<lambda>w. booking_providerUserId w b)) (\<lambda>providerUserId.
     andThen (check (\<not> (b_customerId b \<noteq> userId \<and> providerUserId \<noteq> Some userId))
       (bookingNotFound bookingId)) (\<lambda>_.
     ret b)))"

definition getAllBookingsForAdmin :: "env \<Rightarrow> bookingQuery \<Rightarrow> booking paginated action" where
  "getAllBookingsForAdmin e q = booking_findAll e q None None"

definition getBookingByIdForAdmin :: "uuid \<Rightarrow> booking action" where
  "getBookingByIdForAdmin bookingId =
     andThen (reads (booking_findById bookingId)) (\<lambda>booking.
     case booking of None \<Rightarrow> throw (bookingNotFound bookingId) | Some b \<Rightarrow> ret b)"

section \<open>cancelBookingAsCustomer\<close>

definition cancelBookingAsCustomer :: "env \<Rightarrow> uuid \<Rightarrow> uuid \<Rightarrow> cancelBookingDto \<Rightarrow> booking action" where
  "cancelBookingAsCustomer e bookingId customerId dto =
     andThen (reads (booking_findById bookingId)) (\<lambda>booking.
     case booking of
       None \<Rightarrow> throw (bookingNotFound bookingId)
     | Some b \<Rightarrow>
     andThen (check (b_customerId b = customerId) (bookingNotFound bookingId)) (\<lambda>_.
     andThen (check (canTransitionBooking (b_bookingStatus b) CANCELLED)
       (BadRequestException (''Cannot cancel booking in \"'' @ bookingStatusName (b_bookingStatus b) @ ''\" status''))) (\<lambda>_.
     let cancellationDeadlineMs = appointmentStart b - 2 * 60 * 60 * 1000;
         reason = orElse (cd_reason dto) ''Cancelled by customer'' in
     andThen (check (\<not> nowMs e \<ge> cancellationDeadlineMs)
       (ConflictException ''Bookings cannot be cancelled within 2 hours of the scheduled appointment time.'')) (\<lambda>_.
     andThen (transaction
       (andThen (booking_updateStatus e bookingId CANCELLED (Some reason)) (\<lambda>updatedBooking.
        andThen (auditLog_create e
          \<lparr>ap_actorUserId = Some customerId, ap_entityType = ''Booking'', ap_entityId = bookingId,
           ap_action = AuditAction.BOOKING_CANCELLED,
           ap_oldValue = Some (statusJson (b_bookingStatus b)),
           ap_newValue = Some (JObj
             [(''status'', JStr (bookingStatusName CANCELLED)),
              (''cancellationReason'', JStr reason),
              (''cancelledAt'', JStr (isoString e (nowMs e)))])\<rparr>) (\<lambda>_.
        ret updatedBooking)))) (\<lambda>updatedBooking.
     andThen (cancelPaymentExpiration e bookingId) (\<lambda>_.
     andThen (cancelOverdueCheck e bookingId) (\<lambda>_.
     andThen (cancelBookingReminders e bookingId) (\<lambda>_.
     ret updatedBooking))))))))"

section \<open>expireBooking\<close>

definition expireBooking :: "env \<Rightarrow> uuid \<Rightarrow> jobResult action" where
  "expireBooking e bookingId = transaction
     (andThen (reads (booking_findById bookingId)) (\<lambda>booking.
      case booking of
        None \<Rightarrow> ret (Skipped ''booking_not_found'' None)
      | Some b \<Rightarrow>
      if b_bookingStatus b \<noteq> PENDING_PAYMENT
      then ret (Skipped ''already_transitioned'' (Some (b_bookingStatus b)))
      else
      andThen (booking_updateMany
        (\<lambda>x. b_id x = bookingId \<and> b_bookingStatus x = PENDING_PAYMENT)
        (\<lambda>x. x\<lparr>b_bookingStatus := EXPIRED\<rparr>)) (\<lambda>count.
      if count = 0 then ret (Skipped ''already_transitioned'' None)
      else
      andThen (payment_updateMany
        (\<lambda>p. pay_bookingId p = bookingId \<and> pay_status p \<in> {CREATED, PaymentStatus.PENDING})
        (\<lambda>p. p\<lparr>pay_status := PaymentStatus.FAILED\<rparr>)) (\<lambda>_.
      andThen (auditLog_create e
        \<lparr>ap_actorUserId = Some (b_customerId b), ap_entityType = ''Booking'', ap_entityId = bookingId,
         ap_action = AuditAction.BOOKING_CANCELLED,
         ap_oldValue = Some (statusJson (b_bookingStatus b)),
         ap_newValue = Some (JObj
           [(''status'', JStr (bookingStatusName EXPIRED)),
            (''reason'', JStr ''Payment window expired''),
            (''expiredAt'', JStr (isoString e (nowMs e)))])\<rparr>) (\<lambda>_.
      ret (Expired bookingId))))))"

section \<open>completeBooking\<close>

definition completeBooking :: "env \<Rightarrow> uuid \<Rightarrow> uuid \<Rightarrow> Role option \<Rightarrow> booking action" where
  "completeBooking e bookingId userId role =
     andThen (reads (booking_findById bookingId)) (\<lambda>booking.
     case booking of
       None \<Rightarrow> throw (bookingNotFound bookingId)
     | Some b \<Rightarrow>
     andThen (reads (\<lambda>w. booking_providerUserId w b = Some userId)) (\<lambda>isProvider.
     let isAdmin = (role = Some ADMIN) in
     andThen (check (\<not> (\<not> isProvider \<and> \<not> isAdmin))
       (ForbiddenException ''Only the assigned provider or an admin can mark this booking as completed'')) (\<lambda>_.
     andThen (check (canTransitionBooking (b_bookingStatus b) COMPLETED)
       (BadRequestException (''Cannot complete booking in \"'' @ bookingStatusName (b_bookingStatus b) @ ''\" status. Booking must be CONFIRMED.''))) (\<lambda>_.
     andThen (transaction
       (andThen (booking_update bookingId
          (\<lambda>x. x\<lparr>b_bookingStatus := COMPLETED, b_completedAt := Some (nowMs e)\<rparr>)) (\<lambda>updated.
        andThen (auditLog_create e
          \<lparr>ap_actorUserId = Some userId, ap_entityType = ''Booking'', ap_entityId = bookingId,
           ap_action = BOOKING_COMPLETED,
           ap_oldValue = Some (statusJson (b_bookingStatus b)),
           ap_newValue = Some (JObj
             [(''status'', JStr (bookingStatusName COMPLETED)),
              (''completedAt'', case b_completedAt updated of
                 None \<Rightarrow> JNull | Some d \<Rightarrow> JStr (isoString e d))])\<rparr>) (\<lambda>_.
        ret updated)))) (\<lambda>updatedBooking.
     andThen (cancelOverdueCheck e bookingId) (\<lambda>_.
     ret updatedBooking))))))"

section \<open>flagOverdueBooking\<close>

definition flagOverdueBooking :: "env \<Rightarrow> uuid \<Rightarrow> jobResult action" where
  "flagOverdueBooking e bookingId = transaction
     (andThen (reads (booking_findById bookingId)) (\<lambda>booking.
      case booking of
        None \<Rightarrow> ret (Skipped ''booking_not_found'' None)
      | Some b \<Rightarrow>
      if b_bookingStatus b \<noteq> CONFIRMED
      then ret (Skipped ''not_confirmed'' (Some (b_bookingStatus b)))
      else if b_needsReview b then ret (Skipped ''already_flagged'' None)
      else
      andThen (booking_updateMany
        (\<lambda>x. b_id x = bookingId \<and> b_bookingStatus x = CONFIRMED \<and> \<not> b_needsReview x)
        (\<lambda>x. x\<lparr>b_needsReview := True, b_overdueAt := Some (nowMs e)\<rparr>)) (\<lambda>count.
      if count = 0 then ret (Skipped ''already_transitioned'' None)
      else
      andThen (auditLog_create e
        \<lparr>ap_actorUserId = None, ap_entityType = ''Booking'', ap_entityId = bookingId,
         ap_action = BOOKING_FLAGGED_OVERDUE,
         ap_oldValue = Some (JObj
           [(''status'', JStr (bookingStatusName (b_bookingStatus b))), (''needsReview'', JBool False)]),
         ap_newValue = Some (JObj
           [(''status'', JStr (bookingStatusName (b_bookingStatus b))), (''needsReview'', JBool True),
            (''overdueAt'', JStr (isoString e (nowMs e)))])\<rparr>) (\<lambda>_.
      ret (Flagged bookingId)))))"

section \<open>The handlers respect the contract of the storage\<close>

context repository_order
begin

lemma createBookingTx: "steps R (createBookingTx e c dto ps pp d s t gr)"
  unfolding createBookingTx_def by (intro combinators repository_steps)

lemma createBooking: "steps R (createBooking e c dto)"
  unfolding createBooking_def Let_def
  by (intro combinators repository_steps createBookingTx)

lemma cancelBookingAsCustomer: "steps R (cancelBookingAsCustomer e i c dto)"
  unfolding cancelBookingAsCustomer_def Let_def by (intro combinators repository_steps)

lemma expireBooking: "steps R (expireBooking e i)"
  unfolding expireBooking_def by (intro combinators repository_steps)

lemma completeBooking: "steps R (completeBooking e i u r)"
  unfolding completeBooking_def Let_def by (intro combinators repository_steps)

lemma flagOverdueBooking: "steps R (flagOverdueBooking e i)"
  unfolding flagOverdueBooking_def by (intro combinators repository_steps)

lemmas booking_steps = createBooking cancelBookingAsCustomer expireBooking completeBooking
  flagOverdueBooking

end

end
