(* ===== verification/Payment.thy ===== *)
theory Payment
  imports Booking
begin

text \<open>
  The payment service (\<open>modules/payment/services/payment.service.ts\<close>): payment
  orders, the verification the customer's browser asks for, the gateway's
  webhooks, and refunds. A handler that reads outside the transaction it then
  opens is split at that point, so that other handlers can run in between.
\<close>

section \<open>Requests and results\<close>

record verifyPaymentDto =
  vp_razorpayOrderId :: string
  vp_razorpayPaymentId :: string
  vp_razorpaySignature :: string

record refundPaymentDto =
  rp_amount :: "rat option"
  rp_reason :: "string option"

record verifyResult =
  vr_message :: string
  vr_bookingId :: uuid
  vr_bookingStatus :: BookingStatus
  vr_paymentStatus :: PaymentStatus
  vr_paidAt :: "date option"

record refundResult =
  rf_paymentId :: uuid
  rf_status :: PaymentStatus
  rf_refundId :: string
  rf_refundedAt :: "date option"

datatype webhookReply = AlreadyProcessed | Ignored | Processed

definition paymentJson :: "PaymentStatus \<Rightarrow> json" where
  "paymentJson s = JObj [(''status'', JStr (paymentStatusName s))]"

text \<open>\<open>payment.booking\<close> of the included relation; reading a field of it when it is absent throws.\<close>

definition payment_booking :: "payment \<Rightarrow> booking action" where
  "payment_booking p =
     andThen (reads (booking_findById (pay_bookingId p))) (\<lambda>booking.
     case booking of
       None \<Rightarrow> throw (JsError ''Cannot read properties of null'')
     | Some b \<Rightarrow> ret b)"

definition paymentNotFound :: "uuid \<Rightarrow> exn" where
  "paymentNotFound paymentId =
     NotFoundException (''Payment with ID \"'' @ paymentId @ ''\" not found'')"

section \<open>createPaymentOrder\<close>

definition createPaymentOrder :: "env \<Rightarrow> uuid \<Rightarrow> uuid \<Rightarrow> payment action" where
  "createPaymentOrder e customerId bookingId =
     andThen (reads (booking_findById bookingId)) (\<lambda>booking.
     case booking of
       None \<Rightarrow> throw (bookingNotFound bookingId)
     | Some b \<Rightarrow>
     andThen (check (b_customerId b = customerId)
       (ForbiddenException ''You are not authorized to pay for this booking'')) (\<lambda>_.
     andThen (check (b_bookingStatus b = PENDING_PAYMENT)
       (BadRequestException (''Cannot create payment order for booking in status \"''
          @ bookingStatusName (b_bookingStatus b) @ ''\"''))) (\<lambda>_.
     andThen (reads (payment_findByBookingId (b_id b))) (\<lambda>existingPayment.
     if (case existingPayment of None \<Rightarrow> False | Some p \<Rightarrow> pay_status p = CREATED)
     then ret (the existingPayment)
     else
     andThen (createOrder e
       \<lparr>go_bookingId = b_id b, go_amount = b_bookedPrice b, go_currency = ''INR'',
        go_receipt = ''rcpt_'' @ take 8 (b_id b)\<rparr>) (\<lambda>gatewayOrder.
     payment_create e
       \<lparr>pi_bookingId = b_id b, pi_gateway = RAZORPAY,
        pi_gatewayOrderId = gr_gatewayOrderId gatewayOrder, pi_amount = b_bookedPrice b,
        pi_currency = gr_currency gatewayOrder, pi_status = CREATED\<rparr>)))))"

section \<open>verifyClientPayment\<close>

text \<open>
  The reads and checks before the transaction: either the answer for a payment
  that is already verified, or the payment and booking rows the transaction
  will use.
\<close>

definition verifyChecks ::
  "env \<Rightarrow> uuid \<Rightarrow> verifyPaymentDto \<Rightarrow> (verifyResult + payment \<times> booking) action" where
  "verifyChecks e customerId dto =
     andThen (reads (payment_findByGatewayOrderId (vp_razorpayOrderId dto))) (\<lambda>payment.
     case payment of
       None \<Rightarrow> throw (NotFoundException
         (''Payment record for order \"'' @ vp_razorpayOrderId dto @ ''\" not found''))
     | Some p \<Rightarrow>
     andThen (payment_booking p) (\<lambda>b.
     andThen (check (b_customerId b = customerId)
       (ForbiddenException ''You are not authorized to verify this payment'')) (\<lambda>_.
     andThen (check (verifyPaymentSignature e (vp_razorpayOrderId dto) (vp_razorpayPaymentId dto)
         (vp_razorpaySignature dto) None)
       (BadRequestException ''Invalid payment signature'')) (\<lambda>_.
     if pay_status p = SUCCESS \<and> b_bookingStatus b = CONFIRMED
     then ret (Inl \<lparr>vr_message = ''Payment already verified'', vr_bookingId = pay_bookingId p,
            vr_bookingStatus = b_bookingStatus b, vr_paymentStatus = pay_status p, vr_paidAt = None\<rparr>)
     else
     andThen (check (b_bookingStatus b = PENDING_PAYMENT)
       (BadRequestException (''Cannot confirm booking in \"'' @ bookingStatusName (b_bookingStatus b)
          @ ''\" status. The reservation may have expired.''))) (\<lambda>_.
     andThen (check (canTransitionPayment (pay_status p) SUCCESS)
       (BadRequestException (''Cannot transition payment from \"'' @ paymentStatusName (pay_status p)
          @ ''\" to \"'' @ paymentStatusName SUCCESS @ ''\"''))) (\<lambda>_.
     ret (Inr (p, b))))))))"

definition verifyTx ::
  "env \<Rightarrow> uuid \<Rightarrow> verifyPaymentDto \<Rightarrow> payment \<Rightarrow> booking \<Rightarrow> verifyResult action" where
  "verifyTx e customerId dto p b =
     andThen (payment_updateStatus (pay_id p) SUCCESS
       \<lparr>d_gatewayPaymentId = Some (vp_razorpayPaymentId dto),
        d_gatewaySignature = Some (vp_razorpaySignature dto),
        d_paidAt = Some (nowMs e), d_refundedAt = None\<rparr>) (\<lambda>updatedPayment.
     andThen (booking_updateStatus e (pay_bookingId p) CONFIRMED None) (\<lambda>updatedBooking.
     andThen (auditLog_create e
       \<lparr>ap_actorUserId = Some customerId, ap_entityType = ''Payment'', ap_entityId = pay_id p,
        ap_action = AuditAction.PAYMENT_SUCCESS, ap_oldValue = Some (paymentJson (pay_status p)),
        ap_newValue = Some (JObj
          [(''status'', JStr (paymentStatusName SUCCESS)),
           (''gatewayPaymentId'', JStr (vp_razorpayPaymentId dto))])\<rparr>) (\<lambda>_.
     andThen (auditLog_create e
       \<lparr>ap_actorUserId = Some customerId, ap_entityType = ''Booking'', ap_entityId = pay_bookingId p,
        ap_action = AuditAction.BOOKING_CONFIRMED,
        ap_oldValue = Some (statusJson (b_bookingStatus b)),
        ap_newValue = Some (statusJson CONFIRMED)\<rparr>) (\<lambda>_.
     ret \<lparr>vr_message = ''Payment verified successfully'', vr_bookingId = b_id updatedBooking,
          vr_bookingStatus = b_bookingStatus updatedBooking,
          vr_paymentStatus = pay_status updatedPayment, vr_paidAt = pay_paidAt updatedPayment\<rparr>))))"

text \<open>What both confirmations do with the queues once the booking is confirmed.\<close>

definition scheduleConfirmed :: "env \<Rightarrow> uuid \<Rightarrow> unit action" where
  "scheduleConfirmed e bookingId =
     andThen (cancelPaymentExpiration e bookingId) (\<lambda>_.
     andThen (scheduleBookingOverdueCheck e bookingId gracePeriodDefault) (\<lambda>_.
     scheduleBookingLifecycleNotifications e bookingId))"

definition verifyCommit ::
  "env \<Rightarrow> uuid \<Rightarrow> verifyPaymentDto \<Rightarrow> payment \<times> booking \<Rightarrow> verifyResult action" where
  "verifyCommit e customerId dto pb =
     andThen (transaction (verifyTx e customerId dto (fst pb) (snd pb))) (\<lambda>result.
     andThen (scheduleConfirmed e (pay_bookingId (fst pb))) (\<lambda>_.
     ret result))"

definition verifyClientPayment :: "env \<Rightarrow> uuid \<Rightarrow> verifyPaymentDto \<Rightarrow> verifyResult action" where
  "verifyClientPayment e customerId dto =
     andThen (verifyChecks e customerId dto) (\<lambda>r.
     case r of Inl answer \<Rightarrow> ret answer | Inr pb \<Rightarrow> verifyCommit e customerId dto pb)"

section \<open>Reading payments\<close>

definition getPaymentById :: "uuid \<Rightarrow> uuid \<Rightarrow> payment action" where
  "getPaymentById paymentId userId =
     andThen (reads (payment_findById paymentId)) (\<lambda>payment.
     case payment of
       None \<Rightarrow> throw (paymentNotFound paymentId)
     | Some p \<Rightarrow>
     andThen (payment_booking p) (\<lambda>b.
     andThen (reads (\<lambda>w. booking_providerUserId w b)) (\<lambda>providerUserId.
     andThen (check (\<not> (b_customerId b \<noteq> userId \<and> providerUserId \<noteq> Some userId))
       (paymentNotFound paymentId)) (\<lambda>_.
     ret p))))"

definition getAllPaymentsForAdmin :: "env \<Rightarrow> paymentQuery \<Rightarrow> payment paginated action" where
  "getAllPaymentsForAdmin e q = payment_findAll e q"

definition getPaymentByIdForAdmin :: "uuid \<Rightarrow> payment action" where
  "getPaymentByIdForAdmin paymentId =
     andThen (reads (payment_findById paymentId)) (\<lambda>payment.
     case payment of None \<Rightarrow> throw (paymentNotFound paymentId) | Some p \<Rightarrow> ret p)"

section \<open>handleWebhookEvent\<close>

text \<open>
  A value of the event body used as a text column or as a key of a query: the
  database client refuses a value of another type.
\<close>

definition asText :: "json \<Rightarrow> string action" where
  "asText v = (case v of JStr s \<Rightarrow> ret s | _ \<Rightarrow> throw (JsError ''Invalid value provided. Expected String''))"

definition asOptText :: "json \<Rightarrow> string option action" where
  "asOptText v = (if jTruthy v then andThen (asText v) (\<lambda>s. ret (Some s)) else ret None)"

definition webhookEventId :: "env \<Rightarrow> string option \<Rightarrow> json \<Rightarrow> json" where
  "webhookEventId e headerEventId eventPayload =
     jOr (case headerEventId of None \<Rightarrow> JNull | Some h \<Rightarrow> JStr h)
       (jOr (jget eventPayload ''event_id'')
         (jOr (jget eventPayload ''id'')
           (JStr (templateText e
               (jlookup (jget (jget (jget eventPayload ''payload'') ''payment'') ''entity'') ''id'')
             @ ''_'' @ templateText e (jlookup eventPayload ''event'')))))"

definition currentStatusText :: "booking option \<Rightarrow> string" where
  "currentStatusText b =
     (case b of None \<Rightarrow> ''undefined'' | Some x \<Rightarrow> bookingStatusName (b_bookingStatus x))"

definition currentStatusField :: "booking option \<Rightarrow> (string \<times> json) list" where
  "currentStatusField b =
     (case b of None \<Rightarrow> [] | Some x \<Rightarrow> [(''status'', JStr (bookingStatusName (b_bookingStatus x)))])"

text \<open>
  The amount and currency of the captured payment: a present amount must be the
  expected number of smallest units, a present currency the payment's.
\<close>

definition capturedAmountOk :: "env \<Rightarrow> payment \<Rightarrow> json \<Rightarrow> bool" where
  "capturedAmountOk e p paymentEntity \<longleftrightarrow>
     \<not> (jTruthy (jget paymentEntity ''amount'')
        \<and> jsNumberOf e (jget paymentEntity ''amount'')
            \<noteq> Some (of_int (toSmallestCurrencyUnit (pay_amount p) (pay_currency p))))"

definition capturedCurrencyOk :: "payment \<Rightarrow> json \<Rightarrow> bool action" where
  "capturedCurrencyOk p paymentEntity =
     (if jTruthy (jget paymentEntity ''currency'')
      then (case jget paymentEntity ''currency'' of
              JStr c \<Rightarrow> ret (toUpperCase c = toUpperCase (pay_currency p))
            | _ \<Rightarrow> throw (JsError ''paymentEntity.currency.toUpperCase is not a function''))
      else ret True)"

text \<open>
  The race guard of the capture: the booking is read again inside the transaction
  and confirmed only when it still awaits payment; otherwise the payment is
  flagged for a refund. The result is the booking it confirmed.
\<close>

definition confirmIfPending :: "env \<Rightarrow> payment \<Rightarrow> uuid \<Rightarrow> uuid option action" where
  "confirmIfPending e p customerId =
     andThen (reads (booking_findById (pay_bookingId p))) (\<lambda>currentBooking.
     let isBookingPending = (map_option b_bookingStatus currentBooking = Some PENDING_PAYMENT) in
     if isBookingPending then
       andThen (booking_updateStatus e (pay_bookingId p) CONFIRMED None) (\<lambda>_.
       andThen (auditLog_create e
         \<lparr>ap_actorUserId = Some customerId, ap_entityType = ''Booking'',
          ap_entityId = pay_bookingId p, ap_action = AuditAction.BOOKING_CONFIRMED,
          ap_oldValue = Some (JObj (currentStatusField currentBooking)),
          ap_newValue = Some (JObj [(''status'', JStr (bookingStatusName CONFIRMED)),
            (''source'', JStr ''webhook'')])\<rparr>) (\<lambda>_.
       ret (Some (pay_bookingId p))))
     else
       andThen (auditLog_create e
         \<lparr>ap_actorUserId = Some customerId, ap_entityType = ''Booking'',
          ap_entityId = pay_bookingId p, ap_action = AuditAction.PAYMENT_SUCCESS,
          ap_oldValue = Some (JObj (currentStatusField currentBooking)),
          ap_newValue = Some (JObj (currentStatusField currentBooking @
            [(''flag'', JStr ''REQUIRES_REFUND''),
             (''reason'', JStr (''Payment succeeded after booking was ''
                @ currentStatusText currentBooking))]))\<rparr>) (\<lambda>_.
       ret None))"

text \<open>
  The branch \<open>payment.captured\<close> / \<open>order.paid\<close>. \<open>p\<close> and \<open>customerId\<close> come from the
  row read before the transaction.
\<close>

definition webhookCaptured ::
  "env \<Rightarrow> payment \<Rightarrow> uuid \<Rightarrow> string \<Rightarrow> json \<Rightarrow> uuid option action" where
  "webhookCaptured e p customerId eventName paymentEntity =
     (if pay_status p = SUCCESS then ret None
      else if \<not> canTransitionPayment (pay_status p) SUCCESS then ret None
      else if \<not> capturedAmountOk e p paymentEntity then ret None
      else
      andThen (capturedCurrencyOk p paymentEntity) (\<lambda>currencyOk.
      if \<not> currencyOk then ret None
      else
      andThen (confirmIfPending e p customerId) (\<lambda>confirmedBookingId.
      andThen (asOptText (jget paymentEntity ''id'')) (\<lambda>gatewayPaymentId.
      andThen (payment_updateStatus (pay_id p) SUCCESS
        \<lparr>d_gatewayPaymentId = orKeep gatewayPaymentId (pay_gatewayPaymentId p),
         d_gatewaySignature = None, d_paidAt = Some (nowMs e), d_refundedAt = None\<rparr>) (\<lambda>_.
      andThen (auditLog_create e
        \<lparr>ap_actorUserId = Some customerId, ap_entityType = ''Payment'', ap_entityId = pay_id p,
         ap_action = AuditAction.PAYMENT_SUCCESS, ap_oldValue = Some (paymentJson (pay_status p)),
         ap_newValue = Some (JObj [(''status'', JStr (paymentStatusName SUCCESS)),
           (''event'', JStr eventName)])\<rparr>) (\<lambda>_.
      ret confirmedBookingId))))))"

definition webhookFailed :: "env \<Rightarrow> payment \<Rightarrow> uuid \<Rightarrow> json \<Rightarrow> unit action" where
  "webhookFailed e p customerId paymentEntity =
     (if pay_status p \<noteq> PaymentStatus.FAILED then
        andThen (asOptText (jget paymentEntity ''id'')) (\<lambda>gatewayPaymentId.
        andThen (payment_updateStatus (pay_id p) PaymentStatus.FAILED
          (noDetails\<lparr>d_gatewayPaymentId := gatewayPaymentId\<rparr>)) (\<lambda>_.
        andThen (auditLog_create e
          \<lparr>ap_actorUserId = Some customerId, ap_entityType = ''Payment'', ap_entityId = pay_id p,
           ap_action = AuditAction.PAYMENT_FAILED, ap_oldValue = None,
           ap_newValue = Some (JObj ((''status'', JStr (paymentStatusName PaymentStatus.FAILED))
             # (case jlookup paymentEntity ''error_description'' of
                  None \<Rightarrow> [] | Some v \<Rightarrow> [(''error'', v)])))\<rparr>) (\<lambda>_.
        ret ())))
      else ret ())"

definition webhookRefunded :: "env \<Rightarrow> payment \<Rightarrow> unit action" where
  "webhookRefunded e p =
     (if pay_status p \<noteq> REFUNDED then
        andThen (payment_updateStatus (pay_id p) REFUNDED
          (noDetails\<lparr>d_refundedAt := Some (nowMs e)\<rparr>)) (\<lambda>_.
        ret ())
      else ret ())"

definition webhookSwitch ::
  "env \<Rightarrow> payment \<Rightarrow> uuid \<Rightarrow> string \<Rightarrow> json \<Rightarrow> uuid option action" where
  "webhookSwitch e p customerId eventName paymentEntity =
     (if eventName = ''payment.captured'' \<or> eventName = ''order.paid''
      then webhookCaptured e p customerId eventName paymentEntity
      else if eventName = ''payment.failed''
      then andThen (webhookFailed e p customerId paymentEntity) (\<lambda>_. ret None)
      else if eventName = ''refund.processed'' \<or> eventName = ''payment.refunded''
      then andThen (webhookRefunded e p) (\<lambda>_. ret None)
      else ret None)"

definition webhookTx ::
  "env \<Rightarrow> payment \<Rightarrow> booking \<Rightarrow> string \<Rightarrow> json \<Rightarrow> json \<Rightarrow> json \<Rightarrow> uuid option action" where
  "webhookTx e p b eventId eventName eventPayload paymentEntity =
     andThen (asText eventName) (\<lambda>name.
     andThen (recordWebhookEvent e RAZORPAY eventId name eventPayload None) (\<lambda>recordedEvent.
     andThen (webhookSwitch e p (b_customerId b) name paymentEntity) (\<lambda>confirmedBookingId.
     andThen (markWebhookEventProcessed e (we_id recordedEvent)) (\<lambda>_.
     ret confirmedBookingId))))"

text \<open>Section 6 of the handler: the transaction, then the queues, and the \<open>catch\<close> clause.\<close>

definition webhookCommit ::
  "env \<Rightarrow> payment \<Rightarrow> booking \<Rightarrow> string \<Rightarrow> json \<Rightarrow> json \<Rightarrow> json \<Rightarrow> webhookReply action" where
  "webhookCommit e p b eventId eventName eventPayload paymentEntity =
     tryCatch
       (andThen (transaction (webhookTx e p b eventId eventName eventPayload paymentEntity))
         (\<lambda>confirmedBookingId.
        andThen (case confirmedBookingId of None \<Rightarrow> ret () | Some i \<Rightarrow> scheduleConfirmed e i) (\<lambda>_.
        ret Processed)))
       (\<lambda>err. if err = PrismaError P2002 then ret AlreadyProcessed else throw err)"

definition recordIgnored :: "env \<Rightarrow> string \<Rightarrow> json \<Rightarrow> json \<Rightarrow> webhookReply action" where
  "recordIgnored e eventId eventName eventPayload =
     andThen (asText eventName) (\<lambda>name.
     andThen (recordWebhookEvent e RAZORPAY eventId name eventPayload (Some (nowMs e))) (\<lambda>_.
     ret Ignored))"

text \<open>Sections 3 to 6 of the handler, once the body is verified and parsed.\<close>

definition processWebhookEvent :: "env \<Rightarrow> string \<Rightarrow> json \<Rightarrow> webhookReply action" where
  "processWebhookEvent e eventId eventPayload =
     (let eventName = jget eventPayload ''event'';
          paymentEntity = jget (jget (jget eventPayload ''payload'') ''payment'') ''entity'';
          orderEntity = jget (jget (jget eventPayload ''payload'') ''order'') ''entity'';
          gatewayOrderId = jOr (jget paymentEntity ''order_id'') (jget orderEntity ''id'') in
      andThen (reads (findWebhookEvent RAZORPAY eventId)) (\<lambda>existingEvent.
      if (case existingEvent of None \<Rightarrow> False | Some x \<Rightarrow> we_processedAt x \<noteq> None)
      then ret AlreadyProcessed
      else if \<not> jTruthy gatewayOrderId then recordIgnored e eventId eventName eventPayload
      else
      andThen (asText gatewayOrderId) (\<lambda>orderId.
      andThen (reads (payment_findByGatewayOrderId orderId)) (\<lambda>payment.
      case payment of
        None \<Rightarrow> recordIgnored e eventId eventName eventPayload
      | Some p \<Rightarrow>
      andThen (payment_booking p) (\<lambda>b.
      webhookCommit e p b eventId eventName eventPayload paymentEntity)))))"

definition handleWebhookEvent ::
  "env \<Rightarrow> string option \<Rightarrow> string \<Rightarrow> string option \<Rightarrow> webhookReply action" where
  "handleWebhookEvent e rawBuffer signature headerEventId =
     andThen (check (\<not> (rawBuffer = None \<or> signature = []))
       (BadRequestException ''Missing webhook payload or signature'')) (\<lambda>_.
     let rawBody = the rawBuffer in
     andThen (check (verifyWebhookSignature e rawBody signature None)
       (BadRequestException ''Invalid webhook signature'')) (\<lambda>_.
     case parseJson e rawBody of
       None \<Rightarrow> throw (BadRequestException ''Malformed JSON in webhook body'')
     | Some eventPayload \<Rightarrow>
     andThen (check (eventPayload \<noteq> JNull)
       (JsError ''Cannot read properties of null'')) (\<lambda>_.
     andThen (asText (webhookEventId e headerEventId eventPayload)) (\<lambda>eventId.
     processWebhookEvent e eventId eventPayload))))"

section \<open>refundPayment\<close>

definition refundChecks :: "env \<Rightarrow> uuid \<Rightarrow> refundPaymentDto \<Rightarrow> (payment \<times> booking \<times> string) action" where
  "refundChecks e paymentId dto =
     andThen (reads (payment_findById paymentId)) (\<lambda>payment.
     case payment of
       None \<Rightarrow> throw (paymentNotFound paymentId)
     | Some p \<Rightarrow>
     andThen (check (pay_status p \<noteq> REFUNDED)
       (BadRequestException ''Payment has already been refunded'')) (\<lambda>_.
     andThen (check (pay_status p = SUCCESS)
       (BadRequestException (''Only SUCCESS payments can be refunded. Current status: \"''
          @ paymentStatusName (pay_status p) @ ''\"''))) (\<lambda>_.
     andThen (case rp_amount dto of
         None \<Rightarrow> ret ()
       | Some refundAmount \<Rightarrow>
           andThen (check (\<not> refundAmount \<le> 0)
             (BadRequestException ''Refund amount must be greater than zero'')) (\<lambda>_.
           check (\<not> refundAmount > pay_amount p)
             (BadRequestException (''Refund amount ('' @ numberText e refundAmount
                @ '') cannot exceed captured amount ('' @ numberText e (pay_amount p) @ '')'')))) (\<lambda>_.
     case truthy (pay_gatewayPaymentId p) of
       None \<Rightarrow> throw (BadRequestException ''Payment does not have a gateway transaction ID'')
     | Some gatewayPaymentId \<Rightarrow>
     andThen (payment_booking p) (\<lambda>b.
     ret (p, b, gatewayPaymentId))))))"

definition refundTx ::
  "env \<Rightarrow> uuid option \<Rightarrow> refundPaymentDto \<Rightarrow> payment \<Rightarrow> booking \<Rightarrow> gatewayRefundResult \<Rightarrow>
   refundResult action" where
  "refundTx e adminUserId dto p b refundResult =
     andThen (payment_updateStatus (pay_id p) REFUNDED
       (noDetails\<lparr>d_refundedAt := Some (nowMs e)\<rparr>)) (\<lambda>updatedPayment.
     andThen
       (if b_bookingStatus b \<noteq> CANCELLED
        then andThen (booking_updateStatus e (pay_bookingId p) CANCELLED
               (Some (orElse (rp_reason dto) ''Refunded by Admin''))) (\<lambda>_. ret ())
        else ret ()) (\<lambda>_.
     andThen (auditLog_create e
       \<lparr>ap_actorUserId = adminUserId, ap_entityType = ''Payment'', ap_entityId = pay_id p,
        ap_action = AuditAction.PAYMENT_REFUNDED, ap_oldValue = Some (paymentJson (pay_status p)),
        ap_newValue = Some (JObj
          [(''status'', JStr (paymentStatusName REFUNDED)),
           (''refundId'', JStr (rr_refundId refundResult)),
           (''reason'', JStr (orElse (rp_reason dto) ''Admin refund''))])\<rparr>) (\<lambda>_.
     ret \<lparr>rf_paymentId = pay_id updatedPayment, rf_status = pay_status updatedPayment,
          rf_refundId = rr_refundId refundResult, rf_refundedAt = pay_refundedAt updatedPayment\<rparr>)))"

text \<open>\<open>dto.amount || capturedAmount\<close>: a zero amount is falsy.\<close>

definition refundAmountOf :: "refundPaymentDto \<Rightarrow> payment \<Rightarrow> rat" where
  "refundAmountOf dto p =
     (case rp_amount dto of None \<Rightarrow> pay_amount p | Some a \<Rightarrow> if a = 0 then pay_amount p else a)"

text \<open>
  The actor is optional: the administrative controller passes a field of the request
  user that may be \<open>undefined\<close>.
\<close>

definition refundPayment :: "env \<Rightarrow> uuid option \<Rightarrow> uuid \<Rightarrow> refundPaymentDto \<Rightarrow> refundResult action" where
  "refundPayment e adminUserId paymentId dto =
     andThen (refundChecks e paymentId dto) (\<lambda>(p, b, gatewayPaymentId).
     andThen (createRefund e gatewayPaymentId (Some (refundAmountOf dto p))) (\<lambda>refundResult.
     transaction (refundTx e adminUserId dto p b refundResult)))"

section \<open>The handlers respect the contract of the storage\<close>

context repository_order
begin

lemma payment_booking: "steps R (payment_booking p)"
  unfolding payment_booking_def by (intro combinators)

lemma createPaymentOrder: "steps R (createPaymentOrder e c i)"
  unfolding createPaymentOrder_def by (intro combinators repository_steps)

lemma verifyChecks: "steps R (verifyChecks e c dto)"
  unfolding verifyChecks_def by (intro combinators payment_booking)

lemma scheduleConfirmed: "steps R (scheduleConfirmed e i)"
  unfolding scheduleConfirmed_def by (intro combinators repository_steps)

lemma verifyCommit: "steps R (verifyCommit e c dto pb)"
  unfolding verifyCommit_def verifyTx_def
  by (intro combinators repository_steps scheduleConfirmed)

lemma verifyClientPayment: "steps R (verifyClientPayment e c dto)"
  unfolding verifyClientPayment_def
  by (intro combinators verifyChecks) (auto intro: ret verifyCommit split: sum.split)

lemma asText: "steps R (asText v)"
  unfolding asText_def by (cases v) (simp_all add: ret throw)

lemma asOptText: "steps R (asOptText v)"
  unfolding asOptText_def by (intro combinators asText)

lemma capturedCurrencyOk: "steps R (capturedCurrencyOk p v)"
  unfolding capturedCurrencyOk_def
  by (cases "jget v ''currency''") (simp_all add: ret throw)

lemma webhookSwitch: "steps R (webhookSwitch e p c n v)"
  unfolding webhookSwitch_def webhookCaptured_def confirmIfPending_def webhookFailed_def
    webhookRefunded_def Let_def
  by (intro combinators repository_steps capturedCurrencyOk asOptText)

lemma webhookTx: "steps R (webhookTx e p b i n pl pe)"
  unfolding webhookTx_def by (intro combinators repository_steps asText webhookSwitch)

lemma webhookCommit: "steps R (webhookCommit e p b i n pl pe)"
  unfolding webhookCommit_def by (intro combinators webhookTx scheduleConfirmed)

lemma recordIgnored: "steps R (recordIgnored e i n pl)"
  unfolding recordIgnored_def by (intro combinators repository_steps asText)

lemma processWebhookEvent: "steps R (processWebhookEvent e i pl)"
  unfolding processWebhookEvent_def Let_def
  by (intro combinators recordIgnored webhookCommit payment_booking asText)

lemma handleWebhookEvent: "steps R (handleWebhookEvent e body sig hdr)"
  unfolding handleWebhookEvent_def Let_def by (intro combinators processWebhookEvent asText)

lemma refundChecks: "steps R (refundChecks e i dto)"
  unfolding refundChecks_def by (intro combinators payment_booking)

lemma refundTx: "steps R (refundTx e a dto p b rr)"
  unfolding refundTx_def by (intro combinators repository_steps)

lemma refundPayment: "steps R (refundPayment e a i dto)"
  unfolding refundPayment_def
  by (intro combinators refundChecks) (auto intro!: combinators repository_steps refundTx)

lemmas payment_steps = createPaymentOrder verifyClientPayment handleWebhookEvent refundPayment

end

end
