(* ===== verification/Invariants.thy ===== *)
theory Invariants
  imports Payment
begin

text \<open>
  The invariants of the booking and payment core, each an interpretation of the
  storage contract: what may change in the state (\<open>evolves\<close>, \<open>sameMasterData\<close>)
  and what stays well-formed (\<open>bookingsOk\<close>, \<open>paymentsOk\<close>, \<open>queuesOk\<close>).
\<close>

section \<open>What handlers may change\<close>

text \<open>The fields of a booking and of a payment that are fixed when the row is inserted.\<close>

definition bookingSnapshot :: "booking \<Rightarrow> booking" where
  "bookingSnapshot b =
     b\<lparr>b_bookingStatus := PENDING_PAYMENT, b_cancellationReason := None, b_cancelledAt := None,
       b_completedAt := None, b_overdueAt := None, b_needsReview := False\<rparr>"

definition paymentSnapshot :: "payment \<Rightarrow> payment" where
  "paymentSnapshot p =
     p\<lparr>pay_status := CREATED, pay_gatewayPaymentId := None, pay_gatewaySignature := None,
       pay_paidAt := None, pay_refundedAt := None\<rparr>"

definition eventSnapshot :: "webhookEvent \<Rightarrow> webhookEvent" where
  "eventSnapshot x = x\<lparr>we_processedAt := None\<rparr>"

definition evolves :: "world \<Rightarrow> world \<Rightarrow> bool" where
  "evolves w w' \<longleftrightarrow>
     prefix (auditLogs w) (auditLogs w')
     \<and> prefix (map bookingSnapshot (bookings w)) (map bookingSnapshot (bookings w'))
     \<and> prefix (map paymentSnapshot (payments w)) (map paymentSnapshot (payments w'))
     \<and> prefix (map eventSnapshot (webhookEvents w)) (map eventSnapshot (webhookEvents w'))
     \<and> drawn w \<le> drawn w'"

definition sameMasterData :: "world \<Rightarrow> world \<Rightarrow> bool" where
  "sameMasterData w w' \<longleftrightarrow>
     users w' = users w \<and> providerProfiles w' = providerProfiles w
     \<and> providerLocations w' = providerLocations w \<and> providerDocuments w' = providerDocuments w
     \<and> categories w' = categories w \<and> services w' = services w
     \<and> providerServices w' = providerServices w \<and> availabilities w' = availabilities w
     \<and> reviews w' = reviews w \<and> redis w' = redis w"

section \<open>What stays well-formed\<close>

definition noOverlap :: "booking list \<Rightarrow> bool" where
  "noOverlap t \<longleftrightarrow> (\<forall>a \<in> set t. \<forall>b \<in> set t. b_id a \<noteq> b_id b \<longrightarrow> \<not> conflicting a b)"

definition bookingsOk :: "world \<Rightarrow> bool" where
  "bookingsOk w \<longleftrightarrow> distinct (map b_id (bookings w)) \<and> noOverlap (bookings w)"

definition paymentsOk :: "world \<Rightarrow> bool" where
  "paymentsOk w \<longleftrightarrow>
     distinct (map pay_id (payments w)) \<and> distinct (map pay_gatewayOrderId (payments w))
     \<and> distinct (map (\<lambda>x. (we_gateway x, we_eventId x)) (webhookEvents w))"

definition queuesOk :: "world \<Rightarrow> bool" where
  "queuesOk w \<longleftrightarrow>
     distinct (map bj_jobId (bookingQueue w)) \<and> distinct (map nj_jobId (notificationQueue w))"

section \<open>Rows under updates\<close>

lemmas repository_defs = auditLog_create_def booking_create_def booking_updateStatus_def
  booking_update_def booking_updateMany_def payment_create_def payment_updateStatus_def
  payment_updateMany_def recordWebhookEvent_def markWebhookEventProcessed_def
  notification_create_def drawUuid_def insertRow_def updateRow_def updateRows_def

lemma snapshot_simps [simp]:
  "bookingSnapshot (b\<lparr>b_bookingStatus := s\<rparr>) = bookingSnapshot b"
  "bookingSnapshot (b\<lparr>b_cancellationReason := r\<rparr>) = bookingSnapshot b"
  "bookingSnapshot (b\<lparr>b_cancelledAt := t\<rparr>) = bookingSnapshot b"
  "bookingSnapshot (b\<lparr>b_completedAt := t\<rparr>) = bookingSnapshot b"
  "bookingSnapshot (b\<lparr>b_needsReview := n\<rparr>) = bookingSnapshot b"
  "bookingSnapshot (b\<lparr>b_overdueAt := t\<rparr>) = bookingSnapshot b"
  "paymentSnapshot (paymentWith ps d p) = paymentSnapshot p"
  "paymentSnapshot (p\<lparr>pay_status := ps\<rparr>) = paymentSnapshot p"
  "eventSnapshot (x\<lparr>we_processedAt := u\<rparr>) = eventSnapshot x"
  by (simp_all add: bookingSnapshot_def paymentSnapshot_def eventSnapshot_def paymentWith_def)

lemma paymentWith_simps [simp]:
  "pay_id (paymentWith ps d p) = pay_id p" "pay_bookingId (paymentWith ps d p) = pay_bookingId p"
  "pay_gatewayOrderId (paymentWith ps d p) = pay_gatewayOrderId p"
  "pay_status (paymentWith ps d p) = ps" "pay_amount (paymentWith ps d p) = pay_amount p"
  "pay_currency (paymentWith ps d p) = pay_currency p"
  by (simp_all add: paymentWith_def)

lemma conflicting_sym: "conflicting a b \<longleftrightarrow> conflicting b a"
  by (auto simp: conflicting_def slotsOverlap_def)

lemma noOverlap_insert:
  assumes "noOverlap t" and "bookingViolation r t = None"
  shows "noOverlap (t @ [r])"
  using assms by (auto simp: noOverlap_def bookingViolation_None conflicting_sym)

lemma noOverlap_map:
  assumes "\<And>x. b_id (g x) = b_id x"
    and "\<And>a b. a \<in> set t \<Longrightarrow> b \<in> set t \<Longrightarrow> b_id a \<noteq> b_id b \<Longrightarrow> \<not> conflicting (g a) (g b)"
  shows "noOverlap (map g t)"
  using assms by (auto simp: noOverlap_def)

lemma noOverlap_update:
  assumes t: "noOverlap t" "distinct (map b_id t)" and r: "findUnique b_id i t = Some r"
    and v: "bookingViolation (f r) (filter (\<lambda>x. b_id x \<noteq> i) t) = None"
    and f: "\<And>x. b_id (f x) = b_id x"
  shows "noOverlap (mapRows (\<lambda>x. b_id x = i) f t)"
  unfolding mapRows_def
proof (rule noOverlap_map)
  have only: "x = r" if "x \<in> set t" "b_id x = i" for x
    using findUnique_mem [OF t(2) that(1)] that(2) r by simp
  have clash: "\<not> conflicting (f r) x" "\<not> conflicting x (f r)" if "x \<in> set t" "b_id x \<noteq> i" for x
    using v that by (auto simp: bookingViolation_None conflicting_sym)
  fix a b
  assume "a \<in> set t" "b \<in> set t" "b_id a \<noteq> b_id b"
  then show "\<not> conflicting (if b_id a = i then f a else a) (if b_id b = i then f b else b)"
    using only [of a] only [of b] clash [of a] clash [of b] t(1) by (auto simp: noOverlap_def)
qed (simp add: f)

lemma noOverlap_release:
  assumes t: "noOverlap t" and f: "\<And>x. b_id (f x) = b_id x"
    and weaker: "\<And>x y. conflicting (f x) y \<Longrightarrow> conflicting x y"
  shows "noOverlap (mapRows p f t)"
  unfolding mapRows_def
proof (rule noOverlap_map)
  fix a b
  assume "a \<in> set t" "b \<in> set t" "b_id a \<noteq> b_id b"
  then have "\<not> conflicting a b" using t by (simp add: noOverlap_def)
  then show "\<not> conflicting (if p a then f a else a) (if p b then f b else b)"
    using weaker [of a b] weaker [of a "f b"] weaker [of b a] conflicting_sym by (metis (full_types))
qed (simp add: f)

lemma conflicting_released [simp]:
  "\<not> conflicting (x\<lparr>b_bookingStatus := EXPIRED\<rparr>) y"
  "conflicting (x\<lparr>b_needsReview := n, b_overdueAt := t\<rparr>) y \<longleftrightarrow> conflicting x y"
  by (simp_all add: conflicting_def slotsOverlap_def slotStart_def slotEnd_def occupiesSlot_def)

section \<open>Interpretations of the contract\<close>

interpretation evolves: repository_order evolves
  by unfold_locales
    (auto simp: evolves_def steps_def repository_defs prog_simps map_mapRows snapshot_simps
      split: option.splits)

interpretation sameMasterData: repository_order sameMasterData
  by unfold_locales
    (auto simp: sameMasterData_def steps_def repository_defs prog_simps split: option.splits)

interpretation queuesOk: repository_order "\<lambda>w w'. queuesOk w \<longrightarrow> queuesOk w'"
  by unfold_locales
    (auto simp: queuesOk_def steps_def repository_defs prog_simps bookingQ.add_distinct
      bookingQ.distinct_remove notificationQ.add_distinct notificationQ.distinct_remove
      split: option.splits)

interpretation bookingsOk: repository_order "\<lambda>w w'. bookingsOk w \<longrightarrow> bookingsOk w'"
  by unfold_locales
    (auto simp: bookingsOk_def steps_def repository_defs prog_simps map_mapRows
      intro: noOverlap_insert noOverlap_update noOverlap_release
      simp: bookingViolation_None
      split: option.splits)

interpretation paymentsOk: repository_order "\<lambda>w w'. paymentsOk w \<longrightarrow> paymentsOk w'"
  by unfold_locales
    (auto simp: paymentsOk_def steps_def repository_defs prog_simps map_mapRows
      paymentViolation_def webhookViolation_def split: option.splits if_splits)

end
