(* ===== verification/Processors.thy ===== *)
theory Processors
  imports Payment
begin

text \<open>
  The workers of the two queues (\<open>jobs/processors/booking.processor.ts\<close>,
  \<open>jobs/processors/notification.processor.ts\<close>), the mail service they use
  (\<open>shared/mailer/email.service.ts\<close>) and the notification service
  (\<open>modules/notification/services/notification.service.ts\<close>,
  \<open>modules/notification/repositories/notification.repository.ts\<close>).
\<close>

section \<open>The booking worker\<close>

definition bookingProcessor_process :: "env \<Rightarrow> bookingJob \<Rightarrow> jobResult action" where
  "bookingProcessor_process e job =
     (case bj_name job of
        EXPIRE_PAYMENT \<Rightarrow> expireBooking e (bj_bookingId job)
      | PROCESS_NO_SHOW \<Rightarrow> flagOverdueBooking e (bj_bookingId job))"

section \<open>The mail service\<close>

definition sendEmail :: "env \<Rightarrow> string \<Rightarrow> string \<Rightarrow> string \<Rightarrow> unit action" where
  "sendEmail e to subject txt =
     andThen (check (\<not> (to = [] \<or> CHR ''@'' \<notin> set to))
       (JsError (''Invalid recipient email address: \"'' @ to @ ''\"''))) (\<lambda>_.
     let result = sendMail e to subject txt in
     andThen (check (fst result)
       (JsError (orElse (snd result) ''Email provider failed to deliver email''))) (\<lambda>_.
     modify (\<lambda>w. w\<lparr>outbox := outbox w @ [\<lparr>ml_to = to, ml_subject = subject, ml_text = txt\<rparr>]\<rparr>)))"

section \<open>The notification worker\<close>

datatype deliveryResult =
    AlreadySent
  | NotDelivered string
  | Delivered uuid "date option"

definition notification_findById :: "uuid \<Rightarrow> world \<Rightarrow> notification option" where
  "notification_findById i w = findUnique n_id i (notifications w)"

definition notification_update :: "uuid \<Rightarrow> (notification \<Rightarrow> notification) \<Rightarrow> notification action" where
  "notification_update i f =
     updateRow notifications notifications_update (idViolation n_id) (PrismaError P2025) n_id i f"

text \<open>The tracking row of a job: by its identifier, by booking and type, or a new one.\<close>

definition loadNotification :: "env \<Rightarrow> date \<Rightarrow> notificationPayload \<Rightarrow> notification action" where
  "loadNotification e timestamp d =
     andThen (reads (\<lambda>w. case truthy (np_notificationId d) of
         None \<Rightarrow> None
       | Some i \<Rightarrow> notification_findById i w)) (\<lambda>byId.
     andThen (reads (\<lambda>w. case byId of
         Some n \<Rightarrow> Some n
       | None \<Rightarrow> (case truthy (np_bookingId d) of
           None \<Rightarrow> None
         | Some b \<Rightarrow> findFirst (\<lambda>n. n_bookingId n = Some b \<and> n_type n = np_type d
                       \<and> n_status n = NotificationStatus.PENDING) (notifications w)))) (\<lambda>found.
     case found of
       Some n \<Rightarrow> ret n
     | None \<Rightarrow> notification_create e (\<lambda>i. notificationRow e i d (np_channel d) timestamp)))"

definition isReminder :: "notificationJobName \<Rightarrow> bool" where
  "isReminder n \<longleftrightarrow> take 9 (NOTIFICATION_JOBS n) = ''reminder.''"

definition notDeliverable :: "notificationJob \<Rightarrow> world \<Rightarrow> BookingStatus option" where
  "notDeliverable job w =
     (case truthy (np_bookingId (nj_data job)) of
        None \<Rightarrow> None
      | Some b \<Rightarrow>
          if isReminder (nj_name job) then
            (case booking_findById b w of
               None \<Rightarrow> None
             | Some x \<Rightarrow> if b_bookingStatus x \<in> {CANCELLED, EXPIRED} then Some (b_bookingStatus x) else None)
          else None)"

text \<open>The mail and the two updates of the tracking row.\<close>

definition deliver :: "env \<Rightarrow> notificationJob \<Rightarrow> nat \<Rightarrow> notification \<Rightarrow> string \<Rightarrow> deliveryResult action" where
  "deliver e job attemptsMade n email =
     tryCatch
       (andThen (sendEmail e email (np_title (nj_data job)) (np_body (nj_data job))) (\<lambda>_.
        andThen (notification_update (n_id n)
          (\<lambda>x. x\<lparr>n_status := SENT, n_sentAt := Some (nowMs e), n_attemptCount := attemptsMade + 1,
                 n_failureReason := None\<rparr>)) (\<lambda>updated.
        ret (Delivered (n_id updated) (n_sentAt updated)))))
       (\<lambda>err.
        andThen (notification_update (n_id n)
          (\<lambda>x. x\<lparr>n_attemptCount := attemptsMade + 1, n_failureReason := Some (errorMessage err)\<rparr>)) (\<lambda>_.
        throw err))"

definition notificationProcessor_process ::
  "env \<Rightarrow> notificationJob \<Rightarrow> nat \<Rightarrow> date \<Rightarrow> deliveryResult action" where
  "notificationProcessor_process e job attemptsMade timestamp =
     andThen (loadNotification e timestamp (nj_data job)) (\<lambda>n.
     if n_status n = SENT then ret AlreadySent
     else
     andThen (reads (notDeliverable job)) (\<lambda>blocked.
     case blocked of
       Some s \<Rightarrow>
         andThen (deleteRows notifications notifications_update (\<lambda>x. n_id x = n_id n)) (\<lambda>_.
         ret (NotDelivered (''booking_'' @ toLowerCase (bookingStatusName s))))
     | None \<Rightarrow>
     andThen (reads (\<lambda>w. findUnique u_id (np_userId (nj_data job)) (users w))) (\<lambda>user.
     case user of
       None \<Rightarrow> throw (JsError (''User ['' @ np_userId (nj_data job) @ ''] does not exist or has no email address''))
     | Some u \<Rightarrow>
     andThen (check (u_email u \<noteq> [])
       (JsError (''User ['' @ np_userId (nj_data job) @ ''] does not exist or has no email address''))) (\<lambda>_.
     deliver e job attemptsMade n (u_email u)))))"

text \<open>The \<open>failed\<close> event of a job: \<open>optsAttempts\<close> are the attempts of the job's options, 0 when unset.\<close>

definition notificationProcessor_onFailed ::
  "env \<Rightarrow> notificationJob \<Rightarrow> nat \<Rightarrow> nat \<Rightarrow> exn \<Rightarrow> unit action" where
  "notificationProcessor_onFailed e job attemptsMade optsAttempts err =
     (let maxAttempts = (if optsAttempts = 0 then 3 else optsAttempts) in
      if attemptsMade \<ge> maxAttempts then
        (case truthy (np_notificationId (nj_data job)) of
           None \<Rightarrow> ret ()
         | Some i \<Rightarrow>
             andThen (updateRows notifications notifications_update (\<lambda>n. n_id n = i)
               (\<lambda>n. n\<lparr>n_status := NotificationStatus.FAILED, n_failedAt := Some (nowMs e),
                      n_failureReason := Some (errorMessage err), n_attemptCount := attemptsMade\<rparr>)) (\<lambda>_.
             ret ()))
      else ret ())"

section \<open>The notification service\<close>

definition notification_findByUserId :: "uuid \<Rightarrow> world \<Rightarrow> notification list" where
  "notification_findByUserId u w =
     orderDesc n_createdAt (filter (\<lambda>n. n_userId n = u) (notifications w))"

definition notification_countUnread :: "uuid \<Rightarrow> world \<Rightarrow> nat" where
  "notification_countUnread u w = countRows (\<lambda>n. n_userId n = u \<and> n_readAt n = None) (notifications w)"

text \<open>\<open>update({ where: { id, userId, readAt: null } })\<close>\<close>

definition notification_markAsRead :: "env \<Rightarrow> uuid \<Rightarrow> uuid \<Rightarrow> notification action" where
  "notification_markAsRead e i u =
     updateRow notifications notifications_update (\<lambda>_ _. None) (PrismaError P2025)
       (\<lambda>n. (n_id n, n_userId n, n_readAt n = None)) (i, u, True)
       (\<lambda>n. n\<lparr>n_readAt := Some (nowMs e)\<rparr>)"

definition notification_markAllAsRead :: "env \<Rightarrow> uuid \<Rightarrow> nat action" where
  "notification_markAllAsRead e u =
     updateRows notifications notifications_update (\<lambda>n. n_userId n = u \<and> n_readAt n = None)
       (\<lambda>n. n\<lparr>n_readAt := Some (nowMs e)\<rparr>)"

definition getUserNotifications :: "uuid \<Rightarrow> notification list action" where
  "getUserNotifications u = reads (notification_findByUserId u)"

definition getUserNotificationsUnreadCount :: "uuid \<Rightarrow> nat action" where
  "getUserNotificationsUnreadCount u = reads (notification_countUnread u)"

definition markAsRead :: "env \<Rightarrow> uuid \<Rightarrow> uuid \<Rightarrow> notification action" where
  "markAsRead e notificationId userId =
     andThen (reads (notification_findById notificationId)) (\<lambda>notification.
     case notification of
       None \<Rightarrow> throw (NotFoundException (''Notification with ID \"'' @ notificationId @ ''\" not found''))
     | Some n \<Rightarrow>
     andThen (check (n_userId n = userId)
       (NotFoundException (''Notification with ID \"'' @ notificationId @ ''\" not found''))) (\<lambda>_.
     if n_readAt n \<noteq> None then ret n
     else notification_markAsRead e notificationId userId))"

definition markAllAsRead :: "env \<Rightarrow> uuid \<Rightarrow> nat action" where
  "markAllAsRead e userId = notification_markAllAsRead e userId"

end
