(* ===== verification/Redis.thy ===== *)
theory Redis
  imports Model
begin

text \<open>
  The cache (\<open>common/cache/redis.service.ts\<close>, \<open>common/utils/cache-key-builder.util.ts\<close>,
  \<open>common/constants/cache-ttl.constant.ts\<close>). An operation on a client that is not
  ready does nothing; an entry is gone once its time to live has passed.
\<close>

section \<open>Definitions\<close>

definition liveEntry :: "env \<Rightarrow> string \<Rightarrow> world \<Rightarrow> cacheEntry option" where
  "liveEntry e key w = (case redis w key of
     None \<Rightarrow> None
   | Some en \<Rightarrow> (case ce_expiresAt en of
       None \<Rightarrow> Some en
     | Some t \<Rightarrow> if t \<le> nowMs e then None else Some en))"

definition liveValue :: "env \<Rightarrow> world \<Rightarrow> string \<Rightarrow> cacheValue option" where
  "liveValue e w key = map_option ce_value (liveEntry e key w)"

definition storeValue :: "env \<Rightarrow> int \<Rightarrow> string \<Rightarrow> cacheValue \<Rightarrow> world \<Rightarrow> world" where
  "storeValue e ttlSeconds key v w = w\<lparr>redis := (redis w)(key \<mapsto>
     \<lparr>ce_value = v, ce_expiresAt = Some (nowMs e + ttlSeconds * 1000)\<rparr>)\<rparr>"

definition dropKey :: "string \<Rightarrow> world \<Rightarrow> world" where
  "dropKey key w = w\<lparr>redis := (redis w)(key := None)\<rparr>"

definition redis_get :: "env \<Rightarrow> string \<Rightarrow> cacheValue option action" where
  "redis_get e key = reads (\<lambda>w.
     if \<not> redisReady e then None else liveValue e w key)"

definition redis_set :: "env \<Rightarrow> string \<Rightarrow> cacheValue \<Rightarrow> int \<Rightarrow> unit action" where
  "redis_set e key v ttlSeconds =
     (if \<not> redisReady e then ret () else modify (storeValue e ttlSeconds key v))"

definition redis_del :: "env \<Rightarrow> string \<Rightarrow> unit action" where
  "redis_del e key =
     (if \<not> redisReady e then ret () else modify (dropKey key))"

text \<open>\<open>keys(pattern)\<close> is answered by the server: \<open>matches\<close> are the keys of the pattern.\<close>

definition redis_delByPattern :: "env \<Rightarrow> (string \<Rightarrow> bool) \<Rightarrow> unit action" where
  "redis_delByPattern e matches =
     (if \<not> redisReady e then ret ()
      else modify (\<lambda>w. w\<lparr>redis := (\<lambda>k. if matches k then None else redis w k)\<rparr>))"

definition getOrSet :: "env \<Rightarrow> string \<Rightarrow> cacheValue action \<Rightarrow> int \<Rightarrow> cacheValue action" where
  "getOrSet e key fetchFn ttlSeconds =
     andThen (redis_get e key) (\<lambda>cached.
     case cached of
       Some v \<Rightarrow> ret v
     | None \<Rightarrow>
         andThen fetchFn (\<lambda>freshData.
         andThen (redis_set e key freshData ttlSeconds) (\<lambda>_.
         ret freshData)))"

definition versionKey :: string where "versionKey = ''providers:version''"

definition getSearchVersion :: "env \<Rightarrow> int action" where
  "getSearchVersion e =
     andThen (redis_get e versionKey) (\<lambda>version.
     ret (case version of Some (CVersion n) \<Rightarrow> if n = 0 then 1 else n | _ \<Rightarrow> 1))"

text \<open>\<open>INCR\<close> starts a missing counter at 0 and keeps the expiry of an existing one.\<close>

definition incrementSearchVersion :: "env \<Rightarrow> unit action" where
  "incrementSearchVersion e =
     (if \<not> redisReady e then ret ()
      else modify (\<lambda>w. case liveEntry e versionKey w of
          None \<Rightarrow> w\<lparr>redis := (redis w)(versionKey \<mapsto> \<lparr>ce_value = CVersion 1, ce_expiresAt = None\<rparr>)\<rparr>
        | Some en \<Rightarrow> (case ce_value en of
            CVersion n \<Rightarrow> w\<lparr>redis := (redis w)(versionKey \<mapsto> en\<lparr>ce_value := CVersion (n + 1)\<rparr>)\<rparr>
          | _ \<Rightarrow> w)))"

definition CACHE_TTL_CATEGORIES :: int where "CACHE_TTL_CATEGORIES = 60 * 60"
definition CACHE_TTL_SERVICES :: int where "CACHE_TTL_SERVICES = 60 * 60"
definition CACHE_TTL_PROVIDER_DETAIL :: int where "CACHE_TTL_PROVIDER_DETAIL = 5 * 60"
definition CACHE_TTL_SEARCH_RESULTS :: int where "CACHE_TTL_SEARCH_RESULTS = 2 * 60"

section \<open>The contract of the cache\<close>

text \<open>
  What a reader of the cache relies on. \<open>view\<close> is what the cache answers for a
  key; a write is visible until it expires or is deleted, a deletion hides the
  key, and neither touches another key or any table.
\<close>

locale cache =
  fixes view :: "'s \<Rightarrow> 'k \<Rightarrow> 'v option"
    and put :: "'k \<Rightarrow> 'v \<Rightarrow> 's \<Rightarrow> 's"
    and drop_key :: "'k \<Rightarrow> 's \<Rightarrow> 's"
  assumes view_put: "view (put k v s) k' = (if k' = k then Some v else view s k')"
    and view_drop: "view (drop_key k s) k' = (if k' = k then None else view s k')"
begin

text \<open>Read-through: answer from the cache or compute and store.\<close>

definition read_through :: "'k \<Rightarrow> ('s \<Rightarrow> 'v) \<Rightarrow> 's \<Rightarrow> 'v \<times> 's" where
  "read_through k f s = (case view s k of Some v \<Rightarrow> (v, s) | None \<Rightarrow> (f s, put k (f s) s))"

lemma read_through_again: "fst (read_through k g (snd (read_through k f s))) = fst (read_through k f s)"
  by (auto simp: read_through_def view_put split: option.split)

lemma read_through_fresh: "fst (read_through k f (drop_key k s)) = f (drop_key k s)"
  by (simp add: read_through_def view_drop)

lemma drop_put: "view (drop_key k (put k v s)) k = None"
  by (simp add: view_drop)

end

text \<open>The Redis client with a positive time to live implements the contract.\<close>

interpretation redisCache: cache "liveValue e" "storeValue e (1 + int n)" dropKey for e n
  by unfold_locales (auto simp: liveValue_def liveEntry_def storeValue_def dropKey_def)

lemma positive_ttl:
  assumes "0 < ttl"
  obtains n where "ttl = 1 + int n"
  using assms that [of "nat (ttl - 1)"] by simp

text \<open>\<open>getOrSet\<close> of a query that only reads is the read-through of the contract.\<close>

lemma getOrSet_read_through:
  assumes "redisReady e" and "ttl = 1 + int n"
  shows "getOrSet e key (reads f) ttl w =
    (Inr (fst (redisCache.read_through e n key f w)), snd (redisCache.read_through e n key f w))"
  using assms
  by (simp add: getOrSet_def redis_get_def redis_set_def andThen_run reads_app ret_app modify_app
      redisCache.read_through_def split: option.split)

section \<open>The search version\<close>

lemma getSearchVersion_app:
  "getSearchVersion e w =
     (Inr (case (if redisReady e then liveValue e w versionKey else None) of
             Some (CVersion n) \<Rightarrow> if n = 0 then 1 else n | _ \<Rightarrow> 1), w)"
  by (simp add: getSearchVersion_def redis_get_def andThen_run reads_app ret_app)

text \<open>Incrementing always succeeds and writes nothing but the cache.\<close>

lemma incrementSearchVersion_app:
  "incrementSearchVersion e w = (Inr (), w\<lparr>redis := redis (snd (incrementSearchVersion e w))\<rparr>)"
  by (simp add: incrementSearchVersion_def run_simps split: option.split cacheValue.split)

text \<open>A cached version counter moves on with every increment.\<close>

lemma incrementSearchVersion_counts:
  assumes "redisReady e" and "liveValue e w versionKey = Some (CVersion n)"
  shows "liveValue e (snd (incrementSearchVersion e w)) versionKey = Some (CVersion (n + 1))"
  using assms
  by (auto simp: incrementSearchVersion_def liveValue_def liveEntry_def modify_app
      split: option.splits if_splits)

end
