(* ===== verification/Availability.thy ===== *)
theory Availability
  imports Redis Repositories JsText
begin

text \<open>
  The weekly schedule of a provider and the slots offered from it
  (\<open>modules/provider/services/provider-availability.service.ts\<close>,
  \<open>modules/provider/repositories/provider-availability.repositor.ts\<close>).
\<close>

section \<open>Requests\<close>

record availabilityIntervalDto =
  ai_weekday :: int
  ai_startTime :: string
  ai_endTime :: string
  ai_isAvailable :: bool

record querySlotDto =
  qs_date :: string
  qs_serviceId :: uuid

section \<open>Validation of a schedule\<close>

text \<open>Comparisons of numbers that may be \<open>NaN\<close>, which is \<open>None\<close>.\<close>

definition numGe :: "int option \<Rightarrow> int option \<Rightarrow> bool" where
  "numGe a b = (case (a, b) of (Some x, Some y) \<Rightarrow> x \<ge> y | _ \<Rightarrow> False)"

definition numGt :: "int option \<Rightarrow> int option \<Rightarrow> bool" where
  "numGt a b = (case (a, b) of (Some x, Some y) \<Rightarrow> x > y | _ \<Rightarrow> False)"

definition numMinus :: "int option \<Rightarrow> int option \<Rightarrow> int option" where
  "numMinus a b = (case (a, b) of (Some x, Some y) \<Rightarrow> Some (x - y) | _ \<Rightarrow> None)"

definition numText :: "int option \<Rightarrow> string" where
  "numText a = (case a of None \<Rightarrow> ''NaN'' | Some n \<Rightarrow> intString n)"

definition startsAtMinute :: "availabilityIntervalDto \<Rightarrow> int option" where
  "startsAtMinute i = timeToMinutes (ai_startTime i)"

definition endsAtMinute :: "availabilityIntervalDto \<Rightarrow> int option" where
  "endsAtMinute i = timeToMinutes (ai_endTime i)"

text \<open>
  \<open>intervals.sort((a, b) => timeToMinutes(a.startTime) - timeToMinutes(b.startTime))\<close>,
  a stable sort. Request validation admits only times that are numbers; on \<open>NaN\<close>
  the order of \<open>sort\<close> is not specified, and the model puts these first.
\<close>

definition sortByStart :: "availabilityIntervalDto list \<Rightarrow> availabilityIntervalDto list" where
  "sortByStart t = sort_key (\<lambda>i. case startsAtMinute i of None \<Rightarrow> -1 | Some m \<Rightarrow> m) t"

definition intervalText :: "string \<Rightarrow> availabilityIntervalDto \<Rightarrow> string" where
  "intervalText sep i = ''['' @ ai_startTime i @ sep @ ai_endTime i @ '']''"

text \<open>The body of the loop for an interval and the one after it in the sorted list.\<close>

definition intervalError ::
  "string \<Rightarrow> int option \<Rightarrow> availabilityIntervalDto \<Rightarrow> availabilityIntervalDto option \<Rightarrow> exn option" where
  "intervalError weekday minRequiredMinutes current nxt =
     (let start = startsAtMinute current; end = endsAtMinute current;
          windowMinutes = numMinus end start in
      if numGe start end then
        Some (BadRequestException (''Invalid time range '' @ intervalText '' -> '' current @
          '' on weekday '' @ weekday @ ''. Start time must be strictly before end time.''))
      else if (case minRequiredMinutes of None \<Rightarrow> False | Some m \<Rightarrow> m \<noteq> 0 \<and> numGt (Some m) windowMinutes) then
        Some (BadRequestException (''Availability window '' @ intervalText '' -> '' current @ '' ('' @
          numText windowMinutes @ '' mins) on weekday '' @ weekday @
          '' is too short to accommodate the minimum required service duration + buffer ('' @
          numText minRequiredMinutes @ '' mins)''))
      else (case nxt of
          None \<Rightarrow> None
        | Some n \<Rightarrow>
            if ai_startTime current = ai_startTime n \<and> ai_endTime current = ai_endTime n then
              Some (BadRequestException (''Duplicate availability interval '' @
                intervalText '' -> '' current @ '' on weekday '' @ weekday))
            else if numGt end (startsAtMinute n) then
              Some (BadRequestException (''Overlapping time intervals on weekday '' @ weekday @ '': '' @
                intervalText ''-'' current @ '' conflicts with '' @ intervalText ''-'' n))
            else None))"

text \<open>\<open>for (let i = 0; i < intervals.length; i++)\<close>\<close>

fun checkIntervals :: "string \<Rightarrow> int option \<Rightarrow> availabilityIntervalDto list \<Rightarrow> exn option" where
  "checkIntervals weekday m [] = None"
| "checkIntervals weekday m [i] = intervalError weekday m i None"
| "checkIntervals weekday m (i # j # rest) =
     (case intervalError weekday m i (Some j) of
        Some err \<Rightarrow> Some err
      | None \<Rightarrow> checkIntervals weekday m (j # rest))"

text \<open>
  \<open>Object.entries(Object.groupBy(schedule, item => item.weekday))\<close>: the groups in
  ascending order of the integer keys, each in the order of the schedule.
\<close>

definition groupByWeekday ::
  "availabilityIntervalDto list \<Rightarrow> (int \<times> availabilityIntervalDto list) list" where
  "groupByWeekday schedule =
     map (\<lambda>d. (d, filter (\<lambda>i. ai_weekday i = d) schedule))
       (sort (remdups (map ai_weekday schedule)))"

fun firstError :: "('a \<Rightarrow> exn option) \<Rightarrow> 'a list \<Rightarrow> exn option" where
  "firstError f [] = None"
| "firstError f (x # xs) = (case f x of Some err \<Rightarrow> Some err | None \<Rightarrow> firstError f xs)"

definition validateSchedules :: "availabilityIntervalDto list \<Rightarrow> int option \<Rightarrow> exn option" where
  "validateSchedules schedule minRequiredMinutes =
     firstError (\<lambda>(weekday, intervals).
       checkIntervals (intString weekday) minRequiredMinutes (sortByStart intervals))
       (groupByWeekday schedule)"

section \<open>Reading and replacing the schedule\<close>

text \<open>\<open>createMany\<close> inserts the rows in order, each with a new identifier.\<close>

fun availability_createMany :: "env \<Rightarrow> uuid \<Rightarrow> availabilityIntervalDto list \<Rightarrow> nat action" where
  "availability_createMany e providerId [] = ret 0"
| "availability_createMany e providerId (s # ss) =
     andThen (drawUuid e) (\<lambda>i.
     andThen (insertRow availabilities availabilities_update (idViolation av_id)
       \<lparr>av_id = i, av_providerId = providerId, av_weekday = ai_weekday s,
        av_startTime = ai_startTime s, av_endTime = ai_endTime s, av_isAvailable = ai_isAvailable s\<rparr>) (\<lambda>_.
     andThen (availability_createMany e providerId ss) (\<lambda>n. ret (Suc n))))"

definition replaceAvailibityTransaction ::
  "env \<Rightarrow> uuid \<Rightarrow> availabilityIntervalDto list \<Rightarrow> (nat \<times> nat) action" where
  "replaceAvailibityTransaction e providerId schedules =
     transaction
       (andThen (deleteRows availabilities availabilities_update (\<lambda>a. av_providerId a = providerId)) (\<lambda>d.
        andThen (availability_createMany e providerId schedules) (\<lambda>c.
        ret (d, c))))"

definition getAvailibity :: "uuid \<Rightarrow> availability list action" where
  "getAvailibity providerId = reads (availability_findByProviderId providerId)"

text \<open>\<open>Math.min\<close> over the active offerings; \<open>undefined\<close> when there is none.\<close>

definition minReqMinutes :: "providerService list \<Rightarrow> int option" where
  "minReqMinutes offerings =
     (let active = filter ps_isActive offerings in
      if active = [] then None
      else Some (Min (set (map (\<lambda>s. ps_durationMinutes s + ps_bufferMinutes s) active))))"

definition setAvailibity :: "env \<Rightarrow> uuid \<Rightarrow> availabilityIntervalDto list \<Rightarrow> (nat \<times> nat) action" where
  "setAvailibity e providerId schedules =
     andThen (reads (providerService_findByProviderId providerId)) (\<lambda>offerings.
     case validateSchedules schedules (minReqMinutes offerings) of
       Some err \<Rightarrow> throw err
     | None \<Rightarrow>
     andThen (replaceAvailibityTransaction e providerId schedules) (\<lambda>result.
     andThen (incrementSearchVersion e) (\<lambda>_.
     ret result)))"

section \<open>Slots\<close>

record slot =
  sl_startsAt :: string
  sl_endsAt :: string
  sl_available :: bool

record slotPage =
  sp_date :: string
  sp_id :: uuid
  sp_serviceId :: uuid
  sp_durationMinutes :: int
  sp_bufferMinutes :: int
  sp_slots :: "slot list"

definition formatISOString :: "string \<Rightarrow> string \<Rightarrow> string" where
  "formatISOString dateStr timeStr = dateStr @ ''T'' @ timeStr @ '':00+05:30''"

definition slotAt :: "string \<Rightarrow> int \<Rightarrow> int \<Rightarrow> slot" where
  "slotAt date currentStart slotEndMinutes =
     \<lparr>sl_startsAt = formatISOString date (minutesToTimeString currentStart),
      sl_endsAt = formatISOString date (minutesToTimeString slotEndMinutes),
      sl_available = True\<rparr>"

text \<open>
  The \<open>while\<close> loop of one window, as the minutes at which its slots start. It does
  not end when a slot fits and duration and buffer add up to zero or less: no value.
\<close>

partial_function (option) slotStarts :: "int \<Rightarrow> int \<Rightarrow> int \<Rightarrow> int \<Rightarrow> int list option" where
  "slotStarts durationMinutes bufferMinutes windowEnd currentStart =
     (if currentStart + durationMinutes \<le> windowEnd then
        Option.bind
          (slotStarts durationMinutes bufferMinutes windowEnd
             (currentStart + (durationMinutes + bufferMinutes)))
          (\<lambda>rest. Some (currentStart # rest))
      else Some [])"

text \<open>The slots of one window; a window with a malformed time compares as \<open>NaN\<close> and has none.\<close>

definition windowSlots :: "string \<Rightarrow> providerService \<Rightarrow> availability \<Rightarrow> slot list option" where
  "windowSlots date ps window =
     (case (timeToMinutes (av_startTime window), timeToMinutes (av_endTime window)) of
        (Some windowStart, Some windowEnd) \<Rightarrow>
          map_option (map (\<lambda>m. slotAt date m (m + ps_durationMinutes ps)))
            (slotStarts (ps_durationMinutes ps) (ps_bufferMinutes ps) windowEnd windowStart)
      | _ \<Rightarrow> Some [])"

fun allSlots :: "string \<Rightarrow> providerService \<Rightarrow> availability list \<Rightarrow> slot list option" where
  "allSlots date ps [] = Some []"
| "allSlots date ps (window # windows) =
     (case windowSlots date ps window of
        None \<Rightarrow> None
      | Some s \<Rightarrow> map_option (\<lambda>rest. s @ rest) (allSlots date ps windows))"

text \<open>The result is \<open>None\<close> when the call does not return.\<close>

definition generateSlot :: "env \<Rightarrow> uuid \<Rightarrow> querySlotDto \<Rightarrow> slotPage option action" where
  "generateSlot e providerId q =
     (case parseDate e (qs_date q @ ''T00:00:00Z'') of
        None \<Rightarrow> throw (JsError ''Invalid Date'')
      | Some queryDate \<Rightarrow>
     andThen (check (setUTCHours (nowMs e) 0 0 0 0 \<le> queryDate)
       (BadRequestException ''Past dates are not allowed for available slot queries'')) (\<lambda>_.
     andThen (reads (providerService_findByProviderAndServiceId providerId (qs_serviceId q))) (\<lambda>providerService.
     andThen (reads (availability_findByProviderIdAndWeekday providerId (getUTCDay queryDate))) (\<lambda>windows.
     case providerService of
       None \<Rightarrow> throw (NotFoundException ''Provider service offering not found or inactive'')
     | Some ps \<Rightarrow>
     andThen (check (ps_isActive ps)
       (NotFoundException ''Provider service offering not found or inactive'')) (\<lambda>_.
     ret (map_option (\<lambda>slots.
       \<lparr>sp_date = qs_date q, sp_id = ps_id ps, sp_serviceId = ps_serviceId ps,
        sp_durationMinutes = ps_durationMinutes ps, sp_bufferMinutes = ps_bufferMinutes ps,
        sp_slots = slots\<rparr>) (allSlots (qs_date q) ps windows)))))))"

section \<open>The slots of a window\<close>

text \<open>When duration and buffer add up to more than zero, the loop ends.\<close>

lemma slotStarts_steps:
  assumes "0 < d + b"
  shows "\<exists>n. slotStarts d b e s = Some (map (\<lambda>k. s + int k * (d + b)) [0..<n])
    \<and> (\<forall>k < n. s + int k * (d + b) + d \<le> e) \<and> e < s + int n * (d + b) + d"
proof (induction "nat (e - s - d + 1)" arbitrary: s rule: less_induct)
  case less
  show ?case
  proof (cases "s + d \<le> e")
    case False
    then show ?thesis by (intro exI [of _ 0]) (simp add: slotStarts.simps)
  next
    case True
    with assms have "nat (e - (s + (d + b)) - d + 1) < nat (e - s - d + 1)" by linarith
    from less [OF this] obtain n where
      n: "slotStarts d b e (s + (d + b)) = Some (map (\<lambda>k. s + (d + b) + int k * (d + b)) [0..<n])"
        "\<forall>k < n. s + (d + b) + int k * (d + b) + d \<le> e" "e < s + (d + b) + int n * (d + b) + d"
      by blast
    have eq: "s # map (\<lambda>k. s + (d + b) + int k * (d + b)) [0..<n] =
        map (\<lambda>k. s + int k * (d + b)) [0..<Suc n]"
      by (simp only: upt_conv_Cons map_Suc_upt [symmetric]) (simp add: algebra_simps)
    have "s + int k * (d + b) + d \<le> e" if "k < Suc n" for k
      using n(2) [rule_format, of "k - 1"] True that by (cases k) (auto simp: algebra_simps)
    moreover have "e < s + int (Suc n) * (d + b) + d" using n(3) by (simp add: algebra_simps)
    moreover have "slotStarts d b e s = Some (map (\<lambda>k. s + int k * (d + b)) [0..<Suc n])"
      using True n(1) by (simp only: eq [symmetric]) (simp add: slotStarts.simps [of d b e s])
    ultimately show ?thesis by blast
  qed
qed

text \<open>When they do not, and a slot fits, the loop never ends.\<close>

lemma slotStarts_diverges:
  assumes "d + b \<le> 0" and "s + d \<le> e"
  shows "slotStarts d b e s = None"
proof (rule ccontr)
  assume "slotStarts d b e s \<noteq> None"
  then obtain xs where "slotStarts d b e s = Some xs" by blast
  then have "\<not> (d + b \<le> 0 \<and> s + d \<le> e)"
  proof (rule slotStarts.raw_induct [where P = "\<lambda>d b e s _. \<not> (d + b \<le> 0 \<and> s + d \<le> e)", rotated])
    fix f :: "int \<Rightarrow> int \<Rightarrow> int \<Rightarrow> int \<Rightarrow> int list option" and d b e s :: int and xs
    assume IH: "\<And>d b e s xs. f d b e s = Some xs \<Longrightarrow> \<not> (d + b \<le> 0 \<and> s + d \<le> e)"
      and body: "(if s + d \<le> e then Option.bind (f d b e (s + (d + b))) (\<lambda>rest. Some (s # rest))
        else Some []) = Some xs"
    show "\<not> (d + b \<le> 0 \<and> s + d \<le> e)"
    proof
      assume le: "d + b \<le> 0 \<and> s + d \<le> e"
      then obtain r where "f d b e (s + (d + b)) = Some r"
        using body by (auto split: Option.bind_splits)
      from IH [OF this] le show False by linarith
    qed
  qed
  with assms show False by blast
qed

section \<open>What a valid schedule is\<close>

text \<open>Two intervals that do not overlap, and an interval that is long enough.\<close>

definition apart :: "availabilityIntervalDto \<Rightarrow> availabilityIntervalDto \<Rightarrow> bool" where
  "apart a b \<longleftrightarrow> the (endsAtMinute a) \<le> the (startsAtMinute b) \<or> the (endsAtMinute b) \<le> the (startsAtMinute a)"

definition wellFormed :: "availabilityIntervalDto \<Rightarrow> bool" where
  "wellFormed i \<longleftrightarrow> startsAtMinute i \<noteq> None \<and> endsAtMinute i \<noteq> None"

definition longEnough :: "int option \<Rightarrow> availabilityIntervalDto \<Rightarrow> bool" where
  "longEnough m i \<longleftrightarrow> the (startsAtMinute i) < the (endsAtMinute i)
     \<and> (case m of None \<Rightarrow> True | Some k \<Rightarrow> k = 0 \<or> k \<le> the (endsAtMinute i) - the (startsAtMinute i))"

lemma apart_sym: "apart a b \<Longrightarrow> apart b a"
  by (auto simp: apart_def)

lemma numOp_Some [simp]:
  "numGe (Some x) (Some y) \<longleftrightarrow> x \<ge> y" "numGt (Some x) (Some y) \<longleftrightarrow> x > y"
  "numMinus (Some x) (Some y) = Some (x - y)"
  by (simp_all add: numGe_def numGt_def numMinus_def)

lemma wellFormedE:
  assumes "wellFormed i"
  obtains s t where "startsAtMinute i = Some s" and "endsAtMinute i = Some t"
  using assms by (auto simp: wellFormed_def)

text \<open>The checks of one interval: the duplicate check adds nothing to the overlap check.\<close>

lemma intervalError_last:
  assumes "wellFormed i"
  shows "intervalError wd m i None = None \<longleftrightarrow> longEnough m i"
  using assms by (rule wellFormedE) (auto simp: intervalError_def longEnough_def Let_def split: option.split)

lemma intervalError_next:
  assumes "wellFormed i" and "wellFormed j"
  shows "intervalError wd m i (Some j) = None \<longleftrightarrow>
    longEnough m i \<and> the (endsAtMinute i) \<le> the (startsAtMinute j)"
proof -
  obtain s t where i: "startsAtMinute i = Some s" "endsAtMinute i = Some t"
    using assms(1) by (rule wellFormedE)
  obtain s' t' where j: "startsAtMinute j = Some s'" "endsAtMinute j = Some t'"
    using assms(2) by (rule wellFormedE)
  have "ai_startTime i = ai_startTime j \<Longrightarrow> s' = s"
    using i(1) j(1) by (simp add: startsAtMinute_def)
  then show ?thesis
    using i j by (auto simp: intervalError_def longEnough_def Let_def split: option.split)
qed

lemma checkIntervals_sorted:
  assumes "\<forall>i \<in> set t. wellFormed i" and "sorted (map (\<lambda>i. the (startsAtMinute i)) t)"
  shows "checkIntervals wd m t = None \<longleftrightarrow> (\<forall>i \<in> set t. longEnough m i) \<and> sorted_wrt apart t"
  using assms
proof (induction wd m t rule: checkIntervals.induct)
  case (3 wd m i j rest)
  have IH: "checkIntervals wd m (j # rest) = None \<longleftrightarrow>
      (\<forall>k \<in> set (j # rest). longEnough m k) \<and> sorted_wrt apart (j # rest)"
    if "intervalError wd m i (Some j) = None"
    using "3.IH" [OF that] "3.prems" by simp
  have "intervalError wd m i (Some j) = None \<longleftrightarrow>
      longEnough m i \<and> the (endsAtMinute i) \<le> the (startsAtMinute j)"
    using "3.prems"(1) by (intro intervalError_next) auto
  moreover have "(\<forall>k \<in> set (j # rest). apart i k) \<longleftrightarrow> the (endsAtMinute i) \<le> the (startsAtMinute j)"
    if "longEnough m i" "\<forall>k \<in> set (j # rest). longEnough m k"
    using "3.prems"(2) that by (fastforce simp: apart_def longEnough_def)
  ultimately show ?case
    using IH by (auto split: option.split)
qed (simp_all add: intervalError_last)

lemma sorted_wrt_insort:
  assumes "\<And>a b. R a b \<Longrightarrow> R b a"
  shows "sorted_wrt R (insort_key f x t) \<longleftrightarrow> (\<forall>y \<in> set t. R x y) \<and> sorted_wrt R t"
  using assms by (induction t) (auto simp: set_insort_key)

lemma sorted_wrt_sort_key:
  assumes "\<And>a b. R a b \<Longrightarrow> R b a"
  shows "sorted_wrt R (sort_key f t) \<longleftrightarrow> sorted_wrt R t"
  by (induction t) (simp_all add: sorted_wrt_insort [of R, OF assms])

lemma sorted_wrt_groups:
  "sorted_wrt (\<lambda>a b. g a = g b \<longrightarrow> R a b) t \<longleftrightarrow> (\<forall>d. sorted_wrt R (filter (\<lambda>x. g x = d) t))"
proof (induction t)
  case (Cons x t)
  have "(\<forall>d. sorted_wrt R (filter (\<lambda>y. g y = d) (x # t))) \<longleftrightarrow>
      (\<forall>y \<in> set t. g x = g y \<longrightarrow> R x y) \<and> (\<forall>d. sorted_wrt R (filter (\<lambda>y. g y = d) t))"
    (is "?l \<longleftrightarrow> ?r")
  proof
    assume l: ?l
    have "sorted_wrt R (filter (\<lambda>y. g y = d) t)" for d
      using l [rule_format, of d] by (cases "g x = d") simp_all
    moreover have "\<forall>y \<in> set t. g x = g y \<longrightarrow> R x y"
      using l [rule_format, of "g x"] by auto
    ultimately show ?r by blast
  qed auto
  with Cons.IH show ?case by simp
qed simp

lemma firstError_None: "firstError f t = None \<longleftrightarrow> (\<forall>x \<in> set t. f x = None)"
  by (induction t) (auto split: option.split)

lemma sortByStart_sorted:
  assumes "\<forall>i \<in> set t. wellFormed i"
  shows "sorted (map (\<lambda>i. the (startsAtMinute i)) (sortByStart t))"
proof -
  let ?k = "\<lambda>i. case startsAtMinute i of None \<Rightarrow> -1 | Some m \<Rightarrow> m"
  have "map (\<lambda>i. the (startsAtMinute i)) (sortByStart t) = map ?k (sortByStart t)"
    using assms by (intro map_cong) (auto simp: sortByStart_def wellFormed_def)
  moreover have "sorted (map ?k (sortByStart t))" by (simp add: sortByStart_def)
  ultimately show ?thesis by (simp only:)
qed

lemma validateSchedules_iff:
  assumes "\<forall>i \<in> set t. wellFormed i"
  shows "validateSchedules t m = None \<longleftrightarrow>
    (\<forall>i \<in> set t. longEnough m i) \<and> sorted_wrt (\<lambda>a b. ai_weekday a = ai_weekday b \<longrightarrow> apart a b) t"
proof -
  have day: "checkIntervals wd m (sortByStart (filter (\<lambda>i. ai_weekday i = d) t)) = None \<longleftrightarrow>
      (\<forall>i \<in> set t. ai_weekday i = d \<longrightarrow> longEnough m i)
      \<and> sorted_wrt apart (filter (\<lambda>i. ai_weekday i = d) t)" for wd d
    using assms
    by (subst checkIntervals_sorted)
      (auto simp: sortByStart_def sorted_wrt_sort_key [OF apart_sym] intro: sortByStart_sorted [unfolded sortByStart_def])
  have none: "filter (\<lambda>i. ai_weekday i = d) t = []" if "d \<notin> ai_weekday ` set t" for d
    using that by (auto simp: filter_empty_conv)
  have "validateSchedules t m = None \<longleftrightarrow>
      (\<forall>i \<in> set t. longEnough m i) \<and> (\<forall>d. sorted_wrt apart (filter (\<lambda>i. ai_weekday i = d) t))"
    (is "_ \<longleftrightarrow> ?r")
  proof
    assume "validateSchedules t m = None"
    then have all: "\<forall>i \<in> set t. (\<forall>j \<in> set t. ai_weekday j = ai_weekday i \<longrightarrow> longEnough m j)
        \<and> sorted_wrt apart (filter (\<lambda>j. ai_weekday j = ai_weekday i) t)"
      by (simp add: validateSchedules_def groupByWeekday_def firstError_None day)
    then have "sorted_wrt apart (filter (\<lambda>i. ai_weekday i = d) t)" for d
      using none by (cases "d \<in> ai_weekday ` set t") auto
    with all show ?r by blast
  qed (simp add: validateSchedules_def groupByWeekday_def firstError_None day)
  then show ?thesis by (simp add: sorted_wrt_groups)
qed

end
