(* ===== verification/Catalog.thy ===== *)
theory Catalog
  imports Redis Repositories JsText
begin

text \<open>
  The catalogue (\<open>modules/catalog/services/category.service.ts\<close>,
  \<open>modules/catalog/services/service.service.ts\<close> and their repositories) and the slugs of
  its entries (\<open>common/utils/slug.util.ts\<close>).
\<close>

section \<open>Slugs\<close>

text \<open>\<open>s.replace(/p+/g, "-")\<close> for a class of characters \<open>p\<close>: one hyphen for each run.\<close>

fun hyphenRuns :: "(char \<Rightarrow> bool) \<Rightarrow> string \<Rightarrow> string" where
  "hyphenRuns p [] = []"
| "hyphenRuns p [c] = (if p c then ''-'' else [c])"
| "hyphenRuns p (c # d # cs) =
     (if p c then (if p d then hyphenRuns p (d # cs) else CHR ''-'' # hyphenRuns p (d # cs))
      else c # hyphenRuns p (d # cs))"

definition isSlugChar :: "char \<Rightarrow> bool" where
  "isSlugChar c \<longleftrightarrow> (let n = (of_char c :: nat) in
     97 \<le> n \<and> n \<le> 122 \<or> 48 \<le> n \<and> n \<le> 57 \<or> c = CHR '' '' \<or> c = CHR ''-'')"

definition generateSlug :: "string \<Rightarrow> string" where
  "generateSlug txt =
     hyphenRuns (\<lambda>c. c = CHR ''-'')
       (hyphenRuns isSpace (filter isSlugChar (trim (toLowerCase txt))))"

section \<open>Requests\<close>

record createCategoryDto =
  cc_name :: string
  cc_description :: "string option"
  cc_icon :: "string option"
  cc_displayOrder :: int
  cc_isActive :: bool

record updateCategoryDto =
  uc_name :: "string option"
  uc_description :: "string option"
  uc_icon :: "string option"
  uc_displayOrder :: "int option"
  uc_isActive :: "bool option"

record categoryQuery =
  cq_page :: "int option"
  cq_limit :: "int option"
  cq_search :: "string option"
  cq_includeInactive :: "bool option"

record createServiceDto =
  cs_categoryId :: uuid
  cs_name :: string
  cs_description :: "string option"
  cs_serviceMode :: ServiceMode
  cs_defaultDuration :: "int option"

record updateServiceDto =
  us_categoryId :: "uuid option"
  us_name :: "string option"
  us_description :: "string option"
  us_defaultDuration :: "int option"

record serviceQuery =
  sq_categoryId :: "string option"
  sq_search :: "string option"
  sq_page :: "int option"
  sq_limit :: "int option"

section \<open>Repositories\<close>

text \<open>\<open>{ contains: search, mode: "insensitive" }\<close>, left out when there is no text.\<close>

definition containsInsensitive :: "string option \<Rightarrow> string \<Rightarrow> bool" where
  "containsInsensitive search v \<longleftrightarrow>
     (case truthy search of None \<Rightarrow> True | Some s \<Rightarrow> includesText (toLowerCase v) (toLowerCase s))"

text \<open>A column that an update leaves as it is when the field is not given.\<close>

definition given :: "'a option \<Rightarrow> 'a \<Rightarrow> 'a" where
  "given x old = (case x of None \<Rightarrow> old | Some v \<Rightarrow> v)"

definition givenOpt :: "'a option \<Rightarrow> 'a option \<Rightarrow> 'a option" where
  "givenOpt x old = (case x of None \<Rightarrow> old | Some v \<Rightarrow> Some v)"

definition categoryViolation :: "category \<Rightarrow> category list \<Rightarrow> exn option" where
  "categoryViolation r t =
     (if cat_id r \<in> cat_id ` set t \<or> cat_name r \<in> cat_name ` set t \<or> cat_slug r \<in> cat_slug ` set t
      then Some (PrismaError P2002) else None)"

definition category_findAllPaginated :: "categoryQuery \<Rightarrow> world \<Rightarrow> category paginated" where
  "category_findAllPaginated q w =
     (let page = orInt (cq_page q) 1; limit = orInt (cq_limit q) 10;
          includeInactive = (case cq_includeInactive q of None \<Rightarrow> False | Some b \<Rightarrow> b);
          rows = filter (\<lambda>c. (includeInactive \<or> cat_isActive c)
            \<and> containsInsensitive (cq_search q) (cat_name c)) (categories w)
      in paginate
           (pageRows page limit (orderAsc cat_displayOrder (orderDesc cat_createdAt rows)))
           (length rows) page limit)"

definition category_findById :: "uuid \<Rightarrow> world \<Rightarrow> category option" where
  "category_findById i w = findUnique cat_id i (categories w)"

definition category_findBySlug :: "string \<Rightarrow> world \<Rightarrow> category option" where
  "category_findBySlug s w = findUnique cat_slug s (categories w)"

definition category_create :: "env \<Rightarrow> createCategoryDto \<Rightarrow> string \<Rightarrow> category action" where
  "category_create e dto slug =
     andThen (drawUuid e) (\<lambda>i.
       insertRow categories categories_update categoryViolation
         \<lparr>cat_id = i, cat_name = cc_name dto, cat_slug = slug, cat_icon = cc_icon dto,
          cat_description = cc_description dto, cat_displayOrder = cc_displayOrder dto,
          cat_isActive = cc_isActive dto, cat_createdAt = nowMs e\<rparr>)"

definition category_update :: "uuid \<Rightarrow> (category \<Rightarrow> category) \<Rightarrow> category action" where
  "category_update i f =
     updateRow categories categories_update categoryViolation (PrismaError P2025) cat_id i f"

definition category_delete :: "uuid \<Rightarrow> category action" where
  "category_delete i = category_update i (\<lambda>c. c\<lparr>cat_isActive := False\<rparr>)"

definition hasService :: "uuid \<Rightarrow> world \<Rightarrow> bool" where
  "hasService categoryId w \<longleftrightarrow>
     countRows (\<lambda>s. sv_categoryId s = categoryId \<and> sv_isActive s) (services w) > 0"

definition serviceViolation :: "service \<Rightarrow> service list \<Rightarrow> exn option" where
  "serviceViolation r t =
     (if sv_id r \<in> sv_id ` set t \<or>
         (sv_categoryId r, sv_name r) \<in> (\<lambda>s. (sv_categoryId s, sv_name s)) ` set t
      then Some (PrismaError P2002) else None)"

definition service_findAllPaginated :: "serviceQuery \<Rightarrow> world \<Rightarrow> service paginated" where
  "service_findAllPaginated q w =
     (let page = orInt (sq_page q) 1; limit = orInt (sq_limit q) 10;
          rows = filter (\<lambda>s. sv_isActive s \<and> optEq (truthy (sq_categoryId q)) (sv_categoryId s)
            \<and> containsInsensitive (sq_search q) (sv_name s)) (services w)
      in paginate (pageRows page limit (orderDesc sv_createdAt rows)) (length rows) page limit)"

definition service_findById :: "uuid \<Rightarrow> world \<Rightarrow> service option" where
  "service_findById i w = findUnique sv_id i (services w)"

definition findByNameAndCategory :: "uuid \<Rightarrow> string \<Rightarrow> world \<Rightarrow> service option" where
  "findByNameAndCategory categoryId name w =
     findFirst (\<lambda>s. sv_categoryId s = categoryId \<and> sv_name s = name) (services w)"

definition service_findBySlug :: "string \<Rightarrow> world \<Rightarrow> service option" where
  "service_findBySlug slug w = findFirst (\<lambda>s. sv_slug s = slug) (services w)"

definition service_create :: "env \<Rightarrow> createServiceDto \<Rightarrow> string \<Rightarrow> service action" where
  "service_create e dto slug =
     andThen (drawUuid e) (\<lambda>i.
       insertRow services services_update serviceViolation
         \<lparr>sv_id = i, sv_categoryId = cs_categoryId dto, sv_name = cs_name dto, sv_slug = slug,
          sv_description = cs_description dto, sv_serviceMode = cs_serviceMode dto,
          sv_defaultDuration = cs_defaultDuration dto, sv_isActive = True, sv_createdAt = nowMs e\<rparr>)"

definition service_update :: "uuid \<Rightarrow> (service \<Rightarrow> service) \<Rightarrow> service action" where
  "service_update i f =
     updateRow services services_update serviceViolation (PrismaError P2025) sv_id i f"

definition service_delete :: "uuid \<Rightarrow> service action" where
  "service_delete i = service_update i (\<lambda>s. s\<lparr>sv_isActive := False\<rparr>)"

definition hasProvider :: "uuid \<Rightarrow> world \<Rightarrow> bool" where
  "hasProvider serviceId w \<longleftrightarrow>
     countRows (\<lambda>p. ps_serviceId p = serviceId \<and> ps_isActive p) (providerServices w) > 0"

section \<open>CategoryService\<close>

definition categoriesKey :: string where "categoriesKey = ''categories:all''"

definition category_findAll :: "env \<Rightarrow> categoryQuery \<Rightarrow> cacheValue action" where
  "category_findAll e q =
     getOrSet e categoriesKey (reads (\<lambda>w. CCategories (category_findAllPaginated q w)))
       CACHE_TTL_CATEGORIES"

definition category_findOne :: "uuid \<Rightarrow> category action" where
  "category_findOne i =
     andThen (reads (category_findById i)) (\<lambda>c.
     case c of
       None \<Rightarrow> throw (NotFoundException (''Category with ID '' @ i @ '' not found''))
     | Some c \<Rightarrow> ret c)"

definition nameTaken :: "string \<Rightarrow> exn" where
  "nameTaken name = ConflictException (''Category name \"'' @ name @ ''\" already exists'')"

definition createCategory :: "env \<Rightarrow> createCategoryDto \<Rightarrow> category action" where
  "createCategory e dto =
     (let slug = generateSlug (cc_name dto) in
      andThen (reads (category_findBySlug slug)) (\<lambda>isSlugExist.
      andThen (check (isSlugExist = None) (nameTaken (cc_name dto))) (\<lambda>_.
      andThen (category_create e dto slug) (\<lambda>c.
      andThen (redis_del e categoriesKey) (\<lambda>_.
      ret c)))))"

text \<open>The columns of the request, and the slug when it is not empty.\<close>

definition categoryWith :: "updateCategoryDto \<Rightarrow> string option \<Rightarrow> category \<Rightarrow> category" where
  "categoryWith dto slug c =
     c\<lparr>cat_name := given (uc_name dto) (cat_name c), cat_slug := given (truthy slug) (cat_slug c),
       cat_icon := givenOpt (uc_icon dto) (cat_icon c),
       cat_description := givenOpt (uc_description dto) (cat_description c),
       cat_displayOrder := given (uc_displayOrder dto) (cat_displayOrder c),
       cat_isActive := given (uc_isActive dto) (cat_isActive c)\<rparr>"

definition updateCategory :: "env \<Rightarrow> uuid \<Rightarrow> updateCategoryDto \<Rightarrow> category action" where
  "updateCategory e i dto =
     andThen (category_findOne i) (\<lambda>_.
     andThen
       (case truthy (uc_name dto) of
          None \<Rightarrow> ret None
        | Some name \<Rightarrow>
            (let slug = generateSlug name in
             andThen (reads (category_findBySlug slug)) (\<lambda>isSlugExist.
             andThen (check (case isSlugExist of None \<Rightarrow> True | Some c \<Rightarrow> cat_id c = i) (nameTaken name)) (\<lambda>_.
             ret (Some slug))))) (\<lambda>slug.
     andThen (category_update i (categoryWith dto slug)) (\<lambda>updated.
     andThen (redis_del e categoriesKey) (\<lambda>_.
     ret updated))))"

definition removeCategory :: "env \<Rightarrow> uuid \<Rightarrow> category action" where
  "removeCategory e i =
     andThen (category_findOne i) (\<lambda>_.
     andThen (reads (hasService i)) (\<lambda>hasServices.
     andThen (check (\<not> hasServices)
       (ConflictException ''Cannot delete category with services attached to it'')) (\<lambda>_.
     andThen (category_delete i) (\<lambda>result.
     andThen (redis_del e categoriesKey) (\<lambda>_.
     ret result)))))"

section \<open>ServiceService\<close>

definition servicesKey :: string where "servicesKey = ''services:all''"

definition service_findAll :: "env \<Rightarrow> serviceQuery \<Rightarrow> cacheValue action" where
  "service_findAll e q =
     getOrSet e servicesKey (reads (\<lambda>w. CServices (service_findAllPaginated q w)))
       CACHE_TTL_SERVICES"

definition service_findOne :: "uuid \<Rightarrow> service action" where
  "service_findOne i =
     andThen (reads (service_findById i)) (\<lambda>s.
     case s of
       None \<Rightarrow> throw (NotFoundException (''Service with ID \"'' @ i @ ''\" not found''))
     | Some s \<Rightarrow> ret s)"

definition categoryMissing :: "uuid \<Rightarrow> exn" where
  "categoryMissing i = NotFoundException (''Category with ID \"'' @ i @ ''\" not found'')"

definition createService :: "env \<Rightarrow> createServiceDto \<Rightarrow> service action" where
  "createService e dto =
     andThen (reads (category_findById (cs_categoryId dto))) (\<lambda>category.
     andThen (check (category \<noteq> None) (categoryMissing (cs_categoryId dto))) (\<lambda>_.
     andThen (reads (findByNameAndCategory (cs_categoryId dto) (cs_name dto))) (\<lambda>isUnique.
     andThen (check (isUnique = None)
       (ConflictException ''Service name already exists in this category'')) (\<lambda>_.
     andThen (service_create e dto (generateSlug (cs_name dto))) (\<lambda>s.
     andThen (redis_del e servicesKey) (\<lambda>_.
     ret s))))))"

definition serviceWith :: "updateServiceDto \<Rightarrow> string option \<Rightarrow> service \<Rightarrow> service" where
  "serviceWith dto slug s =
     s\<lparr>sv_categoryId := given (us_categoryId dto) (sv_categoryId s),
       sv_name := given (us_name dto) (sv_name s), sv_slug := given (truthy slug) (sv_slug s),
       sv_description := givenOpt (us_description dto) (sv_description s),
       sv_defaultDuration := givenOpt (us_defaultDuration dto) (sv_defaultDuration s)\<rparr>"

definition updateService :: "env \<Rightarrow> uuid \<Rightarrow> updateServiceDto \<Rightarrow> service action" where
  "updateService e i dto =
     andThen (service_findOne i) (\<lambda>currentService.
     let targetCategoryId = orElse (us_categoryId dto) (sv_categoryId currentService) in
     andThen
       (case truthy (us_categoryId dto) of
          None \<Rightarrow> ret ()
        | Some c \<Rightarrow>
            andThen (reads (category_findById c)) (\<lambda>category.
            check (category \<noteq> None) (categoryMissing c))) (\<lambda>_.
     andThen
       (case truthy (us_name dto) of
          None \<Rightarrow> ret None
        | Some name \<Rightarrow>
            andThen (reads (findByNameAndCategory targetCategoryId name)) (\<lambda>isSlugExist.
            andThen (check (case isSlugExist of None \<Rightarrow> True | Some s \<Rightarrow> i = sv_id s)
              (ConflictException ''Service name already exists in this category'')) (\<lambda>_.
            ret (Some (generateSlug name))))) (\<lambda>slug.
     andThen (service_update i (serviceWith dto slug)) (\<lambda>updated.
     andThen (redis_del e servicesKey) (\<lambda>_.
     ret updated)))))"

definition removeService :: "env \<Rightarrow> uuid \<Rightarrow> service action" where
  "removeService e i =
     andThen (service_findOne i) (\<lambda>_.
     andThen (reads (hasProvider i)) (\<lambda>offered.
     andThen (check (\<not> offered)
       (ConflictException ''Cannot delete service because providers are currently offering it'')) (\<lambda>_.
     andThen (service_delete i) (\<lambda>result.
     andThen (redis_del e servicesKey) (\<lambda>_.
     ret result)))))"

section \<open>Slugs are canonical\<close>

definition slugAlphabet :: "char \<Rightarrow> bool" where
  "slugAlphabet c \<longleftrightarrow> isSlugChar c \<and> c \<noteq> CHR '' ''"

definition noDoubleHyphen :: "string \<Rightarrow> bool" where
  "noDoubleHyphen s \<longleftrightarrow> successively (\<lambda>a b. \<not> (a = CHR ''-'' \<and> b = CHR ''-'')) s"

lemma set_hyphenRuns: "set (hyphenRuns p s) \<subseteq> {c \<in> set s. \<not> p c} \<union> {CHR ''-''}"
  by (induction p s rule: hyphenRuns.induct) auto

lemma hyphenRuns_none: "\<forall>c \<in> set s. \<not> p c \<Longrightarrow> hyphenRuns p s = s"
  by (induction p s rule: hyphenRuns.induct) auto

lemma hyphenRuns_hyphen:
  "noDoubleHyphen (hyphenRuns (\<lambda>c. c = CHR ''-'') s)
   \<and> (s \<noteq> [] \<longrightarrow> (\<exists>t. hyphenRuns (\<lambda>c. c = CHR ''-'') s = hd s # t))"
  by (induction "\<lambda>c. c = CHR ''-''" s rule: hyphenRuns.induct) (auto simp: noDoubleHyphen_def)

lemma hyphenRuns_fixed: "noDoubleHyphen s \<Longrightarrow> hyphenRuns (\<lambda>c. c = CHR ''-'') s = s"
  by (induction "\<lambda>c. c = CHR ''-''" s rule: hyphenRuns.induct) (auto simp: noDoubleHyphen_def)

lemma slugAlphabet_code:
  "slugAlphabet c \<Longrightarrow> \<not> isSpace c \<and> toLowerChar c = c \<and> isSlugChar c"
  by (auto simp: slugAlphabet_def isSlugChar_def isSpace_def toLowerChar_def Let_def)

lemma trim_none: "\<forall>c \<in> set s. \<not> isSpace c \<Longrightarrow> trim s = s"
proof -
  assume none: "\<forall>c \<in> set s. \<not> isSpace c"
  have id: "dropWhile isSpace t = t" if "\<forall>c \<in> set t. \<not> isSpace c" for t
    using that by (cases t) auto
  have "dropWhile isSpace s = s" "dropWhile isSpace (rev s) = rev s"
    using none by (auto intro!: id)
  then show ?thesis by (simp add: trim_def)
qed

lemma generateSlug_alphabet: "\<forall>c \<in> set (generateSlug s). slugAlphabet c"
proof -
  let ?f = "filter isSlugChar (trim (toLowerCase s))"
  have "\<forall>c \<in> set (hyphenRuns isSpace ?f). slugAlphabet c"
    using set_hyphenRuns [of isSpace ?f] by (fastforce simp: slugAlphabet_def isSlugChar_def isSpace_def)
  moreover have "slugAlphabet (CHR ''-'')" by (simp add: slugAlphabet_def isSlugChar_def)
  ultimately show ?thesis
    unfolding generateSlug_def
    using set_hyphenRuns [of "\<lambda>c. c = CHR ''-''" "hyphenRuns isSpace ?f"] by blast
qed

lemma generateSlug_fixed:
  assumes "\<forall>c \<in> set s. slugAlphabet c" and "noDoubleHyphen s"
  shows "generateSlug s = s"
proof -
  note code = assms(1) [rule_format, THEN slugAlphabet_code]
  have "toLowerCase s = s" using code by (simp add: toLowerCase_def map_idI)
  moreover have "trim s = s" using code by (blast intro: trim_none)
  moreover have "filter isSlugChar s = s" using code by (simp add: filter_id_conv)
  moreover have "hyphenRuns isSpace s = s" using code by (blast intro: hyphenRuns_none)
  ultimately show ?thesis by (simp add: generateSlug_def hyphenRuns_fixed [OF assms(2)])
qed

section \<open>The cached lists\<close>

text \<open>A write that dropped the key is seen by the next list query.\<close>

lemma getOrSet_fresh:
  assumes "redisReady e" and "ttl = 1 + int n" and "redis w k = None"
  shows "fst (getOrSet e k (reads f) ttl w) = Inr (f w)"
  using assms by (simp add: getOrSet_read_through redisCache.read_through_def liveValue_def liveEntry_def)

lemma getOrSet_again:
  assumes "redisReady e" and "ttl = 1 + int n" and "getOrSet e k (reads f) ttl w = (r, w')"
  shows "fst (getOrSet e k (reads g) ttl w') = r"
proof -
  have "r = Inr (fst (redisCache.read_through e n k f w))"
    and "w' = snd (redisCache.read_through e n k f w)"
    using assms by (simp_all add: getOrSet_read_through)
  then show ?thesis
    using assms(1,2) by (simp add: getOrSet_read_through redisCache.read_through_again)
qed

lemma redis_del_drops:
  "redisReady e \<Longrightarrow> redis_del e k w = (Inr x, w') \<Longrightarrow> redis w' k = None"
  by (auto simp: redis_del_def dropKey_def modify_app)

lemma createCategory_drops:
  assumes "createCategory e dto w = (Inr c, w')" and "redisReady e"
  shows "redis w' categoriesKey = None"
  using assms(1) unfolding createCategory_def Let_def
  by (elim andThen_InrD) (auto simp: ret_app dest: redis_del_drops [OF assms(2)])

lemma updateCategory_drops:
  assumes "updateCategory e i dto w = (Inr c, w')" and "redisReady e"
  shows "redis w' categoriesKey = None"
  using assms(1) unfolding updateCategory_def
  by (elim andThen_InrD) (auto simp: ret_app dest: redis_del_drops [OF assms(2)])

lemma removeCategory_drops:
  assumes "removeCategory e i w = (Inr c, w')" and "redisReady e"
  shows "redis w' categoriesKey = None"
  using assms(1) unfolding removeCategory_def
  by (elim andThen_InrD) (auto simp: ret_app dest: redis_del_drops [OF assms(2)])

end
