(* ===== verification/Storage.thy ===== *)
theory Storage
  imports Model JsText
begin

text \<open>
  Uploaded files (\<open>common/storage/local-storage.service.ts\<close>) and the functions of
  Node's \<open>path\<close> module on POSIX paths that it relies on.
\<close>

section \<open>Paths\<close>

text \<open>The segments of a path, and \<open>.\<close> and \<open>..\<close> resolved against a directory.\<close>

definition segments :: "string \<Rightarrow> string list" where
  "segments p = filter (\<lambda>s. s \<noteq> [] \<and> s \<noteq> ''.'') (splitOn (CHR ''/'') p)"

definition walk :: "string list \<Rightarrow> string list \<Rightarrow> string list" where
  "walk dir segs = foldl (\<lambda>d s. if s = ''..'' then butlast d else d @ [s]) dir segs"

definition renderPath :: "string list \<Rightarrow> string" where
  "renderPath segs = (if segs = [] then ''/'' else concat (map (\<lambda>s. CHR ''/'' # s) segs))"

text \<open>\<open>path.resolve(base, p)\<close> for an absolute path \<open>base\<close>.\<close>

definition resolvePath :: "string \<Rightarrow> string \<Rightarrow> string" where
  "resolvePath base p =
     renderPath (walk (if take 1 p = ''/'' then [] else walk [] (segments base)) (segments p))"

definition basename :: "string \<Rightarrow> string" where
  "basename p = (case filter (\<lambda>s. s \<noteq> []) (splitOn (CHR ''/'') p) of [] \<Rightarrow> [] | segs \<Rightarrow> last segs)"

text \<open>\<open>path.extname\<close>: from the last dot of the base name, unless that is its first character.\<close>

definition extname :: "string \<Rightarrow> string" where
  "extname p =
     (let b = basename p; ext = rev (takeWhile (\<lambda>c. c \<noteq> CHR ''.'') (rev b)) in
      if b = ''..'' \<or> length b \<le> Suc (length ext) then [] else CHR ''.'' # ext)"

definition startsWith :: "string \<Rightarrow> string \<Rightarrow> bool" where
  "startsWith s p \<longleftrightarrow> take (length p) s = p"

section \<open>LocalStorageService\<close>

record multerFile =
  mf_originalname :: string
  mf_buffer :: string

definition uploadRoot :: "env \<Rightarrow> string" where
  "uploadRoot e = resolvePath (processCwd e) ''uploads''"

definition isSafeNameChar :: "char \<Rightarrow> bool" where
  "isSafeNameChar c \<longleftrightarrow> (let n = (of_char c :: nat) in
     97 \<le> n \<and> n \<le> 122 \<or> 65 \<le> n \<and> n \<le> 90 \<or> 48 \<le> n \<and> n \<le> 57
     \<or> c = CHR ''.'' \<or> c = CHR ''_'' \<or> c = CHR ''-'')"

definition safeName :: "string \<Rightarrow> string" where
  "safeName name = map (\<lambda>c. if isSafeNameChar c then c else CHR ''_'') (basename name)"

definition uploadFile :: "env \<Rightarrow> multerFile \<Rightarrow> string \<Rightarrow> string action" where
  "uploadFile e file folder =
     (let safeFolder = basename folder; uploadDir = resolvePath (uploadRoot e) safeFolder in
      andThen (check (startsWith uploadDir (uploadRoot e))
        (BadRequestException ''Invalid upload folder path'')) (\<lambda>_.
      andThen (drawUuid e) (\<lambda>i.
      let filename = i @ ''-'' @ safeName (mf_originalname file);
          filePath = resolvePath uploadDir filename in
      andThen (modify (\<lambda>w. w\<lparr>disk := (disk w)(filePath \<mapsto> mf_buffer file)\<rparr>)) (\<lambda>_.
      ret (''/uploads/'' @ safeFolder @ ''/'' @ filename)))))"

text \<open>\<open>fileUrl.replace(/^\/uploads\//, "")\<close>\<close>

definition withoutUploads :: "string \<Rightarrow> string" where
  "withoutUploads url = (if startsWith url ''/uploads/'' then drop 9 url else url)"

definition getFilePath :: "env \<Rightarrow> string \<Rightarrow> string action" where
  "getFilePath e fileUrl =
     (let resolvedPath = resolvePath (uploadRoot e) (withoutUploads fileUrl) in
      andThen (check (startsWith resolvedPath (uploadRoot e))
        (BadRequestException ''Invalid file path: path traversal detected'')) (\<lambda>_.
      ret resolvedPath))"

text \<open>A file that is missing already is not an error.\<close>

definition deleteFile :: "env \<Rightarrow> string \<Rightarrow> unit action" where
  "deleteFile e fileUrl =
     andThen (getFilePath e fileUrl) (\<lambda>filePath.
     modify (\<lambda>w. w\<lparr>disk := (disk w)(filePath := None)\<rparr>))"

section \<open>Path lemmas\<close>

lemma splitOn_slash_free: "\<forall>s \<in> set (splitOn c t). c \<notin> set s"
proof (induction t)
  case (Cons x t)
  then show ?case by (auto split: list.splits)
qed simp

lemma basename_slash_free: "CHR ''/'' \<notin> set (basename p)"
proof -
  let ?segs = "filter (\<lambda>s. s \<noteq> []) (splitOn (CHR ''/'') p)"
  have "CHR ''/'' \<notin> set (last ?segs)" if "?segs \<noteq> []"
    using last_in_set [OF that] splitOn_slash_free [of "CHR ''/''" p] by auto
  then show ?thesis by (cases ?segs) (simp_all add: basename_def)
qed

lemma safeName_slash_free: "CHR ''/'' \<notin> set (safeName n)"
  by (auto simp: safeName_def isSafeNameChar_def)

text \<open>A name without a slash that is none of the special segments is one segment.\<close>

lemma segments_name:
  "CHR ''/'' \<notin> set s \<Longrightarrow> s \<noteq> [] \<Longrightarrow> s \<noteq> ''.'' \<Longrightarrow> segments s = [s]"
  by (simp add: segments_def splitOn_none)

lemma segments_cons:
  "CHR ''/'' \<notin> set s \<Longrightarrow> s \<noteq> [] \<Longrightarrow> s \<noteq> ''.'' \<Longrightarrow> segments (s @ CHR ''/'' # p) = s # segments p"
  by (simp add: segments_def splitOn_append)

definition plain :: "string \<Rightarrow> bool" where
  "plain s \<longleftrightarrow> CHR ''/'' \<notin> set s \<and> s \<noteq> [] \<and> s \<noteq> ''.'' \<and> s \<noteq> ''..''"

lemma walk_plain: "\<forall>s \<in> set segs. s \<noteq> ''..'' \<Longrightarrow> walk d segs = d @ segs"
  by (induction segs arbitrary: d) (simp_all add: walk_def)

lemma segments_render:
  assumes "\<forall>s \<in> set segs. CHR ''/'' \<notin> set s \<and> s \<noteq> [] \<and> s \<noteq> ''.''"
  shows "segments (renderPath segs) = segs"
proof -
  have "filter (\<lambda>s. s \<noteq> [] \<and> s \<noteq> ''.'') (splitOn (CHR ''/'') (concat (map (\<lambda>s. CHR ''/'' # s) segs))) = segs"
    using assms
  proof (induction segs)
    case (Cons s segs)
    obtain t where t: "splitOn (CHR ''/'') (concat (map (\<lambda>s. CHR ''/'' # s) segs)) = [] # t"
      by (cases segs) simp_all
    have "splitOn (CHR ''/'') (s @ concat (map (\<lambda>s. CHR ''/'' # s) segs)) = s # t"
      using Cons.prems t by (cases segs) (simp_all add: splitOn_append splitOn_none)
    with Cons t show ?case by simp
  qed simp
  then show ?thesis by (cases "segs = []") (simp_all add: segments_def renderPath_def)
qed

lemma walk_good:
  assumes "\<forall>s \<in> set d. plain s" and "\<forall>s \<in> set segs. s = ''..'' \<or> plain s"
  shows "\<forall>s \<in> set (walk d segs). plain s"
  using assms
proof (induction segs arbitrary: d)
  case (Cons s segs)
  have "\<forall>x \<in> set (if s = ''..'' then butlast d else d @ [s]). plain x"
    using Cons.prems by (auto dest: in_set_butlastD)
  with Cons.IH Cons.prems(2) show ?case by (simp add: walk_def)
qed (simp add: walk_def)

lemma segments_good: "\<forall>s \<in> set (segments p). s = ''..'' \<or> plain s"
  using splitOn_slash_free [of "CHR ''/''" p] by (auto simp: segments_def plain_def)

text \<open>The segments of the upload root, and of what is resolved below it.\<close>

definition rootSegments :: "env \<Rightarrow> string list" where
  "rootSegments e = walk [] (segments (processCwd e)) @ [''uploads'']"

lemma rootSegments_plain: "\<forall>s \<in> set (rootSegments e). plain s"
  using walk_good [OF _ segments_good, of "[]" "processCwd e"]
  by (auto simp: rootSegments_def plain_def)

lemma uploadRoot_render: "uploadRoot e = renderPath (rootSegments e)"
proof -
  have "segments ''uploads'' = [''uploads'']" by (intro segments_name) simp_all
  then show ?thesis by (simp add: uploadRoot_def resolvePath_def rootSegments_def walk_plain)
qed

lemma resolve_below_root:
  assumes "\<forall>s \<in> set segs. plain s" and "take 1 p \<noteq> ''/''" and "segments p = segs"
  shows "resolvePath (uploadRoot e) p = renderPath (rootSegments e @ segs)"
proof -
  have r: "segments (uploadRoot e) = rootSegments e"
    using rootSegments_plain [of e] by (simp add: uploadRoot_render plain_def segments_render)
  have "walk [] (rootSegments e) = rootSegments e"
    using rootSegments_plain [of e] by (simp add: walk_plain plain_def)
  then show ?thesis
    using assms r by (simp add: resolvePath_def walk_plain plain_def)
qed

lemma renderPath_append:
  "a \<noteq> [] \<Longrightarrow> renderPath (a @ b) = renderPath a @ concat (map (\<lambda>s. CHR ''/'' # s) b)"
  by (simp add: renderPath_def)

lemma startsWith_append [simp]: "startsWith (p @ s) p"
  by (simp add: startsWith_def)

lemma below_root: "startsWith (renderPath (rootSegments e @ segs)) (uploadRoot e)"
proof -
  have "rootSegments e \<noteq> []" by (simp add: rootSegments_def)
  then show ?thesis by (simp add: uploadRoot_render renderPath_append)
qed

section \<open>Where an upload is stored\<close>

definition uploadName :: "uuid \<Rightarrow> multerFile \<Rightarrow> string" where
  "uploadName i file = i @ ''-'' @ safeName (mf_originalname file)"

lemma uploadName_plain: "CHR ''/'' \<notin> set i \<Longrightarrow> plain (uploadName i file)"
  by (auto simp: uploadName_def plain_def safeName_slash_free append_eq_Cons_conv)

lemma documents_segment: "segments ''documents'' = [''documents'']" "basename ''documents'' = ''documents''"
  "plain ''documents''"
  by code_simp+

lemma uploadFile_documents:
  fixes f :: multerFile
  assumes i: "CHR ''/'' \<notin> set (uuidAt e (drawn w))"
  defines "n \<equiv> uploadName (uuidAt e (drawn w)) f"
  defines "path \<equiv> renderPath (rootSegments e @ [''documents'', n])"
  shows "uploadFile e f ''documents'' w =
    (Inr (''/uploads/documents/'' @ n),
     w\<lparr>drawn := Suc (drawn w), disk := (disk w)(path \<mapsto> mf_buffer f)\<rparr>)"
proof -
  have p: "plain n" using i by (simp add: n_def uploadName_plain)
  have dir: "resolvePath (uploadRoot e) ''documents'' = renderPath (rootSegments e @ [''documents''])"
    using documents_segment by (intro resolve_below_root) auto
  have "segments (renderPath (rootSegments e @ [''documents''])) = rootSegments e @ [''documents'']"
    using rootSegments_plain [of e] documents_segment(3) by (intro segments_render) (auto simp: plain_def)
  moreover have "walk [] (rootSegments e @ [''documents'']) = rootSegments e @ [''documents'']"
    using rootSegments_plain [of e] by (intro walk_plain [THEN trans]) (auto simp: plain_def)
  moreover have "take 1 n \<noteq> ''/''" using p by (cases n) (auto simp: plain_def)
  moreover have "segments n = [n]" using p by (intro segments_name) (auto simp: plain_def)
  ultimately have stored: "resolvePath (renderPath (rootSegments e @ [''documents''])) n = path"
    using p by (simp add: resolvePath_def path_def walk_plain plain_def)
  have "startsWith (renderPath (rootSegments e @ [''documents''])) (uploadRoot e)"
    by (rule below_root)
  then show ?thesis
    using stored
    by (simp add: uploadFile_def documents_segment(2) dir drawUuid_def run_simps n_def uploadName_def)
qed

lemma getFilePath_documents:
  assumes "plain n"
  shows "getFilePath e (''/uploads/documents/'' @ n) w =
    (Inr (renderPath (rootSegments e @ [''documents'', n])), w)"
proof -
  have "segments (''documents/'' @ n) = [''documents'', n]"
    using segments_cons [of "''documents''" n] documents_segment(3) assms
    by (simp add: plain_def segments_name)
  then have "resolvePath (uploadRoot e) (''documents/'' @ n) = renderPath (rootSegments e @ [''documents'', n])"
    using documents_segment(3) assms by (intro resolve_below_root) auto
  moreover have "withoutUploads (''/uploads/documents/'' @ n) = ''documents/'' @ n"
    by (simp add: withoutUploads_def startsWith_def)
  moreover have "startsWith (renderPath (rootSegments e @ [''documents'', n])) (uploadRoot e)"
    by (rule below_root)
  ultimately show ?thesis by (simp add: getFilePath_def ret_app)
qed

end
