(* ===== verification/Provider.thy ===== *)
theory Provider
  imports Catalog Storage
begin

text \<open>
  Provider profiles, their documents, their offerings and the public search
  (\<open>modules/provider/services/provider.service.ts\<close>,
  \<open>modules/provider/services/provider-service.service.ts\<close>, the repositories of the
  module, and the cache keys of \<open>common/utils/cache-key-builder.util.ts\<close>).
\<close>

section \<open>Requests\<close>

record createProviderDto =
  cp_businessName :: string
  cp_description :: "string option"
  cp_experienceYears :: int
  cp_profileImageUrl :: "string option"
  cp_addressLine1 :: string
  cp_addressLine2 :: "string option"
  cp_city :: string
  cp_state :: string
  cp_postalCode :: string

record updateProviderDto =
  up_businessName :: "string option"
  up_description :: "string option"
  up_experienceYears :: "int option"
  up_profileImageUrl :: "string option"
  up_addressLine1 :: "string option"
  up_addressLine2 :: "string option"
  up_city :: "string option"
  up_state :: "string option"
  up_postalCode :: "string option"

record createProviderServiceDto =
  co_serviceId :: uuid
  co_price :: rat
  co_durationMinutes :: int
  co_bufferMinutes :: int
  co_description :: "string option"

record updateProviderServiceDto =
  uo_price :: "rat option"
  uo_durationMinutes :: "int option"
  uo_bufferMinutes :: "int option"
  uo_description :: "string option"
  uo_isActive :: "bool option"

record publicServiceQuery =
  pq_categoryId :: "string option"
  pq_serviceMode :: "ServiceMode option"
  pq_search :: "string option"
  pq_page :: "int option"
  pq_limit :: "int option"

datatype providerSearchSort = RATING_DESC | RATING_ASC | PRICE_ASC | PRICE_DESC | NEWEST

record providerSearchQuery =
  vq_page :: "int option"
  vq_limit :: "int option"
  vq_categoryId :: "string option"
  vq_serviceId :: "string option"
  vq_city :: "string option"
  vq_minPrice :: "rat option"
  vq_maxPrice :: "rat option"
  vq_minRating :: "rat option"
  vq_search :: "string option"
  vq_sort :: "providerSearchSort option"

section \<open>ProviderRepository\<close>

definition profileViolation :: "providerProfile \<Rightarrow> providerProfile list \<Rightarrow> exn option" where
  "profileViolation r t =
     (if pp_id r \<in> pp_id ` set t \<or> pp_userId r \<in> pp_userId ` set t
      then Some (PrismaError P2002) else None)"

definition provider_findByUserId :: "uuid \<Rightarrow> world \<Rightarrow> providerProfile option" where
  "provider_findByUserId userId w = findUnique pp_userId userId (providerProfiles w)"

definition provider_findByBusinessName :: "string \<Rightarrow> world \<Rightarrow> providerProfile option" where
  "provider_findByBusinessName name w =
     findFirst (\<lambda>p. toLowerCase (pp_businessName p) = toLowerCase name) (providerProfiles w)"

definition provider_findById :: "uuid \<Rightarrow> world \<Rightarrow> providerProfile option" where
  "provider_findById i w = findUnique pp_id i (providerProfiles w)"

text \<open>The profile and its first location are one statement of the database.\<close>

definition provider_create :: "env \<Rightarrow> uuid \<Rightarrow> createProviderDto \<Rightarrow> providerProfile action" where
  "provider_create e userId dto =
     transaction
       (andThen (drawUuid e) (\<lambda>i.
        andThen (insertRow providerProfiles providerProfiles_update profileViolation
          \<lparr>pp_id = i, pp_userId = userId, pp_businessName = cp_businessName dto,
           pp_description = cp_description dto, pp_experienceYears = cp_experienceYears dto,
           pp_profileImageUrl = cp_profileImageUrl dto,
           pp_verificationStatus = VerificationStatus.PENDING, pp_averageRating = 0,
           pp_totalReviews = 0, pp_createdAt = nowMs e\<rparr>) (\<lambda>profile.
        andThen (drawUuid e) (\<lambda>l.
        andThen (insertRow providerLocations providerLocations_update (idViolation pl_id)
          \<lparr>pl_id = l, pl_providerId = i, pl_addressLine1 = cp_addressLine1 dto,
           pl_addressLine2 = cp_addressLine2 dto, pl_city = cp_city dto, pl_state = cp_state dto,
           pl_postalCode = cp_postalCode dto, pl_isPrimary = True\<rparr>) (\<lambda>_.
        ret profile)))))"

definition profileWith :: "updateProviderDto \<Rightarrow> providerProfile \<Rightarrow> providerProfile" where
  "profileWith d p =
     p\<lparr>pp_businessName := given (up_businessName d) (pp_businessName p),
       pp_description := givenOpt (up_description d) (pp_description p),
       pp_experienceYears := given (up_experienceYears d) (pp_experienceYears p),
       pp_profileImageUrl := givenOpt (up_profileImageUrl d) (pp_profileImageUrl p)\<rparr>"

definition locationWith :: "updateProviderDto \<Rightarrow> providerLocation \<Rightarrow> providerLocation" where
  "locationWith d l =
     l\<lparr>pl_addressLine1 := orElse (up_addressLine1 d) (pl_addressLine1 l),
       pl_addressLine2 := givenOpt (truthy (up_addressLine2 d)) (pl_addressLine2 l),
       pl_city := orElse (up_city d) (pl_city l), pl_state := orElse (up_state d) (pl_state l),
       pl_postalCode := orElse (up_postalCode d) (pl_postalCode l)\<rparr>"

definition hasLocationFields :: "updateProviderDto \<Rightarrow> bool" where
  "hasLocationFields d \<longleftrightarrow>
     (\<exists>f \<in> {up_addressLine1 d, up_addressLine2 d, up_city d, up_state d, up_postalCode d}. truthy f \<noteq> None)"

definition provider_update :: "uuid \<Rightarrow> updateProviderDto \<Rightarrow> providerProfile action" where
  "provider_update i d =
     andThen (updateRow providerProfiles providerProfiles_update profileViolation (PrismaError P2025)
       pp_id i (profileWith d)) (\<lambda>p.
     andThen
       (if hasLocationFields d
        then updateRows providerLocations providerLocations_update
          (\<lambda>l. pl_providerId l = i \<and> pl_isPrimary l) (locationWith d)
        else ret 0) (\<lambda>_.
     ret p))"

definition activeOfferings :: "uuid \<Rightarrow> world \<Rightarrow> providerService list" where
  "activeOfferings i w = filter (\<lambda>s. ps_providerId s = i \<and> ps_isActive s) (providerServices w)"

definition findPublicById :: "uuid \<Rightarrow> world \<Rightarrow> publicProfile option" where
  "findPublicById i w =
     map_option (\<lambda>p.
       \<lparr>pub_profile = p,
        pub_userName = map_option (\<lambda>u. (u_firstName u, u_lastName u)) (findUnique u_id (pp_userId p) (users w)),
        pub_locations = filter (\<lambda>l. pl_providerId l = i) (providerLocations w),
        pub_services = map (\<lambda>s. let sv = findUnique sv_id (ps_serviceId s) (services w) in
           (s, sv, Option.bind sv (\<lambda>v. findUnique cat_id (sv_categoryId v) (categories w))))
           (activeOfferings i w)\<rparr>)
       (provider_findById i w)"

text \<open>The \<open>where\<close> clause of the search: a verified profile of an active user and the filters.\<close>

definition offeringMatches :: "providerSearchQuery \<Rightarrow> world \<Rightarrow> providerService \<Rightarrow> bool" where
  "offeringMatches q w s \<longleftrightarrow> optEq (truthy (vq_serviceId q)) (ps_serviceId s)
     \<and> (case truthy (vq_categoryId q) of None \<Rightarrow> True | Some c \<Rightarrow>
          map_option sv_categoryId (findUnique sv_id (ps_serviceId s) (services w)) = Some c)
     \<and> (case vq_minPrice q of None \<Rightarrow> True | Some m \<Rightarrow> m \<le> ps_price s)
     \<and> (case vq_maxPrice q of None \<Rightarrow> True | Some m \<Rightarrow> ps_price s \<le> m)"

definition textMatches :: "string \<Rightarrow> string \<Rightarrow> bool" where
  "textMatches s v \<longleftrightarrow> includesText (toLowerCase v) (toLowerCase s)"

definition searchMatches :: "providerSearchQuery \<Rightarrow> world \<Rightarrow> providerProfile \<Rightarrow> bool" where
  "searchMatches q w p \<longleftrightarrow>
     pp_verificationStatus p = VERIFIED
     \<and> map_option u_status (findUnique u_id (pp_userId p) (users w)) = Some ACTIVE
     \<and> (case vq_minRating q of None \<Rightarrow> True | Some m \<Rightarrow> m \<le> pp_averageRating p)
     \<and> (case truthy (vq_city q) of None \<Rightarrow> True | Some c \<Rightarrow>
          \<exists>l \<in> set (providerLocations w). pl_providerId l = pp_id p \<and> toLowerCase (pl_city l) = toLowerCase c)
     \<and> (truthy (vq_categoryId q) = None \<and> truthy (vq_serviceId q) = None
          \<and> vq_minPrice q = None \<and> vq_maxPrice q = None
        \<or> (\<exists>s \<in> set (activeOfferings (pp_id p) w). offeringMatches q w s))
     \<and> (case truthy (vq_search q) of None \<Rightarrow> True | Some t \<Rightarrow>
          textMatches t (pp_businessName p)
          \<or> (case pp_description p of None \<Rightarrow> False | Some d \<Rightarrow> textMatches t d)
          \<or> (\<exists>s \<in> set (activeOfferings (pp_id p) w).
               case findUnique sv_id (ps_serviceId s) (services w) of
                 None \<Rightarrow> False | Some sv \<Rightarrow> textMatches t (sv_name sv)))"

definition buildOrderBy :: "providerSearchSort option \<Rightarrow> providerProfile list \<Rightarrow> providerProfile list" where
  "buildOrderBy s t =
     (case s of
        Some RATING_ASC \<Rightarrow> sort_key pp_averageRating t
      | Some NEWEST \<Rightarrow> orderDesc pp_createdAt t
      | _ \<Rightarrow> sort_key (\<lambda>p. - pp_averageRating p) t)"

definition findPublicProviders ::
  "providerSearchQuery \<Rightarrow> world \<Rightarrow> providerProfile list \<times> nat \<times> int \<times> int" where
  "findPublicProviders q w =
     (let page = orInt (vq_page q) 1; limit = orInt (vq_limit q) 20;
          rows = filter (searchMatches q w) (providerProfiles w)
      in (pageRows page limit (buildOrderBy (vq_sort q) rows), length rows, page, limit))"

section \<open>DocumentRepository\<close>

definition findDocumentByType :: "uuid \<Rightarrow> DocumentType \<Rightarrow> world \<Rightarrow> providerDocument option" where
  "findDocumentByType providerId ty w =
     findFirst (\<lambda>d. pd_providerId d = providerId \<and> pd_documentType d = ty) (providerDocuments w)"

definition createDocument :: "env \<Rightarrow> uuid \<Rightarrow> DocumentType \<Rightarrow> string \<Rightarrow> providerDocument action" where
  "createDocument e providerId ty url =
     andThen (drawUuid e) (\<lambda>i.
       insertRow providerDocuments providerDocuments_update (idViolation pd_id)
         \<lparr>pd_id = i, pd_providerId = providerId, pd_documentType = ty, pd_fileUrl = url,
          pd_verificationStatus = VerificationStatus.PENDING, pd_rejectionReason = None,
          pd_verifiedAt = None\<rparr>)"

definition findDocumentsByProviderId :: "uuid \<Rightarrow> world \<Rightarrow> providerDocument list" where
  "findDocumentsByProviderId i w = filter (\<lambda>d. pd_providerId d = i) (providerDocuments w)"

definition findDocumentById :: "uuid \<Rightarrow> world \<Rightarrow> providerDocument option" where
  "findDocumentById i w = findUnique pd_id i (providerDocuments w)"

section \<open>ProviderService\<close>

definition businessNameTaken :: "string \<Rightarrow> exn" where
  "businessNameTaken name = ConflictException (''Business name \"'' @ name @ ''\" already exists'')"

definition noProfile :: exn where
  "noProfile = NotFoundException ''Provider profile not found for this user''"

definition createProfile :: "env \<Rightarrow> uuid \<Rightarrow> createProviderDto \<Rightarrow> providerProfile action" where
  "createProfile e userId dto =
     andThen (reads (provider_findByUserId userId)) (\<lambda>isUserExist.
     andThen (reads (provider_findByBusinessName (cp_businessName dto))) (\<lambda>isDuplicate.
     andThen (check (isUserExist = None)
       (ConflictException ''User is already registered as a provider'')) (\<lambda>_.
     andThen (check (isDuplicate = None) (businessNameTaken (cp_businessName dto))) (\<lambda>_.
     provider_create e userId dto))))"

definition getOwnProfile :: "uuid \<Rightarrow> providerProfile action" where
  "getOwnProfile userId =
     andThen (reads (provider_findByUserId userId)) (\<lambda>profile.
     case profile of None \<Rightarrow> throw noProfile | Some p \<Rightarrow> ret p)"

definition updateOwnProfile :: "env \<Rightarrow> uuid \<Rightarrow> updateProviderDto \<Rightarrow> providerProfile action" where
  "updateOwnProfile e userId dto =
     andThen (getOwnProfile userId) (\<lambda>profile.
     andThen
       (case truthy (up_businessName dto) of
          None \<Rightarrow> ret ()
        | Some name \<Rightarrow>
            andThen (reads (provider_findByBusinessName name)) (\<lambda>isDuplicate.
            check (case isDuplicate of None \<Rightarrow> True | Some p \<Rightarrow> pp_id p = pp_id profile)
              (businessNameTaken name))) (\<lambda>_.
     andThen (provider_update (pp_id profile) dto) (\<lambda>updated.
     andThen (redis_del e (''provider:profile:'' @ pp_id profile)) (\<lambda>_.
     andThen (incrementSearchVersion e) (\<lambda>_.
     ret updated)))))"

definition getProfileById :: "uuid \<Rightarrow> providerProfile action" where
  "getProfileById i =
     andThen (reads (provider_findById i)) (\<lambda>provider.
     case provider of
       None \<Rightarrow> throw (NotFoundException (''Provider profile with ID \"'' @ i @ ''\" not found''))
     | Some p \<Rightarrow> ret p)"

fun documentTypeName :: "DocumentType \<Rightarrow> string" where
  "documentTypeName AADHAAR = ''AADHAAR''"
| "documentTypeName PAN = ''PAN''"
| "documentTypeName BUSINESS_LICENSE = ''BUSINESS_LICENSE''"
| "documentTypeName GST = ''GST''"

definition uploadDocument :: "env \<Rightarrow> uuid \<Rightarrow> DocumentType \<Rightarrow> multerFile \<Rightarrow> providerDocument action" where
  "uploadDocument e userId ty upload =
     andThen (getOwnProfile userId) (\<lambda>provider.
     andThen (reads (findDocumentByType (pp_id provider) ty)) (\<lambda>document.
     andThen (check (document = None)
       (ConflictException (''Document of type '' @ documentTypeName ty @ '' already uploaded''))) (\<lambda>_.
     andThen (uploadFile e upload ''documents'') (\<lambda>fileUrl.
     createDocument e (pp_id provider) ty fileUrl))))"

definition getProviderDocumentsForAdmin :: "uuid \<Rightarrow> providerDocument list action" where
  "getProviderDocumentsForAdmin i =
     andThen (reads (provider_findById i)) (\<lambda>provider.
     andThen (check (provider \<noteq> None)
       (NotFoundException (''Provider with ID \"'' @ i @ ''\" not found''))) (\<lambda>_.
     reads (findDocumentsByProviderId i)))"

definition getOwnDocuments :: "uuid \<Rightarrow> providerDocument list action" where
  "getOwnDocuments userId =
     andThen (reads (provider_findByUserId userId)) (\<lambda>provider.
     case provider of
       None \<Rightarrow> throw (NotFoundException ''Provider profile not found for user'')
     | Some p \<Rightarrow> reads (findDocumentsByProviderId (pp_id p)))"

definition mimeTypeOf :: "string \<Rightarrow> string" where
  "mimeTypeOf ext =
     (if ext = ''.pdf'' then ''application/pdf''
      else if ext = ''.png'' then ''image/png''
      else if ext = ''.jpg'' \<or> ext = ''.jpeg'' then ''image/jpeg''
      else ''application/octet-stream'')"

definition getDocumentFileForUser :: "env \<Rightarrow> uuid \<Rightarrow> uuid \<Rightarrow> Role \<Rightarrow> (string \<times> string) action" where
  "getDocumentFileForUser e documentId userId role =
     andThen (reads (findDocumentById documentId)) (\<lambda>document.
     case document of
       None \<Rightarrow> throw (NotFoundException (''Document \"'' @ documentId @ ''\" not found''))
     | Some doc \<Rightarrow>
     andThen
       (if role \<noteq> ADMIN then
          andThen (reads (provider_findById (pd_providerId doc))) (\<lambda>provider.
          check (case provider of None \<Rightarrow> False | Some p \<Rightarrow> pp_userId p = userId)
            (ForbiddenException ''You do not have permission to access this document''))
        else ret ()) (\<lambda>_.
     andThen (getFilePath e (pd_fileUrl doc)) (\<lambda>filePath.
     ret (filePath, mimeTypeOf (toLowerCase (extname filePath))))))"

definition getPublicProfileById :: "env \<Rightarrow> uuid \<Rightarrow> cacheValue action" where
  "getPublicProfileById e i =
     getOrSet e (''provider:profile:'' @ i)
       (andThen (reads (findPublicById i)) (\<lambda>provider.
        case provider of
          None \<Rightarrow> throw (NotFoundException (''Provider profile with ID \"'' @ i @ ''\" not found''))
        | Some p \<Rightarrow> ret (CPublicProfile p)))
       CACHE_TTL_PROVIDER_DETAIL"

section \<open>The public search\<close>

text \<open>
  \<open>buildNormalizedQueryKey\<close>: the fields of a query as texts; \<open>undefined\<close>, \<open>null\<close>
  and empty values are left out, the others are lower-cased and sorted by key.
\<close>

definition normalizedParams :: "(string \<times> string option) list \<Rightarrow> (string \<times> string) list" where
  "normalizedParams query =
     sort_key (\<lambda>kv. map (of_char :: char \<Rightarrow> nat) (fst kv))
       (map (\<lambda>(k, v). (k, toLowerCase (the v))) (filter (\<lambda>(k, v). truthy v \<noteq> None) query))"

definition buildNormalizedQueryKey ::
  "env \<Rightarrow> string \<Rightarrow> int \<Rightarrow> (string \<times> string option) list \<Rightarrow> string" where
  "buildNormalizedQueryKey e keyPrefix version query =
     keyPrefix @ '':v'' @ intString version @ '':'' @
       take 16 (sha256Hex e (urlSearchParams e (normalizedParams query)))"

fun sortName :: "providerSearchSort \<Rightarrow> string" where
  "sortName RATING_DESC = ''rating_desc''"
| "sortName RATING_ASC = ''rating_asc''"
| "sortName PRICE_ASC = ''price_asc''"
| "sortName PRICE_DESC = ''price_desc''"
| "sortName NEWEST = ''newest''"

definition searchFields :: "env \<Rightarrow> providerSearchQuery \<Rightarrow> (string \<times> string option) list" where
  "searchFields e q =
     [(''page'', map_option intString (vq_page q)), (''limit'', map_option intString (vq_limit q)),
      (''categoryId'', vq_categoryId q), (''serviceId'', vq_serviceId q), (''city'', vq_city q),
      (''minPrice'', map_option (numberText e) (vq_minPrice q)),
      (''maxPrice'', map_option (numberText e) (vq_maxPrice q)),
      (''minRating'', map_option (numberText e) (vq_minRating q)),
      (''search'', vq_search q), (''sort'', map_option sortName (vq_sort q))]"

text \<open>One result; the relations \<open>service\<close> and \<open>category\<close> are never missing in the database.\<close>

definition formatItem :: "world \<Rightarrow> providerProfile \<Rightarrow> searchItem" where
  "formatItem w p =
     (let activeServices = map (\<lambda>s.
            let sv = findUnique sv_id (ps_serviceId s) (services w);
                cat = Option.bind sv (\<lambda>v. findUnique cat_id (sv_categoryId v) (categories w)) in
            \<lparr>ss_id = ps_id s, ss_name = (case sv of None \<Rightarrow> [] | Some v \<Rightarrow> sv_name v),
             ss_categoryName = (case cat of None \<Rightarrow> [] | Some c \<Rightarrow> cat_name c),
             ss_price = ps_price s\<rparr>) (activeOfferings (pp_id p) w);
          prices = map ss_price activeServices;
          primary = filter (\<lambda>l. pl_providerId l = pp_id p \<and> pl_isPrimary l) (providerLocations w) in
      \<lparr>si_providerId = pp_id p, si_businessName = pp_businessName p,
       si_profileImage = pp_profileImageUrl p,
       si_city = (case primary of [] \<Rightarrow> None | l # _ \<Rightarrow> truthy (Some (pl_city l))),
       si_averageRating = pp_averageRating p, si_totalReviews = pp_totalReviews p,
       si_startingPrice = (if prices = [] then None else Some (Min (set prices))),
       si_services = activeServices\<rparr>)"

text \<open>Sorting by price puts results without a price last in both directions.\<close>

definition sortByPrice :: "(rat \<Rightarrow> rat) \<Rightarrow> searchItem list \<Rightarrow> searchItem list" where
  "sortByPrice key items =
     sort_key (\<lambda>i. key (the (si_startingPrice i))) (filter (\<lambda>i. si_startingPrice i \<noteq> None) items)
     @ filter (\<lambda>i. si_startingPrice i = None) items"

definition priceOrder :: "providerSearchSort option \<Rightarrow> searchItem list \<Rightarrow> searchItem list" where
  "priceOrder s items =
     (case s of
        Some PRICE_ASC \<Rightarrow> sortByPrice (\<lambda>x. x) items
      | Some PRICE_DESC \<Rightarrow> sortByPrice (\<lambda>x. - x) items
      | _ \<Rightarrow> items)"

definition searchPage :: "providerSearchQuery \<Rightarrow> world \<Rightarrow> searchResult" where
  "searchPage q w =
     (case findPublicProviders q w of
        (items, n, page, limit) \<Rightarrow>
          \<lparr>sr_items = priceOrder (vq_sort q) (map (formatItem w) items), sr_page = page,
           sr_limit = limit, sr_total = n,
           sr_totalPages = \<lceil>(of_nat n :: rat) / of_int limit\<rceil>\<rparr>)"

definition searchPublicProviders :: "env \<Rightarrow> providerSearchQuery \<Rightarrow> cacheValue action" where
  "searchPublicProviders e q =
     andThen (getSearchVersion e) (\<lambda>version.
     getOrSet e (buildNormalizedQueryKey e ''providers:search'' version (searchFields e q))
       (reads (\<lambda>w. CSearch (searchPage q w))) CACHE_TTL_SEARCH_RESULTS)"

section \<open>ProviderServiceService\<close>

definition offeringViolation :: "providerService \<Rightarrow> providerService list \<Rightarrow> exn option" where
  "offeringViolation r t =
     (if ps_id r \<in> ps_id ` set t \<or>
         (ps_providerId r, ps_serviceId r) \<in> (\<lambda>s. (ps_providerId s, ps_serviceId s)) ` set t
      then Some (PrismaError P2002) else None)"

definition providerService_create ::
  "env \<Rightarrow> uuid \<Rightarrow> createProviderServiceDto \<Rightarrow> providerService action" where
  "providerService_create e providerId dto =
     andThen (drawUuid e) (\<lambda>i.
       insertRow providerServices providerServices_update offeringViolation
         \<lparr>ps_id = i, ps_providerId = providerId, ps_serviceId = co_serviceId dto,
          ps_price = co_price dto, ps_currency = ''INR'', ps_durationMinutes = co_durationMinutes dto,
          ps_bufferMinutes = co_bufferMinutes dto, ps_description = co_description dto,
          ps_isActive = True, ps_createdAt = nowMs e\<rparr>)"

definition offeringWith :: "updateProviderServiceDto \<Rightarrow> providerService \<Rightarrow> providerService" where
  "offeringWith d s =
     s\<lparr>ps_price := given (uo_price d) (ps_price s),
       ps_durationMinutes := given (uo_durationMinutes d) (ps_durationMinutes s),
       ps_bufferMinutes := given (uo_bufferMinutes d) (ps_bufferMinutes s),
       ps_description := givenOpt (uo_description d) (ps_description s),
       ps_isActive := given (uo_isActive d) (ps_isActive s)\<rparr>"

definition providerService_update :: "uuid \<Rightarrow> (providerService \<Rightarrow> providerService) \<Rightarrow> providerService action" where
  "providerService_update i f =
     updateRow providerServices providerServices_update offeringViolation (PrismaError P2025) ps_id i f"

definition providerService_delete :: "uuid \<Rightarrow> providerService action" where
  "providerService_delete i = providerService_update i (\<lambda>s. s\<lparr>ps_isActive := False\<rparr>)"

definition findPublicProviderService ::
  "uuid \<Rightarrow> publicServiceQuery \<Rightarrow> world \<Rightarrow> providerService paginated" where
  "findPublicProviderService providerId q w =
     (let page = orInt (pq_page q) 1; limit = orInt (pq_limit q) 10;
          rows = filter (\<lambda>s. ps_providerId s = providerId \<and> ps_isActive s
            \<and> (case findUnique sv_id (ps_serviceId s) (services w) of
                 None \<Rightarrow> False
               | Some sv \<Rightarrow> sv_isActive sv \<and> optEq (truthy (pq_categoryId q)) (sv_categoryId sv)
                   \<and> optEq (pq_serviceMode q) (sv_serviceMode sv)
                   \<and> containsInsensitive (pq_search q) (sv_name sv))) (providerServices w)
      in paginate (pageRows page limit (orderDesc ps_createdAt rows)) (length rows) page limit)"

text \<open>Every change of an offering drops the cached profile and the cached searches.\<close>

definition invalidateProvider :: "env \<Rightarrow> uuid \<Rightarrow> unit action" where
  "invalidateProvider e providerId =
     andThen (redis_del e (''provider:profile:'' @ providerId)) (\<lambda>_. incrementSearchVersion e)"

definition createOffering :: "env \<Rightarrow> uuid \<Rightarrow> createProviderServiceDto \<Rightarrow> providerService action" where
  "createOffering e providerId dto =
     andThen (reads (service_findById (co_serviceId dto))) (\<lambda>service.
     andThen (reads (providerService_findByProviderAndServiceId providerId (co_serviceId dto))) (\<lambda>existingOffering.
     andThen (check (case service of None \<Rightarrow> False | Some s \<Rightarrow> sv_isActive s)
       (NotFoundException ''Catalog service not found or inactive'')) (\<lambda>_.
     andThen (check (existingOffering = None)
       (ConflictException ''Service is already added to your offerings'')) (\<lambda>_.
     andThen (providerService_create e providerId dto) (\<lambda>created.
     andThen (invalidateProvider e providerId) (\<lambda>_.
     ret created))))))"

definition findAllOfferings :: "uuid \<Rightarrow> providerService list action" where
  "findAllOfferings providerId = reads (providerService_findByProviderId providerId)"

definition ownOffering :: "uuid \<Rightarrow> uuid \<Rightarrow> unit action" where
  "ownOffering providerId i =
     andThen (reads (providerService_findById i)) (\<lambda>providerService.
     check (case providerService of None \<Rightarrow> False | Some s \<Rightarrow> ps_providerId s = providerId)
       (NotFoundException ''Provider service offering not found''))"

definition updateOffering ::
  "env \<Rightarrow> uuid \<Rightarrow> uuid \<Rightarrow> updateProviderServiceDto \<Rightarrow> providerService action" where
  "updateOffering e providerId i dto =
     andThen (ownOffering providerId i) (\<lambda>_.
     andThen (providerService_update i (offeringWith dto)) (\<lambda>updated.
     andThen (invalidateProvider e providerId) (\<lambda>_.
     ret updated)))"

definition removeOffering :: "env \<Rightarrow> uuid \<Rightarrow> uuid \<Rightarrow> providerService action" where
  "removeOffering e providerId i =
     andThen (ownOffering providerId i) (\<lambda>_.
     andThen (providerService_delete i) (\<lambda>result.
     andThen (invalidateProvider e providerId) (\<lambda>_.
     ret result)))"

definition getPublicProviderServices :: "uuid \<Rightarrow> publicServiceQuery \<Rightarrow> providerService paginated action" where
  "getPublicProviderServices providerId q =
     andThen (reads (provider_findById providerId)) (\<lambda>providerProfile.
     andThen (check (providerProfile \<noteq> None) (NotFoundException ''Provider not found'')) (\<lambda>_.
     reads (findPublicProviderService providerId q)))"

end
