(* ===== verification/Auth.thy ===== *)
theory Auth
  imports Provider
begin

text \<open>
  Accounts and sessions (\<open>modules/auth/services/auth.service.ts\<close>,
  \<open>modules/auth/repositories/auth.repository.ts\<close>), the JWT strategy
  (\<open>modules/auth/strategies/jwt.strategy.ts\<close>) and the guards of \<open>modules/auth/guards\<close>.
\<close>

section \<open>Requests\<close>

record registerDto =
  rg_email :: string
  rg_password :: string
  rg_firstName :: string
  rg_lastName :: string
  rg_phone :: string

record loginDto =
  lg_email :: string
  lg_password :: string

text \<open>The user that the JWT strategy attaches to a request.\<close>

record requestUser =
  ru_userId :: uuid
  ru_email :: string
  ru_role :: Role

section \<open>AuthRepository\<close>

definition userViolation :: "user \<Rightarrow> user list \<Rightarrow> exn option" where
  "userViolation r t =
     (if u_id r \<in> u_id ` set t \<or> u_email r \<in> u_email ` set t \<or> u_phone r \<in> u_phone ` set t
      then Some (PrismaError P2002) else None)"

definition user_findById :: "uuid \<Rightarrow> world \<Rightarrow> user option" where
  "user_findById i w = findUnique u_id i (users w)"

definition user_findByEmail :: "string \<Rightarrow> world \<Rightarrow> user option" where
  "user_findByEmail m w = findUnique u_email m (users w)"

definition user_findByPhone :: "string \<Rightarrow> world \<Rightarrow> user option" where
  "user_findByPhone p w = findUnique u_phone p (users w)"

definition user_create :: "env \<Rightarrow> registerDto \<Rightarrow> string \<Rightarrow> user action" where
  "user_create e dto passwordHash =
     andThen (drawUuid e) (\<lambda>i.
       insertRow users users_update userViolation
         \<lparr>u_id = i, u_email = rg_email dto, u_passwordHash = passwordHash,
          u_firstName = rg_firstName dto, u_lastName = rg_lastName dto, u_phone = rg_phone dto,
          u_role = USER, u_refreshTokenHash = None, u_status = ACTIVE, u_lastLoginAt = None,
          u_createdAt = nowMs e\<rparr>)"

definition user_update :: "uuid \<Rightarrow> (user \<Rightarrow> user) \<Rightarrow> user action" where
  "user_update i f = updateRow users users_update userViolation (PrismaError P2025) u_id i f"

definition updateRefreshToken :: "uuid \<Rightarrow> string option \<Rightarrow> user action" where
  "updateRefreshToken i h = user_update i (\<lambda>u. u\<lparr>u_refreshTokenHash := h\<rparr>)"

definition updateLastLogin :: "env \<Rightarrow> uuid \<Rightarrow> user action" where
  "updateLastLogin e i = user_update i (\<lambda>u. u\<lparr>u_lastLoginAt := Some (nowMs e)\<rparr>)"

section \<open>AuthService\<close>

record session =
  ses_userId :: uuid
  ses_name :: string
  ses_email :: string
  ses_accessToken :: string
  ses_refreshToken :: string

text \<open>\<open>bcrypt.hash(s, 10)\<close>: every call draws a salt.\<close>

definition bcryptHash :: "env \<Rightarrow> string \<Rightarrow> string action" where
  "bcryptHash e s = (\<lambda>w. (Inr (bcryptHashAt e (drawn w) s), w\<lparr>drawn := Suc (drawn w)\<rparr>))"

definition tokenPayload :: "user \<Rightarrow> jwtPayload" where
  "tokenPayload u = \<lparr>jp_sub = u_id u, jp_email = u_email u, jp_role = u_role u\<rparr>"

definition accessTokenFor :: "env \<Rightarrow> user \<Rightarrow> string" where
  "accessTokenFor e u =
     jwtSign e (configGet e ''jwt.secret'') (configGet e ''jwt.expiresIn'') (nowMs e) (tokenPayload u)"

definition refreshTokenFor :: "env \<Rightarrow> user \<Rightarrow> string" where
  "refreshTokenFor e u =
     jwtSign e (configGet e ''jwt.refreshSecret'') (configGet e ''jwt.refreshExpiresIn'') (nowMs e)
       (tokenPayload u)"

definition generateTokens :: "env \<Rightarrow> user \<Rightarrow> (string \<times> string) action" where
  "generateTokens e u =
     (let accessToken = accessTokenFor e u; refreshToken = refreshTokenFor e u in
      andThen (bcryptHash e refreshToken) (\<lambda>hashedRefreshToken.
      andThen (updateRefreshToken (u_id u) (Some hashedRefreshToken)) (\<lambda>_.
      ret (accessToken, refreshToken))))"

definition sessionOf :: "user \<Rightarrow> string \<times> string \<Rightarrow> session" where
  "sessionOf u tokens =
     \<lparr>ses_userId = u_id u, ses_name = u_firstName u, ses_email = u_email u,
      ses_accessToken = fst tokens, ses_refreshToken = snd tokens\<rparr>"

definition register :: "env \<Rightarrow> registerDto \<Rightarrow> session action" where
  "register e dto =
     andThen (reads (user_findByEmail (rg_email dto))) (\<lambda>emailExists.
     andThen (check (emailExists = None) (BadRequestException ''Email already exists'')) (\<lambda>_.
     andThen (reads (user_findByPhone (rg_phone dto))) (\<lambda>phoneExists.
     andThen (check (phoneExists = None) (BadRequestException ''Phone already exists'')) (\<lambda>_.
     andThen (bcryptHash e (rg_password dto)) (\<lambda>hashedPassword.
     andThen (user_create e dto hashedPassword) (\<lambda>user.
     andThen (generateTokens e user) (\<lambda>tokens.
     ret (sessionOf user tokens))))))))"

definition badCredentials :: exn where
  "badCredentials = UnauthorizedException ''Invalid email or password''"

definition login :: "env \<Rightarrow> loginDto \<Rightarrow> session action" where
  "login e dto =
     andThen (reads (user_findByEmail (lg_email dto))) (\<lambda>found.
     case found of
       None \<Rightarrow> throw badCredentials
     | Some user \<Rightarrow>
     andThen (check (bcryptCompare e (lg_password dto) (u_passwordHash user)) badCredentials) (\<lambda>_.
     andThen (updateLastLogin e (u_id user)) (\<lambda>_.
     andThen (generateTokens e user) (\<lambda>tokens.
     ret (sessionOf user tokens)))))"

definition refresh :: "env \<Rightarrow> string option \<Rightarrow> session action" where
  "refresh e token =
     (case truthy token of
        None \<Rightarrow> throw (UnauthorizedException ''Refresh token missing'')
      | Some refreshToken \<Rightarrow>
     (case jwtVerify e (configGet e ''jwt.refreshSecret'') (nowMs e) refreshToken of
        None \<Rightarrow> throw (UnauthorizedException ''Invalid or expired refresh token'')
      | Some payload \<Rightarrow>
     andThen (reads (user_findById (jp_sub payload))) (\<lambda>found.
     case found of
       None \<Rightarrow> throw (UnauthorizedException ''User not found'')
     | Some dbUser \<Rightarrow>
     (case truthy (u_refreshTokenHash dbUser) of
        None \<Rightarrow> throw (UnauthorizedException ''User not found'')
      | Some h \<Rightarrow>
     andThen (check (bcryptCompare e refreshToken h) (UnauthorizedException ''Invalid refresh token'')) (\<lambda>_.
     andThen (generateTokens e dbUser) (\<lambda>tokens.
     ret (sessionOf dbUser tokens)))))))"

definition logout :: "uuid \<Rightarrow> unit action" where
  "logout userId =
     andThen (check (userId \<noteq> []) (UnauthorizedException ''User id not found'')) (\<lambda>_.
     andThen (user_update userId (\<lambda>u. u\<lparr>u_refreshTokenHash := None\<rparr>)) (\<lambda>_.
     ret ()))"

text \<open>The profile without its secrets: both hashes are removed.\<close>

definition getProfile :: "uuid \<Rightarrow> user action" where
  "getProfile userId =
     andThen (reads (user_findById userId)) (\<lambda>found.
     case found of
       None \<Rightarrow> throw (UnauthorizedException ''User not found'')
     | Some u \<Rightarrow> ret (u\<lparr>u_passwordHash := [], u_refreshTokenHash := None\<rparr>))"

section \<open>Strategy and guards\<close>

definition jwtStrategy_validate :: "jwtPayload \<Rightarrow> requestUser action" where
  "jwtStrategy_validate payload =
     andThen (reads (user_findById (jp_sub payload))) (\<lambda>found.
     case found of
       None \<Rightarrow> throw (UnauthorizedException ''User account is inactive or deleted'')
     | Some dbUser \<Rightarrow>
     andThen (check (u_status dbUser = ACTIVE)
       (UnauthorizedException ''User account is inactive or deleted'')) (\<lambda>_.
     ret \<lparr>ru_userId = u_id dbUser, ru_email = u_email dbUser, ru_role = u_role dbUser\<rparr>))"

text \<open>
  \<open>JwtAuthGuard\<close>: the bearer token of the request is verified under the access
  secret and its payload validated; a token that is missing or not valid is refused.
\<close>

definition jwtAuthGuard :: "env \<Rightarrow> string option \<Rightarrow> requestUser action" where
  "jwtAuthGuard e bearer =
     (case Option.bind bearer (jwtVerify e (configGet e ''jwt.secret'') (nowMs e)) of
        None \<Rightarrow> throw (UnauthorizedException ''Unauthorized'')
      | Some payload \<Rightarrow> jwtStrategy_validate payload)"

definition adminGuard :: "requestUser option \<Rightarrow> unit action" where
  "adminGuard u =
     check (case u of None \<Rightarrow> False | Some x \<Rightarrow> ru_role x = ADMIN)
       (ForbiddenException ''Admin access required'')"

definition roleGuard :: "Role list \<Rightarrow> requestUser option \<Rightarrow> unit action" where
  "roleGuard requiredRole u =
     (if requiredRole = [] then ret ()
      else (case u of
          None \<Rightarrow> throw (ForbiddenException ''Access denied'')
        | Some x \<Rightarrow> check (ru_role x \<in> set requiredRole)
            (ForbiddenException ''You do not have permission to access this resource'')))"

definition verifiedProviderGuard :: "requestUser option \<Rightarrow> providerProfile action" where
  "verifiedProviderGuard u =
     (case u of
        None \<Rightarrow> throw (UnauthorizedException ''User is not authenticated'')
      | Some x \<Rightarrow>
     andThen (reads (provider_findByUserId (ru_userId x))) (\<lambda>provider.
     case provider of
       None \<Rightarrow> throw (ForbiddenException ''User is not registered as a provider'')
     | Some p \<Rightarrow>
     andThen (check (pp_verificationStatus p = VERIFIED)
       (ForbiddenException (''Provider account is pending approval or suspended. Current status: '' @
          verificationStatusName (pp_verificationStatus p)))) (\<lambda>_.
     ret p)))"

end
