(* ===== verification/Review.thy ===== *)
theory Review
  imports Redis Repositories JsText
begin

text \<open>
  Reviews of completed bookings (\<open>modules/review/services/review.service.ts\<close>,
  \<open>modules/review/repositories/review.repository.ts\<close>) and the rating statistics
  they keep on the provider's profile.
\<close>

section \<open>Requests\<close>

record createReviewDto =
  cr_bookingId :: "uuid option"
  cr_rating :: int
  cr_comment :: "string option"

text \<open>A comment of an update may be left out (\<open>None\<close>) or \<open>null\<close> (\<open>Some None\<close>).\<close>

record updateReviewDto =
  ur_rating :: "int option"
  ur_comment :: "string option option"

datatype reviewSortOption = NEWEST | OLDEST | HIGHEST | LOWEST

record reviewQuery =
  rq_page :: "int option"
  rq_limit :: "int option"
  rq_rating :: "int option"
  rq_sort :: "reviewSortOption option"

section \<open>Repository\<close>

definition reviewViolation :: "review \<Rightarrow> review list \<Rightarrow> exn option" where
  "reviewViolation r t =
     (if rv_id r \<in> rv_id ` set t \<or> rv_bookingId r \<in> rv_bookingId ` set t
      then Some (PrismaError P2002) else None)"

definition review_create ::
  "env \<Rightarrow> uuid \<Rightarrow> uuid \<Rightarrow> uuid \<Rightarrow> int \<Rightarrow> string option \<Rightarrow> review action" where
  "review_create e bookingId customerId providerId rating comment =
     andThen (drawUuid e) (\<lambda>i.
       insertRow reviews reviews_update reviewViolation
         \<lparr>rv_id = i, rv_bookingId = bookingId, rv_customerId = customerId, rv_providerId = providerId,
          rv_rating = rating, rv_comment = comment, rv_createdAt = nowMs e\<rparr>)"

definition review_update :: "uuid \<Rightarrow> (review \<Rightarrow> review) \<Rightarrow> review action" where
  "review_update i f =
     updateRow reviews reviews_update reviewViolation (PrismaError P2025) rv_id i f"

definition review_findById :: "uuid \<Rightarrow> world \<Rightarrow> review option" where
  "review_findById i w = findUnique rv_id i (reviews w)"

definition review_findByBookingId :: "uuid \<Rightarrow> world \<Rightarrow> review option" where
  "review_findByBookingId i w = findUnique rv_bookingId i (reviews w)"

definition reviewOrder :: "reviewSortOption option \<Rightarrow> review list \<Rightarrow> review list" where
  "reviewOrder order t =
     (case order of
        Some OLDEST \<Rightarrow> orderAsc rv_createdAt t
      | Some HIGHEST \<Rightarrow> orderDesc rv_rating t
      | Some LOWEST \<Rightarrow> orderAsc rv_rating t
      | _ \<Rightarrow> orderDesc rv_createdAt t)"

definition review_findByProviderId :: "uuid \<Rightarrow> reviewQuery \<Rightarrow> world \<Rightarrow> review paginated" where
  "review_findByProviderId providerId q w =
     (let page = orInt (rq_page q) 1; limit = orInt (rq_limit q) 10;
          rows = filter (\<lambda>r. rv_providerId r = providerId
            \<and> (case rq_rating q of None \<Rightarrow> True | Some n \<Rightarrow> n = 0 \<or> rv_rating r = n)) (reviews w)
      in paginate (pageRows page limit (reviewOrder (rq_sort q) rows)) (length rows) page limit)"

text \<open>\<open>_avg\<close> of no rows is \<open>null\<close>.\<close>

definition aggregateProviderRating :: "uuid \<Rightarrow> world \<Rightarrow> rat option \<times> nat" where
  "aggregateProviderRating providerId w =
     (let ratings = map rv_rating (filter (\<lambda>r. rv_providerId r = providerId) (reviews w))
      in (if ratings = [] then None else Some (of_int (sum_list ratings) / of_nat (length ratings)),
          length ratings))"

text \<open>\<open>x.toFixed(2)\<close> for \<open>x >= 0\<close>: the nearest multiple of 1/100, the larger of two.\<close>

definition toFixed2 :: "rat \<Rightarrow> rat" where
  "toFixed2 x = of_int \<lfloor>x * 100 + 1 / 2\<rfloor> / 100"

definition updateProviderRatingStats :: "uuid \<Rightarrow> rat \<Rightarrow> nat \<Rightarrow> providerProfile action" where
  "updateProviderRatingStats providerId averageRating totalReviews =
     updateRow providerProfiles providerProfiles_update (idViolation pp_id) (PrismaError P2025) pp_id
       providerId (\<lambda>p. p\<lparr>pp_averageRating := toFixed2 averageRating, pp_totalReviews := totalReviews\<rparr>)"

section \<open>Service\<close>

text \<open>A review with the provider's new average and review count.\<close>

type_synonym reviewResult = "review \<times> rat \<times> nat"

text \<open>\<open>comment?.trim() || null\<close>\<close>

definition trimmedComment :: "string option \<Rightarrow> string option" where
  "trimmedComment c = truthy (map_option trim c)"

text \<open>The part of both transactions that recomputes the provider's statistics.\<close>

definition recalculate :: "uuid \<Rightarrow> review \<Rightarrow> reviewResult action" where
  "recalculate providerId r =
     andThen (reads (aggregateProviderRating providerId)) (\<lambda>(avg, cnt).
     let averageRating = (case avg of None \<Rightarrow> 0 | Some a \<Rightarrow> a) in
     andThen (updateProviderRatingStats providerId averageRating cnt) (\<lambda>_.
     ret (r, toFixed2 averageRating, cnt)))"

definition profileKey :: "uuid \<Rightarrow> string" where
  "profileKey providerId = ''provider:profile:'' @ providerId"

definition createReview ::
  "env \<Rightarrow> uuid \<Rightarrow> createReviewDto \<Rightarrow> uuid option \<Rightarrow> reviewResult action" where
  "createReview e customerId dto pathBookingId =
     (case orOpt pathBookingId (cr_bookingId dto) of
        None \<Rightarrow> throw (BadRequestException ''bookingId must be provided in URL or body'')
      | Some bookingId \<Rightarrow>
     andThen (reads (booking_findById bookingId)) (\<lambda>booking.
     case booking of
       None \<Rightarrow> throw (NotFoundException (''Booking \"'' @ bookingId @ ''\" not found''))
     | Some b \<Rightarrow>
     andThen (check (b_customerId b = customerId)
       (ForbiddenException ''You are not authorized to review a booking that does not belong to you'')) (\<lambda>_.
     andThen (check (b_bookingStatus b = COMPLETED)
       (BadRequestException (''Cannot review booking in \"'' @ bookingStatusName (b_bookingStatus b) @
          ''\" status. Booking must be COMPLETED.''))) (\<lambda>_.
     andThen (reads (review_findByBookingId bookingId)) (\<lambda>existingReview.
     andThen (check (existingReview = None)
       (ConflictException ''A review has already been submitted for this booking'')) (\<lambda>_.
     andThen (transaction
       (andThen (review_create e bookingId customerId (b_providerId b) (cr_rating dto)
          (trimmedComment (cr_comment dto))) (recalculate (b_providerId b)))) (\<lambda>result.
     andThen (redis_del e (profileKey (b_providerId b))) (\<lambda>_.
     ret result))))))))"

definition getProviderReviews :: "uuid \<Rightarrow> reviewQuery \<Rightarrow> review paginated action" where
  "getProviderReviews providerId q = reads (review_findByProviderId providerId q)"

definition withComment :: "string option option \<Rightarrow> review \<Rightarrow> review" where
  "withComment c r = (case c of None \<Rightarrow> r | Some v \<Rightarrow> r\<lparr>rv_comment := trimmedComment v\<rparr>)"

text \<open>The statistics of the result are absent when the rating did not change.\<close>

definition updateReview ::
  "env \<Rightarrow> uuid \<Rightarrow> uuid \<Rightarrow> updateReviewDto \<Rightarrow> (review \<times> (rat \<times> nat) option) action" where
  "updateReview e customerId reviewId dto =
     andThen (reads (review_findById reviewId)) (\<lambda>review.
     case review of
       None \<Rightarrow> throw (NotFoundException ''Review not found'')
     | Some r \<Rightarrow>
     andThen (check (rv_customerId r = customerId)
       (ForbiddenException ''You are not authorized to update this review'')) (\<lambda>_.
     case ur_rating dto of
       Some n \<Rightarrow>
         if n \<noteq> rv_rating r then
           andThen (transaction
             (andThen (review_update reviewId (\<lambda>x. withComment (ur_comment dto) (x\<lparr>rv_rating := n\<rparr>)))
                (recalculate (rv_providerId r)))) (\<lambda>(updated, metrics).
           andThen (redis_del e (profileKey (rv_providerId r))) (\<lambda>_.
           ret (updated, Some metrics)))
         else andThen (review_update reviewId (withComment (ur_comment dto))) (\<lambda>u. ret (u, None))
     | None \<Rightarrow> andThen (review_update reviewId (withComment (ur_comment dto))) (\<lambda>u. ret (u, None))))"

definition getBookingReview :: "uuid \<Rightarrow> review action" where
  "getBookingReview bookingId =
     andThen (reads (review_findByBookingId bookingId)) (\<lambda>review.
     case review of
       None \<Rightarrow> throw (NotFoundException (''No review found for booking with ID \"'' @ bookingId @ ''\"''))
     | Some r \<Rightarrow> ret r)"

section \<open>The rating statistics\<close>

text \<open>
  The invariant of the component: one review per booking, and every profile
  carries the rounded average and the number of its reviews.
\<close>

definition ratingStats :: "uuid \<Rightarrow> world \<Rightarrow> rat \<times> nat" where
  "ratingStats providerId w =
     (case aggregateProviderRating providerId w of
        (avg, cnt) \<Rightarrow> (toFixed2 (case avg of None \<Rightarrow> 0 | Some a \<Rightarrow> a), cnt))"

definition statsOk :: "world \<Rightarrow> bool" where
  "statsOk w \<longleftrightarrow> (\<forall>p \<in> set (providerProfiles w).
     (pp_averageRating p, pp_totalReviews p) = ratingStats (pp_id p) w)"

definition reviewsOk :: "world \<Rightarrow> bool" where
  "reviewsOk w \<longleftrightarrow>
     distinct (map rv_id (reviews w)) \<and> distinct (map rv_bookingId (reviews w)) \<and> statsOk w"

lemma toFixed2_int: "toFixed2 (of_int n) = of_int n"
proof -
  have "\<lfloor>of_int n * 100 + 1 / 2 :: rat\<rfloor> = n * 100" by (intro floor_unique) auto
  then show ?thesis by (simp add: toFixed2_def)
qed

lemma toFixed2_numeral [simp]: "toFixed2 0 = 0" "toFixed2 (numeral k) = numeral k"
  using toFixed2_int [of 0] toFixed2_int [of "numeral k"] by simp_all

lemma ratingStats_reviews:
  "filter (\<lambda>r. rv_providerId r = i) (reviews w) = filter (\<lambda>r. rv_providerId r = i) (reviews w') \<Longrightarrow>
     ratingStats i w = ratingStats i w'"
  by (simp add: ratingStats_def aggregateProviderRating_def)

lemma reviewViolation_None:
  "reviewViolation r t = None \<longleftrightarrow> rv_id r \<notin> rv_id ` set t \<and> rv_bookingId r \<notin> rv_bookingId ` set t"
  by (simp add: reviewViolation_def)

lemma ratingStats_other_tables [simp]:
  "ratingStats i (providerProfiles_update f w) = ratingStats i w"
  "ratingStats i (drawn_update g w) = ratingStats i w"
  "ratingStats i (redis_update h w) = ratingStats i w"
  by (simp_all add: ratingStats_def aggregateProviderRating_def)

text \<open>What the recalculation writes.\<close>

lemma recalculate_ok:
  assumes "recalculate i r w = (Inr x, w')"
  shows "x = (r, ratingStats i w)"
    and "w' = providerProfiles_update (mapRows (\<lambda>p. pp_id p = i)
           (\<lambda>p. p\<lparr>pp_averageRating := fst (ratingStats i w), pp_totalReviews := snd (ratingStats i w)\<rparr>)) w"
  using assms
  by (auto simp: recalculate_def updateProviderRatingStats_def updateRow_def run_simps ratingStats_def
      split: prod.splits option.splits sum.splits)

lemma recalculate_statsOk:
  assumes "recalculate i r w = (Inr x, w')"
    and "\<And>p. p \<in> set (providerProfiles w) \<Longrightarrow> pp_id p \<noteq> i \<Longrightarrow>
      (pp_averageRating p, pp_totalReviews p) = ratingStats (pp_id p) w"
  shows "statsOk w'"
  using assms(2) by (auto simp: recalculate_ok(2) [OF assms(1)] statsOk_def set_mapRows)

text \<open>Writing one review leaves the statistics of other providers as they are.\<close>

lemma createTx_reviewsOk:
  assumes "andThen (review_create e b c i n m) (recalculate i) w = (Inr x, w')" and "reviewsOk w"
  shows "reviewsOk w'"
proof -
  obtain r w1 where r: "review_create e b c i n m w = (Inr r, w1)"
    and x: "recalculate i r w1 = (Inr x, w')"
    using assms(1) by (rule andThen_InrD)
  have r1: "rv_providerId r = i" and w1: "reviews w1 = reviews w @ [r]"
    and p1: "providerProfiles w1 = providerProfiles w"
    and v: "rv_id r \<notin> rv_id ` set (reviews w)" "rv_bookingId r \<notin> rv_bookingId ` set (reviews w)"
    using r by (auto simp: review_create_def drawUuid_def run_simps insertRow_def reviewViolation_None
        split: option.splits)
  have "statsOk w'"
  proof (rule recalculate_statsOk [OF x])
    fix p
    assume p: "p \<in> set (providerProfiles w1)" "pp_id p \<noteq> i"
    then have "ratingStats (pp_id p) w1 = ratingStats (pp_id p) w"
      by (intro ratingStats_reviews) (simp add: w1 r1)
    with p assms(2) p1 show "(pp_averageRating p, pp_totalReviews p) = ratingStats (pp_id p) w1"
      by (simp add: reviewsOk_def statsOk_def)
  qed
  with assms(2) w1 v show ?thesis
    by (simp add: reviewsOk_def recalculate_ok(2) [OF x])
qed

lemma withComment_simps [simp]:
  "rv_id (withComment c r) = rv_id r" "rv_bookingId (withComment c r) = rv_bookingId r"
  "rv_providerId (withComment c r) = rv_providerId r" "rv_rating (withComment c r) = rv_rating r"
  "rv_customerId (withComment c r) = rv_customerId r"
  by (simp_all add: withComment_def split: option.splits)

lemma review_update_ok:
  assumes "review_update i f w = (Inr u, w')"
  obtains r where "review_findById i w = Some r" and "u = f r"
    and "w' = reviews_update (mapRows (\<lambda>x. rv_id x = i) f) w"
  using assms by (auto simp: review_update_def updateRow_def review_findById_def split: option.splits)

lemma updateTx_reviewsOk:
  assumes "andThen (review_update i f) (recalculate j) w = (Inr x, w')" and ok: "reviewsOk w"
    and f: "\<And>r. rv_id (f r) = rv_id r" "\<And>r. rv_bookingId (f r) = rv_bookingId r"
      "\<And>r. rv_providerId (f r) = rv_providerId r"
    and j: "\<And>r. r \<in> set (reviews w) \<Longrightarrow> rv_id r = i \<Longrightarrow> rv_providerId r = j"
  shows "reviewsOk w'"
proof -
  obtain r w1 where r: "review_update i f w = (Inr r, w1)" and x: "recalculate j r w1 = (Inr x, w')"
    using assms(1) by (rule andThen_InrD)
  have w1: "w1 = reviews_update (mapRows (\<lambda>x. rv_id x = i) f) w"
    using r by (rule review_update_ok)
  have other: "filter (\<lambda>r. rv_providerId r = k) (mapRows (\<lambda>x. rv_id x = i) f t) =
      filter (\<lambda>r. rv_providerId r = k) t"
    if "k \<noteq> j" "\<And>r. r \<in> set t \<Longrightarrow> rv_id r = i \<Longrightarrow> rv_providerId r = j" for k t
    using that by (induction t) (auto simp: f(3))
  have "statsOk w'"
  proof (rule recalculate_statsOk [OF x])
    fix p
    assume p: "p \<in> set (providerProfiles w1)" "pp_id p \<noteq> j"
    then have "ratingStats (pp_id p) w1 = ratingStats (pp_id p) w"
      using j by (intro ratingStats_reviews) (simp add: w1 other)
    with p ok show "(pp_averageRating p, pp_totalReviews p) = ratingStats (pp_id p) w1"
      by (simp add: reviewsOk_def statsOk_def w1)
  qed
  with ok show ?thesis
    by (simp add: reviewsOk_def recalculate_ok(2) [OF x] w1 map_mapRows f)
qed

lemma comment_reviewsOk:
  assumes "reviewsOk w"
  shows "reviewsOk (snd (review_update i (withComment c) w))"
proof (cases "review_update i (withComment c) w")
  case (Pair res w')
  have same: "map rv_rating (filter (\<lambda>r. rv_providerId r = k) (mapRows p (withComment c) t)) =
      map rv_rating (filter (\<lambda>r. rv_providerId r = k) t)" for k p t
    by (induction t) auto
  have stats: "ratingStats k (reviews_update (mapRows (\<lambda>x. rv_id x = i) (withComment c)) w) =
      ratingStats k w" for k
    by (simp add: ratingStats_def aggregateProviderRating_def same)
  show ?thesis
  proof (cases res)
    case (Inl a)
    with Pair assms show ?thesis
      by (auto simp: review_update_def updateRow_def split: option.splits)
  next
    case (Inr u)
    with Pair have "review_update i (withComment c) w = (Inr u, w')" by simp
    then have "w' = reviews_update (mapRows (\<lambda>x. rv_id x = i) (withComment c)) w"
      by (rule review_update_ok)
    with Pair assms show ?thesis
      by (auto simp: reviewsOk_def statsOk_def stats map_mapRows)
  qed
qed

end
