(* ===== verification/Admin.thy ===== *)
theory Admin
  imports Auth Review Payment
begin

text \<open>
  Administration: users, providers, audit logs, bookings, payments and the
  dashboard (\<open>modules/admin/services\<close> and \<open>modules/admin/repositories\<close>).
\<close>

section \<open>Requests\<close>

datatype adminUserRoleFilter = FILTER_USER | FILTER_ADMIN | FILTER_PROVIDER

record adminUserQuery =
  auq_page :: "int option"
  auq_limit :: "int option"
  auq_search :: "string option"
  auq_role :: "adminUserRoleFilter option"
  auq_status :: "UserStatus option"
  auq_email :: "string option"
  auq_phone :: "string option"
  auq_createdAt :: "string option"

record adminProviderQuery =
  apq_status :: "VerificationStatus option"
  apq_search :: "string option"
  apq_page :: "int option"
  apq_limit :: "int option"

section \<open>AdminUserRepository\<close>

definition isProviderUser :: "world \<Rightarrow> user \<Rightarrow> bool" where
  "isProviderUser w u \<longleftrightarrow> (\<exists>p \<in> set (providerProfiles w). pp_userId p = u_id u)"

text \<open>The lower bound on the creation date, when the text is a date and no direction.\<close>

definition createdFrom :: "env \<Rightarrow> adminUserQuery \<Rightarrow> date option" where
  "createdFrom e q =
     (case truthy (auq_createdAt q) of
        None \<Rightarrow> None
      | Some s \<Rightarrow> if toLowerCase s = ''asc'' \<or> toLowerCase s = ''desc'' then None else parseDate e s)"

text \<open>The rows are always ordered by descending creation date, whatever the query asks for.\<close>

definition adminUser_findAllPaginated :: "env \<Rightarrow> adminUserQuery \<Rightarrow> world \<Rightarrow> user paginated" where
  "adminUser_findAllPaginated e q w =
     (let page = orInt (auq_page q) 1; limit = orInt (auq_limit q) 10;
          rows = filter (\<lambda>u. optEq (auq_status q) (u_status u)
            \<and> containsInsensitive (auq_email q) (u_email u)
            \<and> (case truthy (auq_phone q) of None \<Rightarrow> True | Some s \<Rightarrow> includesText (u_phone u) s)
            \<and> (case truthy (auq_search q) of None \<Rightarrow> True | Some s \<Rightarrow>
                 textMatches s (u_email u) \<or> textMatches s (u_firstName u)
                 \<or> textMatches s (u_lastName u) \<or> textMatches s (u_phone u))
            \<and> (case auq_role q of None \<Rightarrow> True
               | Some FILTER_PROVIDER \<Rightarrow> isProviderUser w u
               | Some FILTER_USER \<Rightarrow> u_role u = USER
               | Some FILTER_ADMIN \<Rightarrow> u_role u = ADMIN)
            \<and> withinDates (createdFrom e q) None (u_createdAt u)) (users w)
      in paginate (pageRows page limit (orderDesc u_createdAt rows)) (length rows) page limit)"

definition adminUser_updateStatus :: "uuid \<Rightarrow> UserStatus \<Rightarrow> user action" where
  "adminUser_updateStatus i s = user_update i (\<lambda>u. u\<lparr>u_status := s\<rparr>)"

definition countActiveAdmin :: "world \<Rightarrow> nat" where
  "countActiveAdmin w = countRows (\<lambda>u. u_role u = ADMIN \<and> u_status u = ACTIVE) (users w)"

section \<open>AdminUserService\<close>

definition adminUser_findAll :: "env \<Rightarrow> adminUserQuery \<Rightarrow> user paginated action" where
  "adminUser_findAll e q = reads (adminUser_findAllPaginated e q)"

definition adminUser_findOne :: "uuid \<Rightarrow> user action" where
  "adminUser_findOne i =
     andThen (reads (user_findById i)) (\<lambda>user.
     case user of
       None \<Rightarrow> throw (NotFoundException (''User with ID \"'' @ i @ ''\" not found''))
     | Some u \<Rightarrow> ret u)"

definition updateStatus :: "env \<Rightarrow> uuid \<Rightarrow> UserStatus \<Rightarrow> uuid option \<Rightarrow> user action" where
  "updateStatus e i status adminUserId =
     andThen (adminUser_findOne i) (\<lambda>existing.
     andThen (check (Some (u_id existing) \<noteq> adminUserId)
       (BadRequestException ''Admin cannot change their own account status'')) (\<lambda>_.
     andThen
       (if u_role existing = ADMIN \<and> u_status existing = ACTIVE \<and> status \<noteq> ACTIVE then
          andThen (reads countActiveAdmin) (\<lambda>activeAdminCount.
          check (\<not> activeAdminCount \<le> 1)
            (BadRequestException ''Cannot suspend or deactivate the final active administrative account''))
        else ret ()) (\<lambda>_.
     andThen
       (case truthy adminUserId of
          None \<Rightarrow> ret ()
        | Some a \<Rightarrow>
            andThen (auditLog_create e
              \<lparr>ap_actorUserId = Some a, ap_entityType = ''User'', ap_entityId = i,
               ap_action = (if status = UserStatus.SUSPENDED then USER_SUSPENDED else USER_STATUS_UPDATED),
               ap_oldValue = Some (JObj [(''status'', JStr (userStatusName (u_status existing)))]),
               ap_newValue = Some (JObj [(''status'', JStr (userStatusName status))])\<rparr>) (\<lambda>_. ret ())) (\<lambda>_.
     adminUser_updateStatus i status))))"

section \<open>AdminProviderService\<close>

definition adminProvider_findAllPaginated :: "adminProviderQuery \<Rightarrow> world \<Rightarrow> providerProfile paginated" where
  "adminProvider_findAllPaginated q w =
     (let page = orInt (apq_page q) 1; limit = orInt (apq_limit q) 10;
          rows = filter (\<lambda>p. optEq (apq_status q) (pp_verificationStatus p)
            \<and> containsInsensitive (apq_search q) (pp_businessName p)) (providerProfiles w)
      in paginate (pageRows page limit (orderDesc pp_createdAt rows)) (length rows) page limit)"

text \<open>The statements are not in one transaction: each is committed on its own.\<close>

definition updateVerificationStatus ::
  "env \<Rightarrow> uuid \<Rightarrow> VerificationStatus \<Rightarrow> string option \<Rightarrow> providerProfile action" where
  "updateVerificationStatus e i status rejectionReason =
     andThen (updateRow providerProfiles providerProfiles_update profileViolation (PrismaError P2025)
       pp_id i (\<lambda>p. p\<lparr>pp_verificationStatus := status\<rparr>)) (\<lambda>profile.
     andThen
       (case truthy rejectionReason of
          Some r \<Rightarrow>
            updateRows providerDocuments providerDocuments_update (\<lambda>d. pd_providerId d = i)
              (\<lambda>d. d\<lparr>pd_rejectionReason := Some r, pd_verificationStatus := REJECTED\<rparr>)
        | None \<Rightarrow>
            if status = VERIFIED then
              updateRows providerDocuments providerDocuments_update (\<lambda>d. pd_providerId d = i)
                (\<lambda>d. d\<lparr>pd_verificationStatus := VERIFIED, pd_verifiedAt := Some (nowMs e)\<rparr>)
            else ret 0) (\<lambda>_.
     ret profile))"

definition adminProvider_findAll :: "adminProviderQuery \<Rightarrow> providerProfile paginated action" where
  "adminProvider_findAll q = reads (adminProvider_findAllPaginated q)"

definition adminProvider_findOne :: "uuid \<Rightarrow> providerProfile action" where
  "adminProvider_findOne i =
     andThen (reads (provider_findById i)) (\<lambda>provider.
     case provider of
       None \<Rightarrow> throw (NotFoundException (''Provider profile with ID \"'' @ i @ ''\" not found''))
     | Some p \<Rightarrow> ret p)"

text \<open>The steps that verifying, rejecting and suspending share after their checks.\<close>

definition decideProvider ::
  "env \<Rightarrow> uuid \<Rightarrow> providerProfile \<Rightarrow> VerificationStatus \<Rightarrow> string option \<Rightarrow> AuditAction \<Rightarrow> json \<Rightarrow>
   uuid option \<Rightarrow> providerProfile action" where
  "decideProvider e i existing status reason act newValue actorUserId =
     andThen (updateVerificationStatus e i status reason) (\<lambda>result.
     andThen (auditLog_create e
       \<lparr>ap_actorUserId = actorUserId, ap_entityType = ''ProviderProfile'', ap_entityId = i,
        ap_action = act,
        ap_oldValue = Some (JObj [(''status'', JStr (verificationStatusName (pp_verificationStatus existing)))]),
        ap_newValue = Some newValue\<rparr>) (\<lambda>_.
     andThen (invalidateProvider e i) (\<lambda>_.
     ret result)))"

definition statusJson :: "VerificationStatus \<Rightarrow> json" where
  "statusJson s = JObj [(''status'', JStr (verificationStatusName s))]"

definition verifyProvider :: "env \<Rightarrow> uuid \<Rightarrow> uuid option \<Rightarrow> providerProfile action" where
  "verifyProvider e i actorUserId =
     andThen (adminProvider_findOne i) (\<lambda>existing.
     decideProvider e i existing VERIFIED None PROVIDER_VERIFIED (statusJson VERIFIED) actorUserId)"

definition rejectProvider :: "env \<Rightarrow> uuid \<Rightarrow> string \<Rightarrow> uuid option \<Rightarrow> providerProfile action" where
  "rejectProvider e i reason actorUserId =
     andThen (adminProvider_findOne i) (\<lambda>existing.
     decideProvider e i existing REJECTED (Some reason) PROVIDER_REJECTED
       (JObj [(''status'', JStr ''REJECTED''), (''rejectReason'', JStr reason)]) actorUserId)"

definition suspendProvider :: "env \<Rightarrow> uuid \<Rightarrow> uuid option \<Rightarrow> providerProfile action" where
  "suspendProvider e i actorUserId =
     andThen (adminProvider_findOne i) (\<lambda>existing.
     andThen (check (pp_verificationStatus existing = VERIFIED)
       (BadRequestException (''Cannot suspend provider with status '' @ [CHR 0x27] @
          verificationStatusName (pp_verificationStatus existing) @ [CHR 0x27] @
          ''. Only VERIFIED providers can be suspended.''))) (\<lambda>_.
     decideProvider e i existing VerificationStatus.SUSPENDED None PROVIDER_SUSPENDED
       (statusJson VerificationStatus.SUSPENDED) actorUserId))"

section \<open>Audit logs, bookings and payments\<close>

definition adminAuditLog_findAll :: "env \<Rightarrow> auditLogQuery \<Rightarrow> auditLog paginated action" where
  "adminAuditLog_findAll e q = auditLog_findAll e q"

definition adminAuditLog_findOne :: "uuid \<Rightarrow> auditLog action" where
  "adminAuditLog_findOne i =
     andThen (reads (auditLog_findById i)) (\<lambda>log.
     case log of
       None \<Rightarrow> throw (NotFoundException (''Audit log with ID \"'' @ i @ ''\" not found''))
     | Some l \<Rightarrow> ret l)"

definition adminBooking_findAll :: "env \<Rightarrow> bookingQuery \<Rightarrow> booking paginated action" where
  "adminBooking_findAll e q = getAllBookingsForAdmin e q"

definition adminBooking_findOne :: "uuid \<Rightarrow> booking action" where
  "adminBooking_findOne i = getBookingByIdForAdmin i"

definition adminPayment_findAll :: "env \<Rightarrow> paymentQuery \<Rightarrow> payment paginated action" where
  "adminPayment_findAll e q = getAllPaymentsForAdmin e q"

definition adminPayment_findOne :: "uuid \<Rightarrow> payment action" where
  "adminPayment_findOne i = getPaymentByIdForAdmin i"

section \<open>Dashboard\<close>

text \<open>\<open>groupBy\<close> a column with the count of each group, as a look-up table.\<close>

definition groupCount :: "('r \<Rightarrow> 'k) \<Rightarrow> 'r list \<Rightarrow> ('k \<times> nat) list" where
  "groupCount key t = map (\<lambda>k. (k, countRows (\<lambda>r. key r = k) t)) (remdups (map key t))"

definition groupOr0 :: "('k \<times> nat) list \<Rightarrow> 'k \<Rightarrow> nat" where
  "groupOr0 groups k = (case map_of groups k of None \<Rightarrow> 0 | Some n \<Rightarrow> n)"

record dashboard =
  db_totalUsers :: nat
  db_customers :: int
  db_providerUsers :: nat
  db_usersByStatus :: "(UserStatus \<times> nat) list"
  db_totalProviders :: nat
  db_pendingVerification :: nat
  db_verified :: nat
  db_suspended :: nat
  db_providersByStatus :: "(VerificationStatus \<times> nat) list"
  db_totalBookings :: nat
  db_todayBookings :: nat
  db_confirmed :: nat
  db_completed :: nat
  db_cancelled :: nat
  db_bookingsByStatus :: "(BookingStatus \<times> nat) list"
  db_successful :: nat
  db_refunded :: nat
  db_totalReviews :: nat
  db_averageRating :: rat
  db_totalVolume :: rat

definition getDashboardStats :: "env \<Rightarrow> dashboard action" where
  "getDashboardStats e = reads (\<lambda>w.
     let startOfToday = setUTCHours (nowMs e) 0 0 0 0;
         endOfToday = setUTCHours (nowMs e) 23 59 59 999;
         providerGroups = groupCount pp_verificationStatus (providerProfiles w);
         bookingGroups = groupCount b_bookingStatus (bookings w);
         paymentGroups = groupCount pay_status (payments w);
         providerUsers = countRows (isProviderUser w) (users w);
         ratings = map rv_rating (reviews w);
         rawAvg = (if ratings = [] then 0 else of_int (sum_list ratings) / of_nat (length ratings)) in
     \<lparr>db_totalUsers = length (users w),
      db_customers = max 0 (int (length (users w)) - int providerUsers),
      db_providerUsers = providerUsers,
      db_usersByStatus = groupCount u_status (users w),
      db_totalProviders = sum_list (map snd providerGroups),
      db_pendingVerification = groupOr0 providerGroups VerificationStatus.PENDING,
      db_verified = groupOr0 providerGroups VERIFIED,
      db_suspended = groupOr0 providerGroups VerificationStatus.SUSPENDED,
      db_providersByStatus = providerGroups,
      db_totalBookings = sum_list (map snd bookingGroups),
      db_todayBookings = countRows (\<lambda>b. startOfToday \<le> b_bookingDate b \<and> b_bookingDate b \<le> endOfToday) (bookings w),
      db_confirmed = groupOr0 bookingGroups CONFIRMED,
      db_completed = groupOr0 bookingGroups COMPLETED,
      db_cancelled = groupOr0 bookingGroups CANCELLED,
      db_bookingsByStatus = bookingGroups,
      db_successful = groupOr0 paymentGroups SUCCESS,
      db_refunded = groupOr0 paymentGroups REFUNDED,
      db_totalReviews = length (reviews w),
      db_averageRating = toFixed2 rawAvg,
      db_totalVolume = sum_list (map pay_amount (filter (\<lambda>p. pay_status p = SUCCESS) (payments w)))\<rparr>)"

end
