(* ===== verification/System.thy ===== *)
theory System
  imports Invariants Processors Availability Admin
begin

text \<open>
  The whole back end as one state machine. A request is a call of one service
  operation or the run of one queued job; \<open>execute\<close> is its effect, and \<open>reachable\<close>
  the states that any sequence of requests can lead to. The components that do not
  write bookings or payments are checked against a second contract, \<open>side_order\<close>.
\<close>

section \<open>The contract of the other tables\<close>

text \<open>
  A preorder that every write to the tables beside bookings, payments, webhook events
  and queues respects, and that the audit log respects when an entry is added. Most
  operations neither write reviews or offerings nor insert profiles or change the
  statistics of one: they need only the first of the two locales.
\<close>

definition keepsRating :: "(providerProfile \<Rightarrow> providerProfile) \<Rightarrow> bool" where
  "keepsRating f \<longleftrightarrow> (\<forall>p. pp_id (f p) = pp_id p \<and> pp_averageRating (f p) = pp_averageRating p
     \<and> pp_totalReviews (f p) = pp_totalReviews p)"

locale outer_order = state_order R
  for R :: "world \<Rightarrow> world \<Rightarrow> bool" +
  assumes R_drawn: "R w (w\<lparr>drawn := Suc (drawn w)\<rparr>)"
    and auditLog_create: "steps R (auditLog_create e params)"
    and R_users: "R w (users_update fu w)"
    and R_profile_rows: "keepsRating fp \<Longrightarrow> R w (providerProfiles_update (mapRows q fp) w)"
    and R_locations: "R w (providerLocations_update fl w)"
    and R_documents: "R w (providerDocuments_update fd w)"
    and R_categories: "R w (categories_update fc w)"
    and R_services: "R w (services_update fs w)"
    and R_availabilities: "R w (availabilities_update fa w)"
    and R_notifications: "R w (notifications_update fn w)"
    and R_redis: "R w (redis_update fk w)"
    and R_outbox: "R w (outbox_update fm w)"
    and R_disk: "R w (disk_update fx w)"
begin

lemmas writes = R_users R_profile_rows R_locations R_documents R_categories R_services
  R_availabilities R_notifications R_redis R_outbox R_disk

lemma case_prod: "(\<And>a b. steps R (f a b)) \<Longrightarrow> steps R (case p of (a, b) \<Rightarrow> f a b)"
  by (cases p) simp

lemma drawUuid: "steps R (drawUuid e)"
  using R_drawn by (simp add: steps_def drawUuid_def)

lemma bcryptHash: "steps R (bcryptHash e s)"
  using R_drawn by (simp add: steps_def bcryptHash_def)

lemma redis_del: "steps R (redis_del e k)"
  unfolding redis_del_def dropKey_def by (intro combinators writes)

lemma redis_set: "steps R (redis_set e k v n)"
  unfolding redis_set_def storeValue_def by (intro combinators writes)

lemma redis_get: "steps R (redis_get e k)"
  unfolding redis_get_def by (rule reads)

lemma getOrSet: "steps R m \<Longrightarrow> steps R (getOrSet e k m n)"
  unfolding getOrSet_def by (intro combinators redis_get redis_set)

lemma incrementSearchVersion: "steps R (incrementSearchVersion e)"
  unfolding incrementSearchVersion_def
  by (auto intro!: combinators R_refl writes split: option.split cacheValue.split)

lemma invalidateProvider: "steps R (invalidateProvider e p)"
  unfolding invalidateProvider_def by (intro combinators redis_del incrementSearchVersion)

lemmas cache_steps = redis_del redis_get redis_set getOrSet incrementSearchVersion invalidateProvider

lemma user_update: "steps R (user_update i f)"
  unfolding user_update_def by (intro combinators writes)

lemma generateTokens: "steps R (generateTokens e u)"
  unfolding generateTokens_def updateRefreshToken_def Let_def
  by (intro combinators bcryptHash user_update)

lemma register: "steps R (register e dto)"
  unfolding register_def user_create_def
  by (intro combinators bcryptHash drawUuid generateTokens writes)

lemma login: "steps R (login e dto)"
  unfolding login_def updateLastLogin_def by (intro combinators user_update generateTokens)

lemma refresh: "steps R (refresh e t)"
  unfolding refresh_def by (intro combinators generateTokens)

lemma logout: "steps R (logout i)"
  unfolding logout_def by (intro combinators user_update)

lemma updateStatus: "steps R (updateStatus e i s a)"
  unfolding updateStatus_def adminUser_findOne_def adminUser_updateStatus_def
  by (intro combinators auditLog_create user_update)

lemma decideProvider: "steps R (decideProvider e i p s r act v a)"
  unfolding decideProvider_def updateVerificationStatus_def
  by (intro combinators auditLog_create invalidateProvider writes) (simp add: keepsRating_def)

lemma verifyProvider: "steps R (verifyProvider e i a)"
  unfolding verifyProvider_def adminProvider_findOne_def by (intro combinators decideProvider)

lemma rejectProvider: "steps R (rejectProvider e i r a)"
  unfolding rejectProvider_def adminProvider_findOne_def by (intro combinators decideProvider)

lemma suspendProvider: "steps R (suspendProvider e i a)"
  unfolding suspendProvider_def adminProvider_findOne_def by (intro combinators decideProvider)

lemma updateOwnProfile: "steps R (updateOwnProfile e u dto)"
  unfolding updateOwnProfile_def getOwnProfile_def provider_update_def
  by (intro combinators cache_steps writes) (simp add: keepsRating_def profileWith_def)

lemma uploadDocument: "steps R (uploadDocument e u ty f)"
  unfolding uploadDocument_def getOwnProfile_def uploadFile_def createDocument_def Let_def
  by (intro combinators drawUuid writes)

lemma availability_createMany: "steps R (availability_createMany e p ss)"
  by (induction ss) (auto intro!: combinators drawUuid writes)

lemma setAvailibity: "steps R (setAvailibity e p ss)"
  unfolding setAvailibity_def replaceAvailibityTransaction_def
  by (intro combinators availability_createMany cache_steps writes)

lemma createCategory: "steps R (createCategory e dto)"
  unfolding createCategory_def category_create_def Let_def
  by (intro combinators drawUuid cache_steps writes)

lemma category_update: "steps R (category_update i f)"
  unfolding category_update_def by (intro combinators writes)

lemma updateCategory: "steps R (updateCategory e i dto)"
  unfolding updateCategory_def category_findOne_def Let_def
  by (intro combinators category_update cache_steps)

lemma removeCategory: "steps R (removeCategory e i)"
  unfolding removeCategory_def category_findOne_def category_delete_def
  by (intro combinators category_update cache_steps)

lemma service_update: "steps R (service_update i f)"
  unfolding service_update_def by (intro combinators writes)

lemma createService: "steps R (createService e dto)"
  unfolding createService_def service_create_def by (intro combinators drawUuid cache_steps writes)

lemma updateService: "steps R (updateService e i dto)"
  unfolding updateService_def service_findOne_def Let_def
  by (intro combinators service_update cache_steps)

lemma removeService: "steps R (removeService e i)"
  unfolding removeService_def service_findOne_def service_delete_def
  by (intro combinators service_update cache_steps)

lemma category_findAll: "steps R (category_findAll e q)"
  unfolding category_findAll_def by (intro combinators cache_steps)

lemma service_findAll: "steps R (service_findAll e q)"
  unfolding service_findAll_def by (intro combinators cache_steps)

lemma getPublicProfileById: "steps R (getPublicProfileById e i)"
  unfolding getPublicProfileById_def by (intro combinators cache_steps)

lemma searchPublicProviders: "steps R (searchPublicProviders e q)"
  unfolding searchPublicProviders_def getSearchVersion_def by (intro combinators cache_steps)

lemma sendEmail: "steps R (sendEmail e to subject txt)"
  unfolding sendEmail_def Let_def by (intro combinators writes)

lemma notification_update: "steps R (notification_update i f)"
  unfolding notification_update_def by (intro combinators writes)

lemma notificationProcessor_process: "steps R (notificationProcessor_process e job k ts)"
  unfolding notificationProcessor_process_def loadNotification_def notification_create_def deliver_def
  by (intro combinators drawUuid sendEmail notification_update writes)

lemma notificationProcessor_onFailed: "steps R (notificationProcessor_onFailed e job k m err)"
  unfolding notificationProcessor_onFailed_def Let_def by (intro combinators writes)

lemma markAsRead: "steps R (markAsRead e i u)"
  unfolding markAsRead_def notification_markAsRead_def by (intro combinators writes)

lemma markAllAsRead: "steps R (markAllAsRead e u)"
  unfolding markAllAsRead_def notification_markAllAsRead_def by (intro combinators writes)

lemmas outer_steps = register login refresh logout updateStatus verifyProvider rejectProvider
  suspendProvider updateOwnProfile uploadDocument setAvailibity createCategory updateCategory
  removeCategory createService updateService removeService category_findAll service_findAll
  getPublicProfileById searchPublicProviders notificationProcessor_process
  notificationProcessor_onFailed markAsRead markAllAsRead

end

locale side_order = outer_order R
  for R :: "world \<Rightarrow> world \<Rightarrow> bool" +
  assumes R_profiles: "R w (providerProfiles_update gp w)"
    and R_offerings: "R w (providerServices_update fo w)"
    and R_reviews: "R w (reviews_update fr w)"
begin

lemmas side_writes = R_profiles R_offerings R_reviews writes

lemma createProfile: "steps R (createProfile e u dto)"
  unfolding createProfile_def provider_create_def by (intro combinators drawUuid side_writes)

lemma createOffering: "steps R (createOffering e p dto)"
  unfolding createOffering_def providerService_create_def
  by (intro combinators drawUuid cache_steps side_writes)

lemma updateOffering: "steps R (updateOffering e p i dto)"
  unfolding updateOffering_def ownOffering_def providerService_update_def
  by (intro combinators cache_steps side_writes)

lemma removeOffering: "steps R (removeOffering e p i)"
  unfolding removeOffering_def ownOffering_def providerService_delete_def providerService_update_def
  by (intro combinators cache_steps side_writes)

lemma recalculate: "steps R (recalculate p r)"
  unfolding recalculate_def updateProviderRatingStats_def Let_def
  by (intro combinators case_prod side_writes)

lemma createReview: "steps R (createReview e c dto i)"
  unfolding createReview_def review_create_def
  by (intro combinators drawUuid recalculate cache_steps side_writes)

lemma updateReview: "steps R (updateReview e c i dto)"
  unfolding updateReview_def review_update_def
  by (intro combinators case_prod recalculate cache_steps side_writes)

lemmas side_steps = outer_steps createProfile createOffering updateOffering removeOffering
  createReview updateReview

end

section \<open>Requests\<close>

text \<open>
  The operations on bookings and payments. \<open>CommitVerification\<close>, \<open>CommitWebhook\<close> and
  \<open>CommitRefund\<close> are the transactions of their handlers on rows that were read
  earlier, outside of them: any other request may run in between.
\<close>

datatype coreRequest =
    CreateBooking uuid createBookingDto
  | CancelBooking uuid uuid cancelBookingDto
  | CompleteBooking uuid uuid "Role option"
  | BookingJob bookingJob
  | CreatePaymentOrder uuid uuid
  | VerifyPayment uuid verifyPaymentDto
  | CommitVerification uuid verifyPaymentDto payment booking
  | Webhook "string option" string "string option"
  | CommitWebhook payment booking string json json json
  | Refund "uuid option" uuid refundPaymentDto
  | CommitRefund "uuid option" refundPaymentDto payment booking gatewayRefundResult

text \<open>The operations of the other components.\<close>

datatype sideRequest =
    Register registerDto
  | Login loginDto
  | Refresh "string option"
  | Logout uuid
  | UpdateUserStatus uuid UserStatus "uuid option"
  | VerifyProvider uuid "uuid option"
  | RejectProvider uuid string "uuid option"
  | SuspendProvider uuid "uuid option"
  | CreateProfile uuid createProviderDto
  | UpdateOwnProfile uuid updateProviderDto
  | UploadDocument uuid DocumentType multerFile
  | CreateOffering uuid createProviderServiceDto
  | UpdateOffering uuid uuid updateProviderServiceDto
  | RemoveOffering uuid uuid
  | SetAvailability uuid "availabilityIntervalDto list"
  | CreateCategory createCategoryDto
  | UpdateCategory uuid updateCategoryDto
  | RemoveCategory uuid
  | CreateService createServiceDto
  | UpdateService uuid updateServiceDto
  | RemoveService uuid
  | ListCategories categoryQuery
  | ListServices serviceQuery
  | ShowProvider uuid
  | SearchProviders providerSearchQuery
  | CreateReview uuid createReviewDto "uuid option"
  | UpdateReview uuid uuid updateReviewDto
  | NotificationJob notificationJob nat date
  | NotificationJobFailed notificationJob nat nat exn
  | MarkAsRead uuid uuid
  | MarkAllAsRead uuid

fun executeCore :: "env \<Rightarrow> coreRequest \<Rightarrow> world \<Rightarrow> world" where
  "executeCore e (CreateBooking u dto) w = snd (createBooking e u dto w)"
| "executeCore e (CancelBooking b u dto) w = snd (cancelBookingAsCustomer e b u dto w)"
| "executeCore e (CompleteBooking b u r) w = snd (completeBooking e b u r w)"
| "executeCore e (BookingJob j) w = snd (bookingProcessor_process e j w)"
| "executeCore e (CreatePaymentOrder u b) w = snd (createPaymentOrder e u b w)"
| "executeCore e (VerifyPayment u dto) w = snd (verifyClientPayment e u dto w)"
| "executeCore e (CommitVerification u dto p b) w = snd (verifyCommit e u dto (p, b) w)"
| "executeCore e (Webhook body sig hdr) w = snd (handleWebhookEvent e body sig hdr w)"
| "executeCore e (CommitWebhook p b i n pl pe) w = snd (webhookCommit e p b i n pl pe w)"
| "executeCore e (Refund u p dto) w = snd (refundPayment e u p dto w)"
| "executeCore e (CommitRefund u dto p b rr) w = snd (refundTx e u dto p b rr w)"

fun executeSide :: "env \<Rightarrow> sideRequest \<Rightarrow> world \<Rightarrow> world" where
  "executeSide e (Register dto) w = snd (register e dto w)"
| "executeSide e (Login dto) w = snd (login e dto w)"
| "executeSide e (Refresh t) w = snd (refresh e t w)"
| "executeSide e (Logout u) w = snd (logout u w)"
| "executeSide e (UpdateUserStatus u s a) w = snd (updateStatus e u s a w)"
| "executeSide e (VerifyProvider p a) w = snd (verifyProvider e p a w)"
| "executeSide e (RejectProvider p r a) w = snd (rejectProvider e p r a w)"
| "executeSide e (SuspendProvider p a) w = snd (suspendProvider e p a w)"
| "executeSide e (CreateProfile u dto) w = snd (createProfile e u dto w)"
| "executeSide e (UpdateOwnProfile u dto) w = snd (updateOwnProfile e u dto w)"
| "executeSide e (UploadDocument u ty f) w = snd (uploadDocument e u ty f w)"
| "executeSide e (CreateOffering p dto) w = snd (createOffering e p dto w)"
| "executeSide e (UpdateOffering p i dto) w = snd (updateOffering e p i dto w)"
| "executeSide e (RemoveOffering p i) w = snd (removeOffering e p i w)"
| "executeSide e (SetAvailability p ss) w = snd (setAvailibity e p ss w)"
| "executeSide e (CreateCategory dto) w = snd (createCategory e dto w)"
| "executeSide e (UpdateCategory i dto) w = snd (updateCategory e i dto w)"
| "executeSide e (RemoveCategory i) w = snd (removeCategory e i w)"
| "executeSide e (CreateService dto) w = snd (createService e dto w)"
| "executeSide e (UpdateService i dto) w = snd (updateService e i dto w)"
| "executeSide e (RemoveService i) w = snd (removeService e i w)"
| "executeSide e (ListCategories q) w = snd (category_findAll e q w)"
| "executeSide e (ListServices q) w = snd (service_findAll e q w)"
| "executeSide e (ShowProvider p) w = snd (getPublicProfileById e p w)"
| "executeSide e (SearchProviders q) w = snd (searchPublicProviders e q w)"
| "executeSide e (CreateReview u dto i) w = snd (createReview e u dto i w)"
| "executeSide e (UpdateReview u i dto) w = snd (updateReview e u i dto w)"
| "executeSide e (NotificationJob j k ts) w = snd (notificationProcessor_process e j k ts w)"
| "executeSide e (NotificationJobFailed j k m err) w = snd (notificationProcessor_onFailed e j k m err w)"
| "executeSide e (MarkAsRead i u) w = snd (markAsRead e i u w)"
| "executeSide e (MarkAllAsRead u) w = snd (markAllAsRead e u w)"

datatype request = Core coreRequest | Side sideRequest

fun execute :: "env \<Rightarrow> request \<Rightarrow> world \<Rightarrow> world" where
  "execute e (Core r) w = executeCore e r w"
| "execute e (Side r) w = executeSide e r w"

text \<open>Every request brings its environment: the clock and the outside world move on.\<close>

definition runAll :: "(env \<times> request) list \<Rightarrow> world \<Rightarrow> world" where
  "runAll rs w = fold (\<lambda>(e, r). execute e r) rs w"

text \<open>
  The system starts with an arbitrary catalogue, users and providers (a seeded or
  migrated database), but without bookings, payments, events and jobs. Identifiers are
  also drawn outside of the operations, to name requests.
\<close>

definition initialState :: "world \<Rightarrow> bool" where
  "initialState w \<longleftrightarrow> bookings w = [] \<and> payments w = [] \<and> webhookEvents w = []
     \<and> bookingQueue w = [] \<and> notificationQueue w = []"

inductive reachable :: "world \<Rightarrow> bool" where
  start: "initialState w \<Longrightarrow> reachable w"
| request: "reachable w \<Longrightarrow> reachable (execute e r w)"
| drawing: "reachable w \<Longrightarrow> drawn w \<le> n \<Longrightarrow> reachable (w\<lparr>drawn := n\<rparr>)"

section \<open>Both contracts together\<close>

context repository_order
begin

lemma bookingProcessor_process: "steps R (bookingProcessor_process e j)"
  unfolding bookingProcessor_process_def
  by (cases "bj_name j") (simp_all add: expireBooking flagOverdueBooking)

lemma executeCore: "R w (executeCore e r w)"
  by (cases r)
    (simp_all add: steps_snd createBooking cancelBookingAsCustomer completeBooking
      bookingProcessor_process createPaymentOrder verifyClientPayment verifyCommit handleWebhookEvent webhookCommit
      refundPayment refundTx)

end

context side_order
begin

lemma executeSide: "R w (executeSide e r w)"
  by (cases r) (simp_all add: steps_snd side_steps)

end

text \<open>What the other components may do to the booking and payment core.\<close>

definition coreStays :: "world \<Rightarrow> world \<Rightarrow> bool" where
  "coreStays w w' \<longleftrightarrow>
     bookings w' = bookings w \<and> payments w' = payments w \<and> webhookEvents w' = webhookEvents w
     \<and> bookingQueue w' = bookingQueue w \<and> notificationQueue w' = notificationQueue w
     \<and> prefix (auditLogs w) (auditLogs w') \<and> drawn w \<le> drawn w'"

interpretation coreStays: side_order coreStays
  by unfold_locales
    (auto simp: coreStays_def steps_def auditLog_create_def drawUuid_def insertRow_def prog_simps
      split: option.splits)

lemma execute_evolves: "evolves w (execute e r w)"
proof (cases r)
  case (Core c)
  then show ?thesis by (simp add: evolves.executeCore)
next
  case (Side s)
  have "coreStays w (executeSide e s w)" by (rule coreStays.executeSide)
  with Side show ?thesis by (simp add: coreStays_def evolves_def)
qed

lemma execute_invariants:
  assumes "bookingsOk w" and "paymentsOk w" and "queuesOk w"
  shows "bookingsOk (execute e r w) \<and> paymentsOk (execute e r w) \<and> queuesOk (execute e r w)"
proof (cases r)
  case (Core c)
  then show ?thesis
    using assms bookingsOk.executeCore [of w e c] paymentsOk.executeCore [of w e c]
      queuesOk.executeCore [of w e c] by simp
next
  case (Side s)
  have "coreStays w (executeSide e s w)" by (rule coreStays.executeSide)
  with Side assms show ?thesis
    by (simp add: coreStays_def bookingsOk_def paymentsOk_def queuesOk_def)
qed

lemma reachable_invariants:
  "reachable w \<Longrightarrow> bookingsOk w \<and> paymentsOk w \<and> queuesOk w"
proof (induction rule: reachable.induct)
  case (start w)
  then show ?case
    by (simp add: initialState_def bookingsOk_def paymentsOk_def queuesOk_def noOverlap_def)
next
  case (request w e r)
  then show ?case by (simp add: execute_invariants)
next
  case (drawing w n)
  then show ?case by (simp add: bookingsOk_def paymentsOk_def queuesOk_def)
qed

lemma runAll_evolves: "evolves w (runAll rs w)"
proof (induction rs arbitrary: w)
  case Nil
  show ?case by (simp add: runAll_def evolves.R_refl)
next
  case (Cons a rs)
  obtain e r where a: "a = (e, r)" by (cases a)
  have "evolves w (execute e r w)" by (rule execute_evolves)
  moreover have "evolves (execute e r w) (runAll rs (execute e r w))" by (rule Cons.IH)
  ultimately show ?case unfolding a runAll_def by (auto intro: evolves.R_trans)
qed

lemma reachable_runAll: "reachable w \<Longrightarrow> reachable (runAll rs w)"
proof (induction rs arbitrary: w)
  case (Cons a rs)
  then show ?case by (cases a) (simp add: runAll_def reachable.request)
qed (simp add: runAll_def)

end
