(* ===== verification/Examples.thy ===== *)
theory Examples
  imports Payment
begin

text \<open>
  A small concrete system on which the theorems of the development are
  instantiated: one customer, one verified provider who works on Fridays from
  09:00 to 17:00, one offering of 60 minutes with a 15 minute buffer.
\<close>

section \<open>Environment\<close>

text \<open>
  The clock stands at 1970-01-01T00:00Z, a Thursday. The functions of the
  environment are simple concrete ones: identifiers are unary numerals, the signature
  of a message is the key followed by the message, one date text and one
  webhook body are known.
\<close>

definition demoStart :: date where "demoStart = 122400000"

definition demoCapture :: json where
  "demoCapture = JObj
     [(''event'', JStr ''payment.captured''), (''event_id'', JStr ''evt1''),
      (''payload'', JObj [(''payment'', JObj [(''entity'', JObj
        [(''id'', JStr ''pay1''), (''order_id'', JStr ''order_h''), (''amount'', JNum 89999),
         (''currency'', JStr ''inr'')])])])]"

definition demoEnv :: env where
  "demoEnv =
     \<lparr>nowMs = 0, uuidAt = (\<lambda>n. replicate (Suc n) (CHR ''u'')),
      randomHexAt = (\<lambda>n. replicate (Suc n) (CHR ''h'')),
      parseDate = (\<lambda>s. if s = ''1970-01-02T10:00:00.000Z'' then Some demoStart else None),
      plusLocalDays = (\<lambda>d n. d + n * dayMs), pgTime0 = (\<lambda>d. d mod dayMs div 1000 * 1000),
      hmacSha256 = (\<lambda>k m. k @ ''#'' @ m),
      parseJson = (\<lambda>s. if s = ''capture'' then Some demoCapture else None),
      isoString = (\<lambda>d. ''iso''), localDateString = (\<lambda>d. ''date''), localTimeString = (\<lambda>d. ''10:00:00''),
      numberText = (\<lambda>r. ''amount''), textNumber = (\<lambda>s. None), configGet = (\<lambda>k. None),
      redisReady = True, sha256Hex = id, urlSearchParams = concat \<circ> map (\<lambda>(k, v). k @ ''='' @ v @ ''&''),
      bcryptHashAt = (\<lambda>n s. ''$'' @ s), bcryptCompare = (\<lambda>s h. h = ''$'' @ s),
      jwtSign = (\<lambda>k x t p. jp_sub p @ ''.'' @ replicate (nat t) (CHR ''t'')),
      jwtVerify = (\<lambda>k t s. None), sendMail = (\<lambda>a b c. (True, None)),
      queueError = (\<lambda>i. None),
      processCwd = ''/srv'', isUuid = (\<lambda>s. s \<noteq> []),
      isEmail = (\<lambda>s. CHR ''@'' \<in> set s), isIndianPhone = (\<lambda>s. s \<noteq> []), isUrl = (\<lambda>s. False),
      isISO8601 = (\<lambda>s. CHR ''T'' \<in> set s), production = False,
      prismaTarget = None, prismaCause = None\<rparr>"

section \<open>State\<close>

definition demoUser :: "uuid \<Rightarrow> user" where
  "demoUser i =
     \<lparr>u_id = i, u_email = i @ ''@example.com'', u_passwordHash = ''hash'', u_firstName = ''Asha'',
      u_lastName = ''Rao'', u_phone = ''123'', u_role = USER, u_refreshTokenHash = None,
      u_status = ACTIVE, u_lastLoginAt = None, u_createdAt = 0\<rparr>"

definition demoProvider :: providerProfile where
  "demoProvider =
     \<lparr>pp_id = ''prov'', pp_userId = ''provUser'', pp_businessName = ''Fixit'', pp_description = None,
      pp_experienceYears = 3, pp_profileImageUrl = None, pp_verificationStatus = VERIFIED,
      pp_averageRating = 0, pp_totalReviews = 0, pp_createdAt = 0\<rparr>"

definition demoService :: service where
  "demoService =
     \<lparr>sv_id = ''svc'', sv_categoryId = ''cat'', sv_name = ''Plumbing'', sv_slug = ''plumbing'',
      sv_description = None, sv_serviceMode = AT_CUSTOMER_LOCATION, sv_defaultDuration = None,
      sv_isActive = True, sv_createdAt = 0\<rparr>"

definition demoOffering :: providerService where
  "demoOffering =
     \<lparr>ps_id = ''offer'', ps_providerId = ''prov'', ps_serviceId = ''svc'', ps_price = 89999 / 100,
      ps_currency = ''INR'', ps_durationMinutes = 60, ps_bufferMinutes = 15, ps_description = None,
      ps_isActive = True, ps_createdAt = 0\<rparr>"

definition demoShift :: availability where
  "demoShift =
     \<lparr>av_id = ''shift'', av_providerId = ''prov'', av_weekday = 5, av_startTime = ''09:00'',
      av_endTime = ''17:00'', av_isAvailable = True\<rparr>"

definition demoWorld :: world where
  "demoWorld =
     \<lparr>users = [demoUser ''cust'', demoUser ''provUser''], providerProfiles = [demoProvider],
      providerLocations = [], providerDocuments = [], categories = [], services = [demoService],
      providerServices = [demoOffering], availabilities = [demoShift], bookings = [], payments = [],
      webhookEvents = [], reviews = [], notifications = [], auditLogs = [], bookingQueue = [],
      notificationQueue = [], redis = Map.empty, outbox = [],
      disk = Map.empty, drawn = 0\<rparr>"

definition demoDto :: createBookingDto where
  "demoDto = \<lparr>cb_providerServiceId = ''offer'', cb_startsAt = ''1970-01-02T10:00:00.000Z'',
              cb_notes = None\<rparr>"

text \<open>
  The booking of that offering for Friday 10:00 with its payment, in given
  statuses, and the system that holds just these rows.
\<close>

definition demoBooking :: "BookingStatus \<Rightarrow> booking" where
  "demoBooking s =
     \<lparr>b_id = ''book'', b_customerId = ''cust'', b_providerId = ''prov'', b_providerServiceId = ''offer'',
      b_bookingDate = 86400000, b_startTime = 36000000, b_endTime = 39600000, b_bookingStatus = s,
      b_bookedPrice = 89999 / 100, b_bookedDuration = 60, b_bookedServiceMode = AT_CUSTOMER_LOCATION,
      b_serviceName = ''Plumbing'', b_providerBusinessName = ''Fixit'', b_customerNotes = None,
      b_cancellationReason = None, b_cancelledAt = None, b_completedAt = None, b_overdueAt = None,
      b_needsReview = False, b_createdAt = 0\<rparr>"

definition demoPayment :: "PaymentStatus \<Rightarrow> payment" where
  "demoPayment s =
     \<lparr>pay_id = ''pay'', pay_bookingId = ''book'', pay_gateway = RAZORPAY,
      pay_gatewayOrderId = ''order_h'', pay_gatewayPaymentId = None, pay_gatewaySignature = None,
      pay_amount = 89999 / 100, pay_currency = ''INR'', pay_status = s, pay_paidAt = None,
      pay_refundedAt = None, pay_createdAt = 0\<rparr>"

definition demoState :: "BookingStatus \<Rightarrow> PaymentStatus \<Rightarrow> world" where
  "demoState bs ps = demoWorld\<lparr>bookings := [demoBooking bs], payments := [demoPayment ps]\<rparr>"

text \<open>The customer's proof of payment for that order.\<close>

definition demoVerify :: verifyPaymentDto where
  "demoVerify =
     \<lparr>vp_razorpayOrderId = ''order_h'', vp_razorpayPaymentId = ''pay1'',
      vp_razorpaySignature = ''rzp_test_mock_secret#order_h|pay1''\<rparr>"

lemmas demo_defs = demoEnv_def demoWorld_def demoDto_def demoUser_def demoProvider_def
  demoService_def demoOffering_def demoShift_def demoStart_def demoBooking_def demoPayment_def
  demoState_def demoVerify_def

section \<open>Evaluation\<close>

text \<open>The definitions a concrete run of a handler unfolds.\<close>

lemmas read_defs = providerService_findById_def providerService_provider_def
  providerService_user_def providerService_service_def availability_findByProviderId_def
  orderAsc_def booking_findById_def booking_providerUserId_def payment_findById_def
  payment_findByGatewayOrderId_def findWebhookEvent_def

lemmas date_defs = getUTCDay_def getUTCHours_def getUTCMinutes_def getUTCSeconds_def dayMs_def
  setUTCHours_def

lemmas write_defs = auditLog_create_def booking_create_def booking_updateStatus_def
  booking_update_def booking_updateMany_def payment_create_def payment_updateStatus_def
  payment_updateMany_def recordWebhookEvent_def markWebhookEventProcessed_def
  notification_create_def drawUuid_def drawHex_def insertRow_def updateRow_def updateRows_def
  deleteRows_def bookingRow_def paymentRow_def paymentWith_def orKeep_def noDetails_def
  bookingViolation_def paymentViolation_def webhookViolation_def idViolation_def
  conflicting_def slotsOverlap_def slotStart_def slotEnd_def occupiesSlot_def
  countRows_def

lemmas queue_defs = schedulePaymentExpiration_def scheduleOverdueCheck_def queueCommand_def cancelBookingJob_eq
  cancelPaymentExpiration_def cancelOverdueCheck_def removeJob_def addJob_def
  expireJobId_def overdueJobId_def

lemmas confirm_defs = scheduleConfirmed_def scheduleBookingOverdueCheck_def
  scheduleBookingLifecycleNotifications_def sendNotification_def notificationRow_def
  lifecyclePayload_def appointmentStart_def appointmentEnd_def gracePeriodDefault_def hourMs_def

lemma shift_times: "timeToMinutes ''09:00'' = Some 540" "timeToMinutes ''17:00'' = Some 1020"
  by code_simp+

lemma demo_amount: "toSmallestCurrencyUnit (89999 / 100) ''INR'' = 89999"
  by code_simp

lemma demo_create_ok: "isOk (createBooking demoEnv ''cust'' demoDto demoWorld)"
  by (simp add: createBooking_def createBookingTx_def run_simps demo_defs read_defs date_defs
      write_defs queue_defs shift_times fitsInShift_def createOrder_eq isOk_def
      cong: andThen_first)

end
