(* ===== verification/BookingFacts.thy ===== *)
theory BookingFacts
  imports Invariants Examples
begin

text \<open>
  What each operation of the booking service does, on its success and on its
  error branches.
\<close>

section \<open>Audit entries\<close>

text \<open>The row an audit entry stores.\<close>

definition auditRow :: "env \<Rightarrow> uuid \<Rightarrow> createAuditLogParams \<Rightarrow> auditLog" where
  "auditRow e i a =
     \<lparr>al_id = i, al_actorUserId = ap_actorUserId a, al_entityType = ap_entityType a,
      al_entityId = ap_entityId a, al_action = ap_action a,
      al_oldValue = orJsonNull (ap_oldValue a), al_newValue = orJsonNull (ap_newValue a),
      al_createdAt = nowMs e\<rparr>"

lemma auditLog_create_app:
  "auditLog_create e a w =
     (if uuidAt e (drawn w) \<in> al_id ` set (auditLogs w)
      then (Inl (PrismaError P2002), w\<lparr>drawn := Suc (drawn w)\<rparr>)
      else (Inr (auditRow e (uuidAt e (drawn w)) a),
            w\<lparr>drawn := Suc (drawn w),
              auditLogs := auditLogs w @ [auditRow e (uuidAt e (drawn w)) a]\<rparr>))"
  by (simp add: auditLog_create_def drawUuid_def insertRow_def idViolation_def prog_simps auditRow_def)

lemma booking_create_app:
  "booking_create e d w =
     (case bookingViolation (bookingRow e (uuidAt e (drawn w)) d) (bookings w) of
        Some err \<Rightarrow> (Inl err, w\<lparr>drawn := Suc (drawn w)\<rparr>)
      | None \<Rightarrow> (Inr (bookingRow e (uuidAt e (drawn w)) d),
                 w\<lparr>drawn := Suc (drawn w),
                   bookings := bookings w @ [bookingRow e (uuidAt e (drawn w)) d]\<rparr>))"
  by (simp add: booking_create_def drawUuid_def insertRow_def prog_simps split: option.split)

lemma payment_create_app:
  "payment_create e d w =
     (case paymentViolation (paymentRow e (uuidAt e (drawn w)) d) (payments w) of
        Some err \<Rightarrow> (Inl err, w\<lparr>drawn := Suc (drawn w)\<rparr>)
      | None \<Rightarrow> (Inr (paymentRow e (uuidAt e (drawn w)) d),
                 w\<lparr>drawn := Suc (drawn w),
                   payments := payments w @ [paymentRow e (uuidAt e (drawn w)) d]\<rparr>))"
  by (simp add: payment_create_def drawUuid_def insertRow_def prog_simps split: option.split)

lemmas create_apps = auditLog_create_app booking_create_app payment_create_app

section \<open>createBooking\<close>

text \<open>The conditions under which a request reaches the payment gateway.\<close>

definition bookable ::
  "env \<Rightarrow> createBookingDto \<Rightarrow> world \<Rightarrow> providerService \<Rightarrow> providerProfile \<Rightarrow> date \<Rightarrow> bool" where
  "bookable e dto w ps pp start \<longleftrightarrow>
     providerService_findById (cb_providerServiceId dto) w = Some ps \<and> ps_isActive ps
     \<and> providerService_provider ps w = Some pp \<and> pp_verificationStatus pp = VERIFIED
     \<and> map_option u_status (providerService_user pp w) = Some ACTIVE
     \<and> parseDate e (cb_startsAt dto) = Some start
     \<and> nowMs e \<le> start \<and> start \<le> plusLocalDays e (nowMs e) 30
     \<and> list_ex (\<lambda>s. av_providerId s = ps_providerId ps \<and> av_weekday s = getUTCDay start
          \<and> av_isAvailable s
          \<and> fitsInShift (getUTCHours start * 60 + getUTCMinutes start)
              (getUTCHours start * 60 + getUTCMinutes start + ps_durationMinutes ps + ps_bufferMinutes ps) s)
         (availabilities w)"

text \<open>The part of the handler from the transaction on.\<close>

definition createBookingCommit ::
  "env \<Rightarrow> uuid \<Rightarrow> createBookingDto \<Rightarrow> providerService \<Rightarrow> providerProfile \<Rightarrow> date \<Rightarrow>
   gatewayOrderResult \<Rightarrow> (booking \<times> checkout) action" where
  "createBookingCommit e customerId dto ps pp start order =
     tryCatch
       (andThen (transaction
          (createBookingTx e customerId dto ps pp (setUTCHours start 0 0 0 0) start
             (start + ps_durationMinutes ps * 60 * 1000) order))
          (\<lambda>result.
        andThen (schedulePaymentExpiration e (b_id (fst result)) paymentExpirationDelayMs) (\<lambda>_.
        ret result)))
       (\<lambda>err. if isBookingConflict err
          then throw (ConflictException ''The selected time slot is no longer available. Please select another slot.'')
          else throw err)"

definition orderFor :: "env \<Rightarrow> providerService \<Rightarrow> world \<Rightarrow> gatewayOrderResult" where
  "orderFor e ps w =
     \<lparr>gr_gatewayOrderId = ''order_'' @ randomHexAt e (drawn w), gr_amount = ps_price ps,
      gr_currency = orElse (Some (ps_currency ps)) ''INR'',
      gr_receipt = ''rcpt_'' @ intString (nowMs e),
      gr_rawAmount = toSmallestCurrencyUnit (ps_price ps) (orElse (Some (ps_currency ps)) ''INR'')\<rparr>"

lemma set_findByProviderId:
  "set (availability_findByProviderId i w) = {a \<in> set (availabilities w). av_providerId a = i}"
  by (simp add: availability_findByProviderId_def orderAsc_def)

lemma andThen_createOrder:
  "andThen (createOrder e params) f w =
     f \<lparr>gr_gatewayOrderId = ''order_'' @ randomHexAt e (drawn w), gr_amount = go_amount params,
        gr_currency = go_currency params, gr_receipt = go_receipt params,
        gr_rawAmount = toSmallestCurrencyUnit (go_amount params) (go_currency params)\<rparr>
       (w\<lparr>drawn := Suc (drawn w)\<rparr>)"
  by (simp add: andThen_app createOrder_eq)

lemma createBooking_bookable:
  assumes "bookable e dto w ps pp start"
  shows "createBooking e c dto w =
    createBookingCommit e c dto ps pp start (orderFor e ps w) (w\<lparr>drawn := Suc (drawn w)\<rparr>)"
proof -
  let ?day = "filter (\<lambda>s. av_weekday s = getUTCDay start \<and> av_isAvailable s)
    (availability_findByProviderId (ps_providerId ps) w)"
  let ?m = "getUTCHours start * 60 + getUTCMinutes start"
  have fits: "list_ex (fitsInShift ?m (?m + ps_durationMinutes ps + ps_bufferMinutes ps)) ?day"
    using assms by (auto simp: bookable_def list_ex_iff set_findByProviderId)
  then have "?day \<noteq> []" by auto
  with assms fits show ?thesis
    by (simp add: createBooking_def bookable_def Let_def andThen_createOrder
        createBookingCommit_def orderFor_def not_less)
qed

lemma createBooking_not_bookable:
  assumes "\<nexists>ps pp start. bookable e dto w ps pp start"
  obtains err where "createBooking e c dto w = (Inl err, w)"
proof -
  have "\<exists>err. createBooking e c dto w = (Inl err, w)"
    using assms
    by (auto simp: createBooking_def bookable_def Let_def throw_app list_ex_iff set_findByProviderId
        not_less split: option.split)
  then show thesis using that by blast
qed

text \<open>The rows a successful request inserts.\<close>

definition requestedBooking ::
  "env \<Rightarrow> uuid \<Rightarrow> createBookingDto \<Rightarrow> providerService \<Rightarrow> providerProfile \<Rightarrow> service \<Rightarrow> date \<Rightarrow> uuid \<Rightarrow> booking" where
  "requestedBooking e c dto ps pp sv start i = bookingRow e i
     \<lparr>bi_customerId = c, bi_providerId = ps_providerId ps, bi_providerServiceId = ps_id ps,
      bi_bookingDate = setUTCHours start 0 0 0 0, bi_startTime = start,
      bi_endTime = start + ps_durationMinutes ps * 60 * 1000,
      bi_bookingStatus = PENDING_PAYMENT, bi_bookedPrice = ps_price ps,
      bi_bookedDuration = ps_durationMinutes ps, bi_bookedServiceMode = sv_serviceMode sv,
      bi_serviceName = sv_name sv, bi_providerBusinessName = pp_businessName pp,
      bi_customerNotes = cb_notes dto\<rparr>"

definition firstPayment :: "env \<Rightarrow> providerService \<Rightarrow> string \<Rightarrow> uuid \<Rightarrow> uuid \<Rightarrow> payment" where
  "firstPayment e ps orderId bookingId i = paymentRow e i
     \<lparr>pi_bookingId = bookingId, pi_gateway = RAZORPAY, pi_gatewayOrderId = orderId,
      pi_amount = ps_price ps, pi_currency = orElse (Some (ps_currency ps)) ''INR'',
      pi_status = CREATED\<rparr>"

text \<open>The transaction of a request: who it inserts and what can stop it.\<close>

abbreviation bookingTxFor ::
  "env \<Rightarrow> uuid \<Rightarrow> createBookingDto \<Rightarrow> providerService \<Rightarrow> providerProfile \<Rightarrow> date \<Rightarrow>
   gatewayOrderResult \<Rightarrow> (booking \<times> checkout) action" where
  "bookingTxFor e c dto ps pp start order \<equiv>
     createBookingTx e c dto ps pp (setUTCHours start 0 0 0 0) start
       (start + ps_durationMinutes ps * 60 * 1000) order"

definition checkoutFor :: "payment \<Rightarrow> checkout" where
  "checkoutFor p =
     \<lparr>co_id = pay_id p, co_gateway = pay_gateway p, co_orderId = pay_gatewayOrderId p,
      co_amount = toSmallestCurrencyUnit (pay_amount p) (pay_currency p),
      co_currency = pay_currency p, co_status = pay_status p\<rparr>"

lemma createBookingTx_fst:
  assumes "providerService_service ps w = Some sv"
    and "b = requestedBooking e c dto ps pp sv start (uuidAt e (drawn w))"
    and "p = firstPayment e ps (gr_gatewayOrderId order) (b_id b) (uuidAt e (Suc (drawn w)))"
  shows "fst (bookingTxFor e c dto ps pp start order w) =
    (case bookingViolation b (bookings w) of Some err \<Rightarrow> Inl err | None \<Rightarrow>
     case paymentViolation p (payments w) of Some err \<Rightarrow> Inl err | None \<Rightarrow>
     if uuidAt e (Suc (Suc (drawn w))) \<in> al_id ` set (auditLogs w) then Inl (PrismaError P2002)
     else Inr (b, checkoutFor p))"
  using assms
  by (simp add: createBookingTx_def andThen_app create_apps requestedBooking_def firstPayment_def
      ret_app reads_app checkoutFor_def split: option.split)

lemma createBookingTx_snd:
  assumes "bookingTxFor e c dto ps pp start order w = (Inr (b, co), w')"
  shows "\<exists>sv p l. providerService_service ps w = Some sv
    \<and> b = requestedBooking e c dto ps pp sv start (uuidAt e (drawn w))
    \<and> p = firstPayment e ps (gr_gatewayOrderId order) (b_id b) (uuidAt e (Suc (drawn w)))
    \<and> co = checkoutFor p \<and> bookingViolation b (bookings w) = None
    \<and> bookings w' = bookings w @ [b] \<and> payments w' = payments w @ [p]
    \<and> auditLogs w' = auditLogs w @ [l] \<and> bookingQueue w' = bookingQueue w
    \<and> al_entityId l = b_id b \<and> al_action l = BOOKING_CREATED \<and> al_actorUserId l = Some c"
  using assms
  by (auto simp: createBookingTx_def andThen_app create_apps requestedBooking_def firstPayment_def
      ret_app reads_app throw_app checkoutFor_def auditRow_def split: option.splits if_splits)

lemma createBooking_run:
  assumes "createBooking e c dto w = (Inr (b, co), w')"
  obtains ps pp start t where "bookable e dto w ps pp start"
    and "bookingTxFor e c dto ps pp start (orderFor e ps w) (w\<lparr>drawn := Suc (drawn w)\<rparr>) = (Inr (b, co), t)"
    and "w' = snd (schedulePaymentExpiration e (b_id b) paymentExpirationDelayMs t)"
    and "queueError e (expireJobId (b_id b)) = None"
proof -
  obtain ps pp start where bk: "bookable e dto w ps pp start"
    using assms createBooking_not_bookable [of e dto w c]
    by (metis Pair_inject sum.distinct(1))
  with assms that show thesis
    by (auto simp: createBooking_bookable createBookingCommit_def prog_simps schedulePaymentExpiration_def
        queueCommand_app split: prod.splits sum.splits if_splits option.splits)
qed

text \<open>
  C8. A booking request that succeeds met every condition on the offering, the
  provider, the date and the shift; it inserted exactly one booking in
  \<open>PENDING_PAYMENT\<close> with the offering's price and duration, one payment
  \<open>CREATED\<close> for it, one audit entry, and its expiration job is queued.
\<close>

theorem createBooking_success:
  assumes "createBooking e c dto w = (Inr (b, co), w')"
  shows "\<exists>ps pp sv start p l.
    bookable e dto w ps pp start \<and> providerService_service ps w = Some sv
    \<and> b = requestedBooking e c dto ps pp sv start (uuidAt e (Suc (drawn w)))
    \<and> b_bookingStatus b = PENDING_PAYMENT \<and> (\<forall>x \<in> set (bookings w). \<not> conflicting b x)
    \<and> pay_bookingId p = b_id b \<and> pay_status p = CREATED \<and> pay_amount p = ps_price ps
    \<and> co = checkoutFor p
    \<and> al_entityId l = b_id b \<and> al_action l = BOOKING_CREATED \<and> al_actorUserId l = Some c
    \<and> bookings w' = bookings w @ [b] \<and> payments w' = payments w @ [p]
    \<and> auditLogs w' = auditLogs w @ [l]
    \<and> expireJobId (b_id b) \<in> bj_jobId ` set (bookingQueue w')"
proof -
  obtain ps pp start t where bk: "bookable e dto w ps pp start"
    and tx: "bookingTxFor e c dto ps pp start (orderFor e ps w) (w\<lparr>drawn := Suc (drawn w)\<rparr>) = (Inr (b, co), t)"
    and w': "w' = snd (schedulePaymentExpiration e (b_id b) paymentExpirationDelayMs t)"
    and queue: "queueError e (expireJobId (b_id b)) = None"
    using assms by (rule createBooking_run)
  have job: "expireJobId (b_id b) \<in> bj_jobId ` set (bookingQueue w')"
    using bookingQ.add_present
      [of "\<lparr>bj_jobId = expireJobId (b_id b), bj_name = EXPIRE_PAYMENT, bj_bookingId = b_id b,
           bj_delay = paymentExpirationDelayMs\<rparr>" "bookingQueue t"]
    by (simp add: w' schedulePaymentExpiration_def queueCommand_app queue modify_app)
  have tables: "bookings w' = bookings t" "payments w' = payments t" "auditLogs w' = auditLogs t"
    by (simp_all add: w' schedulePaymentExpiration_def queueCommand_app queue modify_app)
  from createBookingTx_snd [OF tx] bk job show ?thesis
    by (fastforce simp: tables bookingViolation_None
        requestedBooking_def bookingRow_def firstPayment_def paymentRow_def
        providerService_service_def)
qed

theorem createBooking_success_witness:
  "\<exists>b co w' p. createBooking demoEnv ''cust'' demoDto demoWorld = (Inr (b, co), w')
     \<and> b_bookingStatus b = PENDING_PAYMENT \<and> pay_amount p = ps_price demoOffering
     \<and> bookings w' = [b] \<and> payments w' = [p]"
proof -
  obtain b co w' where run: "createBooking demoEnv ''cust'' demoDto demoWorld = (Inr (b, co), w')"
    using isOk_Inr [OF demo_create_ok] by auto
  from createBooking_success [OF run] run show ?thesis
    by (auto simp: demo_defs bookable_def providerService_findById_def)
qed

text \<open>
  C9. A booking request that fails changes no table and no queue (only the draws of the
  identifier generators are spent), with one exception. The expiration job is queued after the
  transaction has committed, and BullMQ may reject it: then the request is answered with an
  error although the booking is there, pending, with its payment and its audit entry, and
  no job that would expire it was added to the queue.
\<close>

theorem createBooking_failure:
  assumes "createBooking e c dto w = (Inl err, w')"
  shows "w' = w\<lparr>drawn := drawn w'\<rparr>
    \<or> (\<exists>b p l. queueError e (expireJobId (b_id b)) \<noteq> None
        \<and> b_customerId b = c \<and> b_bookingStatus b = PENDING_PAYMENT
        \<and> pay_bookingId p = b_id b \<and> pay_status p = CREATED
        \<and> al_entityId l = b_id b \<and> al_action l = BOOKING_CREATED
        \<and> bookings w' = bookings w @ [b] \<and> payments w' = payments w @ [p] \<and> auditLogs w' = auditLogs w @ [l]
        \<and> bookingQueue w' = bookingQueue w)"
proof (cases "\<exists>ps pp start. bookable e dto w ps pp start")
  case True
  then obtain ps pp start where bk: "bookable e dto w ps pp start" by blast
  let ?w = "w\<lparr>drawn := Suc (drawn w)\<rparr>"
  have run: "createBookingCommit e c dto ps pp start (orderFor e ps w) ?w = (Inl err, w')"
    using assms by (simp add: createBooking_bookable [OF bk])
  show ?thesis
  proof (cases "bookingTxFor e c dto ps pp start (orderFor e ps w) ?w")
    case (Pair r t)
    show ?thesis
    proof (cases r)
      case (Inl x)
      then have "w' = ?w" using run Pair
        by (auto simp: createBookingCommit_def prog_simps split: if_splits)
      then show ?thesis by simp
    next
      case (Inr bc)
      obtain b co where bc: "bc = (b, co)" by (cases bc)
      have rejected: "queueError e (expireJobId (b_id b)) \<noteq> None" "w' = t"
        using run Pair Inr bc
        by (auto simp: createBookingCommit_def prog_simps schedulePaymentExpiration_def queueCommand_app
            split: if_splits option.splits)
      from Pair Inr bc have "bookingTxFor e c dto ps pp start (orderFor e ps w) ?w = (Inr (b, co), t)" by simp
      from createBookingTx_snd [OF this] rejected show ?thesis
        by (fastforce simp: requestedBooking_def bookingRow_def firstPayment_def paymentRow_def)
    qed
  qed
next
  case False
  then show ?thesis using assms createBooking_not_bookable [of e dto w c] by fastforce
qed

definition rejectingEnv :: env where
  "rejectingEnv = demoEnv\<lparr>queueError := (\<lambda>i. Some ''Connection is closed.'')\<rparr>"

theorem createBooking_failure_witness:
  "\<exists>err w' b. createBooking rejectingEnv ''cust'' demoDto demoWorld = (Inl err, w')
     \<and> bookings w' = [b] \<and> b_bookingStatus b = PENDING_PAYMENT \<and> bookingQueue w' = []"
proof -
  have "\<exists>err w'. createBooking rejectingEnv ''cust'' demoDto demoWorld = (Inl err, w') \<and> bookings w' \<noteq> []"
    by (simp add: createBooking_def createBookingTx_def run_simps demo_defs rejectingEnv_def
        read_defs date_defs write_defs queue_defs shift_times fitsInShift_def createOrder_eq
        tryCatch_app transaction_app cong: andThen_first)
  then obtain err w' where run: "createBooking rejectingEnv ''cust'' demoDto demoWorld = (Inl err, w')"
    and some: "bookings w' \<noteq> []" by blast
  have empty: "bookings demoWorld = []" "bookingQueue demoWorld = []" by (simp_all add: demo_defs)
  have "bookings (demoWorld\<lparr>drawn := n\<rparr>) = []" for n by (simp add: empty)
  with some have "w' \<noteq> demoWorld\<lparr>drawn := drawn w'\<rparr>" by metis
  then obtain b where "b_bookingStatus b = PENDING_PAYMENT" "bookings w' = bookings demoWorld @ [b]"
    "bookingQueue w' = bookingQueue demoWorld"
    using createBooking_failure [OF run] by blast
  with run empty show ?thesis by auto
qed

text \<open>
  A request for an interval that overlaps a pending or confirmed booking of
  the same provider is answered with a conflict, and changes nothing.
\<close>

theorem createBooking_taken:
  assumes bk: "bookable e dto w ps pp start"
    and sv: "providerService_service ps w = Some sv"
    and order: "slotStart (requestedBooking e c dto ps pp sv start i) \<le>
      slotEnd (requestedBooking e c dto ps pp sv start i)"
    and taken: "\<exists>x \<in> set (bookings w). conflicting (requestedBooking e c dto ps pp sv start i) x"
  shows "createBooking e c dto w =
    (Inl (ConflictException ''The selected time slot is no longer available. Please select another slot.''),
     w\<lparr>drawn := Suc (drawn w)\<rparr>)"
proof -
  let ?w = "w\<lparr>drawn := Suc (drawn w)\<rparr>" and ?b = "requestedBooking e c dto ps pp sv start"
  have "bookingViolation (?b j) (bookings w) \<in> {Some (PrismaError P2002), Some (PrismaError EXCLUSION_23P01)}"
    for j
    using taken order
    by (auto simp: bookingViolation_def requestedBooking_def bookingRow_def conflicting_def
        slotsOverlap_def slotStart_def slotEnd_def)
  then obtain err where err: "isBookingConflict err"
    and v: "bookingViolation (?b (uuidAt e (drawn ?w))) (bookings ?w) = Some err"
    by (force simp: isBookingConflict_def)
  have sv': "providerService_service ps ?w = Some sv"
    using sv by (simp add: providerService_service_def)
  obtain t where "bookingTxFor e c dto ps pp start (orderFor e ps w) ?w = (Inl err, t)"
    using createBookingTx_fst [OF sv' refl refl] v by (metis option.simps(5) prod.collapse)
  with err show ?thesis
    by (simp add: createBooking_bookable [OF bk] createBookingCommit_def prog_simps)
qed

lemma demo_bookable:
  "bookable demoEnv demoDto demoWorld demoOffering demoProvider demoStart"
  "bookable demoEnv demoDto (demoState bs ps) demoOffering demoProvider demoStart"
  by (simp_all add: bookable_def demo_defs read_defs date_defs shift_times fitsInShift_def)

theorem createBooking_taken_witness:
  "createBooking demoEnv ''cust2'' demoDto (demoState CONFIRMED SUCCESS) =
     (Inl (ConflictException ''The selected time slot is no longer available. Please select another slot.''),
      (demoState CONFIRMED SUCCESS)\<lparr>drawn := Suc 0\<rparr>)"
proof -
  have "providerService_service demoOffering (demoState CONFIRMED SUCCESS) = Some demoService"
    by (simp add: read_defs demo_defs)
  moreover have "slotStart (requestedBooking demoEnv ''cust2'' demoDto demoOffering demoProvider demoService demoStart ''x'')
      \<le> slotEnd (requestedBooking demoEnv ''cust2'' demoDto demoOffering demoProvider demoService demoStart ''x'')"
    by (simp add: requestedBooking_def write_defs demo_defs date_defs)
  moreover have "\<exists>x \<in> set (bookings (demoState CONFIRMED SUCCESS)). conflicting
      (requestedBooking demoEnv ''cust2'' demoDto demoOffering demoProvider demoService demoStart ''x'') x"
    by (simp add: requestedBooking_def write_defs demo_defs date_defs)
  ultimately show ?thesis
    using createBooking_taken [OF demo_bookable(2) [of CONFIRMED SUCCESS]] by (auto simp: demo_defs)
qed

text \<open>
  C10. A request that meets the conditions, for an interval that no pending or
  confirmed booking of the provider overlaps, succeeds as soon as the drawn
  identifiers are new and BullMQ accepts the expiration job.
\<close>

theorem createBooking_free:
  assumes bk: "bookable e dto w ps pp start"
    and sv: "providerService_service ps w = Some sv"
    and b: "b = requestedBooking e c dto ps pp sv start (uuidAt e (Suc (drawn w)))"
    and order: "slotStart b \<le> slotEnd b"
    and free: "\<forall>x \<in> set (bookings w). \<not> conflicting b x"
    and ids: "uuidAt e (Suc (drawn w)) \<notin> b_id ` set (bookings w)"
      "uuidAt e (Suc (Suc (drawn w))) \<notin> pay_id ` set (payments w)"
      "''order_'' @ randomHexAt e (drawn w) \<notin> pay_gatewayOrderId ` set (payments w)"
      "uuidAt e (Suc (Suc (Suc (drawn w)))) \<notin> al_id ` set (auditLogs w)"
    and queue: "queueError e (expireJobId (b_id b)) = None"
  shows "\<exists>co w'. createBooking e c dto w = (Inr (b, co), w')"
proof -
  let ?w = "w\<lparr>drawn := Suc (drawn w)\<rparr>"
  have sv': "providerService_service ps ?w = Some sv"
    using sv by (simp add: providerService_service_def)
  have "b_id b = uuidAt e (Suc (drawn w))"
    by (simp add: b requestedBooking_def bookingRow_def)
  then have "bookingViolation b (bookings w) = None"
    using free order ids(1) by (auto simp: bookingViolation_None)
  then have "\<exists>co. fst (bookingTxFor e c dto ps pp start (orderFor e ps w) ?w) = Inr (b, co)"
    using createBookingTx_fst [OF sv' refl refl, of e c dto pp start "orderFor e ps w"] ids b
    by (simp add: paymentViolation_def firstPayment_def paymentRow_def orderFor_def)
  then show ?thesis
    by (auto simp: createBooking_bookable [OF bk] createBookingCommit_def prog_simps
        schedulePaymentExpiration_def queueCommand_app queue split: prod.splits sum.splits)
qed

theorem createBooking_free_witness:
  "\<exists>b co w'. createBooking demoEnv ''cust'' demoDto demoWorld = (Inr (b, co), w')"
proof -
  have "providerService_service demoOffering demoWorld = Some demoService"
    by (simp add: read_defs demo_defs)
  moreover have "slotStart (requestedBooking demoEnv ''cust'' demoDto demoOffering demoProvider demoService demoStart i)
      \<le> slotEnd (requestedBooking demoEnv ''cust'' demoDto demoOffering demoProvider demoService demoStart i)" for i
    by (simp add: requestedBooking_def write_defs demo_defs date_defs)
  moreover have "bookings demoWorld = []" "payments demoWorld = []" "auditLogs demoWorld = []"
    "queueError demoEnv x = None" for x
    by (simp_all add: demo_defs)
  ultimately show ?thesis
    using createBooking_free [OF demo_bookable(1) _ refl, of demoService "''cust''"] by auto
qed

section \<open>cancelBookingAsCustomer\<close>

text \<open>The row a status change stores.\<close>

definition withStatus :: "env \<Rightarrow> BookingStatus \<Rightarrow> string option \<Rightarrow> booking \<Rightarrow> booking" where
  "withStatus e s r x =
     x\<lparr>b_bookingStatus := s, b_cancellationReason := orKeep (truthy r) (b_cancellationReason x),
       b_cancelledAt := (if s = CANCELLED then Some (nowMs e) else b_cancelledAt x)\<rparr>"

lemma withStatus_simps [simp]:
  "b_id (withStatus e s r x) = b_id x" "b_bookingStatus (withStatus e s r x) = s"
  "b_customerId (withStatus e s r x) = b_customerId x"
  by (simp_all add: withStatus_def)

lemma booking_updateStatus_app:
  "booking_updateStatus e i s r w =
     (case booking_findById i w of
        None \<Rightarrow> (Inl (PrismaError P2025), w)
      | Some b \<Rightarrow>
         (case bookingViolation (withStatus e s r b) (filter (\<lambda>x. b_id x \<noteq> i) (bookings w)) of
            Some err \<Rightarrow> (Inl err, w)
          | None \<Rightarrow> (Inr (withStatus e s r b),
              w\<lparr>bookings := mapRows (\<lambda>x. b_id x = i) (withStatus e s r) (bookings w)\<rparr>)))"
proof -
  have "(\<lambda>b. b\<lparr>b_bookingStatus := s,
      b_cancellationReason := (case truthy r of None \<Rightarrow> b_cancellationReason b | Some v \<Rightarrow> Some v),
      b_cancelledAt := (if s = CANCELLED then Some (nowMs e) else b_cancelledAt b)\<rparr>) = withStatus e s r"
    by (simp add: withStatus_def orKeep_def fun_eq_iff)
  then show ?thesis
    by (simp add: booking_updateStatus_def updateRow_def booking_findById_def split: option.split)
qed

text \<open>A status that occupies no slot never meets the exclusion constraint.\<close>

lemma released_no_violation:
  "booking_findById i w = Some b \<Longrightarrow> \<not> occupiesSlot s \<Longrightarrow>
     bookingViolation (withStatus e s r b) (filter (\<lambda>x. b_id x \<noteq> i) (bookings w)) = None"
  by (auto simp: bookingViolation_None conflicting_def booking_findById_def dest: findUnique_SomeD)

lemma not_occupies [simp]: "\<not> occupiesSlot CANCELLED" "\<not> occupiesSlot COMPLETED"
  "\<not> occupiesSlot EXPIRED" "\<not> occupiesSlot BookingStatus.PAYMENT_FAILED"
  "occupiesSlot PENDING_PAYMENT" "occupiesSlot CONFIRMED"
  by (simp_all add: occupiesSlot_def)

text \<open>
  C12. A successful cancellation is by the booking's customer, more than two
  hours before the appointment, from \<open>PENDING_PAYMENT\<close> or \<open>CONFIRMED\<close>. It sets
  that booking to \<open>CANCELLED\<close> with a reason and a time, adds one audit entry,
  touches no payment, and leaves no expiration, overdue or reminder job of the
  booking in the queues.
\<close>

theorem cancelBooking_success:
  assumes "cancelBookingAsCustomer e i c dto w = (Inr b', w')"
  shows "\<exists>b l. booking_findById i w = Some b \<and> b_customerId b = c
    \<and> b_bookingStatus b \<in> {PENDING_PAYMENT, CONFIRMED}
    \<and> nowMs e < appointmentStart b - 2 * 60 * 60 * 1000
    \<and> b' = withStatus e CANCELLED (Some (orElse (cd_reason dto) ''Cancelled by customer'')) b
    \<and> bookings w' = mapRows (\<lambda>x. b_id x = i)
        (withStatus e CANCELLED (Some (orElse (cd_reason dto) ''Cancelled by customer''))) (bookings w)
    \<and> auditLogs w' = auditLogs w @ [l] \<and> al_action l = AuditAction.BOOKING_CANCELLED
    \<and> al_entityId l = i \<and> payments w' = payments w
    \<and> expireJobId i \<notin> bj_jobId ` set (bookingQueue w') \<and> overdueJobId i \<notin> bj_jobId ` set (bookingQueue w')
    \<and> (\<forall>j \<in> set (notificationQueue w'). nj_jobId j \<notin> set (reminderJobIds i))"
  using assms
  by (auto simp: cancelBookingAsCustomer_def Let_def prog_simps booking_updateStatus_app
      auditLog_create_app auditRow_def cancelPaymentExpiration_def cancelOverdueCheck_def
      cancelBookingJob_eq removeJob_def canTransitionBooking_CANCELLED
      dest!: cancelBookingReminders_ok split: option.splits if_splits sum.splits prod.splits)

theorem cancelBooking_success_witness:
  "\<exists>b' w'. cancelBookingAsCustomer demoEnv ''book'' ''cust'' \<lparr>cd_reason = None\<rparr>
       (demoState CONFIRMED SUCCESS) = (Inr b', w')
     \<and> bookings w' = [withStatus demoEnv CANCELLED (Some ''Cancelled by customer'') (demoBooking CONFIRMED)]"
proof -
  have "isOk (cancelBookingAsCustomer demoEnv ''book'' ''cust'' \<lparr>cd_reason = None\<rparr>
      (demoState CONFIRMED SUCCESS))"
    by (simp add: cancelBookingAsCustomer_def run_simps demo_defs read_defs date_defs write_defs
        queue_defs cancelBookingReminders_app appointmentStart_def isOk_def cong: andThen_first)
  then obtain b' w' where run: "cancelBookingAsCustomer demoEnv ''book'' ''cust'' \<lparr>cd_reason = None\<rparr>
      (demoState CONFIRMED SUCCESS) = (Inr b', w')"
    using isOk_Inr by blast
  from cancelBooking_success [OF run] run show ?thesis
    by (auto simp: demo_defs read_defs)
qed

text \<open>
  Within two hours of the appointment the customer's cancellation is refused
  with a conflict and the state is unchanged.
\<close>

theorem cancelBooking_too_late:
  assumes "booking_findById i w = Some b" and "b_customerId b = c"
    and "b_bookingStatus b \<in> {PENDING_PAYMENT, CONFIRMED}"
    and "appointmentStart b - 2 * 60 * 60 * 1000 \<le> nowMs e"
  shows "cancelBookingAsCustomer e i c dto w =
    (Inl (ConflictException ''Bookings cannot be cancelled within 2 hours of the scheduled appointment time.''), w)"
  using assms
  by (simp add: cancelBookingAsCustomer_def Let_def canTransitionBooking_CANCELLED)

theorem cancelBooking_too_late_witness:
  "cancelBookingAsCustomer (demoEnv\<lparr>nowMs := demoStart\<rparr>) ''book'' ''cust'' \<lparr>cd_reason = None\<rparr>
     (demoState CONFIRMED SUCCESS) =
   (Inl (ConflictException ''Bookings cannot be cancelled within 2 hours of the scheduled appointment time.''),
    demoState CONFIRMED SUCCESS)"
proof -
  have "booking_findById ''book'' (demoState CONFIRMED SUCCESS) = Some (demoBooking CONFIRMED)"
    by (simp add: read_defs demo_defs)
  moreover have "appointmentStart (demoBooking CONFIRMED) - 2 * 60 * 60 * 1000 \<le> nowMs (demoEnv\<lparr>nowMs := demoStart\<rparr>)"
    by (simp add: appointmentStart_def date_defs demo_defs)
  ultimately show ?thesis
    by (intro cancelBooking_too_late [where b = "demoBooking CONFIRMED"]) (simp_all add: demo_defs)
qed

section \<open>expireBooking\<close>

text \<open>The rows after the expiration of a pending booking.\<close>

definition expiredBookings :: "uuid \<Rightarrow> booking list \<Rightarrow> booking list" where
  "expiredBookings i = mapRows (\<lambda>x. b_id x = i \<and> b_bookingStatus x = PENDING_PAYMENT)
     (\<lambda>x. x\<lparr>b_bookingStatus := EXPIRED\<rparr>)"

definition failedPayments :: "uuid \<Rightarrow> payment list \<Rightarrow> payment list" where
  "failedPayments i = mapRows
     (\<lambda>p. pay_bookingId p = i \<and> pay_status p \<in> {CREATED, PaymentStatus.PENDING})
     (\<lambda>p. p\<lparr>pay_status := PaymentStatus.FAILED\<rparr>)"

lemma find_expiredBookings:
  assumes "findUnique b_id i t = Some b" "b_bookingStatus b = PENDING_PAYMENT"
  shows "findUnique b_id k (expiredBookings i t) =
    (if k = i then Some (b\<lparr>b_bookingStatus := EXPIRED\<rparr>) else findUnique b_id k t)"
  using assms by (auto simp: expiredBookings_def findUnique_mapRows map_option_case
      dest: findUnique_SomeD split: option.split)

lemma expireBooking_run:
  assumes b: "booking_findById i w = Some b" "b_bookingStatus b = PENDING_PAYMENT"
  shows "fst (expireBooking e i w) =
      (if uuidAt e (drawn w) \<in> al_id ` set (auditLogs w) then Inl (PrismaError P2002)
       else Inr (Expired i))"
    and "uuidAt e (drawn w) \<notin> al_id ` set (auditLogs w) \<Longrightarrow>
      \<exists>l. bookings (snd (expireBooking e i w)) = expiredBookings i (bookings w)
        \<and> payments (snd (expireBooking e i w)) = failedPayments i (payments w)
        \<and> auditLogs (snd (expireBooking e i w)) = auditLogs w @ [l] \<and> al_entityId l = i"
  using b findUnique_countRows [OF b(1) [unfolded booking_findById_def],
      of "\<lambda>x. b_bookingStatus x = PENDING_PAYMENT"]
  by (simp_all add: expireBooking_def booking_updateMany_def payment_updateMany_def transaction_app
      auditLog_create_app andThen_run ret_app reads_app updateRows_def auditRow_def
      expiredBookings_def failedPayments_def)

text \<open>
  The expiration job on a pending booking expires it, fails its unpaid
  payments, keeps every other row, and adds one audit entry.
\<close>

theorem expireBooking_pending:
  assumes b: "booking_findById i w = Some b" "b_bookingStatus b = PENDING_PAYMENT"
    and new: "uuidAt e (drawn w) \<notin> al_id ` set (auditLogs w)"
  shows "\<exists>w' l. expireBooking e i w = (Inr (Expired i), w')
    \<and> booking_findById i w' = Some (b\<lparr>b_bookingStatus := EXPIRED\<rparr>)
    \<and> (\<forall>k. k \<noteq> i \<longrightarrow> booking_findById k w' = booking_findById k w)
    \<and> (\<forall>p \<in> set (payments w'). pay_bookingId p = i \<longrightarrow> pay_status p \<notin> {CREATED, PaymentStatus.PENDING})
    \<and> filter (\<lambda>p. pay_bookingId p \<noteq> i) (payments w') = filter (\<lambda>p. pay_bookingId p \<noteq> i) (payments w)
    \<and> auditLogs w' = auditLogs w @ [l] \<and> al_entityId l = i"
proof -
  obtain w' l where run: "expireBooking e i w = (Inr (Expired i), w')"
    and w': "bookings w' = expiredBookings i (bookings w)" "payments w' = failedPayments i (payments w)"
      "auditLogs w' = auditLogs w @ [l]" "al_entityId l = i"
    using expireBooking_run [OF b, of e] new by (metis prod.collapse)
  have "filter (\<lambda>p. pay_bookingId p \<noteq> i) (failedPayments i (payments w)) =
      filter (\<lambda>p. pay_bookingId p \<noteq> i) (payments w)"
    unfolding failedPayments_def by (rule filter_mapRows_other) auto
  then show ?thesis
    using run w' find_expiredBookings [OF b [unfolded booking_findById_def]]
    by (auto simp: booking_findById_def failedPayments_def set_mapRows split: if_splits)
qed

theorem expireBooking_pending_witness:
  "\<exists>w'. expireBooking demoEnv ''book'' (demoState PENDING_PAYMENT CREATED) = (Inr (Expired ''book''), w')
     \<and> booking_findById ''book'' w' = Some (demoBooking EXPIRED)"
proof -
  have "booking_findById ''book'' (demoState PENDING_PAYMENT CREATED) = Some (demoBooking PENDING_PAYMENT)"
    by (simp add: read_defs demo_defs)
  moreover have "b_bookingStatus (demoBooking PENDING_PAYMENT) = PENDING_PAYMENT"
    "uuidAt demoEnv (drawn (demoState PENDING_PAYMENT CREATED)) \<notin> al_id ` set (auditLogs (demoState PENDING_PAYMENT CREATED))"
    by (simp_all add: demo_defs)
  ultimately show ?thesis
    using expireBooking_pending [of "''book''" "demoState PENDING_PAYMENT CREATED" "demoBooking PENDING_PAYMENT" demoEnv]
    by (auto simp: demoBooking_def)
qed

lemma expireBooking_skipped:
  assumes "\<And>b. booking_findById i w = Some b \<Longrightarrow> b_bookingStatus b \<noteq> PENDING_PAYMENT"
  shows "snd (expireBooking e i w) = w"
  using assms
  by (auto simp: expireBooking_def transaction_app andThen_run reads_app ret_app split: option.split)

text \<open>
  C13. Expiring is idempotent: once the job has run, running it again (a retry or a
  second worker) changes nothing.
\<close>

theorem expireBooking_idempotent:
  assumes "expireBooking e i w = (Inr r, w')"
  shows "snd (expireBooking e' i w') = w'"
proof (rule expireBooking_skipped)
  fix b'
  assume b': "booking_findById i w' = Some b'"
  show "b_bookingStatus b' \<noteq> PENDING_PAYMENT"
  proof (cases "\<exists>b. booking_findById i w = Some b \<and> b_bookingStatus b = PENDING_PAYMENT")
    case True
    then obtain b where b: "booking_findById i w = Some b" "b_bookingStatus b = PENDING_PAYMENT" by blast
    then have "bookings w' = expiredBookings i (bookings w)"
      using expireBooking_run [OF b, of e] assms by (auto split: if_splits)
    then show ?thesis
      using b' find_expiredBookings [OF b [unfolded booking_findById_def], of i]
      by (auto simp: booking_findById_def)
  next
    case False
    with assms have "w' = w" using expireBooking_skipped [of i w e] by auto
    with False b' show ?thesis by auto
  qed
qed

theorem expireBooking_idempotent_witness:
  "\<exists>r w'. expireBooking demoEnv ''book'' (demoState PENDING_PAYMENT CREATED) = (Inr r, w')
     \<and> snd (expireBooking demoEnv ''book'' w') = w'"
proof -
  have "isOk (expireBooking demoEnv ''book'' (demoState PENDING_PAYMENT CREATED))"
    by (simp add: expireBooking_def run_simps demo_defs read_defs write_defs isOk_def
        cong: andThen_first)
  then show ?thesis using isOk_Inr expireBooking_idempotent by blast
qed

section \<open>completeBooking and flagOverdueBooking\<close>

text \<open>
  Only the assigned provider or an administrator completes a booking, and
  only a confirmed one; the completion stamps the time and removes the overdue
  check, and touches no other booking.
\<close>

theorem completeBooking_success:
  assumes "completeBooking e i u role w = (Inr b', w')"
  shows "\<exists>b l. booking_findById i w = Some b \<and> b_bookingStatus b = CONFIRMED
    \<and> (booking_providerUserId w b = Some u \<or> role = Some ADMIN)
    \<and> b' = b\<lparr>b_bookingStatus := COMPLETED, b_completedAt := Some (nowMs e)\<rparr>
    \<and> bookings w' = mapRows (\<lambda>x. b_id x = i)
        (\<lambda>x. x\<lparr>b_bookingStatus := COMPLETED, b_completedAt := Some (nowMs e)\<rparr>) (bookings w)
    \<and> auditLogs w' = auditLogs w @ [l] \<and> al_action l = BOOKING_COMPLETED \<and> al_actorUserId l = Some u
    \<and> payments w' = payments w \<and> overdueJobId i \<notin> bj_jobId ` set (bookingQueue w')"
  using assms
  by (auto simp: completeBooking_def Let_def prog_simps booking_update_def updateRow_def
      booking_findById_def auditLog_create_app auditRow_def cancelOverdueCheck_def cancelBookingJob_eq
      removeJob_def canTransitionBooking_COMPLETED split: option.splits if_splits sum.splits prod.splits)

theorem completeBooking_success_witness:
  "\<exists>b' w'. completeBooking demoEnv ''book'' ''provUser'' (Some USER) (demoState CONFIRMED SUCCESS) = (Inr b', w')
     \<and> b_bookingStatus b' = COMPLETED \<and> payments w' = [demoPayment SUCCESS]"
proof -
  have "isOk (completeBooking demoEnv ''book'' ''provUser'' (Some USER) (demoState CONFIRMED SUCCESS))"
    by (simp add: completeBooking_def run_simps demo_defs read_defs write_defs queue_defs isOk_def
        cong: andThen_first)
  then obtain b' w' where run: "completeBooking demoEnv ''book'' ''provUser'' (Some USER)
      (demoState CONFIRMED SUCCESS) = (Inr b', w')"
    using isOk_Inr by blast
  from completeBooking_success [OF run] run show ?thesis by (auto simp: demo_defs)
qed

text \<open>
  The overdue check never changes the status of a booking, and a booking it
  flagged is not flagged again: a second run changes nothing.
\<close>

theorem flagOverdueBooking_safe:
  assumes "flagOverdueBooking e i w = (Inr r, w')"
  shows "map b_bookingStatus (bookings w') = map b_bookingStatus (bookings w)
    \<and> snd (flagOverdueBooking e' i w') = w'"
proof -
  let ?due = "\<lambda>w b. booking_findById i w = Some b \<longrightarrow> b_bookingStatus b \<noteq> CONFIRMED \<or> b_needsReview b"
  let ?bs = "mapRows (\<lambda>x. b_id x = i \<and> b_bookingStatus x = CONFIRMED \<and> \<not> b_needsReview x)
      (\<lambda>x. x\<lparr>b_needsReview := True, b_overdueAt := Some (nowMs e)\<rparr>) (bookings w)"
  have rows: "(bookings w' = bookings w \<and> (\<forall>b. ?due w b)) \<or> bookings w' = ?bs"
    using assms
    by (auto simp: flagOverdueBooking_def booking_updateMany_def transaction_app andThen_run reads_app
        ret_app updateRows_def auditLog_create_app booking_findById_def
        split: option.splits if_splits prod.splits sum.splits)
  then have "?due w' b" for b
  proof (elim disjE conjE)
    assume "bookings w' = bookings w" "\<forall>b. ?due w b"
    then show ?thesis by (simp add: booking_findById_def)
  next
    assume "bookings w' = ?bs"
    then show ?thesis
      by (cases "findUnique b_id i (bookings w)")
        (auto simp: booking_findById_def findUnique_mapRows split: if_splits dest: findUnique_SomeD)
  qed
  then have "snd (flagOverdueBooking e' i w') = w'"
    by (auto simp: flagOverdueBooking_def transaction_app andThen_run reads_app ret_app split: option.split)
  then show ?thesis using rows by (auto simp: map_mapRows)
qed

theorem flagOverdueBooking_safe_witness:
  "\<exists>r w'. flagOverdueBooking demoEnv ''book'' (demoState CONFIRMED SUCCESS) = (Inr r, w')
     \<and> map b_bookingStatus (bookings w') = [CONFIRMED] \<and> snd (flagOverdueBooking demoEnv ''book'' w') = w'"
proof -
  have "isOk (flagOverdueBooking demoEnv ''book'' (demoState CONFIRMED SUCCESS))"
    by (simp add: flagOverdueBooking_def run_simps demo_defs read_defs write_defs isOk_def
        cong: andThen_first)
  then obtain r w' where run: "flagOverdueBooking demoEnv ''book'' (demoState CONFIRMED SUCCESS) = (Inr r, w')"
    using isOk_Inr by blast
  from flagOverdueBooking_safe [OF run] run show ?thesis by (auto simp: demo_defs)
qed

text \<open>
  A booking is shown to its customer and to its provider, to nobody else,
  and a stranger cannot tell it from a booking that does not exist.
\<close>

theorem getBookingById_access:
  "getBookingById i u w =
     (case booking_findById i w of
        Some b \<Rightarrow> if b_customerId b = u \<or> booking_providerUserId w b = Some u
                  then (Inr b, w) else (Inl (bookingNotFound i), w)
      | None \<Rightarrow> (Inl (bookingNotFound i), w))"
  by (auto simp: getBookingById_def throw_app ret_app split: option.split)

end
