(* ===== verification/PaymentFacts.thy ===== *)
theory PaymentFacts
  imports BookingFacts
begin

text \<open>
  What each operation of the payment service does: the verification asked for by
  the customer, the webhooks of the gateway, and refunds.
\<close>

section \<open>Building blocks\<close>

lemma payment_updateStatus_app:
  "payment_updateStatus i s d w =
     (case payment_findById i w of
        None \<Rightarrow> (Inl (PrismaError P2025), w)
      | Some p \<Rightarrow>
         (case paymentViolation (paymentWith s d p) (filter (\<lambda>x. pay_id x \<noteq> i) (payments w)) of
            Some err \<Rightarrow> (Inl err, w)
          | None \<Rightarrow> (Inr (paymentWith s d p),
              w\<lparr>payments := mapRows (\<lambda>x. pay_id x = i) (paymentWith s d) (payments w)\<rparr>)))"
  by (simp add: payment_updateStatus_def updateRow_def payment_findById_def split: option.split)

lemma payment_booking_app:
  "payment_booking p w =
     (case booking_findById (pay_bookingId p) w of
        None \<Rightarrow> (Inl (JsError ''Cannot read properties of null''), w)
      | Some b \<Rightarrow> (Inr b, w))"
  by (simp add: payment_booking_def throw_app ret_app split: option.split)

text \<open>Scheduling after a confirmation writes only to the queues and to notifications.\<close>

definition coreTables :: "world \<Rightarrow> booking list \<times> payment list \<times> webhookEvent list \<times> auditLog list" where
  "coreTables w = (bookings w, payments w, webhookEvents w, auditLogs w)"

lemma scheduleConfirmed_core: "steps (\<lambda>w w'. coreTables w' = coreTables w) (scheduleConfirmed e i)"
  unfolding scheduleConfirmed_def cancelPaymentExpiration_def cancelBookingJob_def queueCommand_def
    scheduleBookingOverdueCheck_def scheduleOverdueCheck_def
    scheduleBookingLifecycleNotifications_def sendNotification_def notification_create_def Let_def
  by (intro same.combinators) (simp_all add: coreTables_def steps_def drawUuid_def)

lemma scheduleConfirmed_tables:
  assumes "scheduleConfirmed e i w = (r, w')"
  shows "bookings w' = bookings w" "payments w' = payments w"
    "webhookEvents w' = webhookEvents w" "auditLogs w' = auditLogs w"
  using stepsD [OF scheduleConfirmed_core assms] by (simp_all add: coreTables_def)

text \<open>The rows a payment verification and a confirmation by webhook store.\<close>

definition verifyDetails :: "env \<Rightarrow> verifyPaymentDto \<Rightarrow> paymentDetails" where
  "verifyDetails e dto =
     \<lparr>d_gatewayPaymentId = Some (vp_razorpayPaymentId dto),
      d_gatewaySignature = Some (vp_razorpaySignature dto),
      d_paidAt = Some (nowMs e), d_refundedAt = None\<rparr>"

section \<open>verifyClientPayment\<close>

lemma verifyChecks_app:
  "verifyChecks e c dto w =
     (case payment_findByGatewayOrderId (vp_razorpayOrderId dto) w of
        None \<Rightarrow> (Inl (NotFoundException
          (''Payment record for order \"'' @ vp_razorpayOrderId dto @ ''\" not found'')), w)
      | Some p \<Rightarrow>
         (case booking_findById (pay_bookingId p) w of
            None \<Rightarrow> (Inl (JsError ''Cannot read properties of null''), w)
          | Some b \<Rightarrow>
             (if b_customerId b \<noteq> c
              then Inl (ForbiddenException ''You are not authorized to verify this payment'')
              else if vp_razorpaySignature dto
                \<noteq> hmacSha256 e (keySecret e) (vp_razorpayOrderId dto @ ''|'' @ vp_razorpayPaymentId dto)
              then Inl (BadRequestException ''Invalid payment signature'')
              else if pay_status p = SUCCESS \<and> b_bookingStatus b = CONFIRMED
              then Inr (Inl \<lparr>vr_message = ''Payment already verified'', vr_bookingId = pay_bookingId p,
                vr_bookingStatus = b_bookingStatus b, vr_paymentStatus = pay_status p, vr_paidAt = None\<rparr>)
              else if b_bookingStatus b \<noteq> PENDING_PAYMENT
              then Inl (BadRequestException (''Cannot confirm booking in \"''
                @ bookingStatusName (b_bookingStatus b) @ ''\" status. The reservation may have expired.''))
              else if \<not> canTransitionPayment (pay_status p) SUCCESS
              then Inl (BadRequestException (''Cannot transition payment from \"''
                @ paymentStatusName (pay_status p) @ ''\" to \"'' @ paymentStatusName SUCCESS @ ''\"''))
              else Inr (Inr (p, b)), w)))"
  by (simp add: verifyChecks_def andThen_run payment_booking_app throw_app ret_app reads_app check_app
      verifyPaymentSignature_iff split: option.split)

lemma verifyTx_ok:
  assumes "verifyTx e c dto p b w = (Inr r, w')"
  shows "bookings w' = mapRows (\<lambda>x. b_id x = pay_bookingId p) (withStatus e CONFIRMED None) (bookings w)"
    and "payments w' = mapRows (\<lambda>x. pay_id x = pay_id p) (paymentWith SUCCESS (verifyDetails e dto)) (payments w)"
    and "vr_bookingStatus r = CONFIRMED" "vr_paymentStatus r = SUCCESS"
    and "booking_findById (pay_bookingId p) w \<noteq> None"
  using assms
  by (auto simp: verifyTx_def andThen_run payment_updateStatus_app booking_updateStatus_app
      auditLog_create_app ret_app verifyDetails_def [symmetric] booking_findById_def
      split: option.splits if_splits)

lemma verifyCommit_ok:
  assumes "verifyCommit e c dto pb w = (Inr r, w')"
  shows "bookings w' = mapRows (\<lambda>x. b_id x = pay_bookingId (fst pb)) (withStatus e CONFIRMED None) (bookings w)"
    and "payments w' = mapRows (\<lambda>x. pay_id x = pay_id (fst pb))
      (paymentWith SUCCESS (verifyDetails e dto)) (payments w)"
    and "vr_bookingStatus r = CONFIRMED" "vr_paymentStatus r = SUCCESS"
    and "booking_findById (pay_bookingId (fst pb)) w \<noteq> None"
proof -
  obtain t u where "verifyTx e c dto (fst pb) (snd pb) w = (Inr r, t)"
    and sch: "scheduleConfirmed e (pay_bookingId (fst pb)) t = (u, w')"
    using assms
    by (auto simp: verifyCommit_def andThen_run transaction_app ret_app
        split: prod.splits sum.splits)
  note tx = verifyTx_ok [OF this(1)]
  from tx sch show "bookings w' = mapRows (\<lambda>x. b_id x = pay_bookingId (fst pb)) (withStatus e CONFIRMED None) (bookings w)"
    and "payments w' = mapRows (\<lambda>x. pay_id x = pay_id (fst pb))
      (paymentWith SUCCESS (verifyDetails e dto)) (payments w)"
    and "vr_bookingStatus r = CONFIRMED" "vr_paymentStatus r = SUCCESS"
    and "booking_findById (pay_bookingId (fst pb)) w \<noteq> None"
    by (simp_all add: scheduleConfirmed_tables [OF sch])
qed

text \<open>
  C14. A verification that succeeds carries the gateway's signature of the order
  and payment identifiers and is asked for by the booking's customer. Either the
  payment was verified before and nothing changes, or the booking was pending
  and is now \<open>CONFIRMED\<close> with its payment \<open>SUCCESS\<close>, no other row touched.
\<close>

theorem verifyClientPayment_success:
  assumes "verifyClientPayment e c dto w = (Inr r, w')"
  shows "\<exists>p b. payment_findByGatewayOrderId (vp_razorpayOrderId dto) w = Some p
    \<and> booking_findById (pay_bookingId p) w = Some b \<and> b_customerId b = c
    \<and> vp_razorpaySignature dto = hmacSha256 e (keySecret e) (vp_razorpayOrderId dto @ ''|'' @ vp_razorpayPaymentId dto)
    \<and> ((pay_status p = SUCCESS \<and> b_bookingStatus b = CONFIRMED \<and> w' = w)
       \<or> (b_bookingStatus b = PENDING_PAYMENT \<and> canTransitionPayment (pay_status p) SUCCESS
          \<and> bookings w' = mapRows (\<lambda>x. b_id x = pay_bookingId p) (withStatus e CONFIRMED None) (bookings w)
          \<and> payments w' = mapRows (\<lambda>x. pay_id x = pay_id p)
              (paymentWith SUCCESS (verifyDetails e dto)) (payments w)))"
  using assms verifyCommit_ok [of e c dto _ w r w']
  by (auto simp: verifyClientPayment_def andThen_run verifyChecks_app ret_app
      split: option.splits if_splits)

lemma demo_verify_ok: "isOk (verifyClientPayment demoEnv ''cust'' demoVerify (demoState PENDING_PAYMENT CREATED))"
  by (simp add: verifyClientPayment_def verifyChecks_def verifyCommit_def verifyTx_def run_simps
      demo_defs read_defs date_defs write_defs queue_defs confirm_defs payment_booking_def
      verifyPaymentSignature_iff keySecret_def canTransitionPayment_SUCCESS isOk_def
      cong: andThen_first)

theorem verifyClientPayment_success_witness:
  "\<exists>r w'. verifyClientPayment demoEnv ''cust'' demoVerify (demoState PENDING_PAYMENT CREATED) = (Inr r, w')
     \<and> map b_bookingStatus (bookings w') = [CONFIRMED] \<and> map pay_status (payments w') = [SUCCESS]"
proof -
  obtain r w' where run: "verifyClientPayment demoEnv ''cust'' demoVerify
      (demoState PENDING_PAYMENT CREATED) = (Inr r, w')"
    using isOk_Inr [OF demo_verify_ok] by blast
  from verifyClientPayment_success [OF run] run show ?thesis
    by (auto simp: demo_defs read_defs)
qed

text \<open>
  C15. Without the gateway's signature of the order and payment identifiers, no
  verification succeeds and the state is unchanged.
\<close>

theorem verifyClientPayment_forged:
  assumes "vp_razorpaySignature dto \<noteq>
    hmacSha256 e (keySecret e) (vp_razorpayOrderId dto @ ''|'' @ vp_razorpayPaymentId dto)"
  shows "\<exists>err. verifyClientPayment e c dto w = (Inl err, w)"
  using assms by (auto simp: verifyClientPayment_def andThen_run verifyChecks_app split: option.split)

theorem verifyClientPayment_forged_witness:
  "\<exists>err. verifyClientPayment demoEnv ''cust'' (demoVerify\<lparr>vp_razorpaySignature := ''forged''\<rparr>)
     (demoState PENDING_PAYMENT CREATED) = (Inl err, demoState PENDING_PAYMENT CREATED)"
  by (rule verifyClientPayment_forged) (simp add: demo_defs keySecret_def)

text \<open>
  C16. The checks run before the transaction, on rows read outside of it. When the
  expiration job runs in between, the verification still commits: a booking
  whose slot was already released is confirmed again.
\<close>

theorem verify_after_expiry_resurrects:
  assumes "verifyChecks e c dto w = (Inr (Inr pb), w)" and "pay_bookingId (fst pb) = i"
    and "expireBooking e1 i w = (Inr (Expired i), w1)"
    and "verifyCommit e2 c dto pb w1 = (Inr r, w2)"
  shows "map_option b_bookingStatus (booking_findById i w1) = Some EXPIRED
    \<and> map_option b_bookingStatus (booking_findById i w2) = Some CONFIRMED"
proof -
  obtain b where b: "booking_findById i w = Some b" "b_bookingStatus b = PENDING_PAYMENT"
    using assms(1,2) by (auto simp: verifyChecks_app split: option.splits if_splits)
  have w1: "booking_findById i w1 = Some (b\<lparr>b_bookingStatus := EXPIRED\<rparr>)"
    using expireBooking_run [OF b, of e1] assms(3) find_expiredBookings [OF b [unfolded booking_findById_def]]
    by (auto simp: booking_findById_def split: if_splits)
  moreover have "bookings w2 = mapRows (\<lambda>x. b_id x = i) (withStatus e2 CONFIRMED None) (bookings w1)"
    using verifyCommit_ok(1) [OF assms(4)] assms(2) by simp
  ultimately show ?thesis
    by (auto simp: booking_findById_def findUnique_mapRows dest: findUnique_SomeD)
qed

theorem verify_after_expiry_resurrects_witness:
  "\<exists>pb w1 r w2. verifyChecks demoEnv ''cust'' demoVerify (demoState PENDING_PAYMENT CREATED)
       = (Inr (Inr pb), demoState PENDING_PAYMENT CREATED)
     \<and> expireBooking demoEnv ''book'' (demoState PENDING_PAYMENT CREATED) = (Inr (Expired ''book''), w1)
     \<and> verifyCommit demoEnv ''cust'' demoVerify pb w1 = (Inr r, w2)
     \<and> map_option b_bookingStatus (booking_findById ''book'' w2) = Some CONFIRMED"
proof -
  let ?w = "demoState PENDING_PAYMENT CREATED"
  let ?pb = "(demoPayment CREATED, demoBooking PENDING_PAYMENT)"
  have checks: "verifyChecks demoEnv ''cust'' demoVerify ?w = (Inr (Inr ?pb), ?w)"
    by (simp add: verifyChecks_app demo_defs read_defs keySecret_def canTransitionPayment_SUCCESS)
  obtain w1 where exp: "expireBooking demoEnv ''book'' ?w = (Inr (Expired ''book''), w1)"
    and w1: "w1 = snd (expireBooking demoEnv ''book'' ?w)"
    by (simp add: expireBooking_def run_simps demo_defs read_defs write_defs cong: andThen_first)
  have "isOk (verifyCommit demoEnv ''cust'' demoVerify ?pb w1)"
    unfolding w1
    by (simp add: expireBooking_def verifyCommit_def verifyTx_def run_simps
        demo_defs read_defs date_defs write_defs queue_defs confirm_defs isOk_def
        cong: andThen_first)
  then obtain r w2 where com: "verifyCommit demoEnv ''cust'' demoVerify ?pb w1 = (Inr r, w2)"
    using isOk_Inr by blast
  have "pay_bookingId (fst ?pb) = ''book''" by (simp add: demoPayment_def)
  from verify_after_expiry_resurrects [OF checks this exp com] checks exp com show ?thesis by blast
qed

section \<open>handleWebhookEvent\<close>

definition eventRow ::
  "env \<Rightarrow> uuid \<Rightarrow> string \<Rightarrow> string \<Rightarrow> json \<Rightarrow> date option \<Rightarrow> webhookEvent" where
  "eventRow e i eventId n pl processedAt =
     \<lparr>we_id = i, we_gateway = RAZORPAY, we_eventId = eventId, we_eventType = n, we_payload = pl,
      we_processedAt = processedAt, we_createdAt = nowMs e\<rparr>"

lemma recordWebhookEvent_app:
  "recordWebhookEvent e RAZORPAY eventId n pl pa w =
     (case webhookViolation (eventRow e (uuidAt e (drawn w)) eventId n pl pa) (webhookEvents w) of
        Some err \<Rightarrow> (Inl err, w\<lparr>drawn := Suc (drawn w)\<rparr>)
      | None \<Rightarrow> (Inr (eventRow e (uuidAt e (drawn w)) eventId n pl pa),
          w\<lparr>drawn := Suc (drawn w),
            webhookEvents := webhookEvents w @ [eventRow e (uuidAt e (drawn w)) eventId n pl pa]\<rparr>))"
  by (simp add: recordWebhookEvent_def drawUuid_def insertRow_def andThen_run eventRow_def
      split: option.split)

lemma webhookViolation_None:
  "webhookViolation r t = None \<longleftrightarrow> we_id r \<notin> we_id ` set t
     \<and> (\<forall>x \<in> set t. (we_gateway x, we_eventId x) \<noteq> (we_gateway r, we_eventId r))"
  by (auto simp: webhookViolation_def rev_image_eqI)

lemma asText_app:
  "asText v w = (case v of JStr s \<Rightarrow> (Inr s, w)
     | _ \<Rightarrow> (Inl (JsError ''Invalid value provided. Expected String''), w))"
  by (cases v) (simp_all add: asText_def ret_app throw_app)

lemma asText_InrD: "asText v w = (Inr s, w') \<Longrightarrow> v = JStr s \<and> w' = w"
  by (cases v) (simp_all add: asText_app)

lemma webhookSwitch_events: "steps (\<lambda>w w'. webhookEvents w' = webhookEvents w) (webhookSwitch e p c n v)"
  unfolding webhookSwitch_def webhookCaptured_def confirmIfPending_def webhookFailed_def webhookRefunded_def
    capturedCurrencyOk_def asOptText_def asText_def booking_updateStatus_def auditLog_create_def
    payment_updateStatus_def Let_def
  by (intro same.combinators)
    (simp_all add: steps_def drawUuid_def ret_app throw_app split: json.split)

text \<open>An event whose row is stored with its processing time.\<close>

definition isProcessed :: "string \<Rightarrow> world \<Rightarrow> bool" where
  "isProcessed eventId w \<longleftrightarrow>
     (case findWebhookEvent RAZORPAY eventId w of None \<Rightarrow> False | Some x \<Rightarrow> we_processedAt x \<noteq> None)"

lemma recorded_found:
  assumes "webhookViolation r t = None" and "we_gateway r = RAZORPAY"
  shows "findUnique (\<lambda>x. (we_gateway x, we_eventId x)) (RAZORPAY, we_eventId r) (t @ [r]) = Some r"
  using assms
  by (auto simp: findUnique_append webhookViolation_None split: option.split dest: findUnique_SomeD)

lemma webhookTx_parts:
  assumes "webhookTx e p b eventId n pl pe w = (Inr r, w')"
  obtains name x t u where "n = JStr name"
    and "x = eventRow e (uuidAt e (drawn w)) eventId name pl None"
    and "webhookViolation x (webhookEvents w) = None"
    and "webhookSwitch e p (b_customerId b) name pe
        (w\<lparr>drawn := Suc (drawn w), webhookEvents := webhookEvents w @ [x]\<rparr>) = (Inr r, t)"
    and "markWebhookEventProcessed e (we_id x) t = (Inr u, w')"
proof -
  obtain name w0 x w1 c t u w2 where "asText n w = (Inr name, w0)"
    and rec: "recordWebhookEvent e RAZORPAY eventId name pl None w0 = (Inr x, w1)"
    and "webhookSwitch e p (b_customerId b) name pe w1 = (Inr c, t)"
    and "markWebhookEventProcessed e (we_id x) t = (Inr u, w2)" "c = r" "w2 = w'"
    using assms unfolding webhookTx_def by (elim andThen_InrD) (auto simp: ret_app)
  moreover have "x = eventRow e (uuidAt e (drawn w0)) eventId name pl None"
      "webhookViolation x (webhookEvents w0) = None"
      "w1 = w0\<lparr>drawn := Suc (drawn w0), webhookEvents := webhookEvents w0 @ [x]\<rparr>"
    using rec by (auto simp: recordWebhookEvent_app split: option.splits)
  ultimately show thesis using that asText_InrD [of n w name w0] by simp
qed

lemma webhookTx_processed:
  assumes "webhookTx e p b eventId n pl pe w = (Inr r, w')"
  shows "isProcessed eventId w'"
  using assms
proof (rule webhookTx_parts)
  fix name x t u
  assume x: "x = eventRow e (uuidAt e (drawn w)) eventId name pl None"
    and v: "webhookViolation x (webhookEvents w) = None"
    and sw: "webhookSwitch e p (b_customerId b) name pe
        (w\<lparr>drawn := Suc (drawn w), webhookEvents := webhookEvents w @ [x]\<rparr>) = (Inr r, t)"
    and mark: "markWebhookEventProcessed e (we_id x) t = (Inr u, w')"
  have t: "webhookEvents t = webhookEvents w @ [x]"
    using stepsD [OF webhookSwitch_events sw] by simp
  have "webhookEvents w' = mapRows (\<lambda>y. we_id y = we_id x) (\<lambda>y. y\<lparr>we_processedAt := Some (nowMs e)\<rparr>)
      (webhookEvents w @ [x])"
    using mark unfolding markWebhookEventProcessed_def by (rule webhookT.update_ok) (simp add: t)
  moreover have "findUnique (\<lambda>y. (we_gateway y, we_eventId y)) (RAZORPAY, eventId) (webhookEvents w @ [x]) = Some x"
    using recorded_found [OF v] x by (simp add: eventRow_def)
  ultimately show ?thesis
    by (simp add: isProcessed_def findWebhookEvent_def findUnique_mapRows)
qed

lemma isProcessed_events: "webhookEvents w' = webhookEvents w \<Longrightarrow> isProcessed i w' = isProcessed i w"
  by (simp add: isProcessed_def findWebhookEvent_def)

lemma webhookCommit_parts:
  assumes "webhookCommit e p b eventId n pl pe w = (Inr r, w')" and "r \<noteq> AlreadyProcessed"
  obtains c t where "webhookTx e p b eventId n pl pe w = (Inr c, t)" "coreTables w' = coreTables t"
proof -
  let ?queues = "\<lambda>c. case c of None \<Rightarrow> ret () | Some i \<Rightarrow> scheduleConfirmed e i"
  have "andThen (transaction (webhookTx e p b eventId n pl pe))
      (\<lambda>c. andThen (?queues c) (\<lambda>_. ret Processed)) w = (Inr r, w')"
    using assms unfolding webhookCommit_def
    by (auto simp: tryCatch_app ret_app throw_app split: prod.splits sum.splits if_splits)
  then obtain c t where "transaction (webhookTx e p b eventId n pl pe) w = (Inr c, t)"
    and q: "andThen (?queues c) (\<lambda>_. ret Processed) t = (Inr r, w')"
    by (rule andThen_InrD)
  moreover obtain u w1 where "?queues c t = (Inr u, w1)"
    and "(ret Processed :: webhookReply action) w1 = (Inr r, w')"
    using q by (rule andThen_InrD)
  ultimately have tx: "webhookTx e p b eventId n pl pe w = (Inr c, t)" and rest: "?queues c t = (Inr u, w')"
    by (auto dest: transaction_InrD simp: ret_app)
  have "coreTables w' = coreTables t"
    using rest stepsD [OF scheduleConfirmed_core, of e "the c" t "Inr u" w']
    by (cases c) (simp_all add: ret_app)
  with that tx show thesis by blast
qed

lemma webhookCommit_processed:
  assumes "webhookCommit e p b eventId n pl pe w = (Inr r, w')" and "r \<noteq> AlreadyProcessed"
  shows "isProcessed eventId w'"
  using assms
proof (rule webhookCommit_parts)
  fix c t
  assume tx: "webhookTx e p b eventId n pl pe w = (Inr c, t)" and "coreTables w' = coreTables t"
  then have "isProcessed eventId w' = isProcessed eventId t"
    by (intro isProcessed_events) (simp add: coreTables_def)
  then show ?thesis using webhookTx_processed [OF tx] by blast
qed

lemma recordIgnored_processed:
  assumes "recordIgnored e eventId n pl w = (Inr r, w')"
  shows "isProcessed eventId w'"
  using assms recorded_found [of "eventRow e (uuidAt e (drawn w)) eventId _ pl (Some (nowMs e))" "webhookEvents w"]
  by (auto simp: recordIgnored_def andThen_run asText_app recordWebhookEvent_app ret_app eventRow_def
      isProcessed_def findWebhookEvent_def split: json.splits option.splits)

lemma processWebhookEvent_known:
  "isProcessed i w \<Longrightarrow> processWebhookEvent e i pl w = (Inr AlreadyProcessed, w)"
  by (auto simp: processWebhookEvent_def ret_app isProcessed_def Let_def split: option.splits)

lemma processWebhookEvent_recorded:
  assumes "processWebhookEvent e i pl w = (Inr r, w')" and "r \<noteq> AlreadyProcessed"
  shows "isProcessed i w'"
  using assms
  by (auto simp: processWebhookEvent_def Let_def ret_app andThen_run asText_app reads_app
      payment_booking_app split: if_splits option.splits json.splits
      dest: recordIgnored_processed webhookCommit_processed)

text \<open>A webhook call that got past the signature and the parser.\<close>

lemma handleWebhookEvent_valid:
  assumes "handleWebhookEvent e (Some body) sig hdr w = (Inr r, w')"
  obtains pl i where "sig = hmacSha256 e (webhookSecret e) body"
    "parseJson e body = Some pl" "webhookEventId e hdr pl = JStr i"
    "\<And>w. handleWebhookEvent e (Some body) sig hdr w = processWebhookEvent e i pl w"
proof -
  have sig: "verifyWebhookSignature e body sig None" "sig \<noteq> []"
    using assms by (auto simp: handleWebhookEvent_def split: if_splits)
  with assms obtain pl where pl: "parseJson e body = Some pl" "pl \<noteq> JNull"
    by (auto simp: handleWebhookEvent_def throw_app split: if_splits option.splits)
  with assms sig obtain i where "webhookEventId e hdr pl = JStr i"
    by (cases "webhookEventId e hdr pl") (auto simp: handleWebhookEvent_def andThen_run check_app asText_app)
  with that sig pl show thesis
    by (auto simp: handleWebhookEvent_def andThen_run check_app asText_app verifyWebhookSignature_iff)
qed

text \<open>
  C17. Webhooks are idempotent: an event that was processed or recorded as
  ignored is answered with \<open>already_processed\<close> when it is delivered again, and
  the second delivery changes nothing.
\<close>

theorem handleWebhookEvent_idempotent:
  assumes "handleWebhookEvent e (Some body) sig hdr w = (Inr r, w')" and "r \<noteq> AlreadyProcessed"
  shows "handleWebhookEvent e (Some body) sig hdr w' = (Inr AlreadyProcessed, w')"
  using assms(1)
proof (rule handleWebhookEvent_valid)
  fix pl i
  assume eq: "\<And>w. handleWebhookEvent e (Some body) sig hdr w = processWebhookEvent e i pl w"
  with assms have "isProcessed i w'" using processWebhookEvent_recorded by simp
  then show ?thesis by (simp add: eq processWebhookEvent_known)
qed

lemmas webhook_defs = handleWebhookEvent_def processWebhookEvent_def recordIgnored_def webhookCommit_def
  webhookTx_def webhookSwitch_def webhookCaptured_def confirmIfPending_def webhookFailed_def
  webhookRefunded_def capturedAmountOk_def capturedCurrencyOk_def asOptText_def asText_def
  webhookEventId_def payment_booking_def verifyWebhookSignature_iff webhookSecret_def
  canTransitionPayment_SUCCESS jOr_def demoCapture_def currentStatusField_def

text \<open>The webhook body of the example system with its signature.\<close>

definition demoWebhook :: "world \<Rightarrow> (exn + webhookReply) \<times> world" where
  "demoWebhook = handleWebhookEvent demoEnv (Some ''capture'') ''rzp_test_webhook_secret#capture'' None"

lemma demo_upper: "toUpperCase ''inr'' = ''INR''" "toUpperCase ''INR'' = ''INR''"
  by code_simp+

lemma demo_webhook: "fst (demoWebhook (demoState PENDING_PAYMENT CREATED)) = Inr Processed"
  by (simp add: demoWebhook_def webhook_defs run_simps demo_defs read_defs date_defs write_defs
      queue_defs confirm_defs demo_amount demo_upper cong: andThen_first)

theorem handleWebhookEvent_idempotent_witness:
  "\<exists>w'. demoWebhook (demoState PENDING_PAYMENT CREATED) = (Inr Processed, w')
     \<and> demoWebhook w' = (Inr AlreadyProcessed, w')"
proof -
  obtain w' where run: "demoWebhook (demoState PENDING_PAYMENT CREATED) = (Inr Processed, w')"
    using demo_webhook by (metis prod.collapse)
  from handleWebhookEvent_idempotent [OF run [unfolded demoWebhook_def]] run show ?thesis
    by (simp add: demoWebhook_def)
qed

text \<open>
  C18. A webhook without the gateway's signature of its body is refused and
  changes nothing.
\<close>

theorem handleWebhookEvent_forged:
  assumes "sig \<noteq> hmacSha256 e (webhookSecret e) body"
  shows "\<exists>err. handleWebhookEvent e (Some body) sig hdr w = (Inl err, w)"
  using assms by (simp add: handleWebhookEvent_def verifyWebhookSignature_iff)

theorem handleWebhookEvent_forged_witness:
  "\<exists>err. handleWebhookEvent demoEnv (Some ''capture'') ''forged'' None (demoState PENDING_PAYMENT CREATED) =
     (Inl err, demoState PENDING_PAYMENT CREATED)"
  by (rule handleWebhookEvent_forged) (simp add: demo_defs webhookSecret_def)

text \<open>Bookings that are no longer pending keep their row.\<close>

definition settledKept :: "world \<Rightarrow> world \<Rightarrow> bool" where
  "settledKept w w' \<longleftrightarrow> (\<forall>i b. booking_findById i w = Some b \<and> b_bookingStatus b \<noteq> PENDING_PAYMENT \<longrightarrow>
     booking_findById i w' = Some b)"

interpretation settledKept: state_order settledKept
  by unfold_locales (auto simp: settledKept_def)

lemma settledKept_same: "steps (\<lambda>w w'. bookings w' = bookings w) m \<Longrightarrow> steps settledKept m"
  by (simp add: steps_def settledKept_def booking_findById_def)

lemma same_bookings:
  "steps (\<lambda>w w'. bookings w' = bookings w) (auditLog_create e a)"
  "steps (\<lambda>w w'. bookings w' = bookings w) (payment_updateStatus i s d)"
  "steps (\<lambda>w w'. bookings w' = bookings w) (recordWebhookEvent e g i n pl pa)"
  "steps (\<lambda>w w'. bookings w' = bookings w) (markWebhookEventProcessed e i)"
  "steps (\<lambda>w w'. bookings w' = bookings w) (asText v)"
  "steps (\<lambda>w w'. bookings w' = bookings w) (asOptText v)"
  "steps (\<lambda>w w'. bookings w' = bookings w) (capturedCurrencyOk p v)"
  "steps (\<lambda>w w'. bookings w' = bookings w) (payment_booking p)"
  "steps (\<lambda>w w'. bookings w' = bookings w) (scheduleConfirmed e i)"
  using scheduleConfirmed_core [of e i]
  by (auto simp: steps_def auditLog_create_def payment_updateStatus_def recordWebhookEvent_def
      markWebhookEventProcessed_def asText_def asOptText_def capturedCurrencyOk_def drawUuid_def
      payment_booking_def insertRow_def updateRow_def prog_simps coreTables_def
      split: option.splits json.splits)

lemma confirm_pending_settledKept:
  assumes "map_option b_bookingStatus (booking_findById i w) = Some PENDING_PAYMENT"
  shows "settledKept w (snd (booking_updateStatus e i s r w))"
  unfolding settledKept_def
proof (intro allI impI)
  fix k b
  assume b: "booking_findById k w = Some b \<and> b_bookingStatus b \<noteq> PENDING_PAYMENT"
  with assms have "k \<noteq> i" by auto
  with b show "booking_findById k (snd (booking_updateStatus e i s r w)) = Some b"
    by (auto simp: booking_updateStatus_app booking_findById_def findUnique_mapRows
        split: option.split dest: findUnique_SomeD)
qed

lemma confirmIfPending_settledKept: "steps settledKept (confirmIfPending e p c)"
  unfolding confirmIfPending_def Let_def
  by (rule settledKept.reads_andThen)
    (auto intro!: settledKept.andThen_at confirm_pending_settledKept settledKept.combinators
      settledKept_same same_bookings same.andThen same.ret steps_snd [OF settledKept_same [OF same_bookings(1)]])

lemma webhookCaptured_settledKept: "steps settledKept (webhookCaptured e p c n v)"
  unfolding webhookCaptured_def
  by (intro settledKept.combinators confirmIfPending_settledKept settledKept_same same_bookings)

lemma webhookSwitch_settledKept: "steps settledKept (webhookSwitch e p c n v)"
  unfolding webhookSwitch_def webhookFailed_def webhookRefunded_def
  by (intro settledKept.combinators webhookCaptured_settledKept settledKept_same same_bookings)

text \<open>
  A webhook, whatever it says and however late it comes, leaves every booking
  that is not awaiting payment as it is: an expired, cancelled or completed
  booking is never confirmed by a late capture.
\<close>

theorem handleWebhookEvent_settled:
  assumes "handleWebhookEvent e body sig hdr w = (r, w')"
    and "booking_findById i w = Some b" and "b_bookingStatus b \<noteq> PENDING_PAYMENT"
  shows "booking_findById i w' = Some b"
proof -
  have "steps settledKept (handleWebhookEvent e body sig hdr)"
    unfolding handleWebhookEvent_def processWebhookEvent_def recordIgnored_def webhookCommit_def
      webhookTx_def Let_def
    by (intro settledKept.combinators webhookSwitch_settledKept settledKept_same same_bookings)
  from stepsD [OF this assms(1)] assms(2,3) show ?thesis by (simp add: settledKept_def)
qed

theorem handleWebhookEvent_settled_witness:
  "booking_findById ''book'' (snd (demoWebhook (demoState EXPIRED CREATED))) = Some (demoBooking EXPIRED)"
proof -
  obtain r w' where run: "demoWebhook (demoState EXPIRED CREATED) = (r, w')" by fastforce
  have "booking_findById ''book'' (demoState EXPIRED CREATED) = Some (demoBooking EXPIRED)"
    by (simp add: read_defs demo_defs)
  with handleWebhookEvent_settled [OF run [unfolded demoWebhook_def] this] run show ?thesis
    by (simp add: demoBooking_def)
qed

text \<open>What a processed event leaves of the bookings, the payments and the audit log.\<close>

lemma webhookCommit_switch:
  assumes "webhookCommit e p b eventId (JStr n) pl v w = (Inr r, w')" and "r \<noteq> AlreadyProcessed"
  obtains w1 c t where "webhookSwitch e p (b_customerId b) n v w1 = (Inr c, t)"
    "bookings w1 = bookings w" "payments w1 = payments w" "auditLogs w1 = auditLogs w"
    "bookings w' = bookings t" "payments w' = payments t" "auditLogs w' = auditLogs t"
  using assms
proof (rule webhookCommit_parts)
  fix c u
  assume tx: "webhookTx e p b eventId (JStr n) pl v w = (Inr c, u)" and "coreTables w' = coreTables u"
  show thesis
    using tx
  proof (rule webhookTx_parts)
    fix name x t y
    assume "webhookSwitch e p (b_customerId b) name v
        (w\<lparr>drawn := Suc (drawn w), webhookEvents := webhookEvents w @ [x]\<rparr>) = (Inr c, t)"
      and "JStr n = JStr name" and "markWebhookEventProcessed e (we_id x) t = (Inr y, u)"
    with \<open>coreTables w' = coreTables u\<close> show thesis
      by (intro that [of "w\<lparr>drawn := Suc (drawn w), webhookEvents := webhookEvents w @ [x]\<rparr>" c t])
        (auto simp: coreTables_def markWebhookEventProcessed_def elim!: webhookT.update_ok)
  qed
qed

text \<open>The capture of a payment in full, in the currency of the payment.\<close>

definition captureAccepted :: "env \<Rightarrow> payment \<Rightarrow> json \<Rightarrow> bool" where
  "captureAccepted e p v \<longleftrightarrow>
     capturedAmountOk e p v
     \<and> (\<not> jTruthy (jget v ''currency'')
        \<or> (\<exists>c. jget v ''currency'' = JStr c \<and> toUpperCase c = toUpperCase (pay_currency p)))"

lemma capturedCurrencyOk_accepted:
  "captureAccepted e p v \<Longrightarrow> capturedCurrencyOk p v w = (Inr True, w)"
  by (auto simp: captureAccepted_def capturedCurrencyOk_def ret_app)

lemma confirmIfPending_ok:
  assumes "confirmIfPending e p c w = (Inr r, w')"
  shows "payments w' = payments w"
    and "map_option b_bookingStatus (booking_findById (pay_bookingId p) w) = Some PENDING_PAYMENT \<Longrightarrow>
      bookings w' = mapRows (\<lambda>x. b_id x = pay_bookingId p) (withStatus e CONFIRMED None) (bookings w)"
    and "map_option b_bookingStatus (booking_findById (pay_bookingId p) w) \<noteq> Some PENDING_PAYMENT \<Longrightarrow>
      bookings w' = bookings w \<and> (\<exists>l. auditLogs w' = auditLogs w @ [l] \<and> al_action l = AuditAction.PAYMENT_SUCCESS
        \<and> al_entityId l = pay_bookingId p \<and> jget (al_newValue l) ''flag'' = JStr ''REQUIRES_REFUND'')"
  using assms
  by (auto simp: confirmIfPending_def Let_def andThen_run booking_updateStatus_app auditLog_create_app
      auditRow_def ret_app reads_app orJsonNull_def currentStatusField_def
      split: if_splits option.splits sum.splits prod.splits)

lemma webhookCaptured_ok:
  assumes "webhookCaptured e p c n v w = (Inr r, w')" and "captureAccepted e p v"
    and "pay_status p \<in> {CREATED, PaymentStatus.PENDING}"
  obtains w1 w2 d x y where "confirmIfPending e p c w = (Inr r, w1)"
    "payment_updateStatus (pay_id p) SUCCESS d w1 = (Inr x, w2)"
    "bookings w' = bookings w2" "payments w' = payments w2" "auditLogs w' = auditLogs w2 @ [y]"
proof -
  from assms(2,3) have p: "pay_status p \<noteq> SUCCESS" "canTransitionPayment (pay_status p) SUCCESS"
      "capturedAmountOk e p v"
    by (auto simp: captureAccepted_def canTransitionPayment_SUCCESS)
  with assms obtain w1 gid w0 d x w2 a w3
    where "confirmIfPending e p c w = (Inr r, w1)" "asOptText (jget v ''id'') w1 = (Inr gid, w0)"
      "payment_updateStatus (pay_id p) SUCCESS d w0 = (Inr x, w2)"
      "auditLog_create e a w2 = (Inr w3, w')"
    unfolding webhookCaptured_def
    by (auto simp: capturedCurrencyOk_accepted andThen_run ret_app split: prod.splits sum.splits)
  moreover from this(2) have "w0 = w1"
    by (auto simp: asOptText_def andThen_run ret_app asText_app split: if_splits json.splits)
  moreover from calculation(4) have "bookings w' = bookings w2" "payments w' = payments w2"
      "\<exists>y. auditLogs w' = auditLogs w2 @ [y]"
    by (auto simp: auditLog_create_app split: if_splits)
  ultimately show thesis using that by blast
qed

text \<open>A capture for a payment that is not open is only acknowledged.\<close>

lemma webhookCommit_closed:
  assumes run: "webhookCommit e p b eventId (JStr n) pl v w = (Inr Processed, w')"
    and n: "n \<in> {''payment.captured'', ''order.paid''}"
    and closed: "pay_status p \<notin> {CREATED, PaymentStatus.PENDING}"
  shows "bookings w' = bookings w \<and> payments w' = payments w \<and> auditLogs w' = auditLogs w"
proof -
  obtain w1 c t where sw: "webhookSwitch e p (b_customerId b) n v w1 = (Inr c, t)"
    and w1: "bookings w1 = bookings w" "payments w1 = payments w" "auditLogs w1 = auditLogs w"
    and w': "bookings w' = bookings t" "payments w' = payments t" "auditLogs w' = auditLogs t"
    by (rule webhookCommit_switch [OF run]) simp_all
  from sw n closed have "t = w1"
    by (auto simp: webhookSwitch_def webhookCaptured_def ret_app canTransitionPayment_SUCCESS split: if_splits)
  with w1 w' show ?thesis by simp
qed

text \<open>
  C19. What a processed capture in the full amount and the right currency does depends on the
  payment it was read with. An open payment (\<open>CREATED\<close> or \<open>PENDING\<close>) becomes \<open>SUCCESS\<close>; then
  a booking that awaited payment is confirmed, and for any other booking the capture is
  recorded in the audit log with the flag \<open>REQUIRES_REFUND\<close> and no booking row changes. For a
  payment that is not open any more (paid, failed or refunded) the event is acknowledged and
  no booking, payment or audit entry changes.
\<close>

theorem webhook_capture:
  assumes run: "webhookCommit e p b eventId (JStr n) pl v w = (Inr Processed, w')"
    and n: "n \<in> {''payment.captured'', ''order.paid''}" and ok: "captureAccepted e p v"
  shows "if pay_status p \<in> {CREATED, PaymentStatus.PENDING}
    then map_option pay_status (payment_findById (pay_id p) w') = Some SUCCESS
      \<and> (if map_option b_bookingStatus (booking_findById (pay_bookingId p) w) = Some PENDING_PAYMENT
         then map_option b_bookingStatus (booking_findById (pay_bookingId p) w') = Some CONFIRMED
         else bookings w' = bookings w \<and> (\<exists>l \<in> set (auditLogs w').
           al_entityId l = pay_bookingId p \<and> jget (al_newValue l) ''flag'' = JStr ''REQUIRES_REFUND''))
    else bookings w' = bookings w \<and> payments w' = payments w \<and> auditLogs w' = auditLogs w"
proof (cases "pay_status p \<in> {CREATED, PaymentStatus.PENDING}")
  case False
  with webhookCommit_closed [OF run n] show ?thesis by simp
next
  case True
  obtain w1 c t where sw: "webhookSwitch e p (b_customerId b) n v w1 = (Inr c, t)"
    and w1: "bookings w1 = bookings w" "payments w1 = payments w" "auditLogs w1 = auditLogs w"
    and w': "bookings w' = bookings t" "payments w' = payments t" "auditLogs w' = auditLogs t"
    by (rule webhookCommit_switch [OF run]) simp_all
  from sw n have "webhookCaptured e p (b_customerId b) n v w1 = (Inr c, t)"
    by (auto simp: webhookSwitch_def)
  then obtain w2 w3 d x y where conf: "confirmIfPending e p (b_customerId b) w1 = (Inr c, w2)"
    and upd: "payment_updateStatus (pay_id p) SUCCESS d w2 = (Inr x, w3)"
    and t: "bookings t = bookings w3" "payments t = payments w3" "auditLogs t = auditLogs w3 @ [y]"
    using ok True by (rule webhookCaptured_ok)
  have w3: "payments w3 = mapRows (\<lambda>x. pay_id x = pay_id p) (paymentWith SUCCESS d) (payments w)"
      "payment_findById (pay_id p) w \<noteq> None" "bookings w3 = bookings w2" "auditLogs w3 = auditLogs w2"
    using upd confirmIfPending_ok(1) [OF conf] w1
    by (auto simp: payment_updateStatus_app payment_findById_def split: option.splits)
  then have "map_option pay_status (payment_findById (pay_id p) w') = Some SUCCESS"
    by (auto simp: payment_findById_def w' t findUnique_updated)
  moreover have "booking_findById i w1 = booking_findById i w" for i
    by (simp add: booking_findById_def w1)
  ultimately show ?thesis
    using True confirmIfPending_ok(2,3) [OF conf] w1 w3 w' t
    by (auto simp: booking_findById_def findUnique_updated)
qed

definition demoEntity :: json where
  "demoEntity = jget (jget (jget demoCapture ''payload'') ''payment'') ''entity''"

definition demoCommit :: "BookingStatus \<Rightarrow> PaymentStatus \<Rightarrow> string \<Rightarrow> json \<Rightarrow> (exn + webhookReply) \<times> world" where
  "demoCommit bs ps n v = webhookCommit demoEnv (demoPayment ps) (demoBooking bs) ''evt1'' (JStr n)
     demoCapture v (demoState bs ps)"

lemma demo_commit:
  "fst (demoCommit PENDING_PAYMENT CREATED ''payment.captured'' demoEntity) = Inr Processed"
  "fst (demoCommit PENDING_PAYMENT CREATED ''payment.captured'' (JObj [(''amount'', JNum 1)])) = Inr Processed"
  "fst (demoCommit EXPIRED PaymentStatus.FAILED ''payment.captured'' demoEntity) = Inr Processed"
  "fst (demoCommit CONFIRMED SUCCESS ''payment.failed'' demoEntity) = Inr Processed"
  by (simp_all add: demoCommit_def demoEntity_def webhook_defs run_simps demo_defs read_defs date_defs
      write_defs queue_defs confirm_defs demo_amount demo_upper cong: andThen_first)

lemma demo_commit_run:
  assumes "fst (demoCommit bs ps n v) = Inr Processed"
  obtains w' where "webhookCommit demoEnv (demoPayment ps) (demoBooking bs) ''evt1'' (JStr n)
     demoCapture v (demoState bs ps) = (Inr Processed, w')"
  using assms that unfolding demoCommit_def by (metis prod.collapse)

theorem webhook_capture_witness:
  "\<exists>w'. webhookCommit demoEnv (demoPayment CREATED) (demoBooking PENDING_PAYMENT) ''evt1''
       (JStr ''payment.captured'') demoCapture demoEntity (demoState PENDING_PAYMENT CREATED)
       = (Inr Processed, w')
     \<and> map_option pay_status (payment_findById ''pay'' w') = Some SUCCESS
     \<and> map_option b_bookingStatus (booking_findById ''book'' w') = Some CONFIRMED"
proof -
  obtain w' where run: "webhookCommit demoEnv (demoPayment CREATED) (demoBooking PENDING_PAYMENT) ''evt1''
       (JStr ''payment.captured'') demoCapture demoEntity (demoState PENDING_PAYMENT CREATED)
       = (Inr Processed, w')"
    by (rule demo_commit_run [OF demo_commit(1)])
  have "captureAccepted demoEnv (demoPayment CREATED) demoEntity"
    by (simp add: captureAccepted_def demoEntity_def demoCapture_def capturedAmountOk_def demo_defs
        demo_amount demo_upper)
  from webhook_capture [OF run _ this] run show ?thesis by (auto simp: demo_defs read_defs)
qed

text \<open>
  A capture whose amount is not the payment's, in smallest units, changes no
  booking, no payment and no audit entry.
\<close>

theorem webhook_tampered:
  assumes run: "webhookCommit e p b eventId (JStr n) pl v w = (Inr Processed, w')"
    and n: "n \<in> {''payment.captured'', ''order.paid''}" and bad: "\<not> capturedAmountOk e p v"
  shows "bookings w' = bookings w \<and> payments w' = payments w \<and> auditLogs w' = auditLogs w"
proof -
  obtain w1 c t where sw: "webhookSwitch e p (b_customerId b) n v w1 = (Inr c, t)"
    and w1: "bookings w1 = bookings w" "payments w1 = payments w" "auditLogs w1 = auditLogs w"
    and w': "bookings w' = bookings t" "payments w' = payments t" "auditLogs w' = auditLogs t"
    by (rule webhookCommit_switch [OF run]) simp_all
  from sw n bad have "t = w1"
    by (auto simp: webhookSwitch_def webhookCaptured_def ret_app split: if_splits)
  with w1 w' show ?thesis by simp
qed

theorem webhook_tampered_witness:
  "\<exists>w'. webhookCommit demoEnv (demoPayment CREATED) (demoBooking PENDING_PAYMENT) ''evt1''
       (JStr ''payment.captured'') demoCapture (JObj [(''amount'', JNum 1)]) (demoState PENDING_PAYMENT CREATED)
       = (Inr Processed, w')
     \<and> bookings w' = [demoBooking PENDING_PAYMENT] \<and> payments w' = [demoPayment CREATED]"
proof -
  obtain w' where run: "webhookCommit demoEnv (demoPayment CREATED) (demoBooking PENDING_PAYMENT) ''evt1''
       (JStr ''payment.captured'') demoCapture (JObj [(''amount'', JNum 1)]) (demoState PENDING_PAYMENT CREATED)
       = (Inr Processed, w')"
    by (rule demo_commit_run [OF demo_commit(2)])
  have "\<not> capturedAmountOk demoEnv (demoPayment CREATED) (JObj [(''amount'', JNum 1)])"
    by (simp add: capturedAmountOk_def demo_defs demo_amount)
  from webhook_tampered [OF run _ this] run show ?thesis by (auto simp: demo_defs)
qed

text \<open>
  C20. A capture that arrives after the expiration is dropped. The expiration job fails the
  open payment of the booking it expires; a capture event that reads the payment after that
  is acknowledged as processed, but the payment stays \<open>FAILED\<close>, the booking \<open>EXPIRED\<close>, and no
  audit entry is written: the branch that would mark the payment \<open>SUCCESS\<close> and ask for a
  refund is never reached. (A capture that had read the payment before the job ran does reach
  it; which of the two happens depends on the moment of the read.)
\<close>

theorem late_capture_dropped:
  assumes expired: "expireBooking e0 (pay_bookingId p0) w0 = (Inr (Expired (pay_bookingId p0)), w)"
    and before: "payment_findById k w0 = Some p0" "pay_status p0 \<in> {CREATED, PaymentStatus.PENDING}"
    and read: "payment_findById k w = Some p"
    and run: "webhookCommit e p b eventId (JStr n) pl v w = (Inr Processed, w')"
    and n: "n \<in> {''payment.captured'', ''order.paid''}"
  shows "p = p0\<lparr>pay_status := PaymentStatus.FAILED\<rparr> \<and> payment_findById k w' = Some p
    \<and> map_option b_bookingStatus (booking_findById (pay_bookingId p) w') = Some EXPIRED
    \<and> payments w' = payments w \<and> auditLogs w' = auditLogs w"
proof -
  let ?i = "pay_bookingId p0"
  obtain x where x: "booking_findById ?i w0 = Some x" "b_bookingStatus x = PENDING_PAYMENT"
    using expired by (auto simp: expireBooking_def transaction_app andThen_run reads_app ret_app
        split: option.splits if_splits)
  have new: "uuidAt e0 (drawn w0) \<notin> al_id ` set (auditLogs w0)"
    using expired expireBooking_run(1) [OF x, of e0] by (auto split: if_splits)
  have w: "bookings w = expiredBookings ?i (bookings w0)" "payments w = failedPayments ?i (payments w0)"
    using expireBooking_run(2) [OF x new] expired by auto
  have p: "p = p0\<lparr>pay_status := PaymentStatus.FAILED\<rparr>"
    using before read
    by (auto simp: payment_findById_def w(2) failedPayments_def findUnique_mapRows)
  then have "bookings w' = bookings w \<and> payments w' = payments w \<and> auditLogs w' = auditLogs w"
    by (intro webhookCommit_closed [OF run n]) simp
  moreover have "map_option b_bookingStatus (booking_findById ?i w) = Some EXPIRED"
    using find_expiredBookings [OF x [unfolded booking_findById_def], of ?i] by (simp add: booking_findById_def w(1))
  ultimately show ?thesis using p read by (simp add: payment_findById_def booking_findById_def)
qed

lemma demo_late_capture:
  "\<exists>w w'. expireBooking demoEnv ''book'' (demoState PENDING_PAYMENT CREATED) = (Inr (Expired ''book''), w)
     \<and> payment_findById ''pay'' w = Some (demoPayment PaymentStatus.FAILED)
     \<and> webhookCommit demoEnv (demoPayment PaymentStatus.FAILED) (demoBooking EXPIRED) ''evt1''
         (JStr ''payment.captured'') demoCapture demoEntity w = (Inr Processed, w')"
  by (simp add: expireBooking_def demoEntity_def webhook_defs run_simps demo_defs read_defs date_defs
      write_defs queue_defs confirm_defs demo_amount demo_upper cong: andThen_first)

theorem late_capture_dropped_witness:
  "\<exists>w w'. expireBooking demoEnv ''book'' (demoState PENDING_PAYMENT CREATED) = (Inr (Expired ''book''), w)
     \<and> webhookCommit demoEnv (demoPayment PaymentStatus.FAILED) (demoBooking EXPIRED) ''evt1''
         (JStr ''payment.captured'') demoCapture demoEntity w = (Inr Processed, w')
     \<and> map_option pay_status (payment_findById ''pay'' w') = Some PaymentStatus.FAILED
     \<and> auditLogs w' = auditLogs w"
proof -
  obtain w w' where exp: "expireBooking demoEnv ''book'' (demoState PENDING_PAYMENT CREATED) = (Inr (Expired ''book''), w)"
    and read: "payment_findById ''pay'' w = Some (demoPayment PaymentStatus.FAILED)"
    and run: "webhookCommit demoEnv (demoPayment PaymentStatus.FAILED) (demoBooking EXPIRED) ''evt1''
         (JStr ''payment.captured'') demoCapture demoEntity w = (Inr Processed, w')"
    using demo_late_capture by blast
  have pay: "payment_findById ''pay'' (demoState PENDING_PAYMENT CREATED) = Some (demoPayment CREATED)"
    "pay_bookingId (demoPayment s) = ''book''" "pay_status (demoPayment s) = s" for s
    by (simp_all add: read_defs demo_defs)
  then show ?thesis
    using late_capture_dropped [OF _ pay(1) _ read run] exp run by auto
qed

text \<open>
  C21. The failure event is not checked against the payment state machine: it
  turns a successful payment into a failed one, a transition the machine excludes.
\<close>

theorem failure_event_overrides_success:
  assumes run: "webhookCommit e p b eventId (JStr ''payment.failed'') pl v w = (Inr Processed, w')"
    and "pay_status p = SUCCESS"
  shows "map_option pay_status (payment_findById (pay_id p) w') = Some PaymentStatus.FAILED
    \<and> \<not> canTransitionPayment (pay_status p) PaymentStatus.FAILED"
proof -
  obtain w1 c t where sw: "webhookSwitch e p (b_customerId b) ''payment.failed'' v w1 = (Inr c, t)"
    and w': "payments w' = payments t"
    by (rule webhookCommit_switch [OF run]) simp_all
  from sw assms(2) show ?thesis
    by (auto simp: webhookSwitch_def webhookFailed_def andThen_run ret_app asOptText_def asText_app
        payment_updateStatus_app auditLog_create_app payment_findById_def w' findUnique_updated
        canTransitionPayment_def split: if_splits option.splits json.splits)
qed

theorem failure_event_overrides_success_witness:
  "\<exists>w'. webhookCommit demoEnv (demoPayment SUCCESS) (demoBooking CONFIRMED) ''evt1''
       (JStr ''payment.failed'') demoCapture demoEntity (demoState CONFIRMED SUCCESS) = (Inr Processed, w')
     \<and> map_option pay_status (payment_findById ''pay'' w') = Some PaymentStatus.FAILED"
proof -
  obtain w' where run: "webhookCommit demoEnv (demoPayment SUCCESS) (demoBooking CONFIRMED) ''evt1''
       (JStr ''payment.failed'') demoCapture demoEntity (demoState CONFIRMED SUCCESS) = (Inr Processed, w')"
    by (rule demo_commit_run [OF demo_commit(4)])
  from failure_event_overrides_success [OF run] run show ?thesis by (auto simp: demo_defs)
qed

section \<open>refundPayment\<close>

lemma refundChecks_ok:
  assumes "refundChecks e i dto w = (Inr (p, b, g), w')"
  shows "w' = w" "payment_findById i w = Some p" "pay_status p = SUCCESS"
    "booking_findById (pay_bookingId p) w = Some b" "truthy (pay_gatewayPaymentId p) = Some g"
    "\<And>a. rp_amount dto = Some a \<Longrightarrow> 0 < a \<and> a \<le> pay_amount p"
  using assms
  by (auto simp: refundChecks_def andThen_run reads_app check_app throw_app ret_app payment_booking_app
      split: option.splits if_splits)

lemma refundTx_ok:
  assumes "refundTx e admin dto p b rr w = (Inr r, w')"
    and "booking_findById (pay_bookingId p) w = Some b"
  shows "payments w' = mapRows (\<lambda>x. pay_id x = pay_id p)
      (paymentWith REFUNDED (noDetails\<lparr>d_refundedAt := Some (nowMs e)\<rparr>)) (payments w)"
    and "map_option b_bookingStatus (booking_findById (pay_bookingId p) w') = Some CANCELLED"
    and "\<exists>l. auditLogs w' = auditLogs w @ [l] \<and> al_action l = AuditAction.PAYMENT_REFUNDED
      \<and> al_entityId l = pay_id p \<and> al_actorUserId l = admin"
    and "payment_findById (pay_id p) w \<noteq> None" and "rf_refundId r = rr_refundId rr"
  using assms
  by (auto simp: refundTx_def andThen_run ret_app payment_updateStatus_app booking_updateStatus_app
      auditLog_create_app auditRow_def booking_findById_def payment_findById_def findUnique_updated
      split: option.splits if_splits)

lemma refundPayment_parts:
  assumes "refundPayment e admin i dto w = (Inr r, w')"
  obtains p b g w1 rr where "refundChecks e i dto w = (Inr (p, b, g), w)"
    "createRefund e g (Some (refundAmountOf dto p)) w = (Inr rr, w1)"
    "w1 = w\<lparr>drawn := Suc (drawn w)\<rparr>"
    "refundTx e admin dto p b rr w1 = (Inr r, w')"
proof -
  obtain p b g w0 rr w1 where chk: "refundChecks e i dto w = (Inr (p, b, g), w0)"
    and "createRefund e g (Some (refundAmountOf dto p)) w0 = (Inr rr, w1)"
    and tx: "transaction (refundTx e admin dto p b rr) w1 = (Inr r, w')"
    using assms unfolding refundPayment_def by (auto elim!: andThen_InrD)
  moreover have "w0 = w" by (rule refundChecks_ok(1) [OF chk])
  moreover have "w1 = w0\<lparr>drawn := Suc (drawn w0)\<rparr>"
    using calculation(2) by (simp add: createRefund_eq)
  ultimately show thesis using that transaction_InrD [OF tx] by simp
qed

lemma refundPayment_audit:
  assumes "refundPayment e admin i dto w = (Inr r, w')"
  shows "\<exists>l. auditLogs w' = auditLogs w @ [l] \<and> al_action l = AuditAction.PAYMENT_REFUNDED
    \<and> al_entityId l = i \<and> al_actorUserId l = admin"
  using assms
proof (rule refundPayment_parts)
  fix p b g rr w1
  assume chk: "refundChecks e i dto w = (Inr (p, b, g), w)"
    and w1: "w1 = w\<lparr>drawn := Suc (drawn w)\<rparr>"
    and tx: "refundTx e admin dto p b rr w1 = (Inr r, w')"
  note c = refundChecks_ok [OF chk]
  have "pay_id p = i" using c(2) by (auto simp: payment_findById_def dest: findUnique_SomeD)
  moreover have "booking_findById (pay_bookingId p) w1 = Some b"
    using c(4) by (simp add: w1 booking_findById_def)
  ultimately show ?thesis using refundTx_ok(3) [OF tx] w1 by auto
qed

text \<open>What a refund leaves of the payment and its booking.\<close>

lemma refundPayment_leaves:
  assumes "refundPayment e admin i dto w = (Inr r, w')" and "payment_findById i w = Some p"
  shows "map_option pay_status (payment_findById i w') = Some REFUNDED"
    and "map_option b_bookingStatus (booking_findById (pay_bookingId p) w') = Some CANCELLED"
proof -
  obtain q b g w1 rr where chk: "refundChecks e i dto w = (Inr (q, b, g), w)"
    and w1: "w1 = w\<lparr>drawn := Suc (drawn w)\<rparr>" and tx: "refundTx e admin dto q b rr w1 = (Inr r, w')"
    using assms(1) by (rule refundPayment_parts)
  note c = refundChecks_ok [OF chk]
  have q: "q = p" "pay_id p = i" using c(2) assms(2) by (auto simp: payment_findById_def dest: findUnique_SomeD)
  have "booking_findById (pay_bookingId q) w1 = Some b" using c(4) by (simp add: w1 booking_findById_def)
  note t = refundTx_ok [OF tx this]
  show "map_option pay_status (payment_findById i w') = Some REFUNDED"
    using t(1) c(2) q w1 by (auto simp: payment_findById_def findUnique_updated)
  show "map_option b_bookingStatus (booking_findById (pay_bookingId p) w') = Some CANCELLED" using t(2) q by simp
qed



end
