(* ===== verification/ReviewFacts.thy ===== *)
theory ReviewFacts
  imports Review Examples
begin

text \<open>
  The properties of the review service: who may review what, that the statistics
  on a profile always are those of its reviews, and their range.
\<close>

section \<open>A review of the example booking\<close>

definition demoReview :: createReviewDto where
  "demoReview = \<lparr>cr_bookingId = Some ''book'', cr_rating = 4, cr_comment = Some ''fine''\<rparr>"

lemmas review_defs = createReview_def updateReview_def review_create_def review_update_def
  recalculate_def aggregateProviderRating_def updateProviderRatingStats_def reviewViolation_def
  review_findByBookingId_def review_findById_def redis_del_def dropKey_def orOpt_def

lemma demo_review_ok:
  "isOk (createReview demoEnv ''cust'' demoReview None (demoState COMPLETED SUCCESS))"
  by (simp add: review_defs demoReview_def run_simps demo_defs read_defs write_defs isOk_def
      cong: andThen_first)

lemma demo_reviewsOk: "reviewsOk (demoState COMPLETED SUCCESS)"
  by (simp add: reviewsOk_def statsOk_def demo_defs ratingStats_def aggregateProviderRating_def)

section \<open>Creating a review\<close>

lemma review_create_ok:
  assumes "review_create e b c i n m w = (Inr r, w1)"
  shows "r = \<lparr>rv_id = uuidAt e (drawn w), rv_bookingId = b, rv_customerId = c, rv_providerId = i,
      rv_rating = n, rv_comment = m, rv_createdAt = nowMs e\<rparr>"
    and "w1 = w\<lparr>drawn := Suc (drawn w), reviews := reviews w @ [r]\<rparr>"
  using assms by (auto simp: review_create_def drawUuid_def run_simps insertRow_def split: option.splits)

lemma createReview_cases:
  assumes "createReview e c dto path w = (Inr x, w')"
  obtains i b w1 where "orOpt path (cr_bookingId dto) = Some i" and "booking_findById i w = Some b"
    and "b_customerId b = c" and "b_bookingStatus b = COMPLETED" and "review_findByBookingId i w = None"
    and "andThen (review_create e i c (b_providerId b) (cr_rating dto) (trimmedComment (cr_comment dto)))
           (recalculate (b_providerId b)) w = (Inr x, w1)"
    and "w' = (if redisReady e then dropKey (profileKey (b_providerId b)) w1 else w1)"
proof -
  have ok: "createReview e c dto path w = (Inr x, w')" by fact
  obtain i where i: "orOpt path (cr_bookingId dto) = Some i"
    using ok by (auto simp: createReview_def throw_app split: option.splits)
  obtain b where b: "booking_findById i w = Some b"
    using ok i by (auto simp: createReview_def throw_app split: option.splits)
  have g: "b_customerId b = c" "b_bookingStatus b = COMPLETED" "review_findByBookingId i w = None"
    using ok i b by (auto simp: createReview_def split: if_splits)
  with ok i b have "andThen (transaction (andThen (review_create e i c (b_providerId b) (cr_rating dto)
        (trimmedComment (cr_comment dto))) (recalculate (b_providerId b))))
      (\<lambda>result. andThen (redis_del e (profileKey (b_providerId b))) (\<lambda>_. ret result)) w = (Inr x, w')"
    by (simp add: createReview_def)
  then obtain y w1 where y: "transaction (andThen (review_create e i c (b_providerId b) (cr_rating dto)
        (trimmedComment (cr_comment dto))) (recalculate (b_providerId b))) w = (Inr y, w1)"
    and r: "andThen (redis_del e (profileKey (b_providerId b))) (\<lambda>_. ret y) w1 = (Inr x, w')"
    by (rule andThen_InrD)
  from r have "x = y" and "w' = (if redisReady e then dropKey (profileKey (b_providerId b)) w1 else w1)"
    by (auto simp: redis_del_def ret_app split: if_splits)
  with that [OF i b g] transaction_InrD [OF y] show ?thesis by blast
qed

lemma createReview_refused_again:
  assumes "booking_findById i w = Some b" "b_customerId b = c" "b_bookingStatus b = COMPLETED"
    and "review_findByBookingId i w \<noteq> None" and "i \<noteq> []"
  shows "createReview e c dto (Some i) w =
    (Inl (ConflictException ''A review has already been submitted for this booking''), w)"
  using assms by (cases i) (auto simp: createReview_def orOpt_def)

text \<open>
  A review that is accepted is by the customer of a completed booking without a
  review. It adds one row, for that booking's provider; the answer and the
  provider's profile carry the new statistics, no booking changes, the cached
  profile is dropped, and the customer's next review of the booking is refused.
\<close>

theorem createReview_success:
  assumes ok: "createReview e c dto path w = (Inr (r, stats), w')" and ready: "redisReady e"
  shows "\<exists>i b. orOpt path (cr_bookingId dto) = Some i \<and> booking_findById i w = Some b
    \<and> b_customerId b = c \<and> b_bookingStatus b = COMPLETED \<and> review_findByBookingId i w = None
    \<and> reviews w' = reviews w @ [r] \<and> rv_bookingId r = i \<and> rv_customerId r = c
    \<and> rv_providerId r = b_providerId b \<and> rv_rating r = cr_rating dto
    \<and> stats = ratingStats (b_providerId b) w' \<and> bookings w' = bookings w
    \<and> liveValue e w' (profileKey (b_providerId b)) = None
    \<and> (\<forall>e' dto'. createReview e' c dto' (Some i) w' =
          (Inl (ConflictException ''A review has already been submitted for this booking''), w'))"
proof (rule createReview_cases [OF ok])
  fix i b w1
  assume i: "orOpt path (cr_bookingId dto) = Some i" and b: "booking_findById i w = Some b"
    and g: "b_customerId b = c" "b_bookingStatus b = COMPLETED" "review_findByBookingId i w = None"
    and tx: "andThen (review_create e i c (b_providerId b) (cr_rating dto)
           (trimmedComment (cr_comment dto))) (recalculate (b_providerId b)) w = (Inr (r, stats), w1)"
    and w': "w' = (if redisReady e then dropKey (profileKey (b_providerId b)) w1 else w1)"
  obtain r' w2 where r': "review_create e i c (b_providerId b) (cr_rating dto)
        (trimmedComment (cr_comment dto)) w = (Inr r', w2)"
    and rec: "recalculate (b_providerId b) r' w2 = (Inr (r, stats), w1)"
    using tx by (rule andThen_InrD)
  note w2 = review_create_ok [OF r'] and w1 = recalculate_ok [OF rec]
  have r: "r = r'" and stats: "stats = ratingStats (b_providerId b) w2" using w1(1) by auto
  have rows: "reviews w' = reviews w @ [r]" "bookings w' = bookings w"
    using w1(2) w2(2) r ready by (simp_all add: w' dropKey_def)
  have "i \<noteq> []" using i by (auto simp: orOpt_def truthy_def split: option.splits if_splits)
  moreover have "review_findByBookingId i w' \<noteq> None"
    using g(3) r w2(1) by (simp add: review_findByBookingId_def rows findUnique_append)
  moreover have "booking_findById i w' = Some b" using b by (simp add: booking_findById_def rows)
  ultimately have "\<And>e' dto'. createReview e' c dto' (Some i) w' =
      (Inl (ConflictException ''A review has already been submitted for this booking''), w')"
    using g by (intro createReview_refused_again)
  moreover have "stats = ratingStats (b_providerId b) w'"
    using stats w1(2) w2(2) r ready by (simp add: w' dropKey_def ratingStats_def aggregateProviderRating_def)
  moreover have "liveValue e w' (profileKey (b_providerId b)) = None"
    using ready by (simp add: w' dropKey_def liveValue_def liveEntry_def)
  ultimately show ?thesis
    using i b g rows r w2(1) by simp
qed

theorem createReview_success_witness:
  "\<exists>r st w'. createReview demoEnv ''cust'' demoReview None (demoState COMPLETED SUCCESS) = (Inr (r, st), w')
     \<and> reviews w' = [r] \<and> rv_rating r = 4 \<and> st = ratingStats ''prov'' w'"
proof -
  have "isOk (createReview demoEnv ''cust'' demoReview None (demoState COMPLETED SUCCESS))"
    by (rule demo_review_ok)
  then obtain r st w' where ok: "createReview demoEnv ''cust'' demoReview None
      (demoState COMPLETED SUCCESS) = (Inr (r, st), w')"
    by (auto dest: isOk_Inr)
  moreover have "redisReady demoEnv" by (simp add: demoEnv_def)
  ultimately show ?thesis
    using createReview_success [OF ok]
    by (auto simp: demoReview_def demo_defs orOpt_def booking_findById_def)
qed

section \<open>The statistics stay right\<close>

lemma redis_del_reviewsOk: "reviewsOk w \<Longrightarrow> reviewsOk (snd (redis_del e k w))"
  by (simp add: redis_del_def dropKey_def run_simps reviewsOk_def statsOk_def)

lemma andThen_redis_del: "andThen (redis_del e k) (\<lambda>_. ret x) w = (Inr x, snd (redis_del e k w))"
  by (simp add: redis_del_def run_simps)

lemma createReview_reviewsOk:
  assumes "reviewsOk w"
  shows "reviewsOk (snd (createReview e c dto path w))"
proof (cases "createReview e c dto path w")
  case (Pair res w')
  show ?thesis
  proof (cases res)
    case (Inr x)
    with Pair have "createReview e c dto path w = (Inr x, w')" by simp
    then show ?thesis
    proof (rule createReview_cases)
      fix i b w1
      assume "andThen (review_create e i c (b_providerId b) (cr_rating dto)
          (trimmedComment (cr_comment dto))) (recalculate (b_providerId b)) w = (Inr x, w1)"
        and w': "w' = (if redisReady e then dropKey (profileKey (b_providerId b)) w1 else w1)"
      then have "reviewsOk w1" using assms by (blast intro: createTx_reviewsOk)
      then show ?thesis
        using w' Pair by (simp add: dropKey_def reviewsOk_def statsOk_def)
    qed
  next
    case (Inl err)
    with Pair have "w' = w"
      by (auto simp: createReview_def andThen_redis_del throw_app transaction_app
          split: option.splits if_splits prod.splits sum.splits
          simp: andThen_app [of "transaction m" for m])
    with Pair assms show ?thesis by simp
  qed
qed

lemma updateReview_reviewsOk:
  assumes ok: "reviewsOk w"
  shows "reviewsOk (snd (updateReview e c i dto w))"
proof (cases "review_findById i w")
  case None
  with ok show ?thesis by (simp add: updateReview_def throw_app)
next
  case (Some r)
  have only: "rv_providerId x = rv_providerId r" if "x \<in> set (reviews w)" "rv_id x = i" for x
    using that Some findUnique_mem [of rv_id "reviews w" x] ok
    by (simp add: review_findById_def reviewsOk_def)
  let ?tx = "\<lambda>n. andThen (review_update i (\<lambda>x. withComment (ur_comment dto) (x\<lparr>rv_rating := n\<rparr>)))
    (recalculate (rv_providerId r))"
  have tx: "reviewsOk (snd (transaction (?tx n) w))" for n
  proof (cases "?tx n w")
    case (Pair res w')
    then show ?thesis
      using ok only by (cases res) (auto simp: transaction_app intro: updateTx_reviewsOk)
  qed
  have "reviewsOk (snd (andThen (transaction (?tx n)) (\<lambda>(u, metrics).
      andThen (redis_del e k) (\<lambda>_. ret (u, Some metrics))) w))" for n k
    using tx [of n]
    by (auto simp: andThen_app [of "transaction m" for m] andThen_redis_del intro: redis_del_reviewsOk
        split: prod.split sum.split)
  moreover have "reviewsOk (snd (andThen (review_update i (withComment (ur_comment dto)))
      (\<lambda>u. ret (u, None :: (rat \<times> nat) option)) w))"
    using comment_reviewsOk [OF ok, of i "ur_comment dto"]
    by (auto simp: andThen_run ret_app split: prod.splits sum.splits)
  ultimately show ?thesis
    using ok Some by (simp add: updateReview_def throw_app split: option.split)
qed

text \<open>
  Every profile carries the rounded average and the number of exactly its
  reviews, and there is at most one review per booking: both operations that write
  reviews keep this, whether they succeed or fail.
\<close>

theorem rating_statistics_invariant:
  assumes "reviewsOk w"
  shows "reviewsOk (snd (createReview e c dto path w)) \<and> reviewsOk (snd (updateReview e c i udto w))"
  using assms createReview_reviewsOk updateReview_reviewsOk by blast

theorem rating_statistics_invariant_witness:
  "reviewsOk (demoState COMPLETED SUCCESS)
   \<and> isOk (createReview demoEnv ''cust'' demoReview None (demoState COMPLETED SUCCESS))
   \<and> reviewsOk (snd (createReview demoEnv ''cust'' demoReview None (demoState COMPLETED SUCCESS)))"
  using rating_statistics_invariant [OF demo_reviewsOk] demo_reviewsOk demo_review_ok by blast

section \<open>Their range\<close>

lemma toFixed2_mono: "x \<le> y \<Longrightarrow> toFixed2 x \<le> toFixed2 y"
  by (simp add: toFixed2_def divide_right_mono floor_mono)

lemma sum_list_between:
  "(\<forall>x \<in> set xs. l \<le> x \<and> x \<le> u) \<Longrightarrow>
     of_nat (length xs) * l \<le> sum_list xs \<and> sum_list xs \<le> of_nat (length xs) * (u :: int)"
  by (induction xs) (auto simp: algebra_simps)

lemma average_between:
  assumes "xs \<noteq> []" and "\<And>x. x \<in> set xs \<Longrightarrow> l \<le> x \<and> x \<le> u"
  shows "(of_int l :: rat) \<le> of_int (sum_list xs) / of_nat (length xs)"
    and "of_int (sum_list xs) / of_nat (length xs) \<le> (of_int u :: rat)"
proof -
  have n: "0 < (of_nat (length xs) :: rat)" using assms(1) by simp
  have "int (length xs) * l \<le> sum_list xs" "sum_list xs \<le> int (length xs) * u"
    using sum_list_between [of xs l u] assms(2) by auto
  then have "(of_int (int (length xs) * l) :: rat) \<le> of_int (sum_list xs)"
    "(of_int (sum_list xs) :: rat) \<le> of_int (int (length xs) * u)"
    by (simp_all only: of_int_le_iff)
  then show "(of_int l :: rat) \<le> of_int (sum_list xs) / of_nat (length xs)"
    "of_int (sum_list xs) / of_nat (length xs) \<le> (of_int u :: rat)"
    using n by (simp_all add: field_simps)
qed

text \<open>
  With ratings from 1 to 5, as the request validation demands, the stored
  average of a provider with reviews is between 1 and 5, a multiple of 1/100, and so
  fits the column \<open>Decimal(3, 2)\<close>.
\<close>

theorem average_in_range:
  assumes "reviewsOk w" and "\<And>r. r \<in> set (reviews w) \<Longrightarrow> 1 \<le> rv_rating r \<and> rv_rating r \<le> 5"
    and "p \<in> set (providerProfiles w)" and "pp_totalReviews p \<noteq> 0"
  shows "1 \<le> pp_averageRating p \<and> pp_averageRating p \<le> 5 \<and> (\<exists>n. pp_averageRating p = of_int n / 100)"
proof -
  let ?rs = "map rv_rating (filter (\<lambda>r. rv_providerId r = pp_id p) (reviews w))"
  have stats: "(pp_averageRating p, pp_totalReviews p) = ratingStats (pp_id p) w"
    using assms(1,3) by (simp add: reviewsOk_def statsOk_def)
  then have ne: "?rs \<noteq> []" and avg: "pp_averageRating p = toFixed2 (of_int (sum_list ?rs) / of_nat (length ?rs))"
    using assms(4) by (auto simp: ratingStats_def aggregateProviderRating_def Let_def split: if_splits)
  have range: "\<And>x. x \<in> set ?rs \<Longrightarrow> 1 \<le> x \<and> x \<le> 5" using assms(2) by auto
  have "of_int 1 \<le> (of_int (sum_list ?rs) / of_nat (length ?rs) :: rat)"
    "(of_int (sum_list ?rs) / of_nat (length ?rs) :: rat) \<le> of_int 5"
    using average_between [OF ne, of 1 5] range by blast+
  from this [THEN toFixed2_mono] have "1 \<le> pp_averageRating p" "pp_averageRating p \<le> 5"
    unfolding avg toFixed2_int by simp_all
  then show ?thesis by (auto simp: avg toFixed2_def)
qed

definition demoReviewed :: world where
  "demoReviewed = demoWorld\<lparr>providerProfiles := [demoProvider\<lparr>pp_averageRating := 4, pp_totalReviews := 1\<rparr>],
     reviews := [\<lparr>rv_id = ''r'', rv_bookingId = ''book'', rv_customerId = ''cust'', rv_providerId = ''prov'',
       rv_rating = 4, rv_comment = None, rv_createdAt = 0\<rparr>]\<rparr>"

theorem average_in_range_witness:
  "\<exists>p. providerProfiles demoReviewed = [p] \<and> 1 \<le> pp_averageRating p \<and> pp_averageRating p \<le> 5"
proof -
  have "reviewsOk demoReviewed"
    by (simp add: reviewsOk_def statsOk_def demoReviewed_def demo_defs ratingStats_def
        aggregateProviderRating_def)
  moreover have "\<And>r. r \<in> set (reviews demoReviewed) \<Longrightarrow> 1 \<le> rv_rating r \<and> rv_rating r \<le> 5"
    by (simp add: demoReviewed_def)
  moreover define p where "p = demoProvider\<lparr>pp_averageRating := 4, pp_totalReviews := 1\<rparr>"
  moreover have "providerProfiles demoReviewed = [p]" by (simp add: demoReviewed_def p_def)
  ultimately show ?thesis
    using average_in_range [of demoReviewed p] by (simp add: p_def)
qed

end
