(* ===== verification/AvailabilityFacts.thy ===== *)
theory AvailabilityFacts
  imports Availability Examples
begin

text \<open>
  The properties of schedules and slots: validation accepts exactly the schedules
  without overlap, replacing a schedule touches no other provider, the slot
  generator ends and offers exactly the slots that fit. Which of them the booking
  service accepts is in the theory of the offered slots.
\<close>

section \<open>Schedules\<close>

text \<open>
  C25. The validation, which groups by weekday, sorts each group and compares
  neighbours, accepts exactly the schedules in which every interval starts before
  it ends and is long enough for the shortest offering, and no two intervals of the
  same weekday overlap.
\<close>

theorem validateSchedules_spec:
  assumes "\<forall>i \<in> set t. wellFormed i"
  shows "validateSchedules t m = None \<longleftrightarrow>
    (\<forall>i \<in> set t. longEnough m i)
    \<and> (\<forall>j k. j < k \<longrightarrow> k < length t \<longrightarrow> ai_weekday (t ! j) = ai_weekday (t ! k) \<longrightarrow> apart (t ! j) (t ! k))"
  using validateSchedules_iff [OF assms] by (simp add: sorted_wrt_iff_nth_less)

definition demoSchedule :: "availabilityIntervalDto list" where
  "demoSchedule =
     [\<lparr>ai_weekday = 5, ai_startTime = ''14:00'', ai_endTime = ''17:00'', ai_isAvailable = True\<rparr>,
      \<lparr>ai_weekday = 1, ai_startTime = ''15:00'', ai_endTime = ''17:00'', ai_isAvailable = True\<rparr>,
      \<lparr>ai_weekday = 5, ai_startTime = ''9:30'', ai_endTime = ''14:00'', ai_isAvailable = True\<rparr>]"

lemma demoSchedule_wellFormed: "\<forall>i \<in> set demoSchedule. wellFormed i"
  by code_simp

lemma demoSchedule_valid: "validateSchedules demoSchedule (Some 75) = None"
  by code_simp

theorem validateSchedules_spec_witness:
  "validateSchedules demoSchedule (Some 75) = None \<and> apart (demoSchedule ! 0) (demoSchedule ! 2)"
proof -
  have "ai_weekday (demoSchedule ! 0) = ai_weekday (demoSchedule ! 2)" "2 < length demoSchedule"
    by (simp_all add: demoSchedule_def)
  then show ?thesis
    using demoSchedule_valid
      validateSchedules_spec [OF demoSchedule_wellFormed, THEN iffD1, OF demoSchedule_valid]
    by (metis zero_less_numeral)
qed

text \<open>The rows that \<open>createMany\<close> adds.\<close>

definition intervalOf :: "availability \<Rightarrow> availabilityIntervalDto" where
  "intervalOf a = \<lparr>ai_weekday = av_weekday a, ai_startTime = av_startTime a,
     ai_endTime = av_endTime a, ai_isAvailable = av_isAvailable a\<rparr>"

lemma createMany_ok:
  assumes "availability_createMany e p ss w = (Inr n, w')"
  shows "\<exists>rows. availabilities w' = availabilities w @ rows \<and> map intervalOf rows = ss
    \<and> (\<forall>r \<in> set rows. av_providerId r = p) \<and> n = length ss \<and> redis w' = redis w"
  using assms
proof (induction ss arbitrary: n w)
  case Nil
  then show ?case by (simp add: ret_app)
next
  case (Cons s ss)
  let ?r = "\<lparr>av_id = uuidAt e (drawn w), av_providerId = p, av_weekday = ai_weekday s,
      av_startTime = ai_startTime s, av_endTime = ai_endTime s, av_isAvailable = ai_isAvailable s\<rparr>"
  let ?w = "availabilities_update (\<lambda>t. t @ [?r]) (w\<lparr>drawn := Suc (drawn w)\<rparr>)"
  obtain k where k: "availability_createMany e p ss ?w = (Inr k, w')" "n = Suc k"
    using Cons.prems
    by (auto simp: drawUuid_def insertRow_def run_simps split: option.splits prod.splits sum.splits)
  obtain rows where "availabilities w' = availabilities w @ ?r # rows" "map intervalOf rows = ss"
    "\<forall>r \<in> set rows. av_providerId r = p" "k = length ss" "redis w' = redis w"
    using Cons.IH [OF k(1)] by auto
  moreover have "intervalOf ?r = s" by (simp add: intervalOf_def)
  ultimately show ?case
    using k(2) by (intro exI [of _ "?r # rows"]) simp
qed

lemma setAvailibity_result:
  assumes run: "setAvailibity e p ss w = (res, w')"
  shows "case res of
      Inl err \<Rightarrow> w' = w
    | Inr counts \<Rightarrow>
        validateSchedules ss (minReqMinutes (providerService_findByProviderId p w)) = None
        \<and> map intervalOf (filter (\<lambda>a. av_providerId a = p) (availabilities w')) = ss
        \<and> filter (\<lambda>a. av_providerId a \<noteq> p) (availabilities w') =
            filter (\<lambda>a. av_providerId a \<noteq> p) (availabilities w)
        \<and> counts = (countRows (\<lambda>a. av_providerId a = p) (availabilities w), length ss)"
proof (cases "validateSchedules ss (minReqMinutes (providerService_findByProviderId p w))")
  case (Some err)
  with run show ?thesis by (auto simp: setAvailibity_def throw_app)
next
  case None
  let ?w1 = "availabilities_update (filter (\<lambda>a. av_providerId a \<noteq> p)) w"
  have tx: "replaceAvailibityTransaction e p ss w =
      (case availability_createMany e p ss ?w1 of
         (Inl err, _) \<Rightarrow> (Inl err, w)
       | (Inr n, w2) \<Rightarrow> (Inr (countRows (\<lambda>a. av_providerId a = p) (availabilities w), n), w2))"
    by (auto simp: replaceAvailibityTransaction_def deleteRows_def run_simps split: prod.split sum.split)
  show ?thesis
  proof (cases "availability_createMany e p ss ?w1")
    case (Pair r w2)
    show ?thesis
    proof (cases r)
      case (Inl err)
      with None Pair run tx show ?thesis
        by (auto simp: setAvailibity_def andThen_run reads_app)
    next
      case (Inr n)
      with Pair have "availability_createMany e p ss ?w1 = (Inr n, w2)" by simp
      from createMany_ok [OF this] obtain rows where
        rows: "availabilities w2 = filter (\<lambda>a. av_providerId a \<noteq> p) (availabilities w) @ rows"
          "map intervalOf rows = ss" "\<forall>r \<in> set rows. av_providerId r = p" "n = length ss"
        by auto
      obtain w3 where "incrementSearchVersion e w2 = (Inr (), w3)" "availabilities w3 = availabilities w2"
        using incrementSearchVersion_app by fastforce
      then have res: "res = Inr (countRows (\<lambda>a. av_providerId a = p) (availabilities w), n)"
        and w': "availabilities w' = availabilities w2"
        using None Pair Inr run tx by (auto simp: setAvailibity_def andThen_run reads_app ret_app)
      have "filter (\<lambda>a. av_providerId a = p) (availabilities w2) = rows"
        "filter (\<lambda>a. av_providerId a \<noteq> p) (availabilities w2) =
           filter (\<lambda>a. av_providerId a \<noteq> p) (availabilities w)"
        using rows(1,3) by (simp_all add: filter_empty_conv)
      with res w' rows None show ?thesis by simp
    qed
  qed
qed

text \<open>
  Setting a schedule stores exactly the intervals of the request for that
  provider, in their order, and they passed validation against the shortest active
  offering; the schedules of other providers stay. A refused request changes nothing.
\<close>

theorem setAvailibity_replaces:
  assumes run: "setAvailibity e p ss w = (res, w')"
  shows "case res of
      Inl err \<Rightarrow> w' = w
    | Inr counts \<Rightarrow>
        validateSchedules ss (minReqMinutes (providerService_findByProviderId p w)) = None
        \<and> map intervalOf (filter (\<lambda>a. av_providerId a = p) (availabilities w')) = ss
        \<and> filter (\<lambda>a. av_providerId a \<noteq> p) (availabilities w') =
            filter (\<lambda>a. av_providerId a \<noteq> p) (availabilities w)
        \<and> counts = (countRows (\<lambda>a. av_providerId a = p) (availabilities w), length ss)"
  using run by (rule setAvailibity_result)

theorem setAvailibity_replaces_witness:
  "\<exists>w'. setAvailibity demoEnv ''prov'' demoSchedule demoWorld = (Inr (1, 3), w')
     \<and> map intervalOf (filter (\<lambda>a. av_providerId a = ''prov'') (availabilities w')) = demoSchedule"
proof -
  have "minReqMinutes (providerService_findByProviderId ''prov'' demoWorld) = Some 75"
    by (simp add: minReqMinutes_def providerService_findByProviderId_def demo_defs)
  then have "isOk (setAvailibity demoEnv ''prov'' demoSchedule demoWorld)"
    by (simp add: setAvailibity_def demoSchedule_valid, simp add: replaceAvailibityTransaction_def
        deleteRows_def drawUuid_def insertRow_def idViolation_def run_simps demoSchedule_def demo_defs
        incrementSearchVersion_def liveEntry_def isOk_def cong: andThen_first)
  then obtain r w' where ok: "setAvailibity demoEnv ''prov'' demoSchedule demoWorld = (Inr r, w')"
    by (auto dest: isOk_Inr)
  moreover have "r = (1, 3)"
    using setAvailibity_replaces [OF ok] by (simp add: countRows_def demo_defs demoSchedule_def)
  ultimately show ?thesis
    using setAvailibity_replaces [OF ok] by simp
qed

section \<open>Slots\<close>

lemma windowSlots_returns:
  assumes "0 < ps_durationMinutes ps + ps_bufferMinutes ps"
  shows "windowSlots d ps x \<noteq> None"
proof -
  have "slotStarts (ps_durationMinutes ps) (ps_bufferMinutes ps) e s \<noteq> None" for e s
    using slotStarts_steps [OF assms] by (metis option.distinct(1))
  then show ?thesis by (auto simp: windowSlots_def split: option.splits)
qed

lemma allSlots_returns:
  "0 < ps_durationMinutes ps + ps_bufferMinutes ps \<Longrightarrow> allSlots d ps t \<noteq> None"
  by (induction t) (use windowSlots_returns in \<open>auto split: option.splits\<close>)

text \<open>
  The slot query returns: for every offering whose duration and buffer add up to
  more than zero the generating loop ends. For an offering where they do not, and a
  window its duration fits into, it runs forever.
\<close>

theorem generateSlot_terminates:
  assumes "providerService_findByProviderAndServiceId p (qs_serviceId q) w = Some ps"
  shows "(0 < ps_durationMinutes ps + ps_bufferMinutes ps \<longrightarrow>
      (\<exists>r. generateSlot e p q w = (r, w) \<and> r \<noteq> Inr None))
    \<and> (ps_durationMinutes ps + ps_bufferMinutes ps \<le> 0 \<longrightarrow> ps_isActive ps \<longrightarrow>
        parseDate e (qs_date q @ ''T00:00:00Z'') = Some day \<longrightarrow> setUTCHours (nowMs e) 0 0 0 0 \<le> day \<longrightarrow>
        x \<in> set (availability_findByProviderIdAndWeekday p (getUTCDay day) w) \<longrightarrow>
        timeToMinutes (av_startTime x) = Some s \<longrightarrow> timeToMinutes (av_endTime x) = Some t \<longrightarrow>
        s + ps_durationMinutes ps \<le> t \<longrightarrow> generateSlot e p q w = (Inr None, w))"
proof (intro conjI impI)
  assume "0 < ps_durationMinutes ps + ps_bufferMinutes ps"
  from allSlots_returns [OF this] show "\<exists>r. generateSlot e p q w = (r, w) \<and> r \<noteq> Inr None"
    using assms by (auto simp: generateSlot_def throw_app ret_app split: option.split)
next
  assume "ps_durationMinutes ps + ps_bufferMinutes ps \<le> 0" "ps_isActive ps"
    and day: "parseDate e (qs_date q @ ''T00:00:00Z'') = Some day" "setUTCHours (nowMs e) 0 0 0 0 \<le> day"
    and x: "x \<in> set (availability_findByProviderIdAndWeekday p (getUTCDay day) w)"
    and "timeToMinutes (av_startTime x) = Some s" "timeToMinutes (av_endTime x) = Some t"
      "s + ps_durationMinutes ps \<le> t"
  then have "windowSlots (qs_date q) ps x = None"
    by (simp add: windowSlots_def slotStarts_diverges)
  then have "allSlots (qs_date q) ps windows = None" if "x \<in> set windows" for windows
    using that by (induction windows) (auto split: option.split)
  with assms day x \<open>ps_isActive ps\<close> show "generateSlot e p q w = (Inr None, w)"
    by (simp add: generateSlot_def ret_app)
qed

definition slotEnv :: env where
  "slotEnv = demoEnv\<lparr>parseDate := (\<lambda>s. Some dayMs)\<rparr>"

definition slotQuery :: querySlotDto where
  "slotQuery = \<lparr>qs_date = ''1970-01-02'', qs_serviceId = ''svc''\<rparr>"

definition stuckWorld :: world where
  "stuckWorld = demoWorld\<lparr>providerServices :=
     [demoOffering\<lparr>ps_durationMinutes := 0, ps_bufferMinutes := 0\<rparr>]\<rparr>"

theorem generateSlot_terminates_witness:
  "(\<exists>r. generateSlot slotEnv ''prov'' slotQuery demoWorld = (r, demoWorld) \<and> r \<noteq> Inr None)
   \<and> generateSlot slotEnv ''prov'' slotQuery stuckWorld = (Inr None, stuckWorld)"
proof
  have offer: "providerService_findByProviderAndServiceId ''prov'' (qs_serviceId slotQuery) demoWorld =
      Some demoOffering"
    by (simp add: providerService_findByProviderAndServiceId_def slotQuery_def demo_defs)
  have "0 < ps_durationMinutes demoOffering + ps_bufferMinutes demoOffering"
    by (simp add: demo_defs)
  then show "\<exists>r. generateSlot slotEnv ''prov'' slotQuery demoWorld = (r, demoWorld) \<and> r \<noteq> Inr None"
    using generateSlot_terminates [OF offer] by blast
next
  define ps where "ps = demoOffering\<lparr>ps_durationMinutes := 0, ps_bufferMinutes := 0\<rparr>"
  have offer: "providerService_findByProviderAndServiceId ''prov'' (qs_serviceId slotQuery) stuckWorld = Some ps"
    by (simp add: providerService_findByProviderAndServiceId_def slotQuery_def demo_defs stuckWorld_def ps_def)
  have "demoShift \<in> set (availability_findByProviderIdAndWeekday ''prov'' (getUTCDay dayMs) stuckWorld)"
    by (simp add: availability_findByProviderIdAndWeekday_def orderAsc_def demo_defs stuckWorld_def date_defs)
  then show "generateSlot slotEnv ''prov'' slotQuery stuckWorld = (Inr None, stuckWorld)"
    using generateSlot_terminates [OF offer, of slotEnv dayMs demoShift 540 1020]
    by (simp add: ps_def slotEnv_def demo_defs shift_times date_defs)
qed

text \<open>
  C27. In a window from minute \<open>s\<close> to minute \<open>t\<close> the offered slots start at \<open>s\<close> and
  follow each other at the distance of duration and buffer, so they never overlap;
  each of them ends within the window, and no further slot would.
\<close>

theorem slots_fill_window:
  assumes "0 < d + b" and "slotStarts d b t s = Some xs"
  shows "(\<forall>i < length xs. xs ! i = s + int i * (d + b) \<and> xs ! i + d \<le> t)
    \<and> t < s + int (length xs) * (d + b) + d"
  using slotStarts_steps [OF assms(1), of t s] assms(2) by auto

lemma demo_slots: "slotStarts 60 15 700 540 = Some [540, 615]"
  by (simp add: slotStarts.simps)

theorem slots_fill_window_witness:
  "slotStarts 60 15 700 540 = Some [540, 615] \<and> (700::int) < 540 + int 2 * (60 + 15) + 60"
  using slots_fill_window [OF _ demo_slots] demo_slots by simp

end
