(* ===== verification/CatalogFacts.thy ===== *)
theory CatalogFacts
  imports Catalog Examples
begin

text \<open>The properties of the catalogue: canonical slugs and the coherence of its cached lists.\<close>

section \<open>Slugs\<close>

text \<open>
  A slug consists of lower-case letters, digits and hyphens, without two hyphens
  in a row, and generating the slug of a slug gives it back.
\<close>

theorem generateSlug_canonical:
  "(\<forall>c \<in> set (generateSlug s). slugAlphabet c) \<and> noDoubleHyphen (generateSlug s)
   \<and> generateSlug (generateSlug s) = generateSlug s"
proof -
  have "noDoubleHyphen (generateSlug s)"
    unfolding generateSlug_def using hyphenRuns_hyphen by blast
  then show ?thesis using generateSlug_alphabet generateSlug_fixed by blast
qed

theorem generateSlug_canonical_witness:
  "generateSlug ''  AC &  Repair '' = ''ac-repair'' \<and> generateSlug ''ac-repair'' = ''ac-repair''"
proof -
  have "generateSlug ''  AC &  Repair '' = ''ac-repair''" by code_simp
  then show ?thesis using generateSlug_canonical [of "''  AC &  Repair ''"] by simp
qed

section \<open>The cached list of categories\<close>

text \<open>
  The cached list follows the table: with the cache up, after a category was
  created, changed or removed, the next list query answers with the page that the
  database query returns for it.
\<close>

theorem category_list_fresh:
  assumes "redisReady e"
    and "createCategory e cdto w = (Inr c, w') \<or> updateCategory e i udto w = (Inr c, w')
      \<or> removeCategory e i w = (Inr c, w')"
  shows "fst (category_findAll e q w') = Inr (CCategories (category_findAllPaginated q w'))"
proof -
  have "redis w' categoriesKey = None"
    using assms createCategory_drops updateCategory_drops removeCategory_drops by blast
  then show ?thesis
    using getOrSet_fresh [OF assms(1), of CACHE_TTL_CATEGORIES 3599]
    by (simp add: category_findAll_def CACHE_TTL_CATEGORIES_def)
qed

definition demoCategory :: createCategoryDto where
  "demoCategory = \<lparr>cc_name = ''AC Repair'', cc_description = None, cc_icon = None,
     cc_displayOrder = 1, cc_isActive = True\<rparr>"

definition demoCategoryQuery :: "int \<Rightarrow> categoryQuery" where
  "demoCategoryQuery page = \<lparr>cq_page = Some page, cq_limit = Some 1, cq_search = None, cq_includeInactive = None\<rparr>"

lemma demo_category_ok: "isOk (createCategory demoEnv demoCategory demoWorld)"
  by (simp add: createCategory_def category_create_def category_findBySlug_def categoryViolation_def
      drawUuid_def insertRow_def redis_del_def run_simps demo_defs isOk_def cong: andThen_first)

theorem category_list_fresh_witness:
  "\<exists>c w'. createCategory demoEnv demoCategory demoWorld = (Inr c, w')
     \<and> fst (category_findAll demoEnv (demoCategoryQuery 1) w') =
         Inr (CCategories (category_findAllPaginated (demoCategoryQuery 1) w'))"
proof -
  obtain c w' where ok: "createCategory demoEnv demoCategory demoWorld = (Inr c, w')"
    using isOk_Inr [OF demo_category_ok] by blast
  have "redisReady demoEnv" by (simp add: demoEnv_def)
  with ok show ?thesis
    using category_list_fresh [of demoEnv demoCategory demoWorld c w' "''i''"
        "\<lparr>uc_name = None, uc_description = None, uc_icon = None, uc_displayOrder = None, uc_isActive = None\<rparr>"] by blast
qed

text \<open>
  The cache key does not depend on the query. While an entry lives, every list
  query is answered with the page of the query that filled the entry: a request for
  page 2 gets page 1.
\<close>

theorem category_list_ignores_query:
  assumes "redisReady e" and "category_findAll e q w = (r, w')"
  shows "fst (category_findAll e q' w') = r"
  using getOrSet_again [OF assms(1), of CACHE_TTL_CATEGORIES 3599] assms(2)
  by (simp add: category_findAll_def CACHE_TTL_CATEGORIES_def)

theorem category_list_ignores_query_witness:
  "fst (category_findAll demoEnv (demoCategoryQuery 2) (snd (category_findAll demoEnv (demoCategoryQuery 1) demoWorld)))
   = fst (category_findAll demoEnv (demoCategoryQuery 1) demoWorld)"
proof -
  have "redisReady demoEnv" by (simp add: demoEnv_def)
  from category_list_ignores_query [OF this] show ?thesis by (metis prod.collapse)
qed

end
