(* ===== verification/ProviderFacts.thy ===== *)
theory ProviderFacts
  imports Auth Examples
begin

text \<open>
  The properties of provider profiles: an uploaded document can be read back by its
  owner and nobody else but an administrator, and which changes the cached search
  results follow.
\<close>

section \<open>Documents\<close>

lemma getOwnProfile_ok:
  "getOwnProfile u w = (Inr p, w') \<longleftrightarrow> provider_findByUserId u w = Some p \<and> w' = w"
  by (auto simp: getOwnProfile_def run_simps split: option.split)

lemma createDocument_ok:
  assumes "createDocument e i ty url w = (Inr d, w')"
  shows "pd_providerId d = i" and "pd_fileUrl d = url"
    and "w' = providerDocuments_update (\<lambda>t. t @ [d]) (w\<lparr>drawn := Suc (drawn w)\<rparr>)"
    and "findDocumentById (pd_id d) w' = Some d"
proof -
  let ?d = "\<lparr>pd_id = uuidAt e (drawn w), pd_providerId = i, pd_documentType = ty, pd_fileUrl = url,
    pd_verificationStatus = VerificationStatus.PENDING, pd_rejectionReason = None, pd_verifiedAt = None\<rparr>"
  have v: "pd_id ?d \<notin> pd_id ` set (providerDocuments w)" and d: "d = ?d"
    and w': "w' = providerDocuments_update (\<lambda>t. t @ [d]) (w\<lparr>drawn := Suc (drawn w)\<rparr>)"
    using assms
    by (auto simp: createDocument_def drawUuid_def insertRow_def idViolation_def run_simps
        split: option.splits if_splits)
  show "pd_providerId d = i" "pd_fileUrl d = url" by (simp_all add: d)
  show "w' = providerDocuments_update (\<lambda>t. t @ [d]) (w\<lparr>drawn := Suc (drawn w)\<rparr>)" by (rule w')
  have "findUnique pd_id (pd_id d) (providerDocuments w) = None"
    using v unfolding d by (auto simp: findUnique_def find_None_iff image_iff)
  then show "findDocumentById (pd_id d) w' = Some d"
    by (simp add: findDocumentById_def w' findUnique_append)
qed

text \<open>
  C33. A document that was uploaded is stored inside the upload directory, and reading
  it back gives its owner the path under which exactly the uploaded content lies.
  Another user who is not an administrator is refused.
\<close>

theorem document_round_trip:
  assumes up: "uploadDocument e u ty upload w = (Inr d, w')"
    and ids: "CHR ''/'' \<notin> set (uuidAt e (drawn w))" and keys: "distinct (map pp_id (providerProfiles w))"
    and cwd: "processCwd e' = processCwd e"
  shows "\<exists>path mime. getDocumentFileForUser e' (pd_id d) u USER w' = (Inr (path, mime), w')
    \<and> disk w' path = Some (mf_buffer upload) \<and> startsWith path (uploadRoot e @ ''/documents/'')
    \<and> (\<forall>v role. v \<noteq> u \<longrightarrow> role \<noteq> ADMIN \<longrightarrow> getDocumentFileForUser e' (pd_id d) v role w' =
         (Inl (ForbiddenException ''You do not have permission to access this document''), w'))"
proof -
  define n where "n = uploadName (uuidAt e (drawn w)) upload"
  define path where "path = renderPath (rootSegments e @ [''documents'', n])"
  define w1 where "w1 = w\<lparr>drawn := Suc (drawn w), disk := (disk w)(path \<mapsto> mf_buffer upload)\<rparr>"
  obtain p where p: "provider_findByUserId u w = Some p"
    and up1: "andThen (uploadFile e upload ''documents'') (createDocument e (pp_id p) ty) w = (Inr d, w')"
    using up unfolding uploadDocument_def
    by (elim andThen_InrD) (auto simp: getOwnProfile_ok reads_app check_app andThen_run split: if_splits)
  have stored: "uploadFile e upload ''documents'' w = (Inr (''/uploads/documents/'' @ n), w1)"
    unfolding n_def path_def w1_def by (rule uploadFile_documents [OF ids])
  have doc: "createDocument e (pp_id p) ty (''/uploads/documents/'' @ n) w1 = (Inr d, w')"
    using up1 by (simp add: andThen_run stored)
  note d = createDocument_ok [OF doc]
  have owner: "provider_findById (pp_id p) w' = Some p" "pp_userId p = u"
    using findUnique_SomeD [of pp_userId u "providerProfiles w" p] findUnique_mem [OF keys, of p] p
    by (auto simp: provider_findByUserId_def provider_findById_def d(3) w1_def)
  have path: "getFilePath e' (''/uploads/documents/'' @ n) w' = (Inr path, w')"
    using getFilePath_documents [OF uploadName_plain [OF ids], of e' upload w'] cwd
    by (simp add: n_def path_def rootSegments_def)
  have "startsWith path (uploadRoot e @ ''/documents/'')"
    by (simp add: path_def uploadRoot_render renderPath_def startsWith_def rootSegments_def)
  moreover have "getDocumentFileForUser e' (pd_id d) u USER w' =
      (Inr (path, mimeTypeOf (toLowerCase (extname path))), w')"
    using d owner path by (simp add: getDocumentFileForUser_def run_simps)
  moreover have "getDocumentFileForUser e' (pd_id d) v role w' =
      (Inl (ForbiddenException ''You do not have permission to access this document''), w')"
    if "v \<noteq> u" "role \<noteq> ADMIN" for v role
    using d owner that by (simp add: getDocumentFileForUser_def run_simps)
  moreover have "disk w' path = Some (mf_buffer upload)" by (simp add: d(3) w1_def)
  ultimately show ?thesis by blast
qed

definition demoUpload :: multerFile where
  "demoUpload = \<lparr>mf_originalname = ''../id card.PDF'', mf_buffer = ''content''\<rparr>"

lemma demo_upload_ok: "isOk (uploadDocument demoEnv ''provUser'' AADHAAR demoUpload demoWorld)"
proof -
  have "CHR ''/'' \<notin> set (uuidAt demoEnv (drawn demoWorld))" by (simp add: demo_defs)
  note up = uploadFile_documents [OF this, of demoUpload]
  moreover have "provider_findByUserId ''provUser'' demoWorld = Some demoProvider"
    "providerDocuments demoWorld = []"
    by (simp_all add: provider_findByUserId_def demo_defs)
  ultimately show ?thesis
    by (simp add: uploadDocument_def getOwnProfile_def findDocumentByType_def findFirst_def createDocument_def
        run_simps drawUuid_def insertRow_def idViolation_def isOk_def cong: andThen_first)
qed

theorem document_round_trip_witness:
  "\<exists>d w' path mime. uploadDocument demoEnv ''provUser'' AADHAAR demoUpload demoWorld = (Inr d, w')
     \<and> getDocumentFileForUser demoEnv (pd_id d) ''provUser'' USER w' = (Inr (path, mime), w')
     \<and> disk w' path = Some ''content''"
proof -
  obtain d w' where up: "uploadDocument demoEnv ''provUser'' AADHAAR demoUpload demoWorld = (Inr d, w')"
    using isOk_Inr [OF demo_upload_ok] by blast
  have "CHR ''/'' \<notin> set (uuidAt demoEnv (drawn demoWorld))"
    "distinct (map pp_id (providerProfiles demoWorld))" by (simp_all add: demo_defs)
  from document_round_trip [OF up this refl] up show ?thesis by (auto simp: demoUpload_def)
qed

section \<open>The cached search\<close>

text \<open>Keys of different versions of the search never collide.\<close>

lemma buildNormalizedQueryKey_version:
  assumes "buildNormalizedQueryKey e k n q = buildNormalizedQueryKey e k m q'" and "0 \<le> n" "0 \<le> m"
  shows "n = m"
proof -
  have "splitOn (CHR '':'') (intString i @ CHR '':'' # t) = intString i # splitOn (CHR '':'') t" if "0 \<le> i" for i t
    using that by (intro splitOn_append colon_not_digit list_all_intString)
  moreover have "intString n @ CHR '':'' # take 16 (sha256Hex e (urlSearchParams e (normalizedParams q))) =
      intString m @ CHR '':'' # take 16 (sha256Hex e (urlSearchParams e (normalizedParams q')))"
    using assms(1) by (simp add: buildNormalizedQueryKey_def)
  ultimately have "intString n = intString m" using assms(2,3) by (metis list.inject)
  then have "digitsValue (natString (nat n)) = digitsValue (natString (nat m))"
    using assms(2,3) by (simp add: intString_def)
  then show ?thesis using assms(2,3) by (simp add: digitsValue_natString)
qed

abbreviation searchKey :: "env \<Rightarrow> int \<Rightarrow> providerSearchQuery \<Rightarrow> string" where
  "searchKey e n q \<equiv> buildNormalizedQueryKey e ''providers:search'' n (searchFields e q)"

lemma searchKey_other: "searchKey e n q \<noteq> versionKey" "searchKey e n q \<noteq> ''provider:profile:'' @ p"
  "versionKey \<noteq> ''provider:profile:'' @ p"
  by (simp_all add: buildNormalizedQueryKey_def versionKey_def)

text \<open>A change of an offering, seen from the cache.\<close>

definition incrementedVersion :: "cacheValue option \<Rightarrow> cacheValue" where
  "incrementedVersion v = (case v of None \<Rightarrow> CVersion 1 | Some (CVersion n) \<Rightarrow> CVersion (n + 1) | Some x \<Rightarrow> x)"

lemma incremented:
  assumes "incrementSearchVersion e w = (Inr u, w')" and "redisReady e"
  shows "liveValue e w' k =
    (if k = versionKey then Some (incrementedVersion (liveValue e w versionKey)) else liveValue e w k)"
proof (cases "liveEntry e versionKey w")
  case None
  with assms show ?thesis
    by (auto simp: incrementSearchVersion_def modify_app liveValue_def liveEntry_def incrementedVersion_def)
next
  case (Some en)
  have live: "liveEntry e versionKey (w\<lparr>redis := (redis w)(versionKey \<mapsto> en\<lparr>ce_value := v\<rparr>)\<rparr>) =
      Some (en\<lparr>ce_value := v\<rparr>)" for v
    using Some by (auto simp: liveEntry_def split: option.splits if_splits)
  have other: "liveEntry e k (w\<lparr>redis := (redis w)(versionKey \<mapsto> x)\<rparr>) = liveEntry e k w" if "k \<noteq> versionKey" for x
    using that by (simp add: liveEntry_def)
  show ?thesis
    using assms Some live other
    by (cases "ce_value en")
      (auto simp: incrementSearchVersion_def modify_app liveValue_def incrementedVersion_def)
qed

lemma updateOffering_redis:
  assumes ok: "updateOffering e p i dto w = (Inr s, w')" and ready: "redisReady e"
  shows "liveValue e w' k = (if k = ''provider:profile:'' @ p then None
    else if k = versionKey then Some (incrementedVersion (liveValue e w versionKey))
    else liveValue e w k)"
proof -
  define w1 where "w1 = providerServices_update (mapRows (\<lambda>x. ps_id x = i) (offeringWith dto)) w"
  have w1: "redis w1 = redis w" by (simp add: w1_def)
  have inv: "andThen (invalidateProvider e p) (\<lambda>_. ret s) w1 = (Inr s, w')"
    using ok unfolding updateOffering_def ownOffering_def
    by (auto simp: andThen_run [of "andThen m f" for m f] providerService_update_def updateRow_def
        andThen_run [of "\<lambda>s. m s" for m] reads_app check_app w1_def
        split: option.splits if_splits prod.splits sum.splits simp: run_simps)
  then obtain w2 u where w2: "redis_del e (''provider:profile:'' @ p) w1 = (Inr (), w2)"
    and w': "incrementSearchVersion e w2 = (Inr u, w')"
    unfolding invalidateProvider_def by (elim andThen_InrD) (auto simp: ret_app)
  have d: "w2 = dropKey (''provider:profile:'' @ p) w1"
    using w2 ready by (simp add: redis_del_def modify_app)
  have "liveValue e w1 x = liveValue e w x" for x by (simp add: liveValue_def liveEntry_def w1)
  then show ?thesis
    using incremented [OF w' ready] searchKey_other(3) [of p]
    by (simp add: d redisCache.view_drop)
qed

lemma updateOffering_untouched:
  assumes "updateOffering e p i dto w = (Inr s, w')" and "k \<noteq> ''provider:profile:'' @ p" and "k \<noteq> versionKey"
  shows "redis w' k = redis w k"
proof -
  have "steps (\<lambda>w w'. redis w' k = redis w k) (updateOffering e p i dto)"
    unfolding updateOffering_def ownOffering_def invalidateProvider_def providerService_update_def
      redis_del_def incrementSearchVersion_def
    using assms(2,3)
    by (intro same.combinators) (auto simp: dropKey_def split: option.splits cacheValue.splits)
  from stepsD [OF this assms(1)] show ?thesis .
qed

lemma search_run:
  assumes "redisReady e" and "fst (getSearchVersion e w) = Inr n"
  shows "searchPublicProviders e q w =
    (case liveValue e w (searchKey e n q) of
       Some v \<Rightarrow> (Inr v, w)
     | None \<Rightarrow> (Inr (CSearch (searchPage q w)),
         storeValue e CACHE_TTL_SEARCH_RESULTS (searchKey e n q) (CSearch (searchPage q w)) w))"
  using assms
  by (simp add: searchPublicProviders_def getSearchVersion_app andThen_run [of "getSearchVersion e" for e]
      getOrSet_def redis_get_def redis_set_def reads_app andThen_run ret_app modify_app split: option.split)

lemma stored_search:
  "liveValue e (storeValue e CACHE_TTL_SEARCH_RESULTS k v w) k' = (if k' = k then Some v else liveValue e w k')"
  using redisCache.view_put [of e 119 k v w k'] by (simp add: CACHE_TTL_SEARCH_RESULTS_def)

text \<open>
  The life of the cache as far as the search is concerned, from a service that starts with an
  empty cache: searches, changes of offerings, increments of the counter by the other services,
  and whatever else leaves the search results and the counter alone or lets results expire. Each request has its own environment, with
  its own clock; the keys are computed alike and Redis answers throughout.
\<close>

definition sameCache :: "env \<Rightarrow> env \<Rightarrow> bool" where
  "sameCache e e' \<longleftrightarrow> sha256Hex e' = sha256Hex e \<and> urlSearchParams e' = urlSearchParams e
     \<and> numberText e' = numberText e \<and> redisReady e'"

inductive searchHistory :: "env \<Rightarrow> world \<Rightarrow> bool" for e where
  start: "redis w = Map.empty \<Longrightarrow> searchHistory e w"
| search: "searchHistory e w \<Longrightarrow> sameCache e e' \<Longrightarrow> searchPublicProviders e' q w = (r, w') \<Longrightarrow> searchHistory e w'"
| create: "searchHistory e w \<Longrightarrow> sameCache e e' \<Longrightarrow> createOffering e' p c w = (s, w') \<Longrightarrow> searchHistory e w'"
| update: "searchHistory e w \<Longrightarrow> sameCache e e' \<Longrightarrow> updateOffering e' p i d w = (s, w') \<Longrightarrow> searchHistory e w'"
| remove: "searchHistory e w \<Longrightarrow> sameCache e e' \<Longrightarrow> removeOffering e' p i w = (s, w') \<Longrightarrow> searchHistory e w'"
| increment: "searchHistory e w \<Longrightarrow> incrementSearchVersion e' w = (u, w') \<Longrightarrow> searchHistory e w'"
| other: "searchHistory e w \<Longrightarrow> redis w' versionKey = redis w versionKey \<Longrightarrow>
    (\<And>n q. redis w' (searchKey e n q) \<in> {None, redis w (searchKey e n q)}) \<Longrightarrow> searchHistory e w'"

lemma sameCache_key: "sameCache e e' \<Longrightarrow> searchKey e' n q = searchKey e n q"
  by (simp add: sameCache_def buildNormalizedQueryKey_def searchFields_def)

text \<open>No result is cached under a version above the counter's (1 while there is none).\<close>

definition searchedUpTo :: "env \<Rightarrow> int \<Rightarrow> world \<Rightarrow> bool" where
  "searchedUpTo e c w \<longleftrightarrow> (\<forall>m q. c < m \<longrightarrow> redis w (searchKey e m q) = None)"

definition versionsOk :: "env \<Rightarrow> world \<Rightarrow> bool" where
  "versionsOk e w \<longleftrightarrow>
     redis w versionKey = None \<and> searchedUpTo e 1 w
     \<or> (\<exists>c \<ge> 1. redis w versionKey = Some \<lparr>ce_value = CVersion c, ce_expiresAt = None\<rparr> \<and> searchedUpTo e c w)"

lemma versionsOk_redis: "redis w' = redis w \<Longrightarrow> versionsOk e w \<Longrightarrow> versionsOk e w'"
  by (simp add: versionsOk_def searchedUpTo_def)

lemma versionsOk_version:
  assumes "versionsOk e w" and "redisReady e'"
  obtains c where "1 \<le> c" and "fst (getSearchVersion e' w) = Inr c" and "searchedUpTo e c w"
    and "redis w versionKey = None \<and> c = 1
      \<or> redis w versionKey = Some \<lparr>ce_value = CVersion c, ce_expiresAt = None\<rparr>"
  using assms that [of 1] that
  by (auto simp: versionsOk_def getSearchVersion_app liveValue_def liveEntry_def)

lemma versionsOk_increment: "keeps (versionsOk e) (incrementSearchVersion e')"
proof (rule stepsI, intro impI)
  fix w
  assume "versionsOk e w"
  then show "versionsOk e (snd (incrementSearchVersion e' w))"
    using searchKey_other(1) [of e]
    by (auto simp: versionsOk_def searchedUpTo_def incrementSearchVersion_def liveEntry_def ret_app modify_app)
qed

lemma versionsOk_del: "keeps (versionsOk e) (redis_del e' (''provider:profile:'' @ p))"
  using searchKey_other(3) [of p]
  by (auto simp: redis_del_def steps_def prog_simps dropKey_def versionsOk_def searchedUpTo_def)

lemma versionsOk_offerings:
  "keeps (versionsOk e) (createOffering e' p c)" "keeps (versionsOk e) (updateOffering e' p i d)"
  "keeps (versionsOk e) (removeOffering e' p i)"
  unfolding createOffering_def updateOffering_def removeOffering_def ownOffering_def invalidateProvider_def
    providerService_create_def providerService_delete_def providerService_update_def
  by (intro inv.combinators versionsOk_increment versionsOk_del impI;
      (erule versionsOk_redis [rotated])?; simp add: drawUuid_def steps_def versionsOk_def searchedUpTo_def)+

lemma versionsOk_search:
  assumes "versionsOk e w" and same: "sameCache e e'" and run: "searchPublicProviders e' q w = (r, w')"
  shows "versionsOk e w'"
proof -
  have ready: "redisReady e'" using same by (simp add: sameCache_def)
  obtain c where c: "1 \<le> c" "fst (getSearchVersion e' w) = Inr c" "searchedUpTo e c w"
      "redis w versionKey = None \<and> c = 1
        \<or> redis w versionKey = Some \<lparr>ce_value = CVersion c, ce_expiresAt = None\<rparr>"
    using assms(1) ready by (rule versionsOk_version)
  have key: "searchKey e c q \<noteq> searchKey e m q'" if "c < m" for m q'
    using buildNormalizedQueryKey_version [of e _ c _ m] c(1) that by fastforce
  from run have "w' = w \<or> (\<exists>x. w' = w\<lparr>redis := (redis w)(searchKey e c q \<mapsto> x)\<rparr>)"
    using sameCache_key [OF same] by (auto simp: search_run [OF ready c(2)] storeValue_def split: option.splits)
  then show ?thesis
  proof
    assume "\<exists>x. w' = w\<lparr>redis := (redis w)(searchKey e c q \<mapsto> x)\<rparr>"
    then obtain x where w': "w' = w\<lparr>redis := (redis w)(searchKey e c q \<mapsto> x)\<rparr>" ..
    have "redis w' versionKey = redis w versionKey"
      using searchKey_other(1) [of e c q] by (simp add: w')
    moreover have "searchedUpTo e d w'" if "searchedUpTo e d w" "c \<le> d" for d
      unfolding searchedUpTo_def
    proof (intro allI impI)
      fix m q'
      assume "d < m"
      then have "searchKey e m q' \<noteq> searchKey e c q" and "redis w (searchKey e m q') = None"
        using that key [of m q'] by (auto simp: searchedUpTo_def)
      then show "redis w' (searchKey e m q') = None" by (simp add: w')
    qed
    ultimately show ?thesis using assms(1) c(1,4) by (auto simp: versionsOk_def)
  qed (use assms(1) in simp)
qed

lemma searchHistory_versionsOk: "searchHistory e w \<Longrightarrow> versionsOk e w"
proof (induction rule: searchHistory.induct)
  case (start w)
  then show ?case by (simp add: versionsOk_def searchedUpTo_def)
next
  case (search w e' q r w')
  then show ?case using versionsOk_search by blast
next
  case (other w w')
  have "searchedUpTo e c w'" if "searchedUpTo e c w" for c
    using that other(3) by (fastforce simp: searchedUpTo_def)
  with other(2,4) show ?case by (auto simp: versionsOk_def)
next
  case (increment w e' u w')
  then show ?case using stepsD [OF versionsOk_increment [of e] increment(2)] by simp
next
  case (create w e' p c s w')
  then show ?case using stepsD [OF versionsOk_offerings(1) [of e] create(3)] by simp
next
  case (update w e' p i d s w')
  then show ?case using stepsD [OF versionsOk_offerings(2) [of e] update(3)] by simp
next
  case (remove w e' p i s w')
  then show ?case using stepsD [OF versionsOk_offerings(3) [of e] remove(3)] by simp
qed

text \<open>
  C34. The cached search follows the offerings as soon as the version counter exists: however
  the cache came about, the next search after a change of an offering, at any time, is
  computed anew, because the change moves the search to a version under which nothing was
  ever cached. But the first increment starts the counter at 1, which is also the version
  assumed while there is no counter: a search cached before the first change is answered
  with the old result. Both hold while Redis answers the commands.
\<close>

theorem search_cache_after_change:
  assumes history: "searchHistory e w" and same: "sameCache e e'" "sameCache e e2"
    and change: "updateOffering e' p i dto w = (Inr s, w')"
  shows "(redis w versionKey \<noteq> None \<longrightarrow> fst (searchPublicProviders e2 q w') = Inr (CSearch (searchPage q w')))
    \<and> (redis w0 versionKey = None \<longrightarrow> searchPublicProviders e' q w0 = (Inr r, w) \<longrightarrow>
      fst (searchPublicProviders e' q w') = Inr r)"
proof (intro conjI impI)
  have ready: "redisReady e'" "redisReady e2" using same by (simp_all add: sameCache_def)
  note after = updateOffering_redis [OF change ready(1)]
  {
    assume "redis w versionKey \<noteq> None"
    then obtain n where n: "1 \<le> n" "redis w versionKey = Some \<lparr>ce_value = CVersion n, ce_expiresAt = None\<rparr>"
        "searchedUpTo e n w"
      using searchHistory_versionsOk [OF history] by (auto simp: versionsOk_def)
    have "versionsOk e w'"
      using stepsD [OF versionsOk_offerings(2) change] searchHistory_versionsOk [OF history] by blast
    then obtain c where c: "1 \<le> c" "fst (getSearchVersion e2 w') = Inr c" "searchedUpTo e c w'"
        "redis w' versionKey = None \<and> c = 1
          \<or> redis w' versionKey = Some \<lparr>ce_value = CVersion c, ce_expiresAt = None\<rparr>"
      using ready(2) by (rule versionsOk_version)
    have "liveValue e' w versionKey = Some (CVersion n)" by (simp add: n(2) liveValue_def liveEntry_def)
    then have "liveValue e' w' versionKey = Some (CVersion (n + 1))"
      using searchKey_other(3) [of p] by (simp add: after incrementedVersion_def)
    then have "c = n + 1" using c(4) by (auto simp: liveValue_def liveEntry_def)
    moreover have "redis w' (searchKey e (n + 1) q) = None"
      using n(3) updateOffering_untouched [OF change] searchKey_other by (auto simp: searchedUpTo_def)
    ultimately show "fst (searchPublicProviders e2 q w') = Inr (CSearch (searchPage q w'))"
      using search_run [OF ready(2) c(2)] sameCache_key [OF same(2)] by (simp add: liveValue_def liveEntry_def)
  next
    assume "redis w0 versionKey = None" and run: "searchPublicProviders e' q w0 = (Inr r, w)"
    then have fresh: "liveValue e' w0 versionKey = None" by (simp add: liveValue_def liveEntry_def)
    have v0: "fst (getSearchVersion e' w0) = Inr 1" using fresh by (simp add: getSearchVersion_app)
    have "liveValue e' w (searchKey e' 1 q) = Some r" "liveValue e' w versionKey = None"
      using run fresh searchKey_other(1) [of e' 1 q]
      by (auto simp: search_run [OF ready(1) v0] stored_search split: option.splits)
    then have "liveValue e' w' (searchKey e' 1 q) = Some r" "liveValue e' w' versionKey = Some (CVersion 1)"
      using searchKey_other(1) [of e' 1 q] searchKey_other(2) [of e' 1 q p] searchKey_other(3) [of p]
      by (auto simp: after incrementedVersion_def)
    moreover from this(2) have "fst (getSearchVersion e' w') = Inr 1" by (simp add: getSearchVersion_app)
    ultimately show "fst (searchPublicProviders e' q w') = Inr r"
      by (simp add: search_run [OF ready(1)])
  }
qed

definition demoSearch :: providerSearchQuery where
  "demoSearch = \<lparr>vq_page = None, vq_limit = None, vq_categoryId = None, vq_serviceId = None,
     vq_city = None, vq_minPrice = None, vq_maxPrice = None, vq_minRating = None, vq_search = None,
     vq_sort = None\<rparr>"

definition demoPriceChange :: updateProviderServiceDto where
  "demoPriceChange = \<lparr>uo_price = Some 5, uo_durationMinutes = None, uo_bufferMinutes = None,
     uo_description = None, uo_isActive = None\<rparr>"

lemma demo_change_ok:
  assumes "providerServices w = [demoOffering]"
  shows "isOk (updateOffering demoEnv ''prov'' ''offer'' demoPriceChange w)"
  using assms
  by (simp add: updateOffering_def ownOffering_def providerService_findById_def providerService_update_def
      updateRow_def offeringViolation_def invalidateProvider_def redis_del_def run_simps isOk_def
      demoOffering_def demoEnv_def incrementSearchVersion_def cong: andThen_first)

text \<open>The example offering is searched, changed, searched, changed and searched again.\<close>

lemma demo_search_change:
  assumes "providerServices w = [demoOffering]" and "searchHistory demoEnv w"
  obtains r w1 s w2 where "searchPublicProviders demoEnv demoSearch w = (Inr r, w1)"
    and "updateOffering demoEnv ''prov'' ''offer'' demoPriceChange w1 = (Inr s, w2)"
    and "searchHistory demoEnv w1" and "redis w2 versionKey \<noteq> None"
proof -
  have same: "sameCache demoEnv demoEnv" and ready: "redisReady demoEnv" by (simp_all add: sameCache_def demo_defs)
  obtain c where v: "fst (getSearchVersion demoEnv w) = Inr c"
    using searchHistory_versionsOk [OF assms(2)] ready by (rule versionsOk_version)
  have "\<exists>r w1. searchPublicProviders demoEnv demoSearch w = (Inr r, w1) \<and> providerServices w1 = [demoOffering]"
    using assms(1) by (simp add: search_run [OF ready v] storeValue_def split: option.split)
  then obtain r w1 where run: "searchPublicProviders demoEnv demoSearch w = (Inr r, w1)"
    and w1: "providerServices w1 = [demoOffering]" by blast
  obtain s w2 where change: "updateOffering demoEnv ''prov'' ''offer'' demoPriceChange w1 = (Inr s, w2)"
    using isOk_Inr [OF demo_change_ok [OF w1]] by blast
  have "liveValue demoEnv w2 versionKey \<noteq> None"
    using searchKey_other(3) [of "''prov''"] by (simp add: updateOffering_redis [OF change ready])
  then have "redis w2 versionKey \<noteq> None" by (cases "redis w2 versionKey") (simp_all add: liveValue_def liveEntry_def)
  with run change searchHistory.search [OF assms(2) same run] that show thesis by blast
qed

theorem search_cache_after_change_witness:
  "(\<exists>r w s w'. searchPublicProviders demoEnv demoSearch demoWorld = (Inr r, w)
     \<and> updateOffering demoEnv ''prov'' ''offer'' demoPriceChange w = (Inr s, w')
     \<and> fst (searchPublicProviders demoEnv demoSearch w') = Inr r)
   \<and> (\<exists>w s w'. searchHistory demoEnv w \<and> redis w versionKey \<noteq> None
     \<and> updateOffering demoEnv ''prov'' ''offer'' demoPriceChange w = (Inr s, w')
     \<and> fst (searchPublicProviders demoEnv demoSearch w') = Inr (CSearch (searchPage demoSearch w')))"
    (is "?stale \<and> ?fresh")
proof
  have same: "sameCache demoEnv demoEnv" by (simp add: sameCache_def demo_defs)
  have start: "searchHistory demoEnv demoWorld" by (rule searchHistory.start) (simp add: demo_defs)
  have offer: "providerServices demoWorld = [demoOffering]" and empty: "redis demoWorld versionKey = None"
    by (simp_all add: demoWorld_def)
  obtain r w1 s w2 where run: "searchPublicProviders demoEnv demoSearch demoWorld = (Inr r, w1)"
    and change: "updateOffering demoEnv ''prov'' ''offer'' demoPriceChange w1 = (Inr s, w2)"
    and h1: "searchHistory demoEnv w1" and counter: "redis w2 versionKey \<noteq> None"
    using offer start by (rule demo_search_change)
  show ?stale using search_cache_after_change [OF h1 same same change] run change empty by blast
  define w3 where "w3 = w2\<lparr>providerServices := [demoOffering]\<rparr>"
  have h2: "searchHistory demoEnv w2" using h1 same change by (rule searchHistory.update)
  then have h3: "searchHistory demoEnv w3" by (rule searchHistory.other) (simp_all add: w3_def)
  have counter3: "redis w3 versionKey \<noteq> None" using counter by (simp add: w3_def)
  obtain t w4 where again: "updateOffering demoEnv ''prov'' ''offer'' demoPriceChange w3 = (Inr t, w4)"
    using isOk_Inr [OF demo_change_ok [of w3]] by (auto simp: w3_def)
  show ?fresh using search_cache_after_change [OF h3 same same again] counter3 h3 again by blast
qed

end
