(* ===== verification/AccountFacts.thy ===== *)
theory AccountFacts
  imports Admin Examples
begin

text \<open>
  The properties of accounts: there always is an active administrator, a suspended
  user is locked out, and what a refresh token is worth before and after its use.
\<close>

section \<open>Updating one user\<close>

lemma user_update_ok:
  assumes "user_update i f w = (Inr u', w')"
  obtains u where "user_findById i w = Some u" and "u' = f u"
    and "w' = users_update (mapRows (\<lambda>x. u_id x = i) f) w"
    and "userViolation (f u) (filter (\<lambda>x. u_id x \<noteq> i) (users w)) = None"
  using assms by (auto simp: user_update_def updateRow_def user_findById_def split: option.splits)

lemma user_update_run:
  assumes "user_findById i w = Some u" and "userViolation (f u) (filter (\<lambda>x. u_id x \<noteq> i) (users w)) = None"
  shows "user_update i f w = (Inr (f u), users_update (mapRows (\<lambda>x. u_id x = i) f) w)"
  using assms by (simp add: user_update_def updateRow_def user_findById_def)

lemma user_update_fails: "user_update i f w = (Inl err, w') \<Longrightarrow> w' = w"
  by (auto simp: user_update_def updateRow_def split: option.splits)

lemma countRows_mapRows_once:
  assumes "distinct (map key t)"
  shows "countRows p t \<le> Suc (countRows p (mapRows (\<lambda>x. key x = i) f t))"
  using assms
proof (induction t)
  case (Cons x t)
  show ?case
  proof (cases "key x = i")
    case True
    with Cons.prems have "mapRows (\<lambda>y. key y = i) f t = t"
      by (intro mapRows_id) (auto simp: image_iff)
    with True show ?thesis by (simp add: countRows_def)
  next
    case False
    with Cons show ?thesis by (simp add: countRows_def)
  qed
qed (simp add: countRows_def)

lemma countRows_mapRows_le:
  "(\<And>x. x \<in> set t \<Longrightarrow> q x \<Longrightarrow> p x \<Longrightarrow> p (f x)) \<Longrightarrow> countRows p t \<le> countRows p (mapRows q f t)"
  by (induction t) (auto simp: countRows_def le_SucI)

section \<open>The last administrator\<close>

lemma auditLog_create_users: "users (snd (auditLog_create e params w)) = users w"
  by (simp add: auditLog_create_def drawUuid_def insertRow_def run_simps split: option.split)

lemma andThen_users:
  assumes "andThen m f w = (r, w')" and "users (snd (m w)) = users w"
  shows "users w' = users w \<or> (\<exists>a w1. m w = (Inr a, w1) \<and> users w1 = users w \<and> f a w1 = (r, w'))"
  using assms by (cases "m w") (auto simp: andThen_run split: sum.splits)

text \<open>What a change of status does to the user table, and when.\<close>

lemma updateStatus_users:
  assumes run: "updateStatus e i s a w = (r, w')"
  shows "users w' = users w \<or>
    (\<exists>u. user_findById i w = Some u \<and> Some (u_id u) \<noteq> a
      \<and> (u_role u = ADMIN \<and> u_status u = ACTIVE \<and> s \<noteq> ACTIVE \<longrightarrow> 1 < countActiveAdmin w)
      \<and> users w' = mapRows (\<lambda>x. u_id x = i) (\<lambda>x. x\<lparr>u_status := s\<rparr>) (users w))"
proof (cases "user_findById i w")
  case None
  with run show ?thesis by (auto simp: updateStatus_def adminUser_findOne_def run_simps)
next
  case (Some u)
  let ?audit = "case truthy a of None \<Rightarrow> ret ()
    | Some x \<Rightarrow> andThen (auditLog_create e
        \<lparr>ap_actorUserId = Some x, ap_entityType = ''User'', ap_entityId = i,
         ap_action = (if s = UserStatus.SUSPENDED then USER_SUSPENDED else USER_STATUS_UPDATED),
         ap_oldValue = Some (JObj [(''status'', JStr (userStatusName (u_status u)))]),
         ap_newValue = Some (JObj [(''status'', JStr (userStatusName s))])\<rparr>) (\<lambda>_. ret ())"
  show ?thesis
  proof (cases "Some (u_id u) \<noteq> a
      \<and> (u_role u = ADMIN \<and> u_status u = ACTIVE \<and> s \<noteq> ACTIVE \<longrightarrow> 1 < countActiveAdmin w)")
    case False
    with run Some have "w' = w"
      by (auto simp: updateStatus_def adminUser_findOne_def run_simps split: if_splits)
    then show ?thesis by simp
  next
    case True
    with run Some have rest: "andThen ?audit (\<lambda>_. adminUser_updateStatus i s) w = (r, w')"
      by (auto simp: updateStatus_def adminUser_findOne_def andThen_run [of "andThen m f" for m f]
          andThen_run [of "if b then m else n" for b m n] run_simps split: if_splits)
    have "users (snd (?audit w)) = users w"
      using auditLog_create_users
      by (auto simp: andThen_run ret_app split: option.split prod.split sum.split)
        (metis snd_conv)+
    from andThen_users [OF rest this] show ?thesis
    proof
      assume "\<exists>x w1. ?audit w = (Inr x, w1) \<and> users w1 = users w \<and> adminUser_updateStatus i s w1 = (r, w')"
      then obtain w1 where w1: "users w1 = users w" "user_update i (\<lambda>x. x\<lparr>u_status := s\<rparr>) w1 = (r, w')"
        by (auto simp: adminUser_updateStatus_def)
      show ?thesis
      proof (cases r)
        case (Inl err)
        with w1 show ?thesis by (auto dest: user_update_fails)
      next
        case (Inr v)
        with w1 have "user_update i (\<lambda>x. x\<lparr>u_status := s\<rparr>) w1 = (Inr v, w')" by simp
        then have "w' = users_update (mapRows (\<lambda>x. u_id x = i) (\<lambda>x. x\<lparr>u_status := s\<rparr>)) w1"
          by (rule user_update_ok)
        with True Some w1(1) show ?thesis by auto
      qed
    qed blast
  qed
qed

text \<open>
  C29. A change of status, by one request on its own, never leaves the platform
  without an active administrator, and no administrator changes their own status.
\<close>

theorem last_admin_stays:
  assumes "distinct (map u_id (users w))" and "1 \<le> countActiveAdmin w"
  shows "1 \<le> countActiveAdmin (snd (updateStatus e i s a w))
    \<and> (a = Some i \<longrightarrow> \<not> isOk (updateStatus e i s a w))"
proof
  obtain r w' where run: "updateStatus e i s a w = (r, w')" by (cases "updateStatus e i s a w")
  from updateStatus_users [OF run] show "1 \<le> countActiveAdmin (snd (updateStatus e i s a w))"
  proof (elim disjE exE conjE)
    assume "users w' = users w"
    with assms(2) run show ?thesis by (simp add: countActiveAdmin_def)
  next
    fix u
    assume u: "user_findById i w = Some u"
      and many: "u_role u = ADMIN \<and> u_status u = ACTIVE \<and> s \<noteq> ACTIVE \<longrightarrow> 1 < countActiveAdmin w"
      and w': "users w' = mapRows (\<lambda>x. u_id x = i) (\<lambda>x. x\<lparr>u_status := s\<rparr>) (users w)"
    have only: "x = u" if "x \<in> set (users w)" "u_id x = i" for x
      using findUnique_mem [OF assms(1) that(1)] that(2) u by (simp add: user_findById_def)
    show ?thesis
    proof (cases "u_role u = ADMIN \<and> u_status u = ACTIVE \<and> s \<noteq> ACTIVE")
      case True
      with many have "1 < countActiveAdmin w" by blast
      moreover have "countActiveAdmin w \<le> Suc (countActiveAdmin w')"
        unfolding countActiveAdmin_def w' by (rule countRows_mapRows_once [OF assms(1)])
      ultimately show ?thesis using run by simp
    next
      case False
      then have "countActiveAdmin w \<le> countActiveAdmin w'"
        unfolding countActiveAdmin_def w' using only by (intro countRows_mapRows_le) auto
      with assms(2) run show ?thesis by simp
    qed
  qed
next
  show "a = Some i \<longrightarrow> \<not> isOk (updateStatus e i s a w)"
    by (auto simp: updateStatus_def adminUser_findOne_def run_simps isOk_def user_findById_def
        dest: findUnique_SomeD split: option.splits)
qed

definition demoAdmin :: "uuid \<Rightarrow> user" where
  "demoAdmin i = (demoUser i)\<lparr>u_role := ADMIN, u_phone := i\<rparr>"

definition adminWorld :: world where
  "adminWorld = demoWorld\<lparr>users := [demoUser ''cust'', demoAdmin ''root'', demoAdmin ''boss'']\<rparr>"

lemmas admin_defs = updateStatus_def adminUser_findOne_def adminUser_updateStatus_def user_update_def
  user_findById_def userViolation_def countActiveAdmin_def adminWorld_def demoAdmin_def

theorem last_admin_stays_witness:
  "isOk (updateStatus demoEnv ''boss'' UserStatus.SUSPENDED (Some ''root'') adminWorld)
   \<and> 1 \<le> countActiveAdmin (snd (updateStatus demoEnv ''boss'' UserStatus.SUSPENDED (Some ''root'') adminWorld))"
proof
  show "isOk (updateStatus demoEnv ''boss'' UserStatus.SUSPENDED (Some ''root'') adminWorld)"
    by (simp add: admin_defs demo_defs write_defs run_simps isOk_def cong: andThen_first)
  have "distinct (map u_id (users adminWorld))" "1 \<le> countActiveAdmin adminWorld"
    by (simp_all add: admin_defs demo_defs countRows_def)
  from last_admin_stays [OF this]
  show "1 \<le> countActiveAdmin (snd (updateStatus demoEnv ''boss'' UserStatus.SUSPENDED (Some ''root'') adminWorld))"
    by blast
qed

section \<open>Suspension\<close>

lemma updateStatus_ok:
  assumes run: "updateStatus e i s a w = (Inr v, w')"
  shows "\<exists>u. user_findById i w' = Some u \<and> u_status u = s"
proof -
  obtain w1 where "user_update i (\<lambda>x. x\<lparr>u_status := s\<rparr>) w1 = (Inr v, w')"
    using run unfolding updateStatus_def adminUser_updateStatus_def by (elim andThen_InrD)
  then show ?thesis
    by (elim user_update_ok) (auto simp: user_findById_def findUnique_updated)
qed

text \<open>
  C31. Suspending, blocking or deactivating a user takes effect at once: from then on
  every access token of the user is refused, however long it would be valid.
\<close>

theorem suspended_user_locked_out:
  assumes "updateStatus e i s a w = (Inr v, w')" and "s \<noteq> ACTIVE"
    and "jwtVerify e' (configGet e' ''jwt.secret'') (nowMs e') tok = Some payload" and "jp_sub payload = i"
  shows "jwtAuthGuard e' (Some tok) w' =
    (Inl (UnauthorizedException ''User account is inactive or deleted''), w')"
  using updateStatus_ok [OF assms(1)] assms(2-4)
  by (auto simp: jwtAuthGuard_def jwtStrategy_validate_def)

definition tokenEnv :: env where
  "tokenEnv = demoEnv\<lparr>jwtVerify := (\<lambda>k t s. Some \<lparr>jp_sub = ''cust'', jp_email = [], jp_role = USER\<rparr>)\<rparr>"

theorem suspended_user_locked_out_witness:
  "\<exists>v w'. updateStatus demoEnv ''cust'' UserStatus.SUSPENDED (Some ''root'') adminWorld = (Inr v, w')
     \<and> isOk (jwtAuthGuard tokenEnv (Some ''t'') adminWorld)
     \<and> jwtAuthGuard tokenEnv (Some ''t'') w' =
         (Inl (UnauthorizedException ''User account is inactive or deleted''), w')"
proof -
  have "isOk (updateStatus demoEnv ''cust'' UserStatus.SUSPENDED (Some ''root'') adminWorld)"
    by (simp add: admin_defs demo_defs write_defs run_simps isOk_def cong: andThen_first)
  then obtain v w' where run: "updateStatus demoEnv ''cust'' UserStatus.SUSPENDED (Some ''root'') adminWorld = (Inr v, w')"
    using isOk_Inr by blast
  moreover have "isOk (jwtAuthGuard tokenEnv (Some ''t'') adminWorld)"
    by (simp add: jwtAuthGuard_def jwtStrategy_validate_def tokenEnv_def admin_defs demo_defs run_simps isOk_def)
  moreover have "jwtAuthGuard tokenEnv (Some ''t'') w' =
      (Inl (UnauthorizedException ''User account is inactive or deleted''), w')"
    by (rule suspended_user_locked_out [OF run,
          where payload = "\<lparr>jp_sub = ''cust'', jp_email = [], jp_role = USER\<rparr>"])
      (simp_all add: tokenEnv_def)
  ultimately show ?thesis by blast
qed

section \<open>Refresh tokens\<close>

text \<open>The user after new tokens were issued at draw \<open>n\<close>.\<close>

definition withSession :: "env \<Rightarrow> nat \<Rightarrow> user \<Rightarrow> user" where
  "withSession e n u = u\<lparr>u_refreshTokenHash := Some (bcryptHashAt e n (refreshTokenFor e u))\<rparr>"

lemma userViolation_hash [simp]: "userViolation (u\<lparr>u_refreshTokenHash := h\<rparr>) t = userViolation u t"
  by (simp add: userViolation_def)

lemma generateTokens_ok:
  assumes "generateTokens e u w = (Inr tokens, w')"
  shows "tokens = (accessTokenFor e u, refreshTokenFor e u)"
    and "users w' = mapRows (\<lambda>x. u_id x = u_id u)
      (\<lambda>x. x\<lparr>u_refreshTokenHash := Some (bcryptHashAt e (drawn w) (refreshTokenFor e u))\<rparr>) (users w)"
    and "\<exists>v. user_findById (u_id u) w = Some v
      \<and> userViolation v (filter (\<lambda>x. u_id x \<noteq> u_id u) (users w)) = None"
  using assms
  by (auto simp: generateTokens_def bcryptHash_def updateRefreshToken_def user_update_def updateRow_def
      user_findById_def run_simps split: option.splits)

lemma refresh_cases:
  assumes run: "refresh e tok w = (Inr ses, w')"
  obtains t p u h where "truthy tok = Some t"
    and "jwtVerify e (configGet e ''jwt.refreshSecret'') (nowMs e) t = Some p"
    and "user_findById (jp_sub p) w = Some u" and "truthy (u_refreshTokenHash u) = Some h"
    and "bcryptCompare e t h" and "generateTokens e u w = (Inr (ses_accessToken ses, ses_refreshToken ses), w')"
    and "ses_userId ses = u_id u"
proof -
  obtain t where t: "truthy tok = Some t" using run by (auto simp: refresh_def throw_app split: option.splits)
  obtain p where p: "jwtVerify e (configGet e ''jwt.refreshSecret'') (nowMs e) t = Some p"
    using run t by (auto simp: refresh_def throw_app split: option.splits)
  obtain u where u: "user_findById (jp_sub p) w = Some u"
    using run t p by (auto simp: refresh_def throw_app split: option.splits)
  obtain h where h: "truthy (u_refreshTokenHash u) = Some h"
    using run t p u by (auto simp: refresh_def throw_app split: option.splits)
  have c: "bcryptCompare e t h"
    and g: "andThen (generateTokens e u) (\<lambda>tokens. ret (sessionOf u tokens)) w = (Inr ses, w')"
    using run t p u h by (auto simp: refresh_def split: if_splits)
  from g have "generateTokens e u w = (Inr (ses_accessToken ses, ses_refreshToken ses), w')"
    "ses_userId ses = u_id u"
    by (elim andThen_InrD, auto simp: ret_app sessionOf_def)+
  with that [OF t p u h c] show ?thesis by blast
qed

text \<open>
  A refresh that succeeds presented a valid token that matches the stored hash of
  an existing user; it stores the hash of the new refresh token for that user and
  changes no other user. After a logout no refresh token of the user is accepted.
\<close>

theorem refresh_success:
  assumes "refresh e tok w = (Inr ses, w')"
  shows "\<exists>t p u h. tok = Some t \<and> jwtVerify e (configGet e ''jwt.refreshSecret'') (nowMs e) t = Some p
    \<and> user_findById (jp_sub p) w = Some u \<and> u_refreshTokenHash u = Some h \<and> bcryptCompare e t h
    \<and> ses_refreshToken ses = refreshTokenFor e u
    \<and> user_findById (u_id u) w' = Some (withSession e (drawn w) u)
    \<and> filter (\<lambda>x. u_id x \<noteq> u_id u) (users w') = filter (\<lambda>x. u_id x \<noteq> u_id u) (users w)
    \<and> (\<forall>w'' e' t' p'. logout (u_id u) w' = (Inr (), w'') \<longrightarrow> t' \<noteq> [] \<longrightarrow>
         jwtVerify e' (configGet e' ''jwt.refreshSecret'') (nowMs e') t' = Some p' \<longrightarrow> jp_sub p' = u_id u \<longrightarrow>
         refresh e' (Some t') w'' = (Inl (UnauthorizedException ''User not found''), w''))"
proof (rule refresh_cases [OF assms])
  fix t p u h
  assume t: "truthy tok = Some t" and p: "jwtVerify e (configGet e ''jwt.refreshSecret'') (nowMs e) t = Some p"
    and u: "user_findById (jp_sub p) w = Some u" and h: "truthy (u_refreshTokenHash u) = Some h"
    and c: "bcryptCompare e t h"
    and g: "generateTokens e u w = (Inr (ses_accessToken ses, ses_refreshToken ses), w')"
  have id: "u_id u = jp_sub p" using u by (auto simp: user_findById_def dest: findUnique_SomeD)
  have "tok = Some t" "u_refreshTokenHash u = Some h"
    using t h by (auto simp: truthy_def split: option.splits if_splits)
  moreover have "user_findById (u_id u) w' = Some (withSession e (drawn w) u)"
    using u id by (simp add: user_findById_def generateTokens_ok(2) [OF g] findUnique_updated withSession_def)
  moreover have "filter (\<lambda>x. u_id x \<noteq> u_id u) (users w') = filter (\<lambda>x. u_id x \<noteq> u_id u) (users w)"
    unfolding generateTokens_ok(2) [OF g] by (rule filter_mapRows_other) simp
  moreover have "refresh e' (Some t') w'' = (Inl (UnauthorizedException ''User not found''), w'')"
    if "logout (u_id u) w' = (Inr (), w'')" "t' \<noteq> []" "jp_sub p' = u_id u"
      "jwtVerify e' (configGet e' ''jwt.refreshSecret'') (nowMs e') t' = Some p'" for w'' e' t' p'
  proof -
    from that(1) obtain v where "user_update (u_id u) (\<lambda>u. u\<lparr>u_refreshTokenHash := None\<rparr>) w' = (Inr v, w'')"
      by (auto simp: logout_def andThen_run check_app ret_app split: prod.splits sum.splits if_splits)
    then have "\<exists>x. user_findById (u_id u) w'' = Some x \<and> u_refreshTokenHash x = None"
      by (elim user_update_ok) (auto simp: user_findById_def findUnique_updated)
    with that show ?thesis by (cases t') (auto simp: refresh_def throw_app)
  qed
  ultimately show ?thesis using p u c generateTokens_ok(1) [OF g] by auto
qed

text \<open>
  An environment whose tokens differ in their end only: a token is its payload, the
  secret and the time in unary; \<open>bcrypt\<close> keeps the text and compares 72 characters.
\<close>

definition longToken :: "date \<Rightarrow> string" where
  "longToken t = replicate 72 (CHR ''x'') @ replicate (nat t) (CHR ''t'')"

definition sessionEnv :: "date \<Rightarrow> env" where
  "sessionEnv now = demoEnv\<lparr>nowMs := now, bcryptHashAt := (\<lambda>n s. ''$'' @ s),
     bcryptCompare := (\<lambda>t h. take 72 t = take 72 (tl h)), jwtSign := (\<lambda>k x t p. longToken t),
     jwtVerify := (\<lambda>k t s. Some \<lparr>jp_sub = ''cust'', jp_email = [], jp_role = USER\<rparr>)\<rparr>"

definition sessionWorld :: world where
  "sessionWorld = demoWorld\<lparr>users := [(demoUser ''cust'')\<lparr>u_refreshTokenHash := Some (''$'' @ longToken 0)\<rparr>]\<rparr>"

lemmas session_defs = refresh_def generateTokens_def bcryptHash_def updateRefreshToken_def
  user_update_def user_findById_def userViolation_def sessionEnv_def sessionWorld_def longToken_def
  refreshTokenFor_def accessTokenFor_def tokenPayload_def

lemma demo_refresh_ok: "isOk (refresh (sessionEnv 1) (Some (longToken 0)) sessionWorld)"
  by (simp add: session_defs demo_defs write_defs run_simps isOk_def truthy_def cong: andThen_first)

theorem refresh_success_witness:
  "\<exists>ses w'. refresh (sessionEnv 1) (Some (longToken 0)) sessionWorld = (Inr ses, w')
     \<and> ses_refreshToken ses = longToken 1"
proof -
  obtain ses w' where ok: "refresh (sessionEnv 1) (Some (longToken 0)) sessionWorld = (Inr ses, w')"
    using isOk_Inr [OF demo_refresh_ok] by blast
  have "refreshTokenFor (sessionEnv 1) u = longToken 1" for u
    by (simp add: refreshTokenFor_def sessionEnv_def)
  with refresh_success [OF ok] ok show ?thesis by auto
qed

text \<open>
  C32. The rotation of refresh tokens does not revoke the token it replaces. \<open>bcrypt\<close>
  reads 72 bytes; when the old and the new token of a user agree on these (both begin
  with the same header and the same claims), the used token is accepted again as long
  as it has not expired.
\<close>

theorem rotated_token_still_accepted:
  assumes trunc: "\<And>n s t. bcryptCompare e' t (bcryptHashAt e n s) \<longleftrightarrow> take 72 t = take 72 s"
    and hash: "\<And>n s. bcryptHashAt e n s \<noteq> []"
    and first: "refresh e (Some t) w = (Inr ses, w')"
    and agree: "take 72 t = take 72 (ses_refreshToken ses)"
    and valid: "jwtVerify e' (configGet e' ''jwt.refreshSecret'') (nowMs e') t = Some p" "jp_sub p = ses_userId ses"
  shows "isOk (refresh e' (Some t) w')"
proof (rule refresh_cases [OF first])
  fix t' p' u h
  assume t': "truthy (Some t) = Some t'" and u: "user_findById (jp_sub p') w = Some u"
    and g: "generateTokens e u w = (Inr (ses_accessToken ses, ses_refreshToken ses), w')"
    and id: "ses_userId ses = u_id u"
  have t: "truthy (Some t) = Some t" using t' by (auto simp: truthy_def split: if_splits)
  define v where "v = withSession e (drawn w) u"
  have "u_id u = jp_sub p'" using u by (auto simp: user_findById_def dest: findUnique_SomeD)
  then have v: "user_findById (u_id u) w' = Some v"
    using u by (simp add: user_findById_def generateTokens_ok(2) [OF g] findUnique_updated withSession_def v_def)
  have rt: "ses_refreshToken ses = refreshTokenFor e u" using generateTokens_ok(1) [OF g] by simp
  have "\<exists>x. user_findById (u_id u) w = Some x \<and> userViolation x (filter (\<lambda>x. u_id x \<noteq> u_id u) (users w)) = None"
    by (rule generateTokens_ok(3) [OF g])
  moreover have "filter (\<lambda>x. u_id x \<noteq> u_id u) (users w') = filter (\<lambda>x. u_id x \<noteq> u_id u) (users w)"
    unfolding generateTokens_ok(2) [OF g] by (rule filter_mapRows_other) simp
  ultimately have ok: "userViolation v (filter (\<lambda>x. u_id x \<noteq> u_id v) (users w')) = None" and vid: "u_id v = u_id u"
    using u \<open>u_id u = jp_sub p'\<close> by (auto simp: v_def withSession_def)
  have h: "truthy (u_refreshTokenHash v) = Some (bcryptHashAt e (drawn w) (refreshTokenFor e u))"
    using hash by (simp add: v_def withSession_def truthy_def)
  have "bcryptCompare e' t (bcryptHashAt e (drawn w) (refreshTokenFor e u))"
    using trunc agree rt by simp
  then show ?thesis
    using t valid id v h ok vid
    by (simp add: refresh_def generateTokens_def bcryptHash_def updateRefreshToken_def user_update_def
        updateRow_def run_simps isOk_def user_findById_def)
qed

theorem rotated_token_still_accepted_witness:
  "\<exists>ses w'. refresh (sessionEnv 1) (Some (longToken 0)) sessionWorld = (Inr ses, w')
     \<and> ses_refreshToken ses \<noteq> longToken 0 \<and> isOk (refresh (sessionEnv 2) (Some (longToken 0)) w')"
proof -
  obtain ses w' where ok: "refresh (sessionEnv 1) (Some (longToken 0)) sessionWorld = (Inr ses, w')"
    using isOk_Inr [OF demo_refresh_ok] by blast
  have ses: "ses_refreshToken ses = longToken 1 \<and> ses_userId ses = ''cust''"
    using ok by (rule refresh_cases)
      (auto simp: sessionEnv_def user_findById_def sessionWorld_def demo_defs generateTokens_def
        refreshTokenFor_def run_simps bcryptHash_def split: prod.splits sum.splits if_splits)
  have "isOk (refresh (sessionEnv 2) (Some (longToken 0)) w')"
    using rotated_token_still_accepted [OF _ _ ok, of "sessionEnv 2"
        "\<lparr>jp_sub = ''cust'', jp_email = [], jp_role = USER\<rparr>"] ses
    by (simp add: sessionEnv_def longToken_def)
  with ok ses show ?thesis by (auto simp: longToken_def)
qed

end
