(* ===== verification/NotificationFacts.thy ===== *)
theory NotificationFacts
  imports Processors Examples
begin

text \<open>
  The properties of the notification worker: a notification is mailed at most once,
  and no reminder is mailed for a booking that was cancelled or has expired.
\<close>

section \<open>Mails\<close>

lemma sendEmail_cases:
  "sendEmail e to subject txt w = (Inr (), w\<lparr>outbox := outbox w @ [\<lparr>ml_to = to, ml_subject = subject, ml_text = txt\<rparr>]\<rparr>)
   \<or> (\<exists>err. sendEmail e to subject txt w = (Inl err, w))"
  by (auto simp: sendEmail_def Let_def run_simps)

lemma notification_update_app:
  "notification_update i f w =
     (case notification_findById i w of
        None \<Rightarrow> (Inl (PrismaError P2025), w)
      | Some n \<Rightarrow>
          (case idViolation n_id (f n) (filter (\<lambda>x. n_id x \<noteq> i) (notifications w)) of
             Some err \<Rightarrow> (Inl err, w)
           | None \<Rightarrow> (Inr (f n), notifications_update (mapRows (\<lambda>x. n_id x = i) f) w)))"
  by (simp add: notification_update_def updateRow_def notification_findById_def)

text \<open>
  The tracking row a job names, and the row its processing starts from: the named one,
  or else one that is pending.
\<close>

definition namedRow :: "notificationPayload \<Rightarrow> world \<Rightarrow> notification option" where
  "namedRow d w = (case truthy (np_notificationId d) of None \<Rightarrow> None | Some i \<Rightarrow> notification_findById i w)"

lemma loadNotification_named: "namedRow d w = Some n \<Longrightarrow> loadNotification e ts d w = (Inr n, w)"
  by (auto simp: loadNotification_def namedRow_def ret_app split: option.splits)

lemma notification_create_app:
  "notification_create e row w =
     (case idViolation n_id (row (uuidAt e (drawn w))) (notifications w) of
        Some err \<Rightarrow> (Inl err, w\<lparr>drawn := Suc (drawn w)\<rparr>)
      | None \<Rightarrow> (Inr (row (uuidAt e (drawn w))), w\<lparr>drawn := Suc (drawn w),
          notifications := notifications w @ [row (uuidAt e (drawn w))]\<rparr>))"
  by (simp add: notification_create_def drawUuid_def insertRow_def prog_simps split: option.split)

lemma row_found: "n \<in> set (notifications w) \<Longrightarrow> notification_findById (n_id n) w \<noteq> None"
  using findUnique_NoneD [of n_id "n_id n" "notifications w" n] by (auto simp: notification_findById_def)

lemma loadNotification_unnamed:
  assumes "loadNotification e ts d w = (r, w1)" and "namedRow d w = None"
  shows "users w1 = users w" "bookings w1 = bookings w" "outbox w1 = outbox w"
    "r = Inr n \<Longrightarrow> n_status n = NotificationStatus.PENDING \<and> notification_findById (n_id n) w1 \<noteq> None"
    "truthy (np_notificationId d) = Some i \<Longrightarrow> (\<And>n. r = Inr n \<Longrightarrow> n_id n \<noteq> i) \<Longrightarrow> notification_findById i w1 = None"
proof -
  have none: "(case truthy (np_notificationId d) of None \<Rightarrow> None | Some i \<Rightarrow> notification_findById i w) = None"
    using assms(2) by (simp add: namedRow_def)
  have "(\<exists>n. r = Inr n \<and> w1 = w \<and> n \<in> set (notifications w) \<and> n_status n = NotificationStatus.PENDING)
    \<or> notification_create e (\<lambda>i. notificationRow e i d (np_channel d) ts) w = (r, w1)"
    using assms(1) none
    by (auto simp: loadNotification_def ret_app findFirst_def find_Some_iff split: option.splits)
  then consider (found) m where "r = Inr m" "w1 = w" "m \<in> set (notifications w)" "n_status m = NotificationStatus.PENDING"
    | (created) "notification_create e (\<lambda>i. notificationRow e i d (np_channel d) ts) w = (r, w1)" by blast
  note cases = this
  show "users w1 = users w" "bookings w1 = bookings w" "outbox w1 = outbox w"
    by (cases rule: cases; auto simp: notification_create_app split: option.splits)+
  show "n_status n = NotificationStatus.PENDING \<and> notification_findById (n_id n) w1 \<noteq> None" if "r = Inr n"
    using that by (cases rule: cases)
      (auto simp: row_found [unfolded notification_findById_def, simplified] notification_findById_def findUnique_append
        notification_create_app notificationRow_def split: option.splits)
  show "notification_findById i w1 = None"
    if "truthy (np_notificationId d) = Some i" "\<And>n. r = Inr n \<Longrightarrow> n_id n \<noteq> i"
    using that none by (cases rule: cases)
      (auto simp: notification_create_app notification_findById_def findUnique_append split: option.splits)
qed

lemma andThen_deleteRows:
  "andThen (deleteRows t upd p) k s = k (countRows p (t s)) (upd (filter (\<lambda>r. \<not> p r)) s)"
  by (simp add: deleteRows_def andThen_run)

lemma process_loaded:
  assumes "loadNotification e ts (nj_data job) w = (Inr n, w1)"
  shows "notificationProcessor_process e job k ts w =
    (if n_status n = SENT then (Inr AlreadySent, w1)
     else (case notDeliverable job w1 of
         Some s \<Rightarrow> (Inr (NotDelivered (''booking_'' @ toLowerCase (bookingStatusName s))),
             notifications_update (filter (\<lambda>x. n_id x \<noteq> n_id n)) w1)
       | None \<Rightarrow> (case findUnique u_id (np_userId (nj_data job)) (users w1) of
           None \<Rightarrow> (Inl (JsError (''User ['' @ np_userId (nj_data job) @ ''] does not exist or has no email address'')), w1)
         | Some u \<Rightarrow>
             if u_email u = [] then (Inl (JsError (''User ['' @ np_userId (nj_data job) @ ''] does not exist or has no email address'')), w1)
             else deliver e job k n (u_email u) w1)))"
  using assms
  by (simp add: notificationProcessor_process_def andThen_run [of "loadNotification e ts d" for e ts d]
      ret_app throw_app andThen_deleteRows split: option.split)

lemma deliver_cases:
  assumes run: "deliver e job k n m w = (res, w')"
    and n: "notification_findById (n_id n) w \<noteq> None"
  shows "(\<exists>u. res = Inr (Delivered (n_id n) u)
        \<and> outbox w' = outbox w @ [\<lparr>ml_to = m, ml_subject = np_title (nj_data job), ml_text = np_body (nj_data job)\<rparr>]
        \<and> (\<exists>n'. notification_findById (n_id n) w' = Some n' \<and> n_status n' = SENT))
    \<or> (\<exists>err. res = Inl err \<and> outbox w' = outbox w)"
    "users w' = users w" "bookings w' = bookings w" "map n_id (notifications w') = map n_id (notifications w)"
proof -
  let ?f = "\<lambda>x. x\<lparr>n_status := SENT, n_sentAt := Some (nowMs e), n_attemptCount := k + 1, n_failureReason := None\<rparr>"
  let ?w = "w\<lparr>outbox := outbox w @ [\<lparr>ml_to = m, ml_subject = np_title (nj_data job), ml_text = np_body (nj_data job)\<rparr>]\<rparr>"
  obtain n0 where n0: "notification_findById (n_id n) w = Some n0" "n_id n0 = n_id n"
    using n by (auto simp: notification_findById_def dest: findUnique_SomeD)
  have new: "idViolation n_id (g n0) (filter (\<lambda>x. n_id x \<noteq> n_id n) (notifications w)) = None"
    if "n_id (g n0) = n_id n0" for g
    using that n0(2) by (auto simp: idViolation_def)
  have "((\<exists>u. res = Inr (Delivered (n_id n) u)
        \<and> outbox w' = outbox w @ [\<lparr>ml_to = m, ml_subject = np_title (nj_data job), ml_text = np_body (nj_data job)\<rparr>]
        \<and> (\<exists>n'. notification_findById (n_id n) w' = Some n' \<and> n_status n' = SENT))
    \<or> (\<exists>err. res = Inl err \<and> outbox w' = outbox w))
    \<and> users w' = users w \<and> bookings w' = bookings w \<and> map n_id (notifications w') = map n_id (notifications w)"
    using sendEmail_cases [of e m "np_title (nj_data job)" "np_body (nj_data job)" w]
  proof
    assume sent: "sendEmail e m (np_title (nj_data job)) (np_body (nj_data job)) w = (Inr (), ?w)"
    have "notification_findById (n_id n) ?w = Some n0" using n0 by (simp add: notification_findById_def)
    then have "notification_update (n_id n) ?f ?w =
        (Inr (?f n0), notifications_update (mapRows (\<lambda>x. n_id x = n_id n) ?f) ?w)"
      using new [of ?f] by (simp add: notification_update_app)
    with run sent n0(2) have res: "res = Inr (Delivered (n_id n) (Some (nowMs e)))"
      and w': "w' = notifications_update (mapRows (\<lambda>x. n_id x = n_id n) ?f) ?w"
      by (auto simp: deliver_def tryCatch_app andThen_run ret_app)
    have "notification_findById (n_id n) w' = Some (?f n0)"
      using n0 by (simp add: w' notification_findById_def findUnique_updated)
    with res w' show ?thesis by (auto simp: mapRows_def)
  next
    assume "\<exists>err. sendEmail e m (np_title (nj_data job)) (np_body (nj_data job)) w = (Inl err, w)"
    then obtain err where err: "sendEmail e m (np_title (nj_data job)) (np_body (nj_data job)) w = (Inl err, w)" ..
    let ?g = "\<lambda>x. x\<lparr>n_attemptCount := k + 1, n_failureReason := Some (errorMessage err)\<rparr>"
    have "notification_update (n_id n) ?g w =
        (Inr (?g n0), notifications_update (mapRows (\<lambda>x. n_id x = n_id n) ?g) w)"
      using n0 new [of ?g] by (simp add: notification_update_app)
    with run err have "res = Inl err" "w' = notifications_update (mapRows (\<lambda>x. n_id x = n_id n) ?g) w"
      by (auto simp: deliver_def tryCatch_app andThen_run throw_app)
    then show ?thesis by (auto simp: mapRows_def)
  qed
  then show "(\<exists>u. res = Inr (Delivered (n_id n) u)
        \<and> outbox w' = outbox w @ [\<lparr>ml_to = m, ml_subject = np_title (nj_data job), ml_text = np_body (nj_data job)\<rparr>]
        \<and> (\<exists>n'. notification_findById (n_id n) w' = Some n' \<and> n_status n' = SENT))
    \<or> (\<exists>err. res = Inl err \<and> outbox w' = outbox w)"
    "users w' = users w" "bookings w' = bookings w" "map n_id (notifications w') = map n_id (notifications w)"
    by blast+
qed

lemma loaded:
  assumes load: "loadNotification e ts d w = (Inr n, w1)"
  shows "users w1 = users w" "bookings w1 = bookings w" "outbox w1 = outbox w"
    "notification_findById (n_id n) w1 \<noteq> None"
    "namedRow d w = Some n \<and> w1 = w \<and> truthy (np_notificationId d) = Some (n_id n)
      \<or> namedRow d w = None \<and> n_status n = NotificationStatus.PENDING
        \<and> (truthy (np_notificationId d) = Some (n_id n) \<or> namedRow d w1 = None)"
proof -
  have "users w1 = users w \<and> bookings w1 = bookings w \<and> outbox w1 = outbox w
    \<and> notification_findById (n_id n) w1 \<noteq> None
    \<and> (namedRow d w = Some n \<and> w1 = w \<and> truthy (np_notificationId d) = Some (n_id n)
      \<or> namedRow d w = None \<and> n_status n = NotificationStatus.PENDING
        \<and> (truthy (np_notificationId d) = Some (n_id n) \<or> namedRow d w1 = None))"
  proof (cases "namedRow d w")
    case None
    note new = loadNotification_unnamed [OF load None]
    have "truthy (np_notificationId d) = Some (n_id n) \<or> namedRow d w1 = None"
    proof (cases "truthy (np_notificationId d)")
      case (Some i)
      with new(5) [OF Some] show ?thesis by (cases "i = n_id n") (auto simp: namedRow_def)
    qed (simp add: namedRow_def)
    with new(1-3) new(4) [OF refl] None show ?thesis by auto
  next
    case (Some m)
    with load loadNotification_named [OF Some, of e ts] show ?thesis
      by (auto simp: namedRow_def notification_findById_def dest: findUnique_SomeD split: option.splits)
  qed
  then show "users w1 = users w" "bookings w1 = bookings w" "outbox w1 = outbox w"
    "notification_findById (n_id n) w1 \<noteq> None"
    "namedRow d w = Some n \<and> w1 = w \<and> truthy (np_notificationId d) = Some (n_id n)
      \<or> namedRow d w = None \<and> n_status n = NotificationStatus.PENDING
        \<and> (truthy (np_notificationId d) = Some (n_id n) \<or> namedRow d w1 = None)"
    by - (elim conjE; assumption)+
qed

lemma notDeliverable_bookings:
  assumes "bookings w' = bookings w"
  shows "notDeliverable job w' = notDeliverable job w"
  unfolding notDeliverable_def booking_findById_def assms ..

lemma namedRow_ids:
  assumes "map n_id (notifications w') = map n_id (notifications w)"
  shows "namedRow d w' = None \<longleftrightarrow> namedRow d w = None"
proof -
  have "notification_findById i w = None \<longleftrightarrow> i \<notin> set (map n_id (notifications w))" for i and w :: world
    by (auto simp: notification_findById_def findUnique_def find_None_iff)
  then show ?thesis by (simp only: namedRow_def assms split: option.split) simp
qed

text \<open>The mail of a job, and the four ways in which its processing ends.\<close>

definition jobMail :: "notificationJob \<Rightarrow> user \<Rightarrow> mail" where
  "jobMail job u = \<lparr>ml_to = u_email u, ml_subject = np_title (nj_data job), ml_text = np_body (nj_data job)\<rparr>"

lemma process_cases:
  assumes run: "notificationProcessor_process e job k ts w = (res, w')"
  obtains (delivered) j t u n' where "res = Inr (Delivered j t)" "notDeliverable job w = None"
      "findUnique u_id (np_userId (nj_data job)) (users w) = Some u" "outbox w' = outbox w @ [jobMail job u]"
      "users w' = users w" "bookings w' = bookings w"
      "notification_findById j w' = Some n'" "n_status n' = SENT"
      "truthy (np_notificationId (nj_data job)) = Some j
        \<or> namedRow (nj_data job) w = None \<and> namedRow (nj_data job) w' = None"
    | (sent) "res = Inr AlreadySent" "w' = w" "namedRow (nj_data job) w \<noteq> None"
    | (blocked) s where "res = Inr (NotDelivered s)" "notDeliverable job w \<noteq> None" "outbox w' = outbox w" "namedRow (nj_data job) w' = None"
    | (failed) err where "res = Inl err" "outbox w' = outbox w"
        "notDeliverable job w = None \<or> namedRow (nj_data job) w' = None"
proof (cases "loadNotification e ts (nj_data job) w")
  case (Pair r w1)
  show thesis
  proof (cases r)
    case (Inl err)
    have "namedRow (nj_data job) w = None"
      using Pair Inl loadNotification_named [of "nj_data job" w _ e ts] by (cases "namedRow (nj_data job) w") auto
    note new = loadNotification_unnamed [OF Pair this]
    have "res = Inl err" "w' = w1" using run Pair Inl
      by (simp_all add: notificationProcessor_process_def andThen_run)
    then show thesis using failed new(3,5) Inl by (auto simp: namedRow_def split: option.splits)
  next
    case (Inr n)
    with Pair have load: "loadNotification e ts (nj_data job) w = (Inr n, w1)" by simp
    note l = loaded [OF load]
    note step = process_loaded [OF load, of k]
    have nd: "notDeliverable job w1 = notDeliverable job w" using l(2) by (rule notDeliverable_bookings)
    show thesis
    proof (cases "n_status n = SENT")
      case True
      with l(5) run step show thesis by (intro sent) auto
    next
      case unsent: False
      show thesis
      proof (cases "notDeliverable job w")
        case (Some s)
        with unsent run step nd have "res = Inr (NotDelivered (''booking_'' @ toLowerCase (bookingStatusName s)))"
          and w': "w' = notifications_update (filter (\<lambda>x. n_id x \<noteq> n_id n)) w1" by simp_all
        moreover have "namedRow (nj_data job) w' = None"
          using l(5) by (auto simp: w' namedRow_def notification_findById_def findUnique_def find_None_iff split: option.splits)
        ultimately show thesis using blocked Some l(3) by simp
      next
        case None
        show thesis
        proof (cases "\<exists>u. findUnique u_id (np_userId (nj_data job)) (users w) = Some u \<and> u_email u \<noteq> []")
          case True
          then obtain u where u: "findUnique u_id (np_userId (nj_data job)) (users w) = Some u" "u_email u \<noteq> []"
            by blast
          have del: "deliver e job k n (u_email u) w1 = (res, w')"
            using unsent None run step nd u l(1) by simp
          note d = deliver_cases [OF del l(4)]
          have "truthy (np_notificationId (nj_data job)) = Some (n_id n)
              \<or> namedRow (nj_data job) w = None \<and> namedRow (nj_data job) w' = None"
            using l(5) namedRow_ids [OF d(4)] by auto
          with d None u l(1-3) show thesis using delivered failed unfolding jobMail_def by metis
        next
          case False
          then obtain err where "res = Inl err" "w' = w1"
            using unsent None run step nd l(1) by (auto split: option.splits if_splits)
          then show thesis using failed None l(3) by simp
        qed
      qed
    qed
  qed
qed


text \<open>
  The reminder of one booking: mailed once while its row exists, twice when the row is gone.
\<close>

definition demoJob :: notificationJob where
  "demoJob = \<lparr>nj_jobId = ''j'', nj_name = REMINDER_24H,
     nj_data = \<lparr>np_notificationId = Some ''n'', np_userId = ''cust'', np_bookingId = Some ''book'',
       np_type = REMINDER, np_channel = EMAIL, np_title = ''Reminder'', np_body = ''Tomorrow'',
       np_scheduledFor = None\<rparr>, nj_delay = 0\<rparr>"

definition notifiedWorld :: "BookingStatus \<Rightarrow> world" where
  "notifiedWorld s = (demoState s SUCCESS)\<lparr>notifications :=
     [notificationRow demoEnv ''n'' (nj_data demoJob) EMAIL 0]\<rparr>"

lemmas worker_defs = notificationProcessor_process_def loadNotification_def notDeliverable_def isReminder_def
  deliver_def sendEmail_def notification_update_def notification_findById_def demoJob_def
  notifiedWorld_def

lemma demo_delivered:
  "\<exists>t w. notificationProcessor_process demoEnv demoJob 0 0 (notifiedWorld CONFIRMED) = (Inr (Delivered ''n'' t), w)"
  "\<exists>t w. notificationProcessor_process demoEnv demoJob 0 0 (demoState CONFIRMED SUCCESS) = (Inr (Delivered ''u'' t), w)
     \<and> isOk (notificationProcessor_process demoEnv demoJob 0 0 w)"
  by (simp_all add: worker_defs notificationRow_def demo_defs read_defs write_defs run_simps isOk_def
      truthy_def findFirst_def cong: andThen_first)


end
