(* ===== verification/Http.thy ===== *)
theory Http
  imports Auth
begin

text \<open>
  The layer between the network and the controllers: the request identifier
  (\<open>common/middleware/request-id.middleware.ts\<close>), the \<open>Auth\<close> decorator
  (\<open>common/decorators/auth.decorator.ts\<close>), the envelope of a response
  (\<open>common/interceptors/transform.interceptor.ts\<close>) and the two exception filters
  (\<open>common/filters\<close>).
\<close>

section \<open>Requests and responses\<close>

text \<open>What the layer reads of a request: its URL, the bearer token and \<open>X-Request-ID\<close>.\<close>

record httpContext =
  hc_url :: string
  hc_bearer :: "string option"
  hc_requestIdHeader :: "string option"

record 'a apiResponse =
  ar_statusCode :: nat
  ar_success :: bool
  ar_data :: 'a
  ar_timestamp :: string

text \<open>What a handler's value is sent as: on its own with a status, or in the envelope.\<close>

datatype 'a payload = Raw nat 'a | Envelope "'a apiResponse"

record errorReply =
  er_statusCode :: nat
  er_success :: bool
  er_message :: string
  er_error :: "string option"
  er_timestamp :: string
  er_path :: string
  er_requestId :: "string option"

section \<open>Request identifiers\<close>

definition isSafeIdChar :: "char \<Rightarrow> bool" where
  "isSafeIdChar c \<longleftrightarrow> (let n = (of_char c :: nat) in
     97 \<le> n \<and> n \<le> 122 \<or> 65 \<le> n \<and> n \<le> 90 \<or> 48 \<le> n \<and> n \<le> 57 \<or> n = 95 \<or> n = 45)"

text \<open>\<open>/^[a-zA-Z0-9_-]{1,64}$/\<close>\<close>

definition isSafeRequestId :: "string \<Rightarrow> bool" where
  "isSafeRequestId s \<longleftrightarrow> list_all isSafeIdChar s \<and> 1 \<le> length s \<and> length s \<le> 64"

definition requestIdMiddleware :: "env \<Rightarrow> string option \<Rightarrow> string action" where
  "requestIdMiddleware e incomingHeader =
     (case incomingHeader of
        Some h \<Rightarrow>
          if isSafeRequestId (trim h) then ret (trim h)
          else andThen (drawUuid e) (\<lambda>i. ret (''req_'' @ i))
      | None \<Rightarrow> andThen (drawUuid e) (\<lambda>i. ret (''req_'' @ i)))"

section \<open>The decorator of protected routes\<close>

definition authDecorator :: "env \<Rightarrow> Role list \<Rightarrow> string option \<Rightarrow> requestUser action" where
  "authDecorator e roles bearer =
     andThen (jwtAuthGuard e bearer) (\<lambda>user.
     if length roles > 0 then andThen (roleGuard roles (Some user)) (\<lambda>_. ret user)
     else ret user)"

text \<open>
  \<open>@UseGuards(JwtAuthGuard, VerifiedProviderGuard)\<close>: the request carries the provider
  profile on success.
\<close>

definition providerGuards :: "env \<Rightarrow> string option \<Rightarrow> providerProfile action" where
  "providerGuards e bearer =
     andThen (jwtAuthGuard e bearer) (\<lambda>user. verifiedProviderGuard (Some user))"

section \<open>Exception filters\<close>

text \<open>Status, message and error name of an HTTP exception (\<open>exception.getResponse()\<close>).\<close>

fun httpException :: "exn \<Rightarrow> (nat \<times> string \<times> string) option" where
  "httpException (BadRequestException m) = Some (400, m, ''Bad Request'')"
| "httpException (UnauthorizedException m) = Some (401, m, ''Unauthorized'')"
| "httpException (ForbiddenException m) = Some (403, m, ''Forbidden'')"
| "httpException (NotFoundException m) = Some (404, m, ''Not Found'')"
| "httpException (ConflictException m) = Some (409, m, ''Conflict'')"
| "httpException (RequestTimeoutException m) = Some (408, m, ''Request Timeout'')"
| "httpException (PrismaError c) = None"
| "httpException (JsError m) = None"

definition errorReplyOf :: "env \<Rightarrow> httpContext \<Rightarrow> string \<Rightarrow> nat \<Rightarrow> string \<Rightarrow> string option \<Rightarrow> errorReply" where
  "errorReplyOf e ctx requestId status message err =
     \<lparr>er_statusCode = status, er_success = False, er_message = message, er_error = err,
      er_timestamp = isoString e (nowMs e), er_path = hc_url ctx, er_requestId = truthy (Some requestId)\<rparr>"

definition httpExceptionFilter :: "env \<Rightarrow> httpContext \<Rightarrow> string \<Rightarrow> exn \<Rightarrow> errorReply" where
  "httpExceptionFilter e ctx requestId x =
     (case httpException x of
        Some (status, m, err) \<Rightarrow>
          errorReplyOf e ctx requestId status (orElse (Some m) ''Internal server error'') (Some err)
      | None \<Rightarrow> errorReplyOf e ctx requestId 500 ''Internal Server Error'' None)"

text \<open>
  \<open>PrismaClientExceptionFilter\<close>. The exclusion constraint is reported under one of the
  codes of the first case, with its name in the message.
\<close>

definition prismaFilter :: "env \<Rightarrow> httpContext \<Rightarrow> string \<Rightarrow> prismaCode \<Rightarrow> errorReply" where
  "prismaFilter e ctx requestId code =
     (case code of
        EXCLUSION_23P01 \<Rightarrow>
          errorReplyOf e ctx requestId 409 ''This time slot is no longer available.'' None
      | P2002 \<Rightarrow>
          errorReplyOf e ctx requestId 409
            (if production e then ''A duplicate record already exists.''
             else (case prismaTarget e of
                 Some target \<Rightarrow> ''Unique constraint violation on field: '' @ target
               | None \<Rightarrow> ''Conflict occurred'')) None
      | P2025 \<Rightarrow>
          errorReplyOf e ctx requestId 404
            (if production e then ''Requested record not found''
             else orElse (prismaCause e) ''Record not found'') None)"

text \<open>The filter of the database errors is tried first, the other one catches the rest.\<close>

definition exceptionFilters :: "env \<Rightarrow> httpContext \<Rightarrow> string \<Rightarrow> exn \<Rightarrow> errorReply" where
  "exceptionFilters e ctx requestId x =
     (case x of PrismaError c \<Rightarrow> prismaFilter e ctx requestId c
      | _ \<Rightarrow> httpExceptionFilter e ctx requestId x)"

section \<open>Answering a request\<close>

text \<open>The test for the health probes looks at the whole URL, its query string included.\<close>

definition transformInterceptor :: "env \<Rightarrow> httpContext \<Rightarrow> nat \<Rightarrow> 'a \<Rightarrow> 'a payload" where
  "transformInterceptor e ctx statusCode d =
     (if includesText (hc_url ctx) ''/health'' then Raw statusCode d
      else Envelope \<lparr>ar_statusCode = statusCode, ar_success = True, ar_data = d,
                     ar_timestamp = isoString e (nowMs e)\<rparr>)"

text \<open>
  One request: the middleware names it, the handler with its guards and pipes runs, the
  interceptor wraps its value or a filter its exception. \<open>code\<close> is the handler's success
  status (201 for \<open>@Post\<close>, 200 otherwise, or its \<open>@HttpCode\<close>).
\<close>

definition answer ::
  "env \<Rightarrow> httpContext \<Rightarrow> nat \<Rightarrow> 'a action \<Rightarrow> world \<Rightarrow> (errorReply + 'a payload) \<times> world" where
  "answer e ctx code handler w =
     (case requestIdMiddleware e (hc_requestIdHeader ctx) w of
        (Inl x, w1) \<Rightarrow> (Inl (exceptionFilters e ctx [] x), w1)
      | (Inr requestId, w1) \<Rightarrow>
          (case handler w1 of
             (Inl x, w2) \<Rightarrow> (Inl (exceptionFilters e ctx requestId x), w2)
           | (Inr d, w2) \<Rightarrow> (Inr (transformInterceptor e ctx code d), w2)))"

text \<open>The status code on the wire.\<close>

definition statusOf :: "errorReply + 'a payload \<Rightarrow> nat" where
  "statusOf r =
     (case r of Inl x \<Rightarrow> er_statusCode x | Inr (Raw n _) \<Rightarrow> n | Inr (Envelope y) \<Rightarrow> ar_statusCode y)"

section \<open>Facts\<close>

text \<open>The middleware only draws an identifier.\<close>

lemma requestIdMiddleware_run:
  "\<exists>i n. requestIdMiddleware e h w = (Inr i, w\<lparr>drawn := n\<rparr>) \<and> n \<in> {drawn w, Suc (drawn w)} \<and> i \<noteq> []"
proof -
  have w: "w\<lparr>drawn := drawn w\<rparr> = w" by simp
  show ?thesis
  proof (cases "\<exists>t. h = Some t \<and> isSafeRequestId (trim t)")
    case True
    then obtain t where t: "h = Some t" "isSafeRequestId (trim t)" by blast
    then have "requestIdMiddleware e h w = (Inr (trim t), w\<lparr>drawn := drawn w\<rparr>)" "trim t \<noteq> []"
      by (auto simp: requestIdMiddleware_def ret_app isSafeRequestId_def)
    then show ?thesis by blast
  next
    case False
    then have "requestIdMiddleware e h w
        = (Inr (''req_'' @ uuidAt e (drawn w)), w\<lparr>drawn := Suc (drawn w)\<rparr>)"
      by (cases h) (auto simp: requestIdMiddleware_def drawUuid_def prog_simps)
    then show ?thesis by blast
  qed
qed

lemma requestId_safe:
  assumes "\<And>n. isSafeRequestId (''req_'' @ uuidAt e n)"
    and "requestIdMiddleware e h w = (Inr i, w')"
  shows "isSafeRequestId i"
  using assms
  by (auto simp: requestIdMiddleware_def drawUuid_def prog_simps split: option.splits if_splits)

lemma authDecorator_state: "snd (authDecorator e roles bearer w) = w"
  by (auto simp: authDecorator_def jwtAuthGuard_def jwtStrategy_validate_def roleGuard_def
      prog_simps check_def split: option.splits prod.splits sum.splits)

end
