(* ===== verification/Validation.thy ===== *)
theory Validation
  imports Admin Availability Processors
begin

text \<open>
  What the global \<open>ValidationPipe\<close> (\<open>main.ts\<close>) checks of the request objects: the
  decorators of the classes under \<open>modules/*/dto\<close>, one predicate per class, and the
  \<open>@Transform\<close> functions that run before them. The types of the model's records stand
  for the checks \<open>IsString\<close>, \<open>IsInt\<close>, \<open>IsBoolean\<close> and \<open>IsEnum\<close>; the tests of the
  validation library that are not simple comparisons are fields of the environment.
  The pipes \<open>ParseUUIDPipe\<close> and \<open>ParseFilePipe\<close> of the controllers are here too.
\<close>

section \<open>The decorators\<close>

text \<open>\<open>@IsOptional()\<close>: the other checks are skipped for a missing or null value.\<close>

definition optional :: "('a \<Rightarrow> bool) \<Rightarrow> 'a option \<Rightarrow> bool" where
  "optional p x = (case x of None \<Rightarrow> True | Some v \<Rightarrow> p v)"

definition isNotEmpty :: "string \<Rightarrow> bool" where
  "isNotEmpty s \<longleftrightarrow> s \<noteq> []"

definition lengthIn :: "nat \<Rightarrow> nat \<Rightarrow> string \<Rightarrow> bool" where
  "lengthIn lo hi s \<longleftrightarrow> lo \<le> length s \<and> length s \<le> hi"

definition maxLength :: "nat \<Rightarrow> string \<Rightarrow> bool" where
  "maxLength hi s \<longleftrightarrow> length s \<le> hi"

definition minNum :: "'a::linorder \<Rightarrow> 'a \<Rightarrow> bool" where
  "minNum lo x \<longleftrightarrow> lo \<le> x"

definition maxNum :: "'a::linorder \<Rightarrow> 'a \<Rightarrow> bool" where
  "maxNum hi x \<longleftrightarrow> x \<le> hi"

text \<open>\<open>@IsNumber({ maxDecimalPlaces: 2 })\<close>\<close>

definition twoDecimals :: "rat \<Rightarrow> bool" where
  "twoDecimals x \<longleftrightarrow> of_int \<lfloor>x * 100\<rfloor> = x * 100"

text \<open>\<open>@Min(1) page\<close> and \<open>@Min(1) @Max(hi) limit\<close>\<close>

definition validPage :: "int \<Rightarrow> int option \<Rightarrow> int option \<Rightarrow> bool" where
  "validPage hi page limit \<longleftrightarrow>
     optional (minNum 1) page \<and> optional (\<lambda>n. minNum 1 n \<and> maxNum hi n) limit"

section \<open>Regular expressions\<close>

definition digitUpTo :: "nat \<Rightarrow> char \<Rightarrow> bool" where
  "digitUpTo k c \<longleftrightarrow> (let n = (of_char c :: nat) in 48 \<le> n \<and> n \<le> 48 + k)"

text \<open>\<open>/^([0-1]?[0-9]|2[0-3]):[0-5][0-9]$/\<close>\<close>

fun isHHmm :: "string \<Rightarrow> bool" where
  "isHHmm [h, colon, m1, m2] \<longleftrightarrow>
     isDigit h \<and> colon = CHR '':'' \<and> digitUpTo 5 m1 \<and> isDigit m2"
| "isHHmm [h1, h2, colon, m1, m2] \<longleftrightarrow>
     (digitUpTo 1 h1 \<and> isDigit h2 \<or> h1 = CHR ''2'' \<and> digitUpTo 3 h2)
     \<and> colon = CHR '':'' \<and> digitUpTo 5 m1 \<and> isDigit m2"
| "isHHmm _ \<longleftrightarrow> False"

text \<open>\<open>/^[0-9]{5,6}$/\<close>\<close>

definition isPostalCode :: "string \<Rightarrow> bool" where
  "isPostalCode s \<longleftrightarrow> list_all isDigit s \<and> (length s = 5 \<or> length s = 6)"

text \<open>\<open>/^\d{4}-\d{2}-\d{2}$/\<close>\<close>

fun isYmd :: "string \<Rightarrow> bool" where
  "isYmd [y1, y2, y3, y4, s1, m1, m2, s2, d1, d2] \<longleftrightarrow>
     list_all isDigit [y1, y2, y3, y4, m1, m2, d1, d2] \<and> s1 = CHR ''-'' \<and> s2 = CHR ''-''"
| "isYmd _ \<longleftrightarrow> False"

section \<open>Bookings, payments and reviews\<close>

definition validCreateBooking :: "env \<Rightarrow> createBookingDto \<Rightarrow> bool" where
  "validCreateBooking e dto \<longleftrightarrow>
     isUuid e (cb_providerServiceId dto) \<and> isNotEmpty (cb_providerServiceId dto)
     \<and> isISO8601 e (cb_startsAt dto) \<and> isNotEmpty (cb_startsAt dto)"

definition validCancelBooking :: "cancelBookingDto \<Rightarrow> bool" where
  "validCancelBooking dto \<longleftrightarrow> optional (maxLength 500) (cd_reason dto)"

definition validBookingQuery :: "env \<Rightarrow> bookingQuery \<Rightarrow> bool" where
  "validBookingQuery e q \<longleftrightarrow>
     optional (isISO8601 e) (bq_from q) \<and> optional (isISO8601 e) (bq_to q)
     \<and> validPage 50 (bq_page q) (bq_limit q)"

definition validAdminBookingQuery :: "env \<Rightarrow> bookingQuery \<Rightarrow> bool" where
  "validAdminBookingQuery e q \<longleftrightarrow>
     optional (isUuid e) (bq_providerId q) \<and> optional (isUuid e) (bq_customerId q)
     \<and> optional (isISO8601 e) (bq_dateFrom q) \<and> optional (isISO8601 e) (bq_from q)
     \<and> optional (isISO8601 e) (bq_dateTo q) \<and> optional (isISO8601 e) (bq_to q)
     \<and> validPage 50 (bq_page q) (bq_limit q)"

definition validCreatePaymentOrder :: "env \<Rightarrow> uuid \<Rightarrow> bool" where
  "validCreatePaymentOrder e bookingId \<longleftrightarrow> isUuid e bookingId \<and> isNotEmpty bookingId"

definition validVerifyPayment :: "verifyPaymentDto \<Rightarrow> bool" where
  "validVerifyPayment dto \<longleftrightarrow>
     isNotEmpty (vp_razorpayOrderId dto) \<and> isNotEmpty (vp_razorpayPaymentId dto)
     \<and> isNotEmpty (vp_razorpaySignature dto)"

definition validRefundPayment :: "refundPaymentDto \<Rightarrow> bool" where
  "validRefundPayment dto \<longleftrightarrow> optional (\<lambda>a. a > 0) (rp_amount dto)"

definition validAdminPaymentQuery :: "env \<Rightarrow> paymentQuery \<Rightarrow> bool" where
  "validAdminPaymentQuery e q \<longleftrightarrow>
     optional (isUuid e) (Repositories.pq_bookingId q)
     \<and> optional (isISO8601 e) (Repositories.pq_dateFrom q) \<and> optional (isISO8601 e) (Repositories.pq_dateTo q)
     \<and> validPage 50 (Repositories.pq_page q) (Repositories.pq_limit q)"

definition validCreateReview :: "env \<Rightarrow> createReviewDto \<Rightarrow> bool" where
  "validCreateReview e dto \<longleftrightarrow>
     optional (isUuid e) (cr_bookingId dto) \<and> minNum 1 (cr_rating dto) \<and> maxNum 5 (cr_rating dto)
     \<and> optional (maxLength 1000) (cr_comment dto)"

definition validUpdateReview :: "updateReviewDto \<Rightarrow> bool" where
  "validUpdateReview dto \<longleftrightarrow>
     optional (\<lambda>r. minNum 1 r \<and> maxNum 5 r) (ur_rating dto)
     \<and> optional (optional (maxLength 1000)) (ur_comment dto)"

definition validReviewQuery :: "reviewQuery \<Rightarrow> bool" where
  "validReviewQuery q \<longleftrightarrow>
     validPage 50 (rq_page q) (rq_limit q)
     \<and> optional (\<lambda>r. minNum 1 r \<and> maxNum 5 r) (rq_rating q)"

section \<open>Accounts\<close>

definition validRegister :: "env \<Rightarrow> registerDto \<Rightarrow> bool" where
  "validRegister e dto \<longleftrightarrow>
     isEmail e (rg_email dto) \<and> lengthIn 8 100 (rg_password dto) \<and> lengthIn 2 100 (rg_firstName dto)
     \<and> lengthIn 2 100 (rg_lastName dto) \<and> isIndianPhone e (rg_phone dto)"

definition validLogin :: "env \<Rightarrow> loginDto \<Rightarrow> bool" where
  "validLogin e dto \<longleftrightarrow> isEmail e (lg_email dto) \<and> lengthIn 8 100 (lg_password dto)"

text \<open>Request objects of routes the controllers do not have (yet).\<close>

record resetPasswordDto =
  rs_token :: string
  rs_newPassword :: string

record notificationQuery =
  nq_page :: "int option"
  nq_limit :: "int option"
  nq_unreadOnly :: "bool option"

definition validRefreshToken :: "string \<Rightarrow> bool" where
  "validRefreshToken refreshToken \<longleftrightarrow> isNotEmpty refreshToken"

definition validForgotPassword :: "env \<Rightarrow> string \<Rightarrow> bool" where
  "validForgotPassword e email \<longleftrightarrow> isEmail e email"

definition validResetPassword :: "resetPasswordDto \<Rightarrow> bool" where
  "validResetPassword dto \<longleftrightarrow> isNotEmpty (rs_token dto) \<and> lengthIn 8 100 (rs_newPassword dto)"

definition validNotificationQuery :: "notificationQuery \<Rightarrow> bool" where
  "validNotificationQuery q \<longleftrightarrow> validPage 100 (nq_page q) (nq_limit q)"

section \<open>Catalogue\<close>

definition trimCreateCategory :: "createCategoryDto \<Rightarrow> createCategoryDto" where
  "trimCreateCategory dto = dto\<lparr>cc_name := trim (cc_name dto)\<rparr>"

definition validCreateCategory :: "createCategoryDto \<Rightarrow> bool" where
  "validCreateCategory dto \<longleftrightarrow>
     isNotEmpty (cc_name dto) \<and> minNum 0 (cc_displayOrder dto) \<and> maxNum 32767 (cc_displayOrder dto)"

definition trimUpdateCategory :: "updateCategoryDto \<Rightarrow> updateCategoryDto" where
  "trimUpdateCategory dto = dto\<lparr>uc_name := map_option trim (uc_name dto)\<rparr>"

definition validUpdateCategory :: "updateCategoryDto \<Rightarrow> bool" where
  "validUpdateCategory dto \<longleftrightarrow>
     optional isNotEmpty (uc_name dto)
     \<and> optional (\<lambda>n. minNum 0 n \<and> maxNum 32767 n) (uc_displayOrder dto)"

definition validCategoryQuery :: "categoryQuery \<Rightarrow> bool" where
  "validCategoryQuery q \<longleftrightarrow> validPage 100 (cq_page q) (cq_limit q)"

definition trimCreateService :: "createServiceDto \<Rightarrow> createServiceDto" where
  "trimCreateService dto = dto\<lparr>cs_name := trim (cs_name dto)\<rparr>"

definition validCreateService :: "env \<Rightarrow> createServiceDto \<Rightarrow> bool" where
  "validCreateService e dto \<longleftrightarrow>
     isUuid e (cs_categoryId dto) \<and> isNotEmpty (cs_categoryId dto) \<and> isNotEmpty (cs_name dto)
     \<and> optional (minNum 0) (cs_defaultDuration dto)"

definition trimUpdateService :: "updateServiceDto \<Rightarrow> updateServiceDto" where
  "trimUpdateService dto = dto\<lparr>us_name := map_option trim (us_name dto)\<rparr>"

definition validUpdateService :: "env \<Rightarrow> updateServiceDto \<Rightarrow> bool" where
  "validUpdateService e dto \<longleftrightarrow>
     optional (\<lambda>i. isUuid e i \<and> isNotEmpty i) (us_categoryId dto)
     \<and> optional isNotEmpty (us_name dto) \<and> optional (minNum 0) (us_defaultDuration dto)"

definition validServiceQuery :: "env \<Rightarrow> serviceQuery \<Rightarrow> bool" where
  "validServiceQuery e q \<longleftrightarrow>
     optional (isUuid e) (sq_categoryId q) \<and> validPage 100 (sq_page q) (sq_limit q)"

section \<open>Providers\<close>

definition trimCreateProvider :: "createProviderDto \<Rightarrow> createProviderDto" where
  "trimCreateProvider dto = dto\<lparr>cp_businessName := trim (cp_businessName dto)\<rparr>"

definition validCreateProvider :: "env \<Rightarrow> createProviderDto \<Rightarrow> bool" where
  "validCreateProvider e dto \<longleftrightarrow>
     isNotEmpty (cp_businessName dto) \<and> optional (lengthIn 10 1000) (cp_description dto)
     \<and> minNum 0 (cp_experienceYears dto) \<and> maxNum 50 (cp_experienceYears dto)
     \<and> optional (isUrl e) (cp_profileImageUrl dto) \<and> isNotEmpty (cp_addressLine1 dto)
     \<and> isNotEmpty (cp_city dto) \<and> isNotEmpty (cp_state dto)
     \<and> isNotEmpty (cp_postalCode dto) \<and> isPostalCode (cp_postalCode dto)"

definition trimUpdateProvider :: "updateProviderDto \<Rightarrow> updateProviderDto" where
  "trimUpdateProvider dto = dto\<lparr>up_businessName := map_option trim (up_businessName dto)\<rparr>"

definition validUpdateProvider :: "env \<Rightarrow> updateProviderDto \<Rightarrow> bool" where
  "validUpdateProvider e dto \<longleftrightarrow>
     optional isNotEmpty (up_businessName dto) \<and> optional (lengthIn 10 1000) (up_description dto)
     \<and> optional (\<lambda>y. minNum 0 y \<and> maxNum 50 y) (up_experienceYears dto)
     \<and> optional (isUrl e) (up_profileImageUrl dto) \<and> optional isNotEmpty (up_addressLine1 dto)
     \<and> optional isNotEmpty (up_city dto) \<and> optional isNotEmpty (up_state dto)
     \<and> optional (\<lambda>c. isNotEmpty c \<and> isPostalCode c) (up_postalCode dto)"

definition validCreateOffering :: "env \<Rightarrow> createProviderServiceDto \<Rightarrow> bool" where
  "validCreateOffering e dto \<longleftrightarrow>
     isUuid e (co_serviceId dto) \<and> isNotEmpty (co_serviceId dto)
     \<and> twoDecimals (co_price dto) \<and> minNum (1 / 100) (co_price dto)
     \<and> minNum 1 (co_durationMinutes dto) \<and> minNum 0 (co_bufferMinutes dto)"

definition validUpdateOffering :: "updateProviderServiceDto \<Rightarrow> bool" where
  "validUpdateOffering dto \<longleftrightarrow>
     optional (\<lambda>p. twoDecimals p \<and> minNum (1 / 100) p) (uo_price dto)
     \<and> optional (minNum 1) (uo_durationMinutes dto) \<and> optional (minNum 0) (uo_bufferMinutes dto)"

definition validPublicServiceQuery :: "env \<Rightarrow> publicServiceQuery \<Rightarrow> bool" where
  "validPublicServiceQuery e q \<longleftrightarrow>
     optional (isUuid e) (pq_categoryId q) \<and> validPage 100 (pq_page q) (pq_limit q)"

definition validProviderSearch :: "env \<Rightarrow> providerSearchQuery \<Rightarrow> bool" where
  "validProviderSearch e q \<longleftrightarrow>
     validPage 100 (vq_page q) (vq_limit q)
     \<and> optional (isUuid e) (vq_categoryId q) \<and> optional (isUuid e) (vq_serviceId q)
     \<and> optional (minNum 0) (vq_minPrice q) \<and> optional (minNum 0) (vq_maxPrice q)
     \<and> optional (\<lambda>r. minNum 0 r \<and> maxNum 5 r) (vq_minRating q)"

definition validInterval :: "availabilityIntervalDto \<Rightarrow> bool" where
  "validInterval dto \<longleftrightarrow>
     minNum 0 (ai_weekday dto) \<and> maxNum 6 (ai_weekday dto)
     \<and> isHHmm (ai_startTime dto) \<and> isHHmm (ai_endTime dto)"

text \<open>\<open>@IsArray() @ValidateNested({ each: true }) schedules\<close>\<close>

definition validSetAvailability :: "availabilityIntervalDto list \<Rightarrow> bool" where
  "validSetAvailability schedules \<longleftrightarrow> list_all validInterval schedules"

definition validSlotQuery :: "env \<Rightarrow> querySlotDto \<Rightarrow> bool" where
  "validSlotQuery e q \<longleftrightarrow>
     isUuid e (qs_serviceId q) \<and> isNotEmpty (qs_serviceId q) \<and> isYmd (qs_date q)"

section \<open>Administration\<close>

definition validAdminUserQuery :: "adminUserQuery \<Rightarrow> bool" where
  "validAdminUserQuery q \<longleftrightarrow> validPage 100 (auq_page q) (auq_limit q)"

definition validAdminProviderQuery :: "adminProviderQuery \<Rightarrow> bool" where
  "validAdminProviderQuery q \<longleftrightarrow> validPage 100 (apq_page q) (apq_limit q)"

definition validRejectProvider :: "string \<Rightarrow> bool" where
  "validRejectProvider reason \<longleftrightarrow> isNotEmpty reason \<and> lengthIn 5 500 reason"

definition validAuditLogQuery :: "env \<Rightarrow> auditLogQuery \<Rightarrow> bool" where
  "validAuditLogQuery e q \<longleftrightarrow>
     optional (isUuid e) (aq_entityId q) \<and> optional (isUuid e) (aq_adminId q)
     \<and> optional (isUuid e) (aq_actorUserId q) \<and> optional (isISO8601 e) (aq_dateFrom q)
     \<and> optional (isISO8601 e) (aq_dateTo q) \<and> validPage 50 (aq_page q) (aq_limit q)"

section \<open>The pipes\<close>

text \<open>
  A request object that fails is refused with 400 before the handler runs. The pipe's
  message lists the failed checks; the list is not modelled.
\<close>

definition validate :: "bool \<Rightarrow> unit action" where
  "validate ok = check ok (BadRequestException ''Bad Request Exception'')"

definition parseUUIDPipe :: "env \<Rightarrow> string \<Rightarrow> unit action" where
  "parseUUIDPipe e s = check (isUuid e s) (BadRequestException ''Validation failed (uuid is expected)'')"

text \<open>
  \<open>ParseFilePipe\<close>: less than 5 MiB, and a media type (detected from the contents, or the
  declared one) that ends in one of \<open>/(jpg|jpeg|png|pdf)$/\<close>.
\<close>

definition endsWith :: "string \<Rightarrow> string \<Rightarrow> bool" where
  "endsWith ending s \<longleftrightarrow> take (length ending) (rev s) = rev ending"

definition parseFilePipe :: "string \<Rightarrow> multerFile \<Rightarrow> unit action" where
  "parseFilePipe mediaType file =
     andThen (check (int (length (mf_buffer file)) < 5 * 1024 * 1024)
       (BadRequestException ''Validation failed (expected size is less than 5242880)'')) (\<lambda>_.
     check (endsWith ''jpg'' mediaType \<or> endsWith ''jpeg'' mediaType \<or> endsWith ''png'' mediaType
         \<or> endsWith ''pdf'' mediaType)
       (BadRequestException ''Validation failed (expected type is /(jpg|jpeg|png|pdf)$/)''))"

end
