(* ===== verification/Api.thy ===== *)
theory Api
  imports Http Validation
begin

text \<open>
  The controllers (\<open>modules/*/controllers\<close>): one definition per route, with its guards,
  its pipes and the service call, in the order in which the framework runs them (guards
  before pipes). \<open>bearer\<close> is the token of the \<open>Authorization\<close> header; identifiers in paths
  are still unchecked texts. Throttling and the request timeout are not modelled.
\<close>

section \<open>BookingController\<close>

definition bookingController_createBooking ::
  "env \<Rightarrow> string option \<Rightarrow> createBookingDto \<Rightarrow> (booking \<times> checkout) action" where
  "bookingController_createBooking e bearer dto =
     andThen (authDecorator e [] bearer) (\<lambda>user.
     andThen (validate (validCreateBooking e dto)) (\<lambda>_.
     createBooking e (ru_userId user) dto))"

definition bookingController_getMyBookings ::
  "env \<Rightarrow> string option \<Rightarrow> bookingQuery \<Rightarrow> booking paginated action" where
  "bookingController_getMyBookings e bearer q =
     andThen (authDecorator e [] bearer) (\<lambda>user.
     andThen (validate (validBookingQuery e q)) (\<lambda>_.
     getCustomerBookings e (ru_userId user) q))"

definition bookingController_getBookingById :: "env \<Rightarrow> string option \<Rightarrow> string \<Rightarrow> booking action" where
  "bookingController_getBookingById e bearer i =
     andThen (authDecorator e [] bearer) (\<lambda>user.
     andThen (parseUUIDPipe e i) (\<lambda>_.
     getBookingById i (ru_userId user)))"

definition bookingController_cancelBooking ::
  "env \<Rightarrow> string option \<Rightarrow> string \<Rightarrow> cancelBookingDto \<Rightarrow> booking action" where
  "bookingController_cancelBooking e bearer i dto =
     andThen (authDecorator e [] bearer) (\<lambda>user.
     andThen (parseUUIDPipe e i) (\<lambda>_.
     andThen (validate (validCancelBooking dto)) (\<lambda>_.
     cancelBookingAsCustomer e i (ru_userId user) dto)))"

definition bookingController_completeBooking :: "env \<Rightarrow> string option \<Rightarrow> string \<Rightarrow> booking action" where
  "bookingController_completeBooking e bearer i =
     andThen (authDecorator e [] bearer) (\<lambda>user.
     andThen (parseUUIDPipe e i) (\<lambda>_.
     completeBooking e i (ru_userId user) (Some (ru_role user))))"

section \<open>PaymentController\<close>

definition paymentController_createPaymentOrder :: "env \<Rightarrow> string option \<Rightarrow> uuid \<Rightarrow> payment action" where
  "paymentController_createPaymentOrder e bearer bookingId =
     andThen (authDecorator e [] bearer) (\<lambda>user.
     andThen (validate (validCreatePaymentOrder e bookingId)) (\<lambda>_.
     createPaymentOrder e (ru_userId user) bookingId))"

definition paymentController_verifyPayment ::
  "env \<Rightarrow> string option \<Rightarrow> verifyPaymentDto \<Rightarrow> verifyResult action" where
  "paymentController_verifyPayment e bearer dto =
     andThen (authDecorator e [] bearer) (\<lambda>user.
     andThen (validate (validVerifyPayment dto)) (\<lambda>_.
     verifyClientPayment e (ru_userId user) dto))"

text \<open>\<open>signature\<close> and \<open>eventId\<close> are headers; an absent signature is the empty text.\<close>

definition paymentController_handleRazorpayWebhook ::
  "env \<Rightarrow> string option \<Rightarrow> string \<Rightarrow> string option \<Rightarrow> webhookReply action" where
  "paymentController_handleRazorpayWebhook e rawBody signature eventId =
     andThen (check (rawBody \<noteq> None)
       (BadRequestException ''Raw body buffer not found. Ensure rawBody: true is enabled.'')) (\<lambda>_.
     handleWebhookEvent e rawBody signature eventId)"

definition paymentController_getPaymentById :: "env \<Rightarrow> string option \<Rightarrow> string \<Rightarrow> payment action" where
  "paymentController_getPaymentById e bearer i =
     andThen (authDecorator e [] bearer) (\<lambda>user.
     andThen (parseUUIDPipe e i) (\<lambda>_.
     getPaymentById i (ru_userId user)))"

definition paymentController_refundPayment ::
  "env \<Rightarrow> string option \<Rightarrow> string \<Rightarrow> refundPaymentDto \<Rightarrow> refundResult action" where
  "paymentController_refundPayment e bearer i dto =
     andThen (authDecorator e [ADMIN] bearer) (\<lambda>user.
     andThen (parseUUIDPipe e i) (\<lambda>_.
     andThen (validate (validRefundPayment dto)) (\<lambda>_.
     refundPayment e (Some (ru_userId user)) i dto)))"

section \<open>ReviewController\<close>

definition reviewController_createBookingReview ::
  "env \<Rightarrow> string option \<Rightarrow> string \<Rightarrow> createReviewDto \<Rightarrow> reviewResult action" where
  "reviewController_createBookingReview e bearer bookingId dto =
     andThen (authDecorator e [USER] bearer) (\<lambda>user.
     andThen (parseUUIDPipe e bookingId) (\<lambda>_.
     andThen (validate (validCreateReview e dto)) (\<lambda>_.
     createReview e (ru_userId user) dto (Some bookingId))))"

definition reviewController_createReview ::
  "env \<Rightarrow> string option \<Rightarrow> createReviewDto \<Rightarrow> reviewResult action" where
  "reviewController_createReview e bearer dto =
     andThen (authDecorator e [USER] bearer) (\<lambda>user.
     andThen (validate (validCreateReview e dto)) (\<lambda>_.
     createReview e (ru_userId user) dto None))"

definition reviewController_updateReview ::
  "env \<Rightarrow> string option \<Rightarrow> string \<Rightarrow> updateReviewDto \<Rightarrow> (review \<times> (rat \<times> nat) option) action" where
  "reviewController_updateReview e bearer i dto =
     andThen (authDecorator e [USER] bearer) (\<lambda>user.
     andThen (parseUUIDPipe e i) (\<lambda>_.
     andThen (validate (validUpdateReview dto)) (\<lambda>_.
     updateReview e (ru_userId user) i dto)))"

text \<open>Also under the alias \<open>reviews/provider/:providerId\<close>.\<close>

definition reviewController_getProviderReviews ::
  "env \<Rightarrow> string \<Rightarrow> reviewQuery \<Rightarrow> review paginated action" where
  "reviewController_getProviderReviews e providerId q =
     andThen (parseUUIDPipe e providerId) (\<lambda>_.
     andThen (validate (validReviewQuery q)) (\<lambda>_.
     getProviderReviews providerId q))"

definition reviewController_getBookingReview :: "env \<Rightarrow> string option \<Rightarrow> string \<Rightarrow> review action" where
  "reviewController_getBookingReview e bearer bookingId =
     andThen (authDecorator e [] bearer) (\<lambda>_.
     andThen (parseUUIDPipe e bookingId) (\<lambda>_.
     getBookingReview bookingId))"

section \<open>AuthController\<close>

record cookie =
  ck_value :: string
  ck_httpOnly :: bool
  ck_secure :: bool
  ck_sameSite :: string
  ck_maxAge :: int
  ck_path :: string

text \<open>The body of a session answer: the refresh token travels only in the cookie.\<close>

record sessionBody =
  sb_userId :: uuid
  sb_name :: string
  sb_email :: string
  sb_accessToken :: string

definition refreshCookie :: "env \<Rightarrow> session \<Rightarrow> cookie" where
  "refreshCookie e s =
     \<lparr>ck_value = ses_refreshToken s, ck_httpOnly = True,
      ck_secure = (configGet e ''app.nodeEnv'' = Some ''production''), ck_sameSite = ''strict'',
      ck_maxAge = 7 * 24 * 60 * 60 * 1000, ck_path = ''/api/v1/auth''\<rparr>"

definition sessionAnswer :: "env \<Rightarrow> session \<Rightarrow> (sessionBody \<times> cookie) action" where
  "sessionAnswer e s =
     ret (\<lparr>sb_userId = ses_userId s, sb_name = ses_name s, sb_email = ses_email s,
           sb_accessToken = ses_accessToken s\<rparr>, refreshCookie e s)"

definition authController_register :: "env \<Rightarrow> registerDto \<Rightarrow> (sessionBody \<times> cookie) action" where
  "authController_register e dto =
     andThen (validate (validRegister e dto)) (\<lambda>_.
     andThen (register e dto) (sessionAnswer e))"

definition authController_login :: "env \<Rightarrow> loginDto \<Rightarrow> (sessionBody \<times> cookie) action" where
  "authController_login e dto =
     andThen (validate (validLogin e dto)) (\<lambda>_.
     andThen (login e dto) (sessionAnswer e))"

definition authController_refresh :: "env \<Rightarrow> string option \<Rightarrow> (sessionBody \<times> cookie) action" where
  "authController_refresh e refreshTokenCookie =
     andThen (refresh e refreshTokenCookie) (sessionAnswer e)"

definition authController_logout :: "env \<Rightarrow> string option \<Rightarrow> unit action" where
  "authController_logout e bearer =
     andThen (authDecorator e [] bearer) (\<lambda>user. logout (ru_userId user))"

definition authController_profile :: "env \<Rightarrow> string option \<Rightarrow> user action" where
  "authController_profile e bearer =
     andThen (authDecorator e [] bearer) (\<lambda>user. getProfile (ru_userId user))"

section \<open>ProviderController\<close>

definition providerController_createProfile ::
  "env \<Rightarrow> string option \<Rightarrow> createProviderDto \<Rightarrow> providerProfile action" where
  "providerController_createProfile e bearer body =
     andThen (authDecorator e [] bearer) (\<lambda>user.
     let dto = trimCreateProvider body in
     andThen (validate (validCreateProvider e dto)) (\<lambda>_.
     createProfile e (ru_userId user) dto))"

definition providerController_getOwnProfile :: "env \<Rightarrow> string option \<Rightarrow> providerProfile action" where
  "providerController_getOwnProfile e bearer =
     andThen (authDecorator e [] bearer) (\<lambda>user. getOwnProfile (ru_userId user))"

definition providerController_updateOwnProfile ::
  "env \<Rightarrow> string option \<Rightarrow> updateProviderDto \<Rightarrow> providerProfile action" where
  "providerController_updateOwnProfile e bearer body =
     andThen (authDecorator e [] bearer) (\<lambda>user.
     let dto = trimUpdateProvider body in
     andThen (validate (validUpdateProvider e dto)) (\<lambda>_.
     updateOwnProfile e (ru_userId user) dto))"

definition providerController_getProviderById :: "env \<Rightarrow> string \<Rightarrow> providerProfile action" where
  "providerController_getProviderById e i =
     andThen (parseUUIDPipe e i) (\<lambda>_. getProfileById i)"

definition providerController_uploadDocument ::
  "env \<Rightarrow> string option \<Rightarrow> DocumentType \<Rightarrow> string \<Rightarrow> multerFile \<Rightarrow> providerDocument action" where
  "providerController_uploadDocument e bearer documentType mediaType file =
     andThen (authDecorator e [] bearer) (\<lambda>user.
     andThen (parseFilePipe mediaType file) (\<lambda>_.
     uploadDocument e (ru_userId user) documentType file))"

definition providerController_getOwnDocuments :: "env \<Rightarrow> string option \<Rightarrow> providerDocument list action" where
  "providerController_getOwnDocuments e bearer =
     andThen (authDecorator e [] bearer) (\<lambda>user. getOwnDocuments (ru_userId user))"

text \<open>The path of the file that is sent, and its \<open>Content-Type\<close>.\<close>

definition providerController_downloadDocument ::
  "env \<Rightarrow> string option \<Rightarrow> string \<Rightarrow> (string \<times> string) action" where
  "providerController_downloadDocument e bearer documentId =
     andThen (authDecorator e [] bearer) (\<lambda>user.
     andThen (parseUUIDPipe e documentId) (\<lambda>_.
     getDocumentFileForUser e documentId (ru_userId user) (ru_role user)))"

definition providerController_getDocumentForAdmin ::
  "env \<Rightarrow> string option \<Rightarrow> string \<Rightarrow> providerDocument list action" where
  "providerController_getDocumentForAdmin e bearer providerId =
     andThen (authDecorator e [ADMIN] bearer) (\<lambda>_.
     andThen (parseUUIDPipe e providerId) (\<lambda>_.
     getProviderDocumentsForAdmin providerId))"

definition providerController_searchProvider :: "env \<Rightarrow> providerSearchQuery \<Rightarrow> cacheValue action" where
  "providerController_searchProvider e q =
     andThen (validate (validProviderSearch e q)) (\<lambda>_. searchPublicProviders e q)"

definition providerController_getPublicProviderById :: "env \<Rightarrow> string \<Rightarrow> cacheValue action" where
  "providerController_getPublicProviderById e i =
     andThen (parseUUIDPipe e i) (\<lambda>_. getPublicProfileById e i)"

definition providerController_getPublicProviderServices ::
  "env \<Rightarrow> string \<Rightarrow> publicServiceQuery \<Rightarrow> providerService paginated action" where
  "providerController_getPublicProviderServices e i q =
     andThen (parseUUIDPipe e i) (\<lambda>_.
     andThen (validate (validPublicServiceQuery e q)) (\<lambda>_.
     getPublicProviderServices i q))"

definition providerController_getAvailableSlots ::
  "env \<Rightarrow> string \<Rightarrow> querySlotDto \<Rightarrow> slotPage option action" where
  "providerController_getAvailableSlots e providerId q =
     andThen (parseUUIDPipe e providerId) (\<lambda>_.
     andThen (validate (validSlotQuery e q)) (\<lambda>_.
     generateSlot e providerId q))"

section \<open>ProviderAvailabilityController and ProviderServiceController\<close>

definition availabilityController_getAvailibity :: "env \<Rightarrow> string option \<Rightarrow> availability list action" where
  "availabilityController_getAvailibity e bearer =
     andThen (providerGuards e bearer) (\<lambda>provider. getAvailibity (pp_id provider))"

definition availabilityController_setAvailibity ::
  "env \<Rightarrow> string option \<Rightarrow> availabilityIntervalDto list \<Rightarrow> (nat \<times> nat) action" where
  "availabilityController_setAvailibity e bearer schedules =
     andThen (providerGuards e bearer) (\<lambda>provider.
     andThen (validate (validSetAvailability schedules)) (\<lambda>_.
     setAvailibity e (pp_id provider) schedules))"

definition offeringController_findAll :: "env \<Rightarrow> string option \<Rightarrow> providerService list action" where
  "offeringController_findAll e bearer =
     andThen (providerGuards e bearer) (\<lambda>provider. findAllOfferings (pp_id provider))"

definition offeringController_create ::
  "env \<Rightarrow> string option \<Rightarrow> createProviderServiceDto \<Rightarrow> providerService action" where
  "offeringController_create e bearer dto =
     andThen (providerGuards e bearer) (\<lambda>provider.
     andThen (validate (validCreateOffering e dto)) (\<lambda>_.
     createOffering e (pp_id provider) dto))"

definition offeringController_update ::
  "env \<Rightarrow> string option \<Rightarrow> string \<Rightarrow> updateProviderServiceDto \<Rightarrow> providerService action" where
  "offeringController_update e bearer i dto =
     andThen (providerGuards e bearer) (\<lambda>provider.
     andThen (parseUUIDPipe e i) (\<lambda>_.
     andThen (validate (validUpdateOffering dto)) (\<lambda>_.
     updateOffering e (pp_id provider) i dto)))"

definition offeringController_delete :: "env \<Rightarrow> string option \<Rightarrow> string \<Rightarrow> providerService action" where
  "offeringController_delete e bearer i =
     andThen (providerGuards e bearer) (\<lambda>provider.
     andThen (parseUUIDPipe e i) (\<lambda>_.
     removeOffering e (pp_id provider) i))"

section \<open>CategoryController and ServiceController\<close>

definition categoryController_findAll :: "env \<Rightarrow> categoryQuery \<Rightarrow> cacheValue action" where
  "categoryController_findAll e q =
     andThen (validate (validCategoryQuery q)) (\<lambda>_. category_findAll e q)"

definition categoryController_findOne :: "env \<Rightarrow> string \<Rightarrow> category action" where
  "categoryController_findOne e i = andThen (parseUUIDPipe e i) (\<lambda>_. category_findOne i)"

definition categoryController_create ::
  "env \<Rightarrow> string option \<Rightarrow> createCategoryDto \<Rightarrow> category action" where
  "categoryController_create e bearer body =
     andThen (authDecorator e [ADMIN] bearer) (\<lambda>_.
     let dto = trimCreateCategory body in
     andThen (validate (validCreateCategory dto)) (\<lambda>_.
     createCategory e dto))"

definition categoryController_update ::
  "env \<Rightarrow> string option \<Rightarrow> string \<Rightarrow> updateCategoryDto \<Rightarrow> category action" where
  "categoryController_update e bearer i body =
     andThen (authDecorator e [ADMIN] bearer) (\<lambda>_.
     let dto = trimUpdateCategory body in
     andThen (parseUUIDPipe e i) (\<lambda>_.
     andThen (validate (validUpdateCategory dto)) (\<lambda>_.
     updateCategory e i dto)))"

definition categoryController_remove :: "env \<Rightarrow> string option \<Rightarrow> string \<Rightarrow> category action" where
  "categoryController_remove e bearer i =
     andThen (authDecorator e [ADMIN] bearer) (\<lambda>_.
     andThen (parseUUIDPipe e i) (\<lambda>_.
     removeCategory e i))"

definition serviceController_findAll :: "env \<Rightarrow> serviceQuery \<Rightarrow> cacheValue action" where
  "serviceController_findAll e q =
     andThen (validate (validServiceQuery e q)) (\<lambda>_. service_findAll e q)"

definition serviceController_findOne :: "env \<Rightarrow> string \<Rightarrow> service action" where
  "serviceController_findOne e i = andThen (parseUUIDPipe e i) (\<lambda>_. service_findOne i)"

definition serviceController_create :: "env \<Rightarrow> string option \<Rightarrow> createServiceDto \<Rightarrow> service action" where
  "serviceController_create e bearer body =
     andThen (authDecorator e [ADMIN] bearer) (\<lambda>_.
     let dto = trimCreateService body in
     andThen (validate (validCreateService e dto)) (\<lambda>_.
     createService e dto))"

definition serviceController_update ::
  "env \<Rightarrow> string option \<Rightarrow> string \<Rightarrow> updateServiceDto \<Rightarrow> service action" where
  "serviceController_update e bearer i body =
     andThen (authDecorator e [ADMIN] bearer) (\<lambda>_.
     let dto = trimUpdateService body in
     andThen (parseUUIDPipe e i) (\<lambda>_.
     andThen (validate (validUpdateService e dto)) (\<lambda>_.
     updateService e i dto)))"

definition serviceController_remove :: "env \<Rightarrow> string option \<Rightarrow> string \<Rightarrow> service action" where
  "serviceController_remove e bearer i =
     andThen (authDecorator e [ADMIN] bearer) (\<lambda>_.
     andThen (parseUUIDPipe e i) (\<lambda>_.
     removeService e i))"

section \<open>NotificationController\<close>

definition notificationController_getNotifications ::
  "env \<Rightarrow> string option \<Rightarrow> notification list action" where
  "notificationController_getNotifications e bearer =
     andThen (jwtAuthGuard e bearer) (\<lambda>user. getUserNotifications (ru_userId user))"

definition notificationController_getUnreadCount :: "env \<Rightarrow> string option \<Rightarrow> nat action" where
  "notificationController_getUnreadCount e bearer =
     andThen (jwtAuthGuard e bearer) (\<lambda>user. getUserNotificationsUnreadCount (ru_userId user))"

definition notificationController_markReadAll :: "env \<Rightarrow> string option \<Rightarrow> nat action" where
  "notificationController_markReadAll e bearer =
     andThen (jwtAuthGuard e bearer) (\<lambda>user. markAllAsRead e (ru_userId user))"

definition notificationController_markRead :: "env \<Rightarrow> string option \<Rightarrow> string \<Rightarrow> notification action" where
  "notificationController_markRead e bearer i =
     andThen (jwtAuthGuard e bearer) (\<lambda>user.
     andThen (parseUUIDPipe e i) (\<lambda>_.
     markAsRead e i (ru_userId user)))"

section \<open>The administrative controllers\<close>

definition adminAuditLogController_findAll ::
  "env \<Rightarrow> string option \<Rightarrow> auditLogQuery \<Rightarrow> auditLog paginated action" where
  "adminAuditLogController_findAll e bearer q =
     andThen (authDecorator e [ADMIN] bearer) (\<lambda>_.
     andThen (validate (validAuditLogQuery e q)) (\<lambda>_.
     adminAuditLog_findAll e q))"

definition adminAuditLogController_findOne :: "env \<Rightarrow> string option \<Rightarrow> string \<Rightarrow> auditLog action" where
  "adminAuditLogController_findOne e bearer i =
     andThen (authDecorator e [ADMIN] bearer) (\<lambda>_.
     andThen (parseUUIDPipe e i) (\<lambda>_.
     adminAuditLog_findOne i))"

definition adminBookingController_findAll ::
  "env \<Rightarrow> string option \<Rightarrow> bookingQuery \<Rightarrow> booking paginated action" where
  "adminBookingController_findAll e bearer q =
     andThen (authDecorator e [ADMIN] bearer) (\<lambda>_.
     andThen (validate (validAdminBookingQuery e q)) (\<lambda>_.
     adminBooking_findAll e q))"

definition adminBookingController_findOne :: "env \<Rightarrow> string option \<Rightarrow> string \<Rightarrow> booking action" where
  "adminBookingController_findOne e bearer i =
     andThen (authDecorator e [ADMIN] bearer) (\<lambda>_.
     andThen (parseUUIDPipe e i) (\<lambda>_.
     adminBooking_findOne i))"

definition adminDashboardController_getDashboard :: "env \<Rightarrow> string option \<Rightarrow> dashboard action" where
  "adminDashboardController_getDashboard e bearer =
     andThen (authDecorator e [ADMIN] bearer) (\<lambda>_. getDashboardStats e)"

definition adminPaymentController_findAll ::
  "env \<Rightarrow> string option \<Rightarrow> paymentQuery \<Rightarrow> payment paginated action" where
  "adminPaymentController_findAll e bearer q =
     andThen (authDecorator e [ADMIN] bearer) (\<lambda>_.
     andThen (validate (validAdminPaymentQuery e q)) (\<lambda>_.
     adminPayment_findAll e q))"

definition adminPaymentController_findOne :: "env \<Rightarrow> string option \<Rightarrow> string \<Rightarrow> payment action" where
  "adminPaymentController_findOne e bearer i =
     andThen (authDecorator e [ADMIN] bearer) (\<lambda>_.
     andThen (parseUUIDPipe e i) (\<lambda>_.
     adminPayment_findOne i))"

text \<open>
  \<open>@CurrentUser(key)\<close> on the request user of the strategy, whose text fields are \<open>userId\<close>
  and \<open>email\<close>; any other name is \<open>undefined\<close>.
\<close>

definition currentUser :: "string \<Rightarrow> requestUser \<Rightarrow> string option" where
  "currentUser key user =
     (if key = ''userId'' then Some (ru_userId user)
      else if key = ''email'' then Some (ru_email user) else None)"

definition adminPayment_refund :: "env \<Rightarrow> uuid option \<Rightarrow> uuid \<Rightarrow> refundPaymentDto \<Rightarrow> refundResult action" where
  "adminPayment_refund e adminUserId i dto = refundPayment e adminUserId i dto"

definition adminPaymentController_refund ::
  "env \<Rightarrow> string option \<Rightarrow> string \<Rightarrow> refundPaymentDto \<Rightarrow> refundResult action" where
  "adminPaymentController_refund e bearer i dto =
     andThen (authDecorator e [ADMIN] bearer) (\<lambda>user.
     andThen (parseUUIDPipe e i) (\<lambda>_.
     andThen (validate (validRefundPayment dto)) (\<lambda>_.
     adminPayment_refund e (currentUser ''id'' user) i dto)))"

definition adminProviderController_findAll ::
  "env \<Rightarrow> string option \<Rightarrow> adminProviderQuery \<Rightarrow> providerProfile paginated action" where
  "adminProviderController_findAll e bearer q =
     andThen (authDecorator e [ADMIN] bearer) (\<lambda>_.
     andThen (validate (validAdminProviderQuery q)) (\<lambda>_.
     adminProvider_findAll q))"

definition adminProviderController_findOne :: "env \<Rightarrow> string option \<Rightarrow> string \<Rightarrow> providerProfile action" where
  "adminProviderController_findOne e bearer i =
     andThen (authDecorator e [ADMIN] bearer) (\<lambda>_.
     andThen (parseUUIDPipe e i) (\<lambda>_.
     adminProvider_findOne i))"

definition adminProviderController_verify :: "env \<Rightarrow> string option \<Rightarrow> string \<Rightarrow> providerProfile action" where
  "adminProviderController_verify e bearer i =
     andThen (authDecorator e [ADMIN] bearer) (\<lambda>user.
     andThen (parseUUIDPipe e i) (\<lambda>_.
     verifyProvider e i (currentUser ''userId'' user)))"

definition adminProviderController_reject ::
  "env \<Rightarrow> string option \<Rightarrow> string \<Rightarrow> string \<Rightarrow> providerProfile action" where
  "adminProviderController_reject e bearer i reason =
     andThen (authDecorator e [ADMIN] bearer) (\<lambda>user.
     andThen (parseUUIDPipe e i) (\<lambda>_.
     andThen (validate (validRejectProvider reason)) (\<lambda>_.
     rejectProvider e i reason (currentUser ''userId'' user))))"

definition adminProviderController_suspend :: "env \<Rightarrow> string option \<Rightarrow> string \<Rightarrow> providerProfile action" where
  "adminProviderController_suspend e bearer i =
     andThen (authDecorator e [ADMIN] bearer) (\<lambda>user.
     andThen (parseUUIDPipe e i) (\<lambda>_.
     suspendProvider e i (currentUser ''userId'' user)))"

definition adminUserController_findAll ::
  "env \<Rightarrow> string option \<Rightarrow> adminUserQuery \<Rightarrow> user paginated action" where
  "adminUserController_findAll e bearer q =
     andThen (authDecorator e [ADMIN] bearer) (\<lambda>_.
     andThen (validate (validAdminUserQuery q)) (\<lambda>_.
     adminUser_findAll e q))"

definition adminUserController_findOne :: "env \<Rightarrow> string option \<Rightarrow> string \<Rightarrow> user action" where
  "adminUserController_findOne e bearer i =
     andThen (authDecorator e [ADMIN] bearer) (\<lambda>_.
     andThen (parseUUIDPipe e i) (\<lambda>_.
     adminUser_findOne i))"

definition adminUserController_updateStatus ::
  "env \<Rightarrow> string option \<Rightarrow> string \<Rightarrow> UserStatus \<Rightarrow> user action" where
  "adminUserController_updateStatus e bearer i status =
     andThen (authDecorator e [ADMIN] bearer) (\<lambda>user.
     andThen (parseUUIDPipe e i) (\<lambda>_.
     updateStatus e i status (currentUser ''userId'' user)))"

section \<open>The routes\<close>

datatype bookingRoute =
    PostBookings createBookingDto | GetBookings bookingQuery | GetBooking string
  | PatchBookingCancel string cancelBookingDto | PostBookingComplete string

datatype paymentRoute =
    PostPaymentOrders uuid | PostPaymentVerify verifyPaymentDto
  | PostPaymentWebhook "string option" string "string option" | GetPayment string
  | PostPaymentRefund string refundPaymentDto

datatype reviewRoute =
    PostBookingReview string createReviewDto | PostReviews createReviewDto
  | PatchReview string updateReviewDto | GetProviderReviews string reviewQuery
  | GetBookingReview string

datatype authRoute =
    PostRegister registerDto | PostLogin loginDto | PostRefresh "string option" | PostLogout
  | GetMe

datatype providerRoute =
    PostProvider createProviderDto | GetOwnProvider | PatchOwnProvider updateProviderDto
  | GetProvider string | PostDocument DocumentType string multerFile | GetOwnDocuments
  | GetDocumentFile string | GetDocumentsForAdmin string | GetProviders providerSearchQuery
  | GetPublicProvider string | GetPublicServices string publicServiceQuery
  | GetSlots string querySlotDto

datatype ownServiceRoute =
    GetAvailability | PutAvailability "availabilityIntervalDto list" | GetOfferings
  | PostOffering createProviderServiceDto | PatchOffering string updateProviderServiceDto
  | DeleteOffering string

datatype catalogRoute =
    GetCategories categoryQuery | GetCategory string | PostCategory createCategoryDto
  | PatchCategory string updateCategoryDto | DeleteCategory string | GetServices serviceQuery
  | GetService string | PostService createServiceDto | PatchService string updateServiceDto
  | DeleteService string

datatype notificationRoute =
    GetNotifications | GetUnreadCount | PatchReadAll | PatchRead string

datatype adminRoute =
    GetAuditLogs auditLogQuery | GetAuditLog string | GetAdminBookings bookingQuery
  | GetAdminBooking string | GetDashboard | GetAdminPayments paymentQuery
  | GetAdminPayment string | PostAdminRefund string refundPaymentDto
  | GetAdminProviders adminProviderQuery | GetAdminProvider string | PatchProviderVerify string
  | PatchProviderReject string string | PatchProviderSuspend string
  | GetAdminUsers adminUserQuery | GetAdminUser string | PatchUserStatus string UserStatus

datatype apiRequest =
    BookingRoute bookingRoute | PaymentRoute paymentRoute | ReviewRoute reviewRoute
  | AuthRoute authRoute | ProviderRoute providerRoute | OwnServiceRoute ownServiceRoute
  | CatalogRoute catalogRoute | NotificationRoute notificationRoute | AdminRoute adminRoute

text \<open>The success status: 201 for \<open>@Post\<close>, 200 for the others, unless \<open>@HttpCode\<close> says so.\<close>

fun successCode :: "apiRequest \<Rightarrow> nat" where
  "successCode (BookingRoute (PostBookings _)) = 201"
| "successCode (BookingRoute (PostBookingComplete _)) = 201"
| "successCode (PaymentRoute (PostPaymentOrders _)) = 201"
| "successCode (PaymentRoute (PostPaymentVerify _)) = 201"
| "successCode (PaymentRoute (PostPaymentRefund _ _)) = 201"
| "successCode (ReviewRoute (PostBookingReview _ _)) = 201"
| "successCode (ReviewRoute (PostReviews _)) = 201"
| "successCode (AuthRoute (PostRegister _)) = 201"
| "successCode (ProviderRoute (PostProvider _)) = 201"
| "successCode (ProviderRoute (PostDocument _ _ _)) = 201"
| "successCode (OwnServiceRoute (PostOffering _)) = 201"
| "successCode (CatalogRoute (PostCategory _)) = 201"
| "successCode (CatalogRoute (PostService _)) = 201"
| "successCode (AdminRoute (PostAdminRefund _ _)) = 201"
| "successCode _ = 200"

text \<open>A handler whose value is not looked at.\<close>

definition void :: "'a action \<Rightarrow> unit action" where
  "void m = andThen m (\<lambda>_. ret ())"

fun bookingRoutes :: "env \<Rightarrow> string option \<Rightarrow> bookingRoute \<Rightarrow> unit action" where
  "bookingRoutes e t (PostBookings dto) = void (bookingController_createBooking e t dto)"
| "bookingRoutes e t (GetBookings q) = void (bookingController_getMyBookings e t q)"
| "bookingRoutes e t (GetBooking i) = void (bookingController_getBookingById e t i)"
| "bookingRoutes e t (PatchBookingCancel i dto) = void (bookingController_cancelBooking e t i dto)"
| "bookingRoutes e t (PostBookingComplete i) = void (bookingController_completeBooking e t i)"

fun paymentRoutes :: "env \<Rightarrow> string option \<Rightarrow> paymentRoute \<Rightarrow> unit action" where
  "paymentRoutes e t (PostPaymentOrders i) = void (paymentController_createPaymentOrder e t i)"
| "paymentRoutes e t (PostPaymentVerify dto) = void (paymentController_verifyPayment e t dto)"
| "paymentRoutes e t (PostPaymentWebhook body sig i) = void (paymentController_handleRazorpayWebhook e body sig i)"
| "paymentRoutes e t (GetPayment i) = void (paymentController_getPaymentById e t i)"
| "paymentRoutes e t (PostPaymentRefund i dto) = void (paymentController_refundPayment e t i dto)"

fun reviewRoutes :: "env \<Rightarrow> string option \<Rightarrow> reviewRoute \<Rightarrow> unit action" where
  "reviewRoutes e t (PostBookingReview i dto) = void (reviewController_createBookingReview e t i dto)"
| "reviewRoutes e t (PostReviews dto) = void (reviewController_createReview e t dto)"
| "reviewRoutes e t (PatchReview i dto) = void (reviewController_updateReview e t i dto)"
| "reviewRoutes e t (GetProviderReviews i q) = void (reviewController_getProviderReviews e i q)"
| "reviewRoutes e t (GetBookingReview i) = void (reviewController_getBookingReview e t i)"

fun authRoutes :: "env \<Rightarrow> string option \<Rightarrow> authRoute \<Rightarrow> unit action" where
  "authRoutes e t (PostRegister dto) = void (authController_register e dto)"
| "authRoutes e t (PostLogin dto) = void (authController_login e dto)"
| "authRoutes e t (PostRefresh c) = void (authController_refresh e c)"
| "authRoutes e t PostLogout = void (authController_logout e t)"
| "authRoutes e t GetMe = void (authController_profile e t)"

fun providerRoutes :: "env \<Rightarrow> string option \<Rightarrow> providerRoute \<Rightarrow> unit action" where
  "providerRoutes e t (PostProvider dto) = void (providerController_createProfile e t dto)"
| "providerRoutes e t GetOwnProvider = void (providerController_getOwnProfile e t)"
| "providerRoutes e t (PatchOwnProvider dto) = void (providerController_updateOwnProfile e t dto)"
| "providerRoutes e t (GetProvider i) = void (providerController_getProviderById e i)"
| "providerRoutes e t (PostDocument ty m f) = void (providerController_uploadDocument e t ty m f)"
| "providerRoutes e t GetOwnDocuments = void (providerController_getOwnDocuments e t)"
| "providerRoutes e t (GetDocumentFile i) = void (providerController_downloadDocument e t i)"
| "providerRoutes e t (GetDocumentsForAdmin i) = void (providerController_getDocumentForAdmin e t i)"
| "providerRoutes e t (GetProviders q) = void (providerController_searchProvider e q)"
| "providerRoutes e t (GetPublicProvider i) = void (providerController_getPublicProviderById e i)"
| "providerRoutes e t (GetPublicServices i q) = void (providerController_getPublicProviderServices e i q)"
| "providerRoutes e t (GetSlots i q) = void (providerController_getAvailableSlots e i q)"

fun ownServiceRoutes :: "env \<Rightarrow> string option \<Rightarrow> ownServiceRoute \<Rightarrow> unit action" where
  "ownServiceRoutes e t GetAvailability = void (availabilityController_getAvailibity e t)"
| "ownServiceRoutes e t (PutAvailability ss) = void (availabilityController_setAvailibity e t ss)"
| "ownServiceRoutes e t GetOfferings = void (offeringController_findAll e t)"
| "ownServiceRoutes e t (PostOffering dto) = void (offeringController_create e t dto)"
| "ownServiceRoutes e t (PatchOffering i dto) = void (offeringController_update e t i dto)"
| "ownServiceRoutes e t (DeleteOffering i) = void (offeringController_delete e t i)"

fun catalogRoutes :: "env \<Rightarrow> string option \<Rightarrow> catalogRoute \<Rightarrow> unit action" where
  "catalogRoutes e t (GetCategories q) = void (categoryController_findAll e q)"
| "catalogRoutes e t (GetCategory i) = void (categoryController_findOne e i)"
| "catalogRoutes e t (PostCategory dto) = void (categoryController_create e t dto)"
| "catalogRoutes e t (PatchCategory i dto) = void (categoryController_update e t i dto)"
| "catalogRoutes e t (DeleteCategory i) = void (categoryController_remove e t i)"
| "catalogRoutes e t (GetServices q) = void (serviceController_findAll e q)"
| "catalogRoutes e t (GetService i) = void (serviceController_findOne e i)"
| "catalogRoutes e t (PostService dto) = void (serviceController_create e t dto)"
| "catalogRoutes e t (PatchService i dto) = void (serviceController_update e t i dto)"
| "catalogRoutes e t (DeleteService i) = void (serviceController_remove e t i)"

fun notificationRoutes :: "env \<Rightarrow> string option \<Rightarrow> notificationRoute \<Rightarrow> unit action" where
  "notificationRoutes e t GetNotifications = void (notificationController_getNotifications e t)"
| "notificationRoutes e t GetUnreadCount = void (notificationController_getUnreadCount e t)"
| "notificationRoutes e t PatchReadAll = void (notificationController_markReadAll e t)"
| "notificationRoutes e t (PatchRead i) = void (notificationController_markRead e t i)"

fun adminRoutes :: "env \<Rightarrow> string option \<Rightarrow> adminRoute \<Rightarrow> unit action" where
  "adminRoutes e t (GetAuditLogs q) = void (adminAuditLogController_findAll e t q)"
| "adminRoutes e t (GetAuditLog i) = void (adminAuditLogController_findOne e t i)"
| "adminRoutes e t (GetAdminBookings q) = void (adminBookingController_findAll e t q)"
| "adminRoutes e t (GetAdminBooking i) = void (adminBookingController_findOne e t i)"
| "adminRoutes e t GetDashboard = void (adminDashboardController_getDashboard e t)"
| "adminRoutes e t (GetAdminPayments q) = void (adminPaymentController_findAll e t q)"
| "adminRoutes e t (GetAdminPayment i) = void (adminPaymentController_findOne e t i)"
| "adminRoutes e t (PostAdminRefund i dto) = void (adminPaymentController_refund e t i dto)"
| "adminRoutes e t (GetAdminProviders q) = void (adminProviderController_findAll e t q)"
| "adminRoutes e t (GetAdminProvider i) = void (adminProviderController_findOne e t i)"
| "adminRoutes e t (PatchProviderVerify i) = void (adminProviderController_verify e t i)"
| "adminRoutes e t (PatchProviderReject i reason) = void (adminProviderController_reject e t i reason)"
| "adminRoutes e t (PatchProviderSuspend i) = void (adminProviderController_suspend e t i)"
| "adminRoutes e t (GetAdminUsers q) = void (adminUserController_findAll e t q)"
| "adminRoutes e t (GetAdminUser i) = void (adminUserController_findOne e t i)"
| "adminRoutes e t (PatchUserStatus i s) = void (adminUserController_updateStatus e t i s)"

fun route :: "env \<Rightarrow> string option \<Rightarrow> apiRequest \<Rightarrow> unit action" where
  "route e t (BookingRoute r) = bookingRoutes e t r"
| "route e t (PaymentRoute r) = paymentRoutes e t r"
| "route e t (ReviewRoute r) = reviewRoutes e t r"
| "route e t (AuthRoute r) = authRoutes e t r"
| "route e t (ProviderRoute r) = providerRoutes e t r"
| "route e t (OwnServiceRoute r) = ownServiceRoutes e t r"
| "route e t (CatalogRoute r) = catalogRoutes e t r"
| "route e t (NotificationRoute r) = notificationRoutes e t r"
| "route e t (AdminRoute r) = adminRoutes e t r"

definition serve ::
  "env \<Rightarrow> httpContext \<Rightarrow> apiRequest \<Rightarrow> world \<Rightarrow> (errorReply + unit payload) \<times> world" where
  "serve e ctx r = answer e ctx (successCode r) (route e (hc_bearer ctx) r)"

end
