(* ===== verification/ApiFacts.thy ===== *)
theory ApiFacts
  imports Api System PaymentFacts
begin

text \<open>
  What the controllers guarantee: who may call which route, on whose behalf the service
  operations run, and that the API is a refinement of the state machine of the service
  operations. The tables \<open>requiredAccess\<close> and \<open>operation\<close> are the specification.
\<close>

section \<open>Who a token stands for\<close>

text \<open>The active user whose access token the request carries.\<close>

definition sessionUser :: "env \<Rightarrow> string option \<Rightarrow> world \<Rightarrow> user option" where
  "sessionUser e bearer w =
     (case Option.bind bearer (jwtVerify e (configGet e ''jwt.secret'') (nowMs e)) of
        None \<Rightarrow> None
      | Some payload \<Rightarrow>
          (case user_findById (jp_sub payload) w of
             None \<Rightarrow> None
           | Some u \<Rightarrow> if u_status u = ACTIVE then Some u else None))"

definition requestUserOf :: "user \<Rightarrow> requestUser" where
  "requestUserOf u = \<lparr>ru_userId = u_id u, ru_email = u_email u, ru_role = u_role u\<rparr>"

text \<open>The verified provider profile of that user.\<close>

definition sessionProvider :: "env \<Rightarrow> string option \<Rightarrow> world \<Rightarrow> providerProfile option" where
  "sessionProvider e bearer w =
     (case sessionUser e bearer w of
        None \<Rightarrow> None
      | Some u \<Rightarrow>
          (case provider_findByUserId (u_id u) w of
             None \<Rightarrow> None
           | Some p \<Rightarrow> if pp_verificationStatus p = VERIFIED then Some p else None))"

datatype access = Public | Authenticated | HasRole Role | VerifiedProvider

fun grants :: "env \<Rightarrow> string option \<Rightarrow> world \<Rightarrow> access \<Rightarrow> bool" where
  "grants e t w Public \<longleftrightarrow> True"
| "grants e t w Authenticated \<longleftrightarrow> sessionUser e t w \<noteq> None"
| "grants e t w (HasRole r) \<longleftrightarrow> (case sessionUser e t w of None \<Rightarrow> False | Some u \<Rightarrow> u_role u = r)"
| "grants e t w VerifiedProvider \<longleftrightarrow> sessionProvider e t w \<noteq> None"

fun requiredAccess :: "apiRequest \<Rightarrow> access" where
  "requiredAccess (BookingRoute _) = Authenticated"
| "requiredAccess (PaymentRoute (PostPaymentWebhook _ _ _)) = Public"
| "requiredAccess (PaymentRoute (PostPaymentRefund _ _)) = HasRole ADMIN"
| "requiredAccess (PaymentRoute _) = Authenticated"
| "requiredAccess (ReviewRoute (GetProviderReviews _ _)) = Public"
| "requiredAccess (ReviewRoute (GetBookingReview _)) = Authenticated"
| "requiredAccess (ReviewRoute _) = HasRole USER"
| "requiredAccess (AuthRoute PostLogout) = Authenticated"
| "requiredAccess (AuthRoute GetMe) = Authenticated"
| "requiredAccess (AuthRoute _) = Public"
| "requiredAccess (ProviderRoute (GetProvider _)) = Public"
| "requiredAccess (ProviderRoute (GetDocumentsForAdmin _)) = HasRole ADMIN"
| "requiredAccess (ProviderRoute (GetProviders _)) = Public"
| "requiredAccess (ProviderRoute (GetPublicProvider _)) = Public"
| "requiredAccess (ProviderRoute (GetPublicServices _ _)) = Public"
| "requiredAccess (ProviderRoute (GetSlots _ _)) = Public"
| "requiredAccess (ProviderRoute _) = Authenticated"
| "requiredAccess (OwnServiceRoute _) = VerifiedProvider"
| "requiredAccess (CatalogRoute (GetCategories _)) = Public"
| "requiredAccess (CatalogRoute (GetCategory _)) = Public"
| "requiredAccess (CatalogRoute (GetServices _)) = Public"
| "requiredAccess (CatalogRoute (GetService _)) = Public"
| "requiredAccess (CatalogRoute _) = HasRole ADMIN"
| "requiredAccess (NotificationRoute _) = Authenticated"
| "requiredAccess (AdminRoute _) = HasRole ADMIN"

section \<open>The guards\<close>

lemma jwtAuthGuard_run:
  "jwtAuthGuard e t w =
     (case sessionUser e t w of
        None \<Rightarrow> (fst (jwtAuthGuard e t w), w) | Some u \<Rightarrow> (Inr (requestUserOf u), w))"
  "sessionUser e t w = None \<Longrightarrow> \<exists>m. jwtAuthGuard e t w = (Inl (UnauthorizedException m), w)"
  by (auto simp: jwtAuthGuard_def jwtStrategy_validate_def sessionUser_def requestUserOf_def prog_simps
      split: option.splits)

lemma jwtAuthGuard_Some [simp]:
  "sessionUser e t w = Some u \<Longrightarrow> jwtAuthGuard e t w = (Inr (requestUserOf u), w)"
  using jwtAuthGuard_run(1) [of e t w] by simp

lemma authDecorator_Some:
  "sessionUser e t w = Some u \<Longrightarrow>
     authDecorator e roles t w =
       (if roles = [] \<or> u_role u \<in> set roles then (Inr (requestUserOf u), w)
        else (Inl (ForbiddenException ''You do not have permission to access this resource''), w))"
  by (cases roles) (auto simp: authDecorator_def roleGuard_def prog_simps requestUserOf_def)

lemma authDecorator_None:
  assumes "sessionUser e t w = None"
  shows "\<exists>m. authDecorator e roles t w = (Inl (UnauthorizedException m), w)"
  using jwtAuthGuard_run(2) [OF assms] by (auto simp: authDecorator_def prog_simps)

lemma providerGuards_Some:
  "sessionProvider e t w = Some p \<Longrightarrow> providerGuards e t w = (Inr p, w)"
  by (auto simp: providerGuards_def sessionProvider_def verifiedProviderGuard_def requestUserOf_def
      prog_simps split: option.splits if_splits)

lemma providerGuards_None:
  assumes "sessionProvider e t w = None"
  shows "\<exists>m. providerGuards e t w =
    (Inl (if sessionUser e t w = None then UnauthorizedException m else ForbiddenException m), w)"
proof (cases "sessionUser e t w")
  case None
  then show ?thesis using jwtAuthGuard_run(2) [OF None] by (auto simp: providerGuards_def prog_simps)
next
  case (Some u)
  then show ?thesis using assms
    by (auto simp: providerGuards_def sessionProvider_def verifiedProviderGuard_def requestUserOf_def
        prog_simps split: option.splits if_splits)
qed

text \<open>A guard's refusal, which leaves the state alone: 401 without a session, else 403.\<close>

definition refusal :: "env \<Rightarrow> string option \<Rightarrow> world \<Rightarrow> (exn + 'a) \<times> world \<Rightarrow> bool" where
  "refusal e t w r \<longleftrightarrow>
     (\<exists>m. r = (Inl (if sessionUser e t w = None then UnauthorizedException m else ForbiddenException m), w))"

lemma refusal_andThen: "refusal e t w (m w) \<Longrightarrow> refusal e t w (andThen m f w)"
  by (auto simp: refusal_def prog_simps)

lemma refusal_void: "refusal e t w (m w) \<Longrightarrow> refusal e t w (void m w)"
  unfolding void_def by (rule refusal_andThen)

lemma refusal_guards:
  "\<not> grants e t w Authenticated \<Longrightarrow> refusal e t w (authDecorator e [] t w)"
  "\<not> grants e t w Authenticated \<Longrightarrow> refusal e t w (jwtAuthGuard e t w)"
  "\<not> grants e t w (HasRole r) \<Longrightarrow> refusal e t w (authDecorator e [r] t w)"
  "\<not> grants e t w VerifiedProvider \<Longrightarrow> refusal e t w (providerGuards e t w)"
  using authDecorator_None [of e t w] jwtAuthGuard_run(2) [of e t w] providerGuards_None [of e t w]
  by (auto simp: refusal_def authDecorator_Some split: option.splits)

lemmas controller_defs =
  bookingController_createBooking_def bookingController_getMyBookings_def
  bookingController_getBookingById_def bookingController_cancelBooking_def
  bookingController_completeBooking_def paymentController_createPaymentOrder_def
  paymentController_verifyPayment_def paymentController_handleRazorpayWebhook_def
  paymentController_getPaymentById_def paymentController_refundPayment_def
  reviewController_createBookingReview_def reviewController_createReview_def
  reviewController_updateReview_def reviewController_getProviderReviews_def
  reviewController_getBookingReview_def authController_register_def authController_login_def
  authController_refresh_def authController_logout_def authController_profile_def
  providerController_createProfile_def providerController_getOwnProfile_def
  providerController_updateOwnProfile_def providerController_getProviderById_def
  providerController_uploadDocument_def providerController_getOwnDocuments_def
  providerController_downloadDocument_def providerController_getDocumentForAdmin_def
  providerController_searchProvider_def providerController_getPublicProviderById_def
  providerController_getPublicProviderServices_def providerController_getAvailableSlots_def
  availabilityController_getAvailibity_def availabilityController_setAvailibity_def
  offeringController_findAll_def offeringController_create_def offeringController_update_def
  offeringController_delete_def categoryController_findAll_def categoryController_findOne_def
  categoryController_create_def categoryController_update_def categoryController_remove_def
  serviceController_findAll_def serviceController_findOne_def serviceController_create_def
  serviceController_update_def serviceController_remove_def
  notificationController_getNotifications_def notificationController_getUnreadCount_def
  notificationController_markReadAll_def notificationController_markRead_def
  adminAuditLogController_findAll_def adminAuditLogController_findOne_def
  adminBookingController_findAll_def adminBookingController_findOne_def
  adminDashboardController_getDashboard_def adminPaymentController_findAll_def
  adminPaymentController_findOne_def adminPaymentController_refund_def
  adminProviderController_findAll_def adminProviderController_findOne_def
  adminProviderController_verify_def adminProviderController_reject_def
  adminProviderController_suspend_def adminUserController_findAll_def
  adminUserController_findOne_def adminUserController_updateStatus_def

lemmas refused = refusal_void refusal_andThen refusal_guards

lemma route_refused:
  "\<not> grants e t w (requiredAccess r) \<Longrightarrow> refusal e t w (route e t r w)"
  by (cases r; rename_tac x; case_tac x)
    (auto simp del: grants.simps(2-) simp: controller_defs intro!: refused)

section \<open>Access control\<close>

lemma session_drawn [simp]:
  "sessionUser e t (w\<lparr>drawn := n\<rparr>) = sessionUser e t w"
  "sessionProvider e t (w\<lparr>drawn := n\<rparr>) = sessionProvider e t w"
  by (simp_all add: sessionUser_def sessionProvider_def user_findById_def provider_findByUserId_def
      split: option.splits)

lemma grants_drawn [simp]: "grants e t (w\<lparr>drawn := n\<rparr>) a = grants e t w a"
  by (cases a) simp_all

text \<open>Naming the request and running its handler.\<close>

lemma serve_run:
  obtains i n where "n \<in> {drawn w, Suc (drawn w)}"
    and "serve e ctx r w =
      (case route e (hc_bearer ctx) r (w\<lparr>drawn := n\<rparr>) of
         (Inl x, w') \<Rightarrow> (Inl (exceptionFilters e ctx i x), w')
       | (Inr d, w') \<Rightarrow> (Inr (transformInterceptor e ctx (successCode r) d), w'))"
proof -
  obtain i n where "requestIdMiddleware e (hc_requestIdHeader ctx) w = (Inr i, w\<lparr>drawn := n\<rparr>)"
    and n: "n \<in> {drawn w, Suc (drawn w)}"
    using requestIdMiddleware_run [of e "hc_requestIdHeader ctx" w] by blast
  then show ?thesis by (intro that [OF n, of i]) (simp add: serve_def answer_def)
qed

text \<open>
  C7. No route is open by mistake: a request whose token does not give the access that
  \<open>requiredAccess\<close> lists for its route (any session, a role, or a verified provider
  profile) is answered 401 without a session and 403 with one, and changes nothing but
  the counter of drawn identifiers.
\<close>

theorem access_control:
  assumes "\<not> grants e (hc_bearer ctx) w (requiredAccess r)"
  shows "statusOf (fst (serve e ctx r w)) = (if sessionUser e (hc_bearer ctx) w = None then 401 else 403)
    \<and> (\<exists>n. snd (serve e ctx r w) = w\<lparr>drawn := n\<rparr>)"
proof (rule serve_run [of w e ctx r])
  fix i n
  assume run: "serve e ctx r w =
      (case route e (hc_bearer ctx) r (w\<lparr>drawn := n\<rparr>) of
         (Inl x, w') \<Rightarrow> (Inl (exceptionFilters e ctx i x), w')
       | (Inr d, w') \<Rightarrow> (Inr (transformInterceptor e ctx (successCode r) d), w'))"
  have "refusal e (hc_bearer ctx) (w\<lparr>drawn := n\<rparr>) (route e (hc_bearer ctx) r (w\<lparr>drawn := n\<rparr>))"
    using assms by (intro route_refused) simp
  then show ?thesis
    by (auto simp: run refusal_def statusOf_def exceptionFilters_def httpExceptionFilter_def errorReplyOf_def)
qed

theorem access_control_witness:
  "\<not> grants demoEnv None demoWorld (requiredAccess (BookingRoute (PostBookings demoDto)))
   \<and> statusOf (fst (serve demoEnv \<lparr>hc_url = ''/api/v1/bookings'', hc_bearer = None, hc_requestIdHeader = None\<rparr>
       (BookingRoute (PostBookings demoDto)) demoWorld)) = 401"
proof -
  have "\<not> grants demoEnv None demoWorld (requiredAccess (BookingRoute (PostBookings demoDto)))"
    and "sessionUser demoEnv None demoWorld = None"
    by (simp_all add: sessionUser_def)
  then show ?thesis
    using access_control [of demoEnv
        "\<lparr>hc_url = ''/api/v1/bookings'', hc_bearer = None, hc_requestIdHeader = None\<rparr>" demoWorld
        "BookingRoute (PostBookings demoDto)"] by simp
qed

section \<open>Which operation a route runs\<close>

text \<open>The bodies and path parameters that the pipes let through.\<close>

fun accepted :: "env \<Rightarrow> apiRequest \<Rightarrow> bool" where
  "accepted e (BookingRoute (PostBookings dto)) = validCreateBooking e dto"
| "accepted e (BookingRoute (PatchBookingCancel i dto)) \<longleftrightarrow> isUuid e i \<and> validCancelBooking dto"
| "accepted e (BookingRoute (PostBookingComplete i)) = isUuid e i"
| "accepted e (PaymentRoute (PostPaymentOrders i)) = validCreatePaymentOrder e i"
| "accepted e (PaymentRoute (PostPaymentVerify dto)) = validVerifyPayment dto"
| "accepted e (PaymentRoute (PostPaymentWebhook body s i)) \<longleftrightarrow> body \<noteq> None"
| "accepted e (PaymentRoute (PostPaymentRefund i dto)) \<longleftrightarrow> isUuid e i \<and> validRefundPayment dto"
| "accepted e (ReviewRoute (PostBookingReview i dto)) \<longleftrightarrow> isUuid e i \<and> validCreateReview e dto"
| "accepted e (ReviewRoute (PostReviews dto)) = validCreateReview e dto"
| "accepted e (ReviewRoute (PatchReview i dto)) \<longleftrightarrow> isUuid e i \<and> validUpdateReview dto"
| "accepted e (AuthRoute (PostRegister dto)) = validRegister e dto"
| "accepted e (AuthRoute (PostLogin dto)) = validLogin e dto"
| "accepted e (ProviderRoute (PostProvider dto)) = validCreateProvider e (trimCreateProvider dto)"
| "accepted e (ProviderRoute (PatchOwnProvider dto)) = validUpdateProvider e (trimUpdateProvider dto)"
| "accepted e (ProviderRoute (PostDocument ty m f)) \<longleftrightarrow>
     int (length (mf_buffer f)) < 5 * 1024 * 1024
     \<and> (endsWith ''jpg'' m \<or> endsWith ''jpeg'' m \<or> endsWith ''png'' m \<or> endsWith ''pdf'' m)"
| "accepted e (ProviderRoute (GetProviders q)) = validProviderSearch e q"
| "accepted e (ProviderRoute (GetPublicProvider i)) = isUuid e i"
| "accepted e (OwnServiceRoute (PutAvailability ss)) = validSetAvailability ss"
| "accepted e (OwnServiceRoute (PostOffering dto)) = validCreateOffering e dto"
| "accepted e (OwnServiceRoute (PatchOffering i dto)) \<longleftrightarrow> isUuid e i \<and> validUpdateOffering dto"
| "accepted e (OwnServiceRoute (DeleteOffering i)) = isUuid e i"
| "accepted e (CatalogRoute (GetCategories q)) = validCategoryQuery q"
| "accepted e (CatalogRoute (PostCategory dto)) = validCreateCategory (trimCreateCategory dto)"
| "accepted e (CatalogRoute (PatchCategory i dto)) \<longleftrightarrow>
     isUuid e i \<and> validUpdateCategory (trimUpdateCategory dto)"
| "accepted e (CatalogRoute (DeleteCategory i)) = isUuid e i"
| "accepted e (CatalogRoute (GetServices q)) = validServiceQuery e q"
| "accepted e (CatalogRoute (PostService dto)) = validCreateService e (trimCreateService dto)"
| "accepted e (CatalogRoute (PatchService i dto)) \<longleftrightarrow>
     isUuid e i \<and> validUpdateService e (trimUpdateService dto)"
| "accepted e (CatalogRoute (DeleteService i)) = isUuid e i"
| "accepted e (NotificationRoute (PatchRead i)) = isUuid e i"
| "accepted e (AdminRoute (PostAdminRefund i dto)) \<longleftrightarrow> isUuid e i \<and> validRefundPayment dto"
| "accepted e (AdminRoute (PatchProviderVerify i)) = isUuid e i"
| "accepted e (AdminRoute (PatchProviderReject i reason)) \<longleftrightarrow> isUuid e i \<and> validRejectProvider reason"
| "accepted e (AdminRoute (PatchProviderSuspend i)) = isUuid e i"
| "accepted e (AdminRoute (PatchUserStatus i s)) = isUuid e i"
| "accepted e _ = True"

text \<open>
  The operation of the state machine that a route runs for the user \<open>u\<close> or the provider
  profile \<open>p\<close> of the session. The other routes only read.
\<close>

fun operation :: "user \<Rightarrow> providerProfile \<Rightarrow> apiRequest \<Rightarrow> request option" where
  "operation u p (BookingRoute (PostBookings dto)) = Some (Core (CreateBooking (u_id u) dto))"
| "operation u p (BookingRoute (PatchBookingCancel i dto)) = Some (Core (CancelBooking i (u_id u) dto))"
| "operation u p (BookingRoute (PostBookingComplete i)) =
     Some (Core (CompleteBooking i (u_id u) (Some (u_role u))))"
| "operation u p (PaymentRoute (PostPaymentOrders i)) = Some (Core (CreatePaymentOrder (u_id u) i))"
| "operation u p (PaymentRoute (PostPaymentVerify dto)) = Some (Core (VerifyPayment (u_id u) dto))"
| "operation u p (PaymentRoute (PostPaymentWebhook body s i)) = Some (Core (Webhook body s i))"
| "operation u p (PaymentRoute (PostPaymentRefund i dto)) = Some (Core (Refund (Some (u_id u)) i dto))"
| "operation u p (ReviewRoute (PostBookingReview i dto)) = Some (Side (CreateReview (u_id u) dto (Some i)))"
| "operation u p (ReviewRoute (PostReviews dto)) = Some (Side (CreateReview (u_id u) dto None))"
| "operation u p (ReviewRoute (PatchReview i dto)) = Some (Side (UpdateReview (u_id u) i dto))"
| "operation u p (AuthRoute (PostRegister dto)) = Some (Side (Register dto))"
| "operation u p (AuthRoute (PostLogin dto)) = Some (Side (Login dto))"
| "operation u p (AuthRoute (PostRefresh c)) = Some (Side (Refresh c))"
| "operation u p (AuthRoute PostLogout) = Some (Side (Logout (u_id u)))"
| "operation u p (ProviderRoute (PostProvider dto)) =
     Some (Side (CreateProfile (u_id u) (trimCreateProvider dto)))"
| "operation u p (ProviderRoute (PatchOwnProvider dto)) =
     Some (Side (UpdateOwnProfile (u_id u) (trimUpdateProvider dto)))"
| "operation u p (ProviderRoute (PostDocument ty m f)) = Some (Side (UploadDocument (u_id u) ty f))"
| "operation u p (ProviderRoute (GetProviders q)) = Some (Side (SearchProviders q))"
| "operation u p (ProviderRoute (GetPublicProvider i)) = Some (Side (ShowProvider i))"
| "operation u p (OwnServiceRoute (PutAvailability ss)) = Some (Side (SetAvailability (pp_id p) ss))"
| "operation u p (OwnServiceRoute (PostOffering dto)) = Some (Side (CreateOffering (pp_id p) dto))"
| "operation u p (OwnServiceRoute (PatchOffering i dto)) = Some (Side (UpdateOffering (pp_id p) i dto))"
| "operation u p (OwnServiceRoute (DeleteOffering i)) = Some (Side (RemoveOffering (pp_id p) i))"
| "operation u p (CatalogRoute (GetCategories q)) = Some (Side (ListCategories q))"
| "operation u p (CatalogRoute (PostCategory dto)) = Some (Side (CreateCategory (trimCreateCategory dto)))"
| "operation u p (CatalogRoute (PatchCategory i dto)) = Some (Side (UpdateCategory i (trimUpdateCategory dto)))"
| "operation u p (CatalogRoute (DeleteCategory i)) = Some (Side (RemoveCategory i))"
| "operation u p (CatalogRoute (GetServices q)) = Some (Side (ListServices q))"
| "operation u p (CatalogRoute (PostService dto)) = Some (Side (CreateService (trimCreateService dto)))"
| "operation u p (CatalogRoute (PatchService i dto)) = Some (Side (UpdateService i (trimUpdateService dto)))"
| "operation u p (CatalogRoute (DeleteService i)) = Some (Side (RemoveService i))"
| "operation u p (NotificationRoute PatchReadAll) = Some (Side (MarkAllAsRead (u_id u)))"
| "operation u p (NotificationRoute (PatchRead i)) = Some (Side (MarkAsRead i (u_id u)))"
| "operation u p (AdminRoute (PostAdminRefund i dto)) = Some (Core (Refund None i dto))"
| "operation u p (AdminRoute (PatchProviderVerify i)) = Some (Side (VerifyProvider i (Some (u_id u))))"
| "operation u p (AdminRoute (PatchProviderReject i reason)) =
     Some (Side (RejectProvider i reason (Some (u_id u))))"
| "operation u p (AdminRoute (PatchProviderSuspend i)) = Some (Side (SuspendProvider i (Some (u_id u))))"
| "operation u p (AdminRoute (PatchUserStatus i s)) = Some (Side (UpdateUserStatus i s (Some (u_id u))))"
| "operation u p _ = None"

section \<open>Routes that only read\<close>

interpretation unchanged: state_order "(=) :: world \<Rightarrow> world \<Rightarrow> bool"
  by unfold_locales auto

lemma date_queries_read:
  "steps (=) (dateOrThrow e x)" "steps (=) (endOfDayIfDate e x)" "steps (=) (endOfDayUnlessTime e x)"
  "(\<And>x. steps (=) (f x)) \<Longrightarrow> steps (=) (optDate f y)"
  by (auto simp: dateOrThrow_def endOfDayIfDate_def endOfDayUnlessTime_def optDate_def
      intro!: unchanged.combinators split: option.split)

lemmas queries_read = unchanged.combinators date_queries_read

lemma page_queries_read:
  "steps (=) (booking_findAll e q c p)" "steps (=) (payment_findAll e pq)"
  "steps (=) (auditLog_findAll e aq)"
  unfolding booking_findAll_def payment_findAll_def auditLog_findAll_def Let_def
  by (intro queries_read)+

lemma booking_routes_read:
  "steps (=) (getCustomerBookings e u q)" "steps (=) (getBookingById i u)"
  "steps (=) (getPaymentById i u)" "steps (=) (getProviderReviews i rq)" "steps (=) (getBookingReview i)"
  unfolding getCustomerBookings_def booking_findCustomerBooking_def getBookingById_def
    getPaymentById_def payment_booking_def getProviderReviews_def getBookingReview_def
  by (intro queries_read page_queries_read)+

lemma provider_routes_read:
  "steps (=) (getProfile u)" "steps (=) (getOwnProfile u)" "steps (=) (getProfileById i)"
  "steps (=) (getOwnDocuments u)" "steps (=) (getDocumentFileForUser e i u role)"
  "steps (=) (getProviderDocumentsForAdmin i)" "steps (=) (getPublicProviderServices i sq)"
  "steps (=) (generateSlot e i slq)" "steps (=) (getAvailibity i)" "steps (=) (findAllOfferings i)"
  "steps (=) (category_findOne i)" "steps (=) (service_findOne i)"
  "steps (=) (getUserNotifications u)" "steps (=) (getUserNotificationsUnreadCount u)"
  unfolding getProfile_def getOwnProfile_def getProfileById_def getOwnDocuments_def
    getDocumentFileForUser_def getProviderDocumentsForAdmin_def getPublicProviderServices_def
    generateSlot_def getAvailibity_def findAllOfferings_def category_findOne_def service_findOne_def
    getUserNotifications_def getUserNotificationsUnreadCount_def getFilePath_def Let_def
  by (intro queries_read)+

lemma admin_routes_read:
  "steps (=) (adminAuditLog_findAll e aq)" "steps (=) (adminAuditLog_findOne i)"
  "steps (=) (adminBooking_findAll e q)" "steps (=) (adminBooking_findOne i)"
  "steps (=) (getDashboardStats e)" "steps (=) (adminPayment_findAll e pq)"
  "steps (=) (adminPayment_findOne i)" "steps (=) (adminProvider_findAll vq)"
  "steps (=) (adminProvider_findOne i)" "steps (=) (adminUser_findAll e uq)"
  "steps (=) (adminUser_findOne i)"
  unfolding adminAuditLog_findAll_def adminAuditLog_findOne_def adminBooking_findAll_def
    adminBooking_findOne_def getDashboardStats_def adminPayment_findAll_def adminPayment_findOne_def
    adminProvider_findAll_def adminProvider_findOne_def adminUser_findAll_def adminUser_findOne_def
    getAllBookingsForAdmin_def getBookingByIdForAdmin_def getAllPaymentsForAdmin_def
    getPaymentByIdForAdmin_def
  by (intro queries_read page_queries_read)+

lemmas routes_read = booking_routes_read [THEN steps_snd, symmetric]
  provider_routes_read [THEN steps_snd, symmetric] admin_routes_read [THEN steps_snd, symmetric]

section \<open>Guards and pipes, seen from the state they leave\<close>

lemma snd_void: "snd (void m w) = snd (m w)"
  by (auto simp: void_def prog_simps split: prod.split sum.split)

lemma snd_auth:
  "snd (andThen (authDecorator e roles t) f w) =
     (case sessionUser e t w of
        None \<Rightarrow> w
      | Some u \<Rightarrow> if roles = [] \<or> u_role u \<in> set roles then snd (f (requestUserOf u) w) else w)"
  using authDecorator_None [of e t w roles]
  by (auto simp: andThen_run authDecorator_Some split: option.split)

lemma snd_jwt:
  "snd (andThen (jwtAuthGuard e t) f w) =
     (case sessionUser e t w of None \<Rightarrow> w | Some u \<Rightarrow> snd (f (requestUserOf u) w))"
  using jwtAuthGuard_run(2) [of e t w] by (auto simp: andThen_run split: option.split)

lemma snd_provider:
  "snd (andThen (providerGuards e t) f w) =
     (case sessionProvider e t w of None \<Rightarrow> w | Some p \<Rightarrow> snd (f p w))"
  using providerGuards_None [of e t w] by (auto simp: andThen_run providerGuards_Some split: option.split)

lemma snd_pipes:
  "snd (andThen (validate ok) f w) = (if ok then snd (f () w) else w)"
  "snd (andThen (parseUUIDPipe e i) f w) = (if isUuid e i then snd (f () w) else w)"
  "snd (andThen (parseFilePipe m file) f w) =
     (if int (length (mf_buffer file)) < 5 * 1024 * 1024
        \<and> (endsWith ''jpg'' m \<or> endsWith ''jpeg'' m \<or> endsWith ''png'' m \<or> endsWith ''pdf'' m)
      then snd (f () w) else w)"
  "snd (andThen (check b x) f w) = (if b then snd (f () w) else w)"
  "snd (andThen n (sessionAnswer e) w) = snd (n w)"
  by (auto simp: validate_def parseUUIDPipe_def parseFilePipe_def sessionAnswer_def prog_simps
      split: prod.split sum.split)

lemmas route_state = snd_void snd_auth snd_jwt snd_provider snd_pipes routes_read requestUserOf_def
  currentUser_def adminPayment_refund_def Let_def

lemma route_refines:
  "snd (route e t r w) =
     (if grants e t w (requiredAccess r) \<and> accepted e r
      then (case operation (the (sessionUser e t w)) (the (sessionProvider e t w)) r of
          None \<Rightarrow> w | Some q \<Rightarrow> execute e q w)
      else w)"
  by (cases r; rename_tac x; case_tac x)
    (auto simp: controller_defs route_state split: option.splits)

section \<open>The API refines the operations\<close>

text \<open>
  C6. The controllers implement three tables. Whatever the request, the state after it
  is the state before (with the request's own identifier drawn), except when the token
  grants the access that \<open>requiredAccess\<close> lists and the body passes the checks of
  \<open>accepted\<close>: then it is exactly what the service operation in \<open>operation\<close> leaves, run for
  the user or the verified provider of the token, and for no one else.
\<close>

theorem api_refines_operations:
  "\<exists>n. (n = drawn w \<or> n = Suc (drawn w)) \<and> snd (serve e ctx r w) =
     (if grants e (hc_bearer ctx) w (requiredAccess r) \<and> accepted e r
      then (case operation (the (sessionUser e (hc_bearer ctx) w)) (the (sessionProvider e (hc_bearer ctx) w)) r of
          None \<Rightarrow> w\<lparr>drawn := n\<rparr> | Some q \<Rightarrow> execute e q (w\<lparr>drawn := n\<rparr>))
      else w\<lparr>drawn := n\<rparr>)"
proof (rule serve_run [of w e ctx r])
  fix i n
  assume n: "n \<in> {drawn w, Suc (drawn w)}" and run: "serve e ctx r w =
      (case route e (hc_bearer ctx) r (w\<lparr>drawn := n\<rparr>) of
         (Inl x, w') \<Rightarrow> (Inl (exceptionFilters e ctx i x), w')
       | (Inr d, w') \<Rightarrow> (Inr (transformInterceptor e ctx (successCode r) d), w'))"
  have "snd (serve e ctx r w) = snd (route e (hc_bearer ctx) r (w\<lparr>drawn := n\<rparr>))"
    by (simp add: run split: prod.split sum.split)
  then show ?thesis using n
    by (intro exI [of _ n] conjI) (simp_all only: route_refines session_drawn grants_drawn insert_iff empty_iff simp_thms)
qed

text \<open>The API stays within the reachable states, so their invariants hold behind it.\<close>

lemma serve_reachable: "reachable w \<Longrightarrow> reachable (snd (serve e ctx r w))"
proof (rule serve_run [of w e ctx r])
  fix i n
  assume w: "reachable w" and n: "n \<in> {drawn w, Suc (drawn w)}" and run: "serve e ctx r w =
      (case route e (hc_bearer ctx) r (w\<lparr>drawn := n\<rparr>) of
         (Inl x, w') \<Rightarrow> (Inl (exceptionFilters e ctx i x), w')
       | (Inr d, w') \<Rightarrow> (Inr (transformInterceptor e ctx (successCode r) d), w'))"
  have "snd (serve e ctx r w) = snd (route e (hc_bearer ctx) r (w\<lparr>drawn := n\<rparr>))"
    by (simp add: run split: prod.split sum.split)
  moreover have "reachable (w\<lparr>drawn := n\<rparr>)" using n by (intro reachable.drawing w) auto
  ultimately show ?thesis by (auto simp: route_refines intro: reachable.request split: option.split)
qed

section \<open>Refunds by an administrator\<close>

lemma auth_InrD:
  assumes "andThen (authDecorator e roles t) f w = (Inr r, w')"
  obtains u where "sessionUser e t w = Some u" "roles = [] \<or> u_role u \<in> set roles"
    "f (requestUserOf u) w = (Inr r, w')"
  using assms authDecorator_None [of e t w roles]
  by (cases "sessionUser e t w") (auto simp: andThen_run authDecorator_Some split: if_splits)

lemma pipes_InrD:
  "andThen (validate ok) f w = (Inr r, w') \<Longrightarrow> ok \<and> f () w = (Inr r, w')"
  "andThen (parseUUIDPipe e i) f w = (Inr r, w') \<Longrightarrow> isUuid e i \<and> f () w = (Inr r, w')"
  by (auto simp: validate_def parseUUIDPipe_def split: if_splits)

text \<open>
  Who refunded a payment is known only on one of the two refund routes. After
  \<open>POST payments/:id/refund\<close> the audit entry names the administrator of the token; after
  \<open>POST admin/payments/:id/refund\<close>, which reads the field \<open>id\<close> of a request user that has
  only \<open>userId\<close>, the entry has no actor.
\<close>

theorem admin_refund_unattributed:
  "(paymentController_refundPayment e t i dto w = (Inr r, w') \<longrightarrow>
      (\<exists>l u. sessionUser e t w = Some u \<and> u_role u = ADMIN
        \<and> auditLogs w' = auditLogs w @ [l] \<and> al_action l = AuditAction.PAYMENT_REFUNDED
        \<and> al_entityId l = i \<and> al_actorUserId l = Some (u_id u)))
   \<and> (adminPaymentController_refund e t i dto w = (Inr r, w') \<longrightarrow>
      (\<exists>l u. sessionUser e t w = Some u \<and> u_role u = ADMIN
        \<and> auditLogs w' = auditLogs w @ [l] \<and> al_action l = AuditAction.PAYMENT_REFUNDED
        \<and> al_entityId l = i \<and> al_actorUserId l = None))"
  unfolding paymentController_refundPayment_def adminPaymentController_refund_def
    adminPayment_refund_def currentUser_def
  by (auto elim!: auth_InrD dest!: pipes_InrD refundPayment_audit simp: requestUserOf_def)

definition adminEnv :: env where
  "adminEnv = demoEnv\<lparr>jwtVerify := (\<lambda>k t s. if s = ''tok''
     then Some \<lparr>jp_sub = ''admin'', jp_email = [], jp_role = ADMIN\<rparr> else None)\<rparr>"

definition adminWorld :: world where
  "adminWorld = demoState CONFIRMED SUCCESS
     \<lparr>users := [(demoUser ''admin'')\<lparr>u_role := ADMIN\<rparr>],
      payments := [(demoPayment SUCCESS)\<lparr>pay_gatewayPaymentId := Some ''pay1''\<rparr>]\<rparr>"

theorem admin_refund_unattributed_witness:
  "\<exists>r w' l. adminPaymentController_refund adminEnv (Some ''tok'') ''pay''
      \<lparr>rp_amount = Some 500, rp_reason = None\<rparr> adminWorld = (Inr r, w')
    \<and> auditLogs w' = auditLogs adminWorld @ [l] \<and> al_actorUserId l = None"
proof -
  have "isOk (adminPaymentController_refund adminEnv (Some ''tok'') ''pay''
      \<lparr>rp_amount = Some 500, rp_reason = None\<rparr> adminWorld)"
    by (simp add: adminPaymentController_refund_def adminPayment_refund_def authDecorator_def
        jwtAuthGuard_def jwtStrategy_validate_def roleGuard_def parseUUIDPipe_def validate_def
        validRefundPayment_def optional_def adminEnv_def adminWorld_def user_findById_def
        refundPayment_def refundChecks_def refundTx_def createRefund_eq run_simps demo_defs
        read_defs write_defs payment_booking_def isOk_def cong: andThen_first)
  then show ?thesis using isOk_Inr admin_refund_unattributed by blast
qed

end
