(* ===== verification/ValidationFacts.thy ===== *)
theory ValidationFacts
  imports ApiFacts AvailabilityFacts
begin

text \<open>
  What the checks of the request objects give the services behind them: times that the
  pattern admits are minutes of a day, so the schedule validation decides exactly whether a
  weekly schedule is free of overlaps.
\<close>

section \<open>Times\<close>

lemma digitValue_bounds: "isDigit c \<Longrightarrow> digitValue c \<le> 9"
  unfolding isDigit_def digitValue_def by linarith

lemma digitUpTo_digit: "digitUpTo k c \<Longrightarrow> k \<le> 9 \<Longrightarrow> isDigit c \<and> digitValue c \<le> k"
  by (auto simp: digitUpTo_def isDigit_def digitValue_def Let_def)

lemma jsNumber_digits:
  "isDigit a \<Longrightarrow> jsNumber [a] = Some (int (digitValue a))"
  "isDigit a \<Longrightarrow> isDigit b \<Longrightarrow> jsNumber [a, b] = Some (int (digitValue a * 10 + digitValue b))"
  by (simp_all add: jsNumber_def digitsValue_def)

lemma digit_not_colon: "isDigit c \<Longrightarrow> c \<noteq> CHR '':''"
  by (auto simp: isDigit_def)

lemma isHHmm_minutes:
  assumes "isHHmm s"
  shows "\<exists>m. timeToMinutes s = Some m \<and> 0 \<le> m \<and> m < 1440"
  using assms
proof (cases s rule: isHHmm.cases)
  case (1 h colon m1 m2)
  with assms have d: "isDigit h" "isDigit m1" "isDigit m2" "digitValue m1 \<le> 5" "colon = CHR '':''"
    using digitUpTo_digit [of 5 m1] by auto
  then have "timeToMinutes s = Some (int (digitValue h) * 60 + int (digitValue m1 * 10 + digitValue m2))"
    by (simp add: 1 timeToMinutes_def jsNumber_digits digit_not_colon)
  then show ?thesis using d digitValue_bounds [of h] digitValue_bounds [of m2] by auto
next
  case (2 h1 h2 colon m1 m2)
  have two: "isDigit (CHR ''2'')" "digitValue (CHR ''2'') = 2" by code_simp+
  from 2 assms two have d: "isDigit h1" "isDigit h2" "isDigit m1" "isDigit m2" "digitValue m1 \<le> 5"
      "colon = CHR '':''" and h: "digitValue h1 * 10 + digitValue h2 \<le> 23"
    using digitUpTo_digit [of 5 m1] digitUpTo_digit [of 1 h1] digitUpTo_digit [of 3 h2]
      digitValue_bounds [of h2] by auto
  then have "timeToMinutes s =
      Some (int (digitValue h1 * 10 + digitValue h2) * 60 + int (digitValue m1 * 10 + digitValue m2))"
    by (simp add: 2 timeToMinutes_def jsNumber_digits digit_not_colon)
  then show ?thesis using d h digitValue_bounds [of m2] by auto
qed auto

lemma validInterval_minutes:
  assumes "validInterval i"
  obtains a b where "startsAtMinute i = Some a" "endsAtMinute i = Some b" "0 \<le> a" "b < 1440"
  using assms isHHmm_minutes [of "ai_startTime i"] isHHmm_minutes [of "ai_endTime i"]
  by (auto simp: validInterval_def startsAtMinute_def endsAtMinute_def)

lemma validInterval_wellFormed: "validInterval i \<Longrightarrow> wellFormed i"
  by (elim validInterval_minutes) (simp add: wellFormed_def)

section \<open>The weekly schedule behind the API\<close>

lemma provider_InrD:
  assumes "andThen (providerGuards e t) f w = (Inr r, w')"
  obtains p where "sessionProvider e t w = Some p" "f p w = (Inr r, w')"
  using assms providerGuards_None [of e t w]
  by (cases "sessionProvider e t w") (auto simp: andThen_run providerGuards_Some)

text \<open>Two intervals of one weekday do not overlap.\<close>

definition disjointDays :: "availabilityIntervalDto \<Rightarrow> availabilityIntervalDto \<Rightarrow> bool" where
  "disjointDays a b \<longleftrightarrow> ai_weekday a \<noteq> ai_weekday b \<or> apart a b"

text \<open>An interval inside one day of the week.\<close>

definition intervalOk :: "availabilityIntervalDto \<Rightarrow> bool" where
  "intervalOk i \<longleftrightarrow> 0 \<le> ai_weekday i \<and> ai_weekday i \<le> 6
     \<and> (\<exists>a b. startsAtMinute i = Some a \<and> endsAtMinute i = Some b \<and> 0 \<le> a \<and> a < b \<and> b < 1440)"

text \<open>
  C36. After a successful \<open>PUT me/provider/availability\<close> the rows of the caller's verified
  profile are exactly the intervals of the request, each a proper interval inside a
  weekday, and no two of a weekday overlap, whatever the body contained: a body that does
  not give such a schedule is refused.
\<close>

theorem put_availability_wellformed:
  assumes "availabilityController_setAvailibity e t ss w = (Inr counts, w')"
  shows "\<exists>p. sessionProvider e t w = Some p
    \<and> map intervalOf (filter (\<lambda>a. av_providerId a = pp_id p) (availabilities w')) = ss
    \<and> list_all intervalOk ss \<and> sorted_wrt disjointDays ss"
proof -
  obtain p where p: "sessionProvider e t w = Some p" and valid: "validSetAvailability ss"
    and run: "setAvailibity e (pp_id p) ss w = (Inr counts, w')"
    using assms unfolding availabilityController_setAvailibity_def
    by (auto elim!: provider_InrD dest!: pipes_InrD(1))
  let ?m = "minReqMinutes (providerService_findByProviderId (pp_id p) w)"
  have wf: "\<forall>i \<in> set ss. wellFormed i"
    using valid by (auto simp: validSetAvailability_def list_all_iff validInterval_wellFormed)
  have rows: "map intervalOf (filter (\<lambda>a. av_providerId a = pp_id p) (availabilities w')) = ss"
    and ok: "validateSchedules ss ?m = None"
    using setAvailibity_result [OF run] by simp_all
  have long: "\<forall>i \<in> set ss. longEnough ?m i"
    and sep: "sorted_wrt (\<lambda>a b. ai_weekday a = ai_weekday b \<longrightarrow> apart a b) ss"
    using validateSchedules_iff [OF wf] ok by simp_all
  have "intervalOk i" if i: "i \<in> set ss" for i
  proof -
    have v: "validInterval i" using valid i by (simp add: validSetAvailability_def list_all_iff)
    then obtain a b where "startsAtMinute i = Some a" "endsAtMinute i = Some b" "0 \<le> a" "b < 1440"
      by (rule validInterval_minutes)
    moreover have "the (startsAtMinute i) < the (endsAtMinute i)"
      using long i by (simp add: longEnough_def)
    ultimately show ?thesis
      using v by (simp add: intervalOk_def validInterval_def minNum_def maxNum_def)
  qed
  moreover have "sorted_wrt disjointDays ss"
    using sep by (rule sorted_wrt_mono_rel [rotated]) (auto simp: disjointDays_def)
  ultimately show ?thesis using p rows by (auto simp: list_all_iff)
qed

definition providerEnv :: env where
  "providerEnv = demoEnv\<lparr>jwtVerify := (\<lambda>k t s.
     Some \<lparr>jp_sub = ''provUser'', jp_email = [], jp_role = USER\<rparr>)\<rparr>"

theorem put_availability_wellformed_witness:
  "\<exists>counts w'. availabilityController_setAvailibity providerEnv (Some ''tok'') demoSchedule demoWorld
      = (Inr counts, w')
    \<and> map intervalOf (filter (\<lambda>a. av_providerId a = ''prov'') (availabilities w')) = demoSchedule
    \<and> sorted_wrt disjointDays demoSchedule"
proof -
  have p: "sessionProvider providerEnv (Some ''tok'') demoWorld = Some demoProvider"
    by (simp add: sessionProvider_def sessionUser_def providerEnv_def user_findById_def
        provider_findByUserId_def demo_defs)
  have valid: "validSetAvailability demoSchedule" by code_simp
  have "minReqMinutes (providerService_findByProviderId ''prov'' demoWorld) = Some 75"
    by (simp add: minReqMinutes_def providerService_findByProviderId_def demo_defs)
  then have "isOk (setAvailibity providerEnv ''prov'' demoSchedule demoWorld)"
    by (simp add: setAvailibity_def demoSchedule_valid, simp add: replaceAvailibityTransaction_def
        deleteRows_def drawUuid_def insertRow_def idViolation_def run_simps demoSchedule_def demo_defs
        providerEnv_def incrementSearchVersion_def liveEntry_def isOk_def cong: andThen_first)
  then obtain counts w' where "setAvailibity providerEnv ''prov'' demoSchedule demoWorld = (Inr counts, w')"
    using isOk_Inr by blast
  then have "availabilityController_setAvailibity providerEnv (Some ''tok'') demoSchedule demoWorld
      = (Inr counts, w')"
    using p valid
    by (simp add: availabilityController_setAvailibity_def andThen_run providerGuards_Some validate_def
        check_app demoProvider_def)
  then show ?thesis using put_availability_wellformed p by (fastforce simp: demoProvider_def)
qed

end
