(* ===== verification/Logging.thy ===== *)
theory Logging
  imports Model JsText
begin

text \<open>
  What reaches the logs: the redaction of sensitive values
  (\<open>common/logging/sanitizer.util.ts\<close>) and the structured entry that the logger writes
  (\<open>common/logging/app.logger.ts\<close>). A value that is logged is a \<open>json\<close> value.
\<close>

section \<open>Bearer tokens in texts\<close>

definition isTokenChar :: "char \<Rightarrow> bool" where
  "isTokenChar c \<longleftrightarrow> (let n = (of_char c :: nat) in
     65 \<le> n \<and> n \<le> 90 \<or> 97 \<le> n \<and> n \<le> 122 \<or> 48 \<le> n \<and> n \<le> 57 \<or> n \<in> {45, 95, 61, 46})"

text \<open>
  A match of \<open>/Bearer\s+[A-Za-z0-9-_=.]+/i\<close> at the start of a text, as the text after it.
  White space and token characters are disjoint, so the greedy match is the only one.
\<close>

definition matchBearer :: "string \<Rightarrow> string option" where
  "matchBearer s =
     (let r = drop 6 s; token = dropWhile isSpace r in
      if toLowerCase (take 6 s) = ''bearer'' \<and> takeWhile isSpace r \<noteq> [] \<and> takeWhile isTokenChar token \<noteq> []
      then Some (dropWhile isTokenChar token) else None)"

lemma matchBearer_length: "matchBearer s = Some t \<Longrightarrow> length t < length s"
proof -
  assume m: "matchBearer s = Some t"
  have "length t \<le> length (drop 6 s)"
    using m length_dropWhile_le [of isTokenChar "dropWhile isSpace (drop 6 s)"]
      length_dropWhile_le [of isSpace "drop 6 s"]
    by (auto simp: matchBearer_def Let_def split: if_splits)
  moreover have "s \<noteq> []" using m by (auto simp: matchBearer_def toLowerCase_def)
  ultimately show ?thesis by (cases s) auto
qed

text \<open>\<open>s.replace(BEARER_REGEX, "Bearer [REDACTED]")\<close>, from left to right\<close>

function redactBearer :: "string \<Rightarrow> string" where
  "redactBearer s =
     (case matchBearer s of
        Some rest \<Rightarrow> ''Bearer [REDACTED]'' @ redactBearer rest
      | None \<Rightarrow> (case s of [] \<Rightarrow> [] | c # cs \<Rightarrow> c # redactBearer cs))"
  by auto
termination
  by (relation "measure length") (auto simp: matchBearer_length)

declare redactBearer.simps [simp del]

section \<open>Sensitive fields\<close>

definition SENSITIVE_KEYS :: "string list" where
  "SENSITIVE_KEYS =
     [''password'', ''newpassword'', ''currentpassword'', ''confirmpassword'', ''passwordhash'',
      ''refreshtoken'', ''refreshtokenhash'', ''accesstoken'', ''token'', ''authorization'', ''cookie'',
      ''set-cookie'', ''secret'', ''webhooksecret'', ''keysecret'', ''razorpay_signature'',
      ''razorpaysignature'', ''signature'', ''clientsecret'', ''client_secret'', ''privatekey'',
      ''private_key'', ''apikey'', ''api_key'', ''cardnumber'', ''cvv'', ''cvc'', ''pan'', ''ssn'', ''aadhaar'']"

definition normalizedKey :: "string \<Rightarrow> string" where
  "normalizedKey key = filter (\<lambda>c. c \<noteq> CHR ''-'' \<and> c \<noteq> CHR ''_'') (toLowerCase key)"

definition isSensitive :: "string \<Rightarrow> bool" where
  "isSensitive key \<longleftrightarrow>
     toLowerCase key \<in> set SENSITIVE_KEYS \<or> normalizedKey key \<in> set SENSITIVE_KEYS"

fun sanitizeLogData :: "json \<Rightarrow> nat \<Rightarrow> json" where
  "sanitizeLogData (JStr s) depth = (if depth > 5 then JStr s else JStr (redactBearer s))"
| "sanitizeLogData (JArr xs) depth =
     (if depth > 5 then JArr xs else JArr (map (\<lambda>x. sanitizeLogData x (depth + 1)) xs))"
| "sanitizeLogData (JObj kvs) depth =
     (if depth > 5 then JObj kvs
      else JObj (map (\<lambda>kv. (fst kv,
        if isSensitive (fst kv) then JStr ''[REDACTED]''
        else (case snd kv of
            JStr s \<Rightarrow> JStr (redactBearer s)
          | _ \<Rightarrow> sanitizeLogData (snd kv) (depth + 1)))) kvs))"
| "sanitizeLogData x depth = x"

section \<open>The log entry\<close>

text \<open>\<open>{ ...a, ...b }\<close>: a key of \<open>b\<close> replaces the value of \<open>a\<close> in its place or is added at the end.\<close>

definition setField :: "(string \<times> json) \<Rightarrow> (string \<times> json) list \<Rightarrow> (string \<times> json) list" where
  "setField kv a =
     (if fst kv \<in> fst ` set a then map (\<lambda>x. if fst x = fst kv then kv else x) a else a @ [kv])"

definition spread :: "(string \<times> json) list \<Rightarrow> (string \<times> json) list \<Rightarrow> (string \<times> json) list" where
  "spread a b = fold setField b a"

text \<open>The own fields of an object; an array has its indices as keys.\<close>

fun fieldsOf :: "json \<Rightarrow> (string \<times> json) list" where
  "fieldsOf (JObj kvs) = kvs"
| "fieldsOf (JArr xs) = zip (map natString [0..<length xs]) xs"
| "fieldsOf _ = []"

text \<open>One optional parameter of a log call, read from the last to the first.\<close>

fun logParam :: "json \<Rightarrow> string option \<times> (string \<times> json) list \<Rightarrow> string option \<times> (string \<times> json) list" where
  "logParam (JStr s) (context, meta) =
     (if includesText s [CHR 0x0A] \<or> take 6 s = ''Error:'' then (context, setField (''stack'', JStr s) meta)
      else if truthy context = None then (Some s, meta) else (context, meta))"
| "logParam (JObj kvs) (context, meta) = (context, spread meta (fieldsOf (sanitizeLogData (JObj kvs) 0)))"
| "logParam (JArr xs) (context, meta) = (context, spread meta (fieldsOf (sanitizeLogData (JArr xs) 0)))"
| "logParam _ acc = acc"

definition isObject :: "json \<Rightarrow> bool" where
  "isObject j = (case j of JObj _ \<Rightarrow> True | JArr _ \<Rightarrow> True | _ \<Rightarrow> False)"

text \<open>\<open>sanitized.message || JSON.stringify(sanitized)\<close>\<close>

definition falsy :: "json \<Rightarrow> bool" where
  "falsy j = (case j of JNull \<Rightarrow> True | JBool b \<Rightarrow> \<not> b | JNum n \<Rightarrow> n = 0 | JStr s \<Rightarrow> s = [] | _ \<Rightarrow> False)"

definition entryMessage :: "(json \<Rightarrow> string) \<Rightarrow> json \<Rightarrow> json" where
  "entryMessage stringify sanitized =
     (case map_of (fieldsOf sanitized) ''message'' of
        Some m \<Rightarrow> if falsy m then JStr (stringify sanitized) else m
      | None \<Rightarrow> JStr (stringify sanitized))"

text \<open>The fields of an entry; \<open>stringify\<close> is \<open>JSON.stringify\<close>, \<open>now\<close> the time stamp.\<close>

definition formatStructured ::
  "(json \<Rightarrow> string) \<Rightarrow> string \<Rightarrow> string option \<Rightarrow> string option \<Rightarrow> string option \<Rightarrow> string \<Rightarrow> json \<Rightarrow>
   json list \<Rightarrow> (string \<times> json) list" where
  "formatStructured stringify now loggerContext requestId userId level message optionalParams =
     (let (context, meta) = foldr logParam optionalParams (loggerContext, []);
          sanitized = sanitizeLogData message 0;
          meta2 = (if isObject message then spread meta (fieldsOf sanitized) else meta);
          msg = (if isObject message then entryMessage stringify sanitized else sanitized)
      in spread
           ([(''level'', JStr level), (''message'', msg)]
            @ (case truthy requestId of None \<Rightarrow> [] | Some i \<Rightarrow> [(''requestId'', JStr i)])
            @ (case truthy userId of None \<Rightarrow> [] | Some u \<Rightarrow> [(''userId'', JStr u)])
            @ [(''context'', JStr (orElse context ''Application''))])
           (spread meta2 [(''timestamp'', JStr now)]))"

section \<open>No bearer token survives\<close>

fun noBearer :: "string \<Rightarrow> bool" where
  "noBearer [] = True"
| "noBearer (c # cs) \<longleftrightarrow> matchBearer (c # cs) = None \<and> noBearer cs"

lemma redact_None: "matchBearer (c # cs) = None \<Longrightarrow> redactBearer (c # cs) = c # redactBearer cs"
  by (simp add: redactBearer.simps [of "c # cs"])

lemma redact_Some: "matchBearer s = Some t \<Longrightarrow> redactBearer s = ''Bearer [REDACTED]'' @ redactBearer t"
  by (simp add: redactBearer.simps [of s])

lemma redact_Nil [simp]: "redactBearer [] = []"
  by (simp add: redactBearer.simps [of "[]"] matchBearer_def toLowerCase_def)

lemma matchBearer_head: "matchBearer s = Some t \<Longrightarrow> \<exists>c cs. s = c # cs \<and> toLowerChar c = CHR ''b''"
  by (cases s) (auto simp: matchBearer_def toLowerCase_def Let_def split: if_splits)

lemma toLowerChar_B: "toLowerChar (CHR ''B'') = CHR ''b''"
  by code_simp

text \<open>A text whose redaction does not start with a \<open>b\<close> is not a match at its start.\<close>

lemma redact_keeps:
  assumes "redactBearer s = c # t" and "toLowerChar c \<noteq> CHR ''b''"
  shows "\<exists>cs. s = c # cs \<and> t = redactBearer cs"
proof (cases "matchBearer s")
  case None
  with assms show ?thesis by (cases s) (auto simp: redact_None)
next
  case (Some u)
  then have "c = CHR ''B''" using assms(1) by (simp add: redact_Some)
  then show ?thesis using assms(2) toLowerChar_B by simp
qed

lemma redact_prefix:
  assumes "list_all (\<lambda>c. toLowerChar c \<noteq> CHR ''b'') p" and "redactBearer s = p @ t"
  shows "\<exists>u. s = p @ u \<and> t = redactBearer u"
  using assms
proof (induction p arbitrary: s)
  case (Cons c p)
  then obtain cs where "s = c # cs" "p @ t = redactBearer cs"
    using redact_keeps [of s c "p @ t"] by auto
  moreover obtain u where "cs = p @ u" "t = redactBearer u"
    using Cons.IH [of cs] Cons.prems(1) calculation(2) by auto
  ultimately show ?case by simp
qed simp

lemma redact_starts_token:
  "redactBearer s = c # t \<Longrightarrow> isTokenChar c \<Longrightarrow> \<exists>d cs. s = d # cs \<and> isTokenChar d"
proof (cases "matchBearer s")
  case (Some u)
  then obtain d cs where d: "s = d # cs" "toLowerChar d = CHR ''b''" using matchBearer_head by blast
  then have "(of_char d :: nat) = 98 \<or> (of_char d :: nat) = 66"
    by (auto simp: toLowerChar_def Let_def split: if_splits dest: arg_cong [where f = "of_char :: char \<Rightarrow> nat"])
  with d show ?thesis by (auto simp: isTokenChar_def Let_def)
qed (cases s; auto simp: redact_None)

lemma token_not_space: "isTokenChar c \<Longrightarrow> \<not> isSpace c"
  by (auto simp: isTokenChar_def isSpace_def Let_def)

lemma space_not_b: "isSpace c \<Longrightarrow> toLowerChar c \<noteq> CHR ''b''"
  by (auto simp: isSpace_def toLowerChar_def Let_def dest: arg_cong [where f = "of_char :: char \<Rightarrow> nat"])

lemma match_redact:
  assumes "matchBearer (c # redactBearer cs) \<noteq> None"
  shows "matchBearer (c # cs) \<noteq> None"
proof -
  define r where "r = redactBearer cs"
  let ?p = "take 5 r" and ?q = "takeWhile isSpace (drop 5 r)"
  have low: "toLowerChar c = CHR ''b''" "map toLowerChar ?p = ''earer''" and sp: "?q \<noteq> []"
    and tok: "takeWhile isTokenChar (dropWhile isSpace (drop 5 r)) \<noteq> []"
    using assms by (auto simp: matchBearer_def toLowerCase_def r_def Let_def split: if_splits)
  have p: "list_all (\<lambda>c. toLowerChar c \<noteq> CHR ''b'') ?p"
  proof (rule list_all_iff [THEN iffD2], intro ballI)
    fix x assume "x \<in> set ?p"
    then have "toLowerChar x \<in> set ''earer''" by (metis imageI low(2) set_map)
    then show "toLowerChar x \<noteq> CHR ''b''" by auto
  qed
  obtain u where u: "cs = ?p @ u" "drop 5 r = redactBearer u"
    using redact_prefix [OF p, of cs "drop 5 r"] by (auto simp: r_def)
  have "list_all (\<lambda>c. toLowerChar c \<noteq> CHR ''b'') ?q"
    by (auto simp: list_all_iff space_not_b dest: set_takeWhileD)
  then obtain v where v: "u = ?q @ v" "dropWhile isSpace (drop 5 r) = redactBearer v"
    using redact_prefix [of ?q u "dropWhile isSpace (drop 5 r)"] u(2) [symmetric]
      takeWhile_dropWhile_id [of isSpace "drop 5 r"] by metis
  obtain d t where "redactBearer v = d # t" "isTokenChar d"
    using tok v(2) by (cases "redactBearer v") (auto split: if_splits)
  then obtain d' t' where d: "v = d' # t'" "isTokenChar d'" using redact_starts_token by blast
  have spaces: "\<forall>x \<in> set ?q. isSpace x" by (auto dest: set_takeWhileD)
  have "length ?p = 5" using arg_cong [OF low(2), of length] by simp
  then have cut: "take 6 (c # cs) = c # ?p" "drop 6 (c # cs) = ?q @ v"
    using u(1) v(1) by simp_all
  have "takeWhile isSpace (?q @ v) = ?q" "dropWhile isSpace (?q @ v) = v"
    using spaces d token_not_space by (simp_all add: takeWhile_append2 dropWhile_append2)
  then show ?thesis
    using cut low sp d by (simp add: matchBearer_def toLowerCase_def Let_def)
qed

lemma noBearer_redacted: "noBearer s \<Longrightarrow> noBearer (''Bearer [REDACTED]'' @ s)"
  by (simp add: matchBearer_def toLowerCase_def toLowerChar_def Let_def isSpace_def isTokenChar_def)

lemma noBearer_redact: "noBearer (redactBearer s)"
proof (induction s rule: redactBearer.induct)
  case (1 s)
  show ?case
  proof (cases "matchBearer s")
    case (Some t)
    then show ?thesis using 1(2) [OF Some] noBearer_redacted redact_Some by metis
  next
    case None
    show ?thesis
    proof (cases s)
      case (Cons c cs)
      then have "matchBearer (c # redactBearer cs) = None" using None match_redact by blast
      then show ?thesis using 1(1) [OF None Cons] None Cons by (simp add: redact_None)
    qed simp
  qed
qed

lemma redact_id: "noBearer s \<Longrightarrow> redactBearer s = s"
  by (induction s) (auto simp: redact_None)

lemma redact_idem [simp]: "redactBearer (redactBearer s) = redactBearer s"
  by (rule redact_id [OF noBearer_redact])

section \<open>Sanitised values\<close>

text \<open>
  A value whose first levels, counted from \<open>depth\<close> to 5, show no bearer token and no
  value of a sensitive field.
\<close>

fun logSafe :: "json \<Rightarrow> nat \<Rightarrow> bool" where
  "logSafe (JStr s) depth \<longleftrightarrow> depth > 5 \<or> noBearer s"
| "logSafe (JArr xs) depth \<longleftrightarrow> depth > 5 \<or> (\<forall>x \<in> set xs. logSafe x (depth + 1))"
| "logSafe (JObj kvs) depth \<longleftrightarrow> depth > 5 \<or>
     (\<forall>kv \<in> set kvs. if isSensitive (fst kv) then snd kv = JStr ''[REDACTED]''
        else (case snd kv of JStr s \<Rightarrow> noBearer s | _ \<Rightarrow> logSafe (snd kv) (depth + 1)))"
| "logSafe x depth \<longleftrightarrow> True"

text \<open>What the sanitiser makes of the value of a field that is not sensitive.\<close>

definition fieldValue :: "nat \<Rightarrow> json \<Rightarrow> json" where
  "fieldValue d v = (case v of JStr s \<Rightarrow> JStr (redactBearer s) | _ \<Rightarrow> sanitizeLogData v (d + 1))"

lemma sanitize_object:
  "\<not> d > 5 \<Longrightarrow> sanitizeLogData (JObj kvs) d =
     JObj (map (\<lambda>kv. (fst kv, if isSensitive (fst kv) then JStr ''[REDACTED]'' else fieldValue d (snd kv))) kvs)"
  by (simp add: fieldValue_def)

definition safeField :: "nat \<Rightarrow> json \<Rightarrow> bool" where
  "safeField d v = (case v of JStr s \<Rightarrow> noBearer s | _ \<Rightarrow> logSafe v (d + 1))"

lemma logSafe_object:
  "\<not> d > 5 \<Longrightarrow> logSafe (JObj kvs) d \<longleftrightarrow>
     (\<forall>kv \<in> set kvs. if isSensitive (fst kv) then snd kv = JStr ''[REDACTED]'' else safeField d (snd kv))"
  by (simp add: safeField_def)

lemma sanitize_no_text: "(\<And>s. v \<noteq> JStr s) \<Longrightarrow> sanitizeLogData v d \<noteq> JStr s"
  by (cases v) auto

lemma fieldValue_no_text: "(\<And>s. v \<noteq> JStr s) \<Longrightarrow> fieldValue d v = sanitizeLogData v (d + 1)"
  by (cases v) (auto simp: fieldValue_def)

lemma fieldValue_safe:
  assumes "logSafe (sanitizeLogData v (d + 1)) (d + 1)"
  shows "safeField d (fieldValue d v)"
proof (cases "\<exists>s. v = JStr s")
  case True
  then show ?thesis by (auto simp: fieldValue_def safeField_def noBearer_redact)
next
  case False
  then have "fieldValue d v = sanitizeLogData v (d + 1)" by (simp add: fieldValue_no_text)
  moreover have "\<And>s. sanitizeLogData v (d + 1) \<noteq> JStr s"
    using False by (intro sanitize_no_text) auto
  ultimately show ?thesis
    using assms by (cases "sanitizeLogData v (d + 1)") (simp_all add: safeField_def)
qed

lemma sanitize_safe: "logSafe (sanitizeLogData j d) d"
proof (induction j arbitrary: d)
  case (JObj kvs)
  have "safeField d (fieldValue d (snd kv))" if "kv \<in> set kvs" for kv
    using that by (intro fieldValue_safe JObj.IH [of kv "snd kv"]) (auto simp: snds.simps)
  then show ?case
    by (cases "d > 5") (auto simp: sanitize_object logSafe_object
        simp del: sanitizeLogData.simps(3) logSafe.simps(3), simp)
qed (auto simp: noBearer_redact)

lemma fieldValue_idem:
  assumes "sanitizeLogData (sanitizeLogData v (d + 1)) (d + 1) = sanitizeLogData v (d + 1)"
  shows "fieldValue d (fieldValue d v) = fieldValue d v"
proof (cases "\<exists>s. v = JStr s")
  case False
  then show ?thesis using assms sanitize_no_text [of v] by (simp add: fieldValue_no_text)
qed (auto simp: fieldValue_def)

lemma sanitize_idem: "sanitizeLogData (sanitizeLogData j d) d = sanitizeLogData j d"
proof (induction j arbitrary: d)
  case (JObj kvs)
  have "fieldValue d (fieldValue d (snd kv)) = fieldValue d (snd kv)" if "kv \<in> set kvs" for kv
    using that by (intro fieldValue_idem JObj.IH [of kv "snd kv"]) (auto simp: snds.simps)
  then show ?case
    by (cases "d > 5") (simp, auto simp: sanitize_object simp del: sanitizeLogData.simps(3))
qed auto

text \<open>An object nested deeper than the sanitiser looks is logged as it is.\<close>

primrec nested :: "nat \<Rightarrow> json \<Rightarrow> json" where
  "nested 0 j = j"
| "nested (Suc n) j = JObj [(''data'', nested n j)]"

lemma sanitize_deep: "d > 5 \<Longrightarrow> sanitizeLogData j d = j"
  by (cases j) simp_all

lemma data_not_sensitive: "\<not> isSensitive ''data''"
  by code_simp

lemma deep_object_logged: "sanitizeLogData (nested 6 (JObj kvs)) 0 = nested 6 (JObj kvs)"
  by (simp add: eval_nat_numeral data_not_sensitive)

section \<open>Sanitised entries\<close>

text \<open>
  A field of an entry that shows nothing sensitive: it is redacted when its name is sensitive,
  and otherwise its value has no bearer token and no sensitive field down to depth 5.
\<close>

definition fieldSafe :: "string \<times> json \<Rightarrow> bool" where
  "fieldSafe kv \<longleftrightarrow> (if isSensitive (fst kv) then snd kv = JStr ''[REDACTED]'' else safeField 0 (snd kv))"

text \<open>
  The fields the logger writes as they are: level, time stamp, the identifiers of the request
  context, the context and the stack (texts among the parameters), and the text of an object
  without a message.
\<close>

definition asGiven ::
  "(json \<Rightarrow> string) \<Rightarrow> string \<Rightarrow> string option \<Rightarrow> string option \<Rightarrow> string option \<Rightarrow> string \<Rightarrow> json \<Rightarrow>
   json list \<Rightarrow> string \<times> json \<Rightarrow> bool" where
  "asGiven stringify now loggerContext requestId userId level message params kv \<longleftrightarrow>
     kv \<in> {(''level'', JStr level), (''timestamp'', JStr now), (''context'', JStr ''Application''),
       (''message'', JStr (stringify (sanitizeLogData message 0)))}
     \<or> (\<exists>i. requestId = Some i \<and> kv = (''requestId'', JStr i))
     \<or> (\<exists>u. userId = Some u \<and> kv = (''userId'', JStr u))
     \<or> (\<exists>c. loggerContext = Some c \<and> kv = (''context'', JStr c))
     \<or> (\<exists>t. JStr t \<in> set params \<and> kv \<in> {(''context'', JStr t), (''stack'', JStr t)})"

lemma setField_all: "list_all P a \<Longrightarrow> P kv \<Longrightarrow> list_all P (setField kv a)"
  by (auto simp: setField_def list_all_iff)

lemma spread_all: "list_all P a \<Longrightarrow> list_all P b \<Longrightarrow> list_all P (spread a b)"
  unfolding spread_def by (induction b arbitrary: a) (auto intro: setField_all)

text \<open>Array indices are never sensitive.\<close>

lemma sensitive_letters: "k \<in> set SENSITIVE_KEYS \<Longrightarrow> \<exists>c \<in> set k. \<not> isDigit c"
  by (auto simp: SENSITIVE_KEYS_def isDigit_def)

lemma digits_lower: "list_all isDigit s \<Longrightarrow> toLowerCase s = s"
  by (induction s) (auto simp: toLowerCase_def toLowerChar_def isDigit_def Let_def)

lemma digits_normalized: "list_all isDigit s \<Longrightarrow> normalizedKey s = s"
  by (auto simp: normalizedKey_def digits_lower list_all_iff isDigit_def intro!: filter_True)

lemma index_not_sensitive: "\<not> isSensitive (natString n)"
proof -
  have d: "list_all isDigit (natString n)" by (rule list_all_natString)
  then have "natString n \<notin> set SENSITIVE_KEYS"
    using sensitive_letters by (auto simp: list_all_iff)
  then show ?thesis using d by (simp add: isSensitive_def digits_lower digits_normalized)
qed

lemma safeField_logSafe: "logSafe v 1 \<Longrightarrow> safeField 0 v"
  by (cases v) (simp_all add: safeField_def)

lemma sanitized_fields: "list_all fieldSafe (fieldsOf (sanitizeLogData j 0))"
proof (cases j)
  case (JArr xs)
  have safe: "safeField 0 (sanitizeLogData x (Suc 0))" for x
    using safeField_logSafe [OF sanitize_safe] by simp
  have "fieldSafe kv" if "kv \<in> set (fieldsOf (sanitizeLogData j 0))" for kv
  proof -
    obtain k v where kv: "kv = (k, v)" by (cases kv)
    with that have "(k, v) \<in> set (zip (map natString [0..<length xs]) (map (\<lambda>x. sanitizeLogData x (Suc 0)) xs))"
      by (simp add: JArr)
    from set_zip_leftD [OF this] set_zip_rightD [OF this]
    obtain n x where "kv = (natString n, sanitizeLogData x (Suc 0))" using kv by auto
    then show ?thesis by (simp add: fieldSafe_def index_not_sensitive safe)
  qed
  then show ?thesis by (simp add: list_all_iff)
next
  case (JObj kvs)
  have "logSafe (sanitizeLogData (JObj kvs) 0) 0" by (rule sanitize_safe)
  then show ?thesis
    by (simp add: JObj list_all_iff fieldSafe_def sanitize_object logSafe_object
        del: sanitizeLogData.simps(3) logSafe.simps(3))
qed simp_all

text \<open>What the parameters contribute: safe fields, a stack, and the context.\<close>

lemma logParams_safe:
  assumes "foldr logParam ps (loggerContext, []) = (ctx, meta)"
  shows "list_all (\<lambda>kv. fieldSafe kv \<or> (\<exists>t. JStr t \<in> set ps \<and> kv = (''stack'', JStr t))) meta
    \<and> (ctx = loggerContext \<or> (\<exists>t. JStr t \<in> set ps \<and> ctx = Some t))"
  using assms
proof (induction ps arbitrary: ctx meta)
  case (Cons p ps)
  obtain c m where cm: "foldr logParam ps (loggerContext, []) = (c, m)" by fastforce
  let ?P = "\<lambda>kv. fieldSafe kv \<or> (\<exists>t. JStr t \<in> set (p # ps) \<and> kv = (''stack'', JStr t))"
  have m: "list_all ?P m" and c: "c = loggerContext \<or> (\<exists>t. JStr t \<in> set (p # ps) \<and> c = Some t)"
    using Cons.IH [OF cm] by (auto simp: list_all_iff)
  have fields: "list_all ?P (fieldsOf (sanitizeLogData j 0))" for j
    using sanitized_fields [of j] by (auto simp: list_all_iff)
  have step: "logParam p (c, m) = (ctx, meta)" using Cons.prems cm by simp
  show ?case
  proof (cases p)
    case (JStr s)
    with step m c show ?thesis by (auto intro: setField_all split: if_splits)
  next
    case (JArr xs)
    then have "meta = spread m (fieldsOf (sanitizeLogData (JArr xs) 0))" "ctx = c" using step by simp_all
    with spread_all [OF m fields] c show ?thesis by blast
  next
    case (JObj kvs)
    then have "meta = spread m (fieldsOf (sanitizeLogData (JObj kvs) 0))" "ctx = c" using step by simp_all
    with spread_all [OF m fields] c show ?thesis by blast
  qed (use step m c in auto)
qed simp

lemma message_safe: "fieldSafe (''message'', sanitizeLogData j 0)" if "\<not> isObject j"
proof -
  have "\<not> isSensitive ''message''" by code_simp
  then show ?thesis
    using that by (cases j) (auto simp: fieldSafe_def safeField_def isObject_def noBearer_redact)
qed

lemma entryMessage_safe:
  "fieldSafe (''message'', entryMessage stringify (sanitizeLogData j 0))
   \<or> entryMessage stringify (sanitizeLogData j 0) = JStr (stringify (sanitizeLogData j 0))"
  using sanitized_fields [of j]
  by (auto simp: entryMessage_def list_all_iff dest: map_of_SomeD split: option.split)

text \<open>One rule for each of the fields that are written as they are.\<close>

lemma asGiven_intros:
  "asGiven f now ctx rid uid level message params (''level'', JStr level)"
  "asGiven f now ctx rid uid level message params (''timestamp'', JStr now)"
  "asGiven f now ctx rid uid level message params (''context'', JStr ''Application'')"
  "asGiven f now ctx rid uid level message params (''message'', JStr (f (sanitizeLogData message 0)))"
  "rid = Some i \<Longrightarrow> asGiven f now ctx rid uid level message params (''requestId'', JStr i)"
  "uid = Some i \<Longrightarrow> asGiven f now ctx rid uid level message params (''userId'', JStr i)"
  "ctx = Some t \<Longrightarrow> asGiven f now ctx rid uid level message params (''context'', JStr t)"
  "JStr t \<in> set params \<Longrightarrow> asGiven f now ctx rid uid level message params (''context'', JStr t)"
  "JStr t \<in> set params \<Longrightarrow> asGiven f now ctx rid uid level message params (''stack'', JStr t)"
  unfolding asGiven_def by simp_all


text \<open>A stack trace is written as it is, bearer tokens included.\<close>

lemma stack_as_given:
  assumes "includesText t [CHR 0x0A]"
  shows "(''stack'', JStr t) \<in> set (formatStructured stringify now context requestId userId level (JStr m) [JStr t])"
proof -
  have keep: "kv \<in> set a \<Longrightarrow> fst kv \<noteq> fst x \<Longrightarrow> kv \<in> set (setField x a)" for kv x a
    by (auto simp: setField_def)
  have new: "x \<in> set (setField x a)" for x a by (force simp: setField_def)
  show ?thesis
    using assms by (auto simp: formatStructured_def isObject_def spread_def intro!: keep new)
      (auto simp: setField_def)
qed

end
