(* ===== verification/Learning.thy ===== *)
theory Learning
  imports Prelude
begin

text \<open>
  A calculus for invariants that a write alone cannot establish, because it relies on what
  the operation has found out before. \<open>known s\<close> are facts that later writes never undo, \<open>ok\<close>
  is the invariant, and \<open>knows known ok K s\<close> says that the invariant holds and that the
  facts in \<open>K\<close> are known. A step that succeeds may teach a fact: a query by finding a
  row, an insert by adding one, a check by not throwing.
\<close>

section \<open>Knowing and learning\<close>

definition knows :: "('s \<Rightarrow> 'k set) \<Rightarrow> ('s \<Rightarrow> bool) \<Rightarrow> 'k set \<Rightarrow> 's \<Rightarrow> bool" where
  "knows known ok K s \<longleftrightarrow> K \<subseteq> known s \<and> ok s"

definition learns ::
  "('s \<Rightarrow> 'k set) \<Rightarrow> ('s \<Rightarrow> bool) \<Rightarrow> 'k set \<Rightarrow> ('e, 's, 'a) prog \<Rightarrow> ('a \<Rightarrow> 'k set) \<Rightarrow> bool" where
  "learns known ok K m L \<longleftrightarrow>
     (\<forall>s a t. knows known ok K s \<longrightarrow> m s = (Inr a, t) \<longrightarrow> L a \<subseteq> known t)"

text \<open>What an optional row teaches.\<close>

definition found :: "('r \<Rightarrow> 'k set) \<Rightarrow> 'r option \<Rightarrow> 'k set" where
  "found facts x = (case x of None \<Rightarrow> {} | Some r \<Rightarrow> facts r)"

lemma found_simps [simp]: "found facts None = {}" "found facts (Some r) = facts r"
  by (simp_all add: found_def)

lemma knows_Un: "knows known ok (K \<union> L) s \<longleftrightarrow> knows known ok K s \<and> L \<subseteq> known s"
  by (auto simp: knows_def)

lemma learnsI:
  "(\<And>s a t. knows known ok K s \<Longrightarrow> m s = (Inr a, t) \<Longrightarrow> L a \<subseteq> known t) \<Longrightarrow> learns known ok K m L"
  by (auto simp: learns_def)

section \<open>Composition\<close>

lemma learn:
  assumes m: "keeps (knows known ok K) m" and L: "learns known ok K m L"
    and f: "\<And>a. keeps (knows known ok (K \<union> L a)) (f a)"
  shows "keeps (knows known ok K) (andThen m f)"
proof (rule stepsI, rule impI)
  fix s
  assume s: "knows known ok K s"
  obtain r t where t: "m s = (r, t)" by (cases "m s")
  with s have kt: "knows known ok K t" using stepsD [OF m t] by simp
  show "knows known ok K (snd (andThen m f s))"
  proof (cases r)
    case (Inl x)
    with t kt show ?thesis by (simp add: prog_simps)
  next
    case (Inr a)
    with t s L have "L a \<subseteq> known t" by (auto simp: learns_def)
    with kt have "knows known ok (K \<union> L a) (snd (f a t))"
      using steps_snd [OF f [of a], of t] by (simp add: knows_Un)
    with t Inr show ?thesis by (simp add: prog_simps knows_Un)
  qed
qed

lemma learns_found:
  assumes "\<And>s r. knows known ok K s \<Longrightarrow> g s = Some r \<Longrightarrow> facts r \<subseteq> known s"
  shows "learns known ok K (reads g) (found facts)"
  using assms by (auto simp: learns_def prog_simps found_def split: option.splits)

lemma learn_found:
  fixes f :: "'r option \<Rightarrow> ('e, 's, 'a) prog"
  assumes "learns known ok K (reads g :: ('e, 's, 'r option) prog) (found facts)"
    and "keeps (knows known ok K) (f None)" and "\<And>r. keeps (knows known ok (K \<union> facts r)) (f (Some r))"
  shows "keeps (knows known ok K) (andThen (reads g) f)"
proof (rule learn [OF inv.reads assms(1)])
  fix x
  show "keeps (knows known ok (K \<union> found facts x)) (f x)" using assms(2,3) by (cases x) auto
qed

lemma learn_case:
  fixes f :: "'r \<Rightarrow> ('e, 's, 'a) prog"
  assumes "learns known ok K (reads g :: ('e, 's, 'r option) prog) (found facts)"
    and "keeps (knows known ok K) m" and "\<And>r. keeps (knows known ok (K \<union> facts r)) (f r)"
  shows "keeps (knows known ok K) (andThen (reads g) (\<lambda>x. case x of None \<Rightarrow> m | Some r \<Rightarrow> f r))"
  using assms by (intro learn_found) auto

lemma check_learn: "(b \<Longrightarrow> keeps I (f ())) \<Longrightarrow> keeps I (andThen (check b x) f)"
  by (cases b) (auto simp: steps_def prog_simps)

section \<open>Transactions that break an invariant on the way\<close>

text \<open>
  \<open>ends I m J\<close>: from a state in \<open>I\<close>, a run that succeeds ends in \<open>J\<close>. A transaction discards
  the states of a run that fails.
\<close>

definition ends :: "('s \<Rightarrow> bool) \<Rightarrow> ('e, 's, 'a) prog \<Rightarrow> ('s \<Rightarrow> bool) \<Rightarrow> bool" where
  "ends I m J \<longleftrightarrow> (\<forall>s a t. I s \<longrightarrow> m s = (Inr a, t) \<longrightarrow> J t)"

lemma ends_keeps: "keeps I m \<Longrightarrow> ends I m I"
  unfolding ends_def steps_def by (metis snd_conv)

lemma ends_andThen: "ends I m J \<Longrightarrow> (\<And>a. ends J (f a) L) \<Longrightarrow> ends I (andThen m f) L"
  unfolding ends_def by (blast elim: andThen_InrD)

lemma ends_if: "(b \<Longrightarrow> ends I m J) \<Longrightarrow> (\<not> b \<Longrightarrow> ends I n J) \<Longrightarrow> ends I (if b then m else n) J"
  by simp

lemma ends_conseq: "ends I m J \<Longrightarrow> (\<And>s. I' s \<Longrightarrow> I s) \<Longrightarrow> (\<And>s. J s \<Longrightarrow> J' s) \<Longrightarrow> ends I' m J'"
  unfolding ends_def by blast

lemma ends_learn:
  "keeps (knows known ok K) m \<Longrightarrow> learns known ok K m (\<lambda>_. L) \<Longrightarrow>
     ends (knows known ok K) m (knows known ok (K \<union> L))"
  unfolding ends_def learns_def steps_def knows_Un by (metis snd_conv)

lemma keeps_transaction: "ends I m I \<Longrightarrow> keeps I (transaction m)"
  unfolding ends_def steps_def by (auto simp: prog_simps split: prod.split sum.split)

end
