(* ===== verification/References.thy ===== *)
theory References
  imports System Learning
begin

text \<open>
  The foreign keys of \<open>prisma/schema.prisma\<close>. The tables of the model do not check them,
  because no operation can violate them: every row that is inserted refers to rows that
  the operation found, inserted or was given, and no row that can be referred to is ever
  deleted. This theory states the keys (\<open>references\<close>, \<open>stored\<close>) and what the
  statements do to them; \<open>fk K\<close> says that all keys hold and that the rows in \<open>K\<close> exist.
\<close>

section \<open>Rows that can be referred to\<close>

datatype reference =
    UserRef uuid
  | ProviderRef uuid
  | CategoryRef uuid
  | ServiceRef uuid
  | OfferingRef uuid
  | BookingRef uuid

definition stored :: "world \<Rightarrow> reference set" where
  "stored w =
     UserRef ` u_id ` set (users w) \<union> ProviderRef ` pp_id ` set (providerProfiles w)
     \<union> CategoryRef ` cat_id ` set (categories w) \<union> ServiceRef ` sv_id ` set (services w)
     \<union> OfferingRef ` ps_id ` set (providerServices w) \<union> BookingRef ` b_id ` set (bookings w)"

section \<open>The foreign keys of each table\<close>

definition profileRefs :: "providerProfile \<Rightarrow> reference set" where
  "profileRefs p = {UserRef (pp_userId p)}"

definition offeringRefs :: "providerService \<Rightarrow> reference set" where
  "offeringRefs s = {ProviderRef (ps_providerId s), ServiceRef (ps_serviceId s)}"

definition bookingRefs :: "booking \<Rightarrow> reference set" where
  "bookingRefs b =
     {UserRef (b_customerId b), ProviderRef (b_providerId b), OfferingRef (b_providerServiceId b)}"

definition reviewRefs :: "review \<Rightarrow> reference set" where
  "reviewRefs r = {BookingRef (rv_bookingId r), UserRef (rv_customerId r), ProviderRef (rv_providerId r)}"

definition notificationRefs :: "notification \<Rightarrow> reference set" where
  "notificationRefs n = insert (UserRef (n_userId n)) (BookingRef ` set_option (n_bookingId n))"

definition auditRefs :: "auditLog \<Rightarrow> reference set" where
  "auditRefs l = UserRef ` set_option (al_actorUserId l)"

text \<open>Not a key of the schema, but needed for it: the rows a queued notification names.\<close>

definition payloadRefs :: "notificationPayload \<Rightarrow> reference set" where
  "payloadRefs d = insert (UserRef (np_userId d)) (BookingRef ` set_option (np_bookingId d))"

lemmas row_refs = profileRefs_def offeringRefs_def bookingRefs_def reviewRefs_def
  notificationRefs_def auditRefs_def payloadRefs_def

definition references :: "world \<Rightarrow> reference set" where
  "references w =
     \<Union> (profileRefs ` set (providerProfiles w))
     \<union> ProviderRef ` pl_providerId ` set (providerLocations w)
     \<union> ProviderRef ` pd_providerId ` set (providerDocuments w)
     \<union> CategoryRef ` sv_categoryId ` set (services w)
     \<union> \<Union> (offeringRefs ` set (providerServices w))
     \<union> ProviderRef ` av_providerId ` set (availabilities w)
     \<union> \<Union> (bookingRefs ` set (bookings w))
     \<union> BookingRef ` pay_bookingId ` set (payments w)
     \<union> \<Union> (reviewRefs ` set (reviews w))
     \<union> \<Union> (notificationRefs ` set (notifications w))
     \<union> \<Union> (auditRefs ` set (auditLogs w))
     \<union> \<Union> ((\<lambda>j. payloadRefs (nj_data j)) ` set (notificationQueue w))"

definition foreignKeysHold :: "world \<Rightarrow> bool" where
  "foreignKeysHold w \<longleftrightarrow> references w \<subseteq> stored w"

abbreviation fk :: "reference set \<Rightarrow> world \<Rightarrow> bool" where
  "fk \<equiv> knows stored foreignKeysHold"

section \<open>Writes\<close>

lemma fk_step:
  assumes "fk K w" and "stored w \<subseteq> stored w'" and "references w' \<subseteq> references w \<union> K"
  shows "fk K w'"
  using assms unfolding knows_def foreignKeysHold_def by blast

lemma mapRows_image [simp]: "(\<And>r. g (f r) = g r) \<Longrightarrow> g ` set (mapRows p f t) = g ` set t"
  using map_mapRows [of g f p t] by (metis list.set_map)

lemma mapRows_refs: "(\<And>r. g (f r) = g r) \<Longrightarrow> (\<Union>r \<in> set (mapRows p f t). g r) = (\<Union>r \<in> set t. g r)"
  by (force simp: set_mapRows)

lemmas key_defs = stored_def references_def

lemma fk_drawn [simp]: "fk K (drawn_update f w) = fk K w"
  by (simp add: knows_def foreignKeysHold_def key_defs)

lemma fk_other [simp]:
  "fk K (redis_update f w) = fk K w" "fk K (outbox_update fo w) = fk K w"
  "fk K (disk_update fd w) = fk K w" "fk K (webhookEvents_update fe w) = fk K w"
  "fk K (bookingQueue_update fq w) = fk K w"
  by (simp_all add: knows_def foreignKeysHold_def key_defs)

text \<open>Inserting a row whose references are known.\<close>

lemma fk_insert:
  "fk K w \<Longrightarrow> fk K (users_update (\<lambda>t. t @ [u]) w)"
  "fk K w \<Longrightarrow> profileRefs p \<subseteq> K \<Longrightarrow> fk K (providerProfiles_update (\<lambda>t. t @ [p]) w)"
  "fk K w \<Longrightarrow> ProviderRef (pl_providerId l) \<in> K \<Longrightarrow> fk K (providerLocations_update (\<lambda>t. t @ [l]) w)"
  "fk K w \<Longrightarrow> ProviderRef (pd_providerId d) \<in> K \<Longrightarrow> fk K (providerDocuments_update (\<lambda>t. t @ [d]) w)"
  "fk K w \<Longrightarrow> fk K (categories_update (\<lambda>t. t @ [c]) w)"
  "fk K w \<Longrightarrow> CategoryRef (sv_categoryId s) \<in> K \<Longrightarrow> fk K (services_update (\<lambda>t. t @ [s]) w)"
  "fk K w \<Longrightarrow> offeringRefs x \<subseteq> K \<Longrightarrow> fk K (providerServices_update (\<lambda>t. t @ [x]) w)"
  "fk K w \<Longrightarrow> ProviderRef (av_providerId a) \<in> K \<Longrightarrow> fk K (availabilities_update (\<lambda>t. t @ [a]) w)"
  "fk K w \<Longrightarrow> bookingRefs b \<subseteq> K \<Longrightarrow> fk K (bookings_update (\<lambda>t. t @ [b]) w)"
  "fk K w \<Longrightarrow> BookingRef (pay_bookingId y) \<in> K \<Longrightarrow> fk K (payments_update (\<lambda>t. t @ [y]) w)"
  "fk K w \<Longrightarrow> reviewRefs r \<subseteq> K \<Longrightarrow> fk K (reviews_update (\<lambda>t. t @ [r]) w)"
  "fk K w \<Longrightarrow> notificationRefs n \<subseteq> K \<Longrightarrow> fk K (notifications_update (\<lambda>t. t @ [n]) w)"
  "fk K w \<Longrightarrow> auditRefs k \<subseteq> K \<Longrightarrow> fk K (auditLogs_update (\<lambda>t. t @ [k]) w)"
  by (erule fk_step; auto simp: key_defs)+

text \<open>Updating rows without touching their identifiers and references.\<close>

lemma fk_update:
  "fk K w \<Longrightarrow> (\<And>u. u_id (fu u) = u_id u) \<Longrightarrow> fk K (users_update (mapRows p1 fu) w)"
  "fk K w \<Longrightarrow> (\<And>p. pp_id (fp p) = pp_id p) \<Longrightarrow> (\<And>p. profileRefs (fp p) = profileRefs p) \<Longrightarrow>
     fk K (providerProfiles_update (mapRows p2 fp) w)"
  "fk K w \<Longrightarrow> (\<And>l. pl_providerId (fl l) = pl_providerId l) \<Longrightarrow> fk K (providerLocations_update (mapRows p3 fl) w)"
  "fk K w \<Longrightarrow> (\<And>d. pd_providerId (fd d) = pd_providerId d) \<Longrightarrow> fk K (providerDocuments_update (mapRows p4 fd) w)"
  "fk K w \<Longrightarrow> (\<And>c. cat_id (fc c) = cat_id c) \<Longrightarrow> fk K (categories_update (mapRows p5 fc) w)"
  "fk K w \<Longrightarrow> (\<And>x. ps_id (fx x) = ps_id x) \<Longrightarrow> (\<And>x. offeringRefs (fx x) = offeringRefs x) \<Longrightarrow>
     fk K (providerServices_update (mapRows p7 fx) w)"
  "fk K w \<Longrightarrow> (\<And>b. b_id (fb b) = b_id b) \<Longrightarrow> (\<And>b. bookingRefs (fb b) = bookingRefs b) \<Longrightarrow>
     fk K (bookings_update (mapRows p8 fb) w)"
  "fk K w \<Longrightarrow> (\<And>y. pay_bookingId (fy y) = pay_bookingId y) \<Longrightarrow> fk K (payments_update (mapRows p9 fy) w)"
  "fk K w \<Longrightarrow> (\<And>r. reviewRefs (fr r) = reviewRefs r) \<Longrightarrow> fk K (reviews_update (mapRows p10 fr) w)"
  "fk K w \<Longrightarrow> (\<And>n. notificationRefs (fn n) = notificationRefs n) \<Longrightarrow>
     fk K (notifications_update (mapRows p11 fn) w)"
  by (erule fk_step; simp add: key_defs mapRows_refs)+

text \<open>A service may move to a category that is known.\<close>

lemma fk_update_service:
  assumes "fk K w" and "\<And>s. sv_id (f s) = sv_id s"
    and "\<And>s. sv_categoryId (f s) = sv_categoryId s \<or> CategoryRef (sv_categoryId (f s)) \<in> K"
  shows "fk K (services_update (mapRows p f) w)"
  using assms(1)
proof (rule fk_step)
  have "CategoryRef ` sv_categoryId ` set (mapRows p f (services w))
      \<subseteq> CategoryRef ` sv_categoryId ` set (services w) \<union> K"
    using assms(3) by (fastforce simp: set_mapRows)
  then show "references (services_update (mapRows p f) w) \<subseteq> references w \<union> K"
    by (auto simp: key_defs)
qed (simp add: key_defs assms(2))

lemma fk_delete:
  "fk K w \<Longrightarrow> fk K (availabilities_update (filter p) w)"
  "fk K w \<Longrightarrow> fk K (notifications_update (filter q) w)"
  by (erule fk_step; auto simp: key_defs)+

lemma fk_queue:
  "fk K w \<Longrightarrow> payloadRefs (nj_data j) \<subseteq> K \<Longrightarrow> fk K (notificationQueue_update (addJob nj_jobId j) w)"
  "fk K w \<Longrightarrow> fk K (notificationQueue_update (removeJob nj_jobId i) w)"
  by (erule fk_step; auto simp: key_defs addJob_def removeJob_def)+

lemmas fk_writes = fk_insert fk_update fk_update_service fk_delete fk_queue

section \<open>Learning of rows\<close>

text \<open>Queries by identifier: the row exists, and so do the rows it refers to.\<close>

lemma stored_mem:
  "u \<in> set (users w) \<Longrightarrow> UserRef (u_id u) \<in> stored w"
  "p \<in> set (providerProfiles w) \<Longrightarrow> ProviderRef (pp_id p) \<in> stored w"
  "c \<in> set (categories w) \<Longrightarrow> CategoryRef (cat_id c) \<in> stored w"
  "s \<in> set (services w) \<Longrightarrow> ServiceRef (sv_id s) \<in> stored w"
  "x \<in> set (providerServices w) \<Longrightarrow> OfferingRef (ps_id x) \<in> stored w"
  "b \<in> set (bookings w) \<Longrightarrow> BookingRef (b_id b) \<in> stored w"
  by (auto simp: stored_def)

lemma fk_mem:
  "fk K w \<Longrightarrow> p \<in> set (providerProfiles w) \<Longrightarrow> profileRefs p \<subseteq> stored w"
  "fk K w \<Longrightarrow> x \<in> set (providerServices w) \<Longrightarrow> offeringRefs x \<subseteq> stored w"
  "fk K w \<Longrightarrow> b \<in> set (bookings w) \<Longrightarrow> bookingRefs b \<subseteq> stored w"
  "fk K w \<Longrightarrow> y \<in> set (payments w) \<Longrightarrow> BookingRef (pay_bookingId y) \<in> stored w"
  "fk K w \<Longrightarrow> r \<in> set (reviews w) \<Longrightarrow> reviewRefs r \<subseteq> stored w"
  "fk K w \<Longrightarrow> j \<in> set (notificationQueue w) \<Longrightarrow> payloadRefs (nj_data j) \<subseteq> stored w"
  by (simp_all add: knows_def foreignKeysHold_def references_def UN_subset_iff image_subset_iff)

lemma learns_queries:
  "learns stored foreignKeysHold K (reads (booking_findById i)) (found (\<lambda>b. {BookingRef i, BookingRef (b_id b)} \<union> bookingRefs b))"
  "learns stored foreignKeysHold K (reads (providerService_findById i)) (found (\<lambda>x. insert (OfferingRef (ps_id x)) (offeringRefs x)))"
  "learns stored foreignKeysHold K (reads (provider_findByUserId i)) (found (\<lambda>p. {ProviderRef (pp_id p)}))"
  "learns stored foreignKeysHold K (reads (service_findById i)) (found (\<lambda>s. {ServiceRef i}))"
  "learns stored foreignKeysHold K (reads (category_findById i)) (found (\<lambda>s. {CategoryRef i}))"
  by (rule learns_found; auto simp: booking_findById_def providerService_findById_def
      provider_findByUserId_def service_findById_def category_findById_def
      dest!: findUnique_SomeD intro: stored_mem dest: fk_mem)+

lemmas learn_queries = learns_queries [THEN learn_case] learns_queries [THEN learn_found]

end
