(* ===== verification/ReferenceFacts.thy ===== *)
theory ReferenceFacts
  imports References
begin

text \<open>
  Every operation keeps the foreign keys, given that the user and the provider it runs
  for exist: \<open>executeCore_fk\<close> and \<open>executeSide_fk\<close>. The rows an operation refers to
  beyond these are the ones it reads on the way.
\<close>

section \<open>Statements\<close>

lemma fk_drawUuid: "keeps (fk K) (drawUuid e)"
  by (simp add: steps_def drawUuid_def)

lemma fk_bcryptHash: "keeps (fk K) (bcryptHash e s)"
  by (simp add: steps_def bcryptHash_def)

lemma fk_cache:
  "keeps (fk K) (redis_del e k)" "keeps (fk K) (redis_set e k v n)" "keeps (fk K) (redis_get e k)"
  "keeps (fk K) (incrementSearchVersion e)" "keeps (fk K) (invalidateProvider e p)"
proof -
  show d: "keeps (fk K) (redis_del e k)"
    unfolding redis_del_def dropKey_def by (intro inv.combinators) simp
  show "keeps (fk K) (redis_set e k v n)"
    unfolding redis_set_def storeValue_def by (intro inv.combinators) simp
  show "keeps (fk K) (redis_get e k)"
    unfolding redis_get_def by (rule inv.reads)
  show v: "keeps (fk K) (incrementSearchVersion e)" for K e
    unfolding incrementSearchVersion_def
    by (intro inv.combinators) (auto split: option.split cacheValue.split)
  show "keeps (fk K) (invalidateProvider e p)"
    unfolding invalidateProvider_def redis_del_def dropKey_def by (intro inv.combinators v) simp
qed

lemma fk_getOrSet: "keeps (fk K) m \<Longrightarrow> keeps (fk K) (getOrSet e k m n)"
  unfolding getOrSet_def by (intro inv.combinators fk_cache)

lemma fk_auditLog_create:
  assumes "UserRef ` set_option (ap_actorUserId a) \<subseteq> K"
  shows "keeps (fk K) (auditLog_create e a)"
  unfolding auditLog_create_def
  by (intro inv.combinators fk_drawUuid) (use assms in \<open>auto intro!: fk_insert simp: row_refs\<close>)

lemma fk_user_update: "(\<And>u. u_id (f u) = u_id u) \<Longrightarrow> keeps (fk K) (user_update i f)"
  unfolding user_update_def by (intro inv.combinators) (auto intro: fk_update)

lemma fk_bookings:
  "keeps (fk K) (booking_updateStatus e i s r)"
  "keeps (fk K) (booking_update i (\<lambda>x. x\<lparr>b_bookingStatus := COMPLETED, b_completedAt := t\<rparr>))"
  "keeps (fk K) (booking_updateMany p (\<lambda>x. x\<lparr>b_bookingStatus := EXPIRED\<rparr>))"
  "keeps (fk K) (booking_updateMany p (\<lambda>x. x\<lparr>b_needsReview := True, b_overdueAt := t\<rparr>))"
  unfolding booking_updateStatus_def booking_update_def booking_updateMany_def
  by (intro inv.combinators; auto intro!: fk_update simp: row_refs)+

lemma fk_payments:
  "keeps (fk K) (payment_updateStatus j ps d)"
  "keeps (fk K) (payment_updateMany p (\<lambda>p. p\<lparr>pay_status := PaymentStatus.FAILED\<rparr>))"
  "keeps (fk K) (recordWebhookEvent e g v n payload processedAt)"
  "keeps (fk K) (markWebhookEventProcessed e v)"
  unfolding payment_updateStatus_def payment_updateMany_def recordWebhookEvent_def
    markWebhookEventProcessed_def
  by (intro inv.combinators fk_drawUuid; auto intro!: fk_update simp: row_refs)+

lemma fk_payment_create: "BookingRef (pi_bookingId d) \<in> K \<Longrightarrow> keeps (fk K) (payment_create e d)"
  unfolding payment_create_def
  by (intro inv.combinators fk_drawUuid) (auto intro!: fk_insert simp: paymentRow_def)

lemma fk_gateway: "keeps (fk K) (createOrder e params)" "keeps (fk K) (createRefund e i a)"
  by (simp_all add: steps_def createOrder_eq createRefund_eq)

lemma fk_booking_create:
  assumes "bookingRefs (bookingRow e [] d) \<subseteq> K"
  shows "keeps (fk K) (booking_create e d)"
  unfolding booking_create_def
  by (intro inv.combinators fk_drawUuid) (use assms in \<open>auto intro!: fk_insert simp: row_refs bookingRow_def\<close>)

lemma learns_booking_create: "learns stored foreignKeysHold K (booking_create e d) (\<lambda>b. {BookingRef (b_id b)})"
  by (auto simp: learns_def booking_create_def drawUuid_def insertRow_def prog_simps stored_def
      split: option.splits)

lemma fk_bookingQueue:
  "keeps (fk K) (schedulePaymentExpiration e i d)" "keeps (fk K) (scheduleOverdueCheck e i d)"
  "keeps (fk K) (cancelPaymentExpiration e i)" "keeps (fk K) (cancelOverdueCheck e i)"
  "keeps (fk K) (scheduleBookingOverdueCheck e i g)"
  unfolding schedulePaymentExpiration_def scheduleOverdueCheck_def cancelPaymentExpiration_def
    cancelOverdueCheck_def cancelBookingJob_def queueCommand_def scheduleBookingOverdueCheck_def scheduleOverdueCheck_def Let_def
  by (intro inv.combinators; simp)+

section \<open>Notifications\<close>

lemma fk_notification_create:
  "(\<And>i. notificationRefs (row i) \<subseteq> K) \<Longrightarrow> keeps (fk K) (notification_create e row)"
  unfolding notification_create_def by (intro inv.combinators fk_drawUuid) (auto intro!: fk_insert)

lemma fk_sendNotification:
  assumes "payloadRefs d \<subseteq> K"
  shows "keeps (fk K) (sendNotification e n d delay i)"
  unfolding sendNotification_def queueCommand_def Let_def
  by (intro inv.combinators fk_notification_create)
    (use assms in \<open>auto intro!: fk_queue simp: row_refs notificationRow_def\<close>)

lemma fk_lifecycle: "keeps (fk K) (scheduleBookingLifecycleNotifications e i)"
  unfolding scheduleBookingLifecycleNotifications_def Let_def
  by (intro learn_queries inv.combinators fk_sendNotification) (auto simp: lifecyclePayload_def row_refs)

lemma fk_scheduleConfirmed: "keeps (fk K) (scheduleConfirmed e i)"
  unfolding scheduleConfirmed_def by (intro inv.combinators fk_bookingQueue fk_lifecycle)

lemma fk_cancelBookingReminders: "keeps (fk K) (cancelBookingReminders e i)"
  unfolding cancelBookingReminders_def removeReminder_def queueCommand_def
  by (intro inv.combinators) (auto intro: fk_queue fk_delete)

lemmas fk_statements = fk_drawUuid fk_bcryptHash fk_cache fk_getOrSet fk_auditLog_create fk_bookings
  fk_payments fk_payment_create fk_gateway fk_bookingQueue fk_scheduleConfirmed fk_cancelBookingReminders

lemmas fk_intros = learn_queries check_learn inv.combinators fk_statements

section \<open>Bookings\<close>

lemma fk_createBookingTx:
  assumes "{UserRef c, ProviderRef (ps_providerId ps), OfferingRef (ps_id ps)} \<subseteq> K"
  shows "keeps (fk K) (createBookingTx e c dto ps pp d s t gr)"
  unfolding createBookingTx_def
  by (intro inv.reads inv.andThen [OF inv.reads] inv.case_option inv.throw inv.ret
      learn [OF fk_booking_create learns_booking_create] inv.andThen [OF fk_payment_create]
      inv.andThen [OF fk_auditLog_create])
    (use assms in \<open>auto simp: row_refs bookingRow_def\<close>)

lemma fk_createBooking: "UserRef c \<in> K \<Longrightarrow> keeps (fk K) (createBooking e c dto)"
  unfolding createBooking_def Let_def
  by (intro fk_intros fk_createBookingTx) (auto simp: row_refs)

lemma fk_cancelBooking: "UserRef c \<in> K \<Longrightarrow> keeps (fk K) (cancelBookingAsCustomer e i c dto)"
  unfolding cancelBookingAsCustomer_def Let_def by (intro fk_intros) auto

lemma fk_completeBooking: "UserRef u \<in> K \<Longrightarrow> keeps (fk K) (completeBooking e i u r)"
  unfolding completeBooking_def Let_def by (intro fk_intros) auto

lemma fk_bookingProcessor: "keeps (fk K) (bookingProcessor_process e j)"
proof (cases "bj_name j")
  case EXPIRE_PAYMENT
  then show ?thesis unfolding bookingProcessor_process_def expireBooking_def
    by simp (intro fk_intros; simp add: row_refs)
next
  case PROCESS_NO_SHOW
  then show ?thesis unfolding bookingProcessor_process_def flagOverdueBooking_def
    by simp (intro fk_intros; simp)
qed

section \<open>Payments\<close>

lemma fk_texts: "keeps (fk K) (asText v)" "keeps (fk K) (asOptText v)" "keeps (fk K) (capturedCurrencyOk p v)"
proof -
  show t: "keeps (fk K) (asText v)" for K v
    unfolding asText_def by (cases v) (simp_all add: inv.ret inv.throw)
  show "keeps (fk K) (asOptText v)"
    unfolding asOptText_def by (intro inv.combinators t)
  show "keeps (fk K) (capturedCurrencyOk p v)"
    unfolding capturedCurrencyOk_def
    by (cases "jget v ''currency''") (simp_all add: inv.ret inv.throw)
qed

lemma fk_payment_booking: "keeps (fk K) (payment_booking p)"
  unfolding payment_booking_def by (intro inv.combinators)

lemma learns_payment_booking: "learns stored foreignKeysHold K (payment_booking p) bookingRefs"
proof -
  have "bookingRefs b \<subseteq> stored w" if "fk K w" "booking_findById i w = Some b" for w b i
    using that learns_queries(1) [of K i] by (force simp: learns_def prog_simps)
  then show ?thesis
    by (auto simp: learns_def payment_booking_def prog_simps split: option.splits)
qed

lemma fk_createPaymentOrder: "keeps (fk K) (createPaymentOrder e c i)"
  unfolding createPaymentOrder_def by (intro fk_intros) auto

lemma fk_verifyCommit: "UserRef c \<in> K \<Longrightarrow> keeps (fk K) (verifyCommit e c dto pb)"
  unfolding verifyCommit_def verifyTx_def by (intro fk_intros) auto

lemma fk_verifyClientPayment: "UserRef c \<in> K \<Longrightarrow> keeps (fk K) (verifyClientPayment e c dto)"
  unfolding verifyClientPayment_def verifyChecks_def
  by (intro fk_intros fk_payment_booking)
    (auto intro: inv.ret fk_verifyCommit split: sum.split)

lemma fk_webhookSwitch:
  assumes "UserRef c \<in> K"
  shows "keeps (fk K) (webhookSwitch e p c n v)"
  unfolding webhookSwitch_def webhookCaptured_def confirmIfPending_def webhookFailed_def
    webhookRefunded_def Let_def
  by (intro inv.combinators fk_statements fk_texts) (use assms in auto)

lemma fk_webhookCommit:
  "UserRef (b_customerId b) \<in> K \<Longrightarrow> keeps (fk K) (webhookCommit e p b i n pl pe)"
  unfolding webhookCommit_def webhookTx_def
  by (intro inv.combinators fk_statements fk_texts fk_webhookSwitch)

lemma fk_handleWebhookEvent: "keeps (fk K) (handleWebhookEvent e body sig hdr)"
proof -
  have "keeps (fk K) (recordIgnored e i n pl)" for i n pl
    unfolding recordIgnored_def by (intro inv.combinators fk_statements fk_texts)
  then show ?thesis
    unfolding handleWebhookEvent_def processWebhookEvent_def Let_def
    by (intro learn [OF fk_payment_booking learns_payment_booking] inv.combinators fk_texts
        fk_webhookCommit) (auto simp: row_refs)
qed

lemma fk_refundTx:
  "UserRef ` set_option a \<subseteq> K \<Longrightarrow> keeps (fk K) (refundTx e a dto p b rr)"
  unfolding refundTx_def by (intro inv.combinators fk_statements) auto

lemma fk_refundPayment: "UserRef ` set_option a \<subseteq> K \<Longrightarrow> keeps (fk K) (refundPayment e a i dto)"
  unfolding refundPayment_def refundChecks_def
  by (intro inv.combinators fk_payment_booking) (auto intro!: inv.combinators fk_statements fk_refundTx)

section \<open>Accounts and providers\<close>

lemma fk_generateTokens: "keeps (fk K) (generateTokens e u)"
  unfolding generateTokens_def updateRefreshToken_def Let_def
  by (intro inv.combinators fk_statements fk_user_update) simp

lemma fk_accounts:
  "keeps (fk K) (register e rd)" "keeps (fk K) (login e ld)" "keeps (fk K) (refresh e t)"
  "keeps (fk K) (logout u)"
  unfolding register_def user_create_def login_def updateLastLogin_def refresh_def logout_def
  by (intro inv.combinators fk_statements fk_user_update fk_generateTokens; auto intro: fk_insert)+

lemma fk_updateStatus: "UserRef ` set_option a \<subseteq> K \<Longrightarrow> keeps (fk K) (updateStatus e i s a)"
  unfolding updateStatus_def adminUser_findOne_def adminUser_updateStatus_def
  by (intro inv.combinators fk_statements fk_user_update) (auto simp: truthy_def split: option.splits if_splits)

lemma fk_decideProvider:
  "UserRef ` set_option a \<subseteq> K \<Longrightarrow> keeps (fk K) (decideProvider e i p s r act v a)"
  unfolding decideProvider_def updateVerificationStatus_def
  by (intro inv.combinators fk_statements) (auto intro!: fk_update simp: row_refs)

lemma fk_decisions:
  assumes "UserRef ` set_option a \<subseteq> K"
  shows "keeps (fk K) (verifyProvider e i a)" "keeps (fk K) (rejectProvider e i r a)"
    "keeps (fk K) (suspendProvider e i a)"
  unfolding verifyProvider_def rejectProvider_def suspendProvider_def adminProvider_findOne_def
  by (intro inv.combinators fk_decideProvider assms)+

lemma fk_profile_insert:
  fixes f :: "providerProfile \<Rightarrow> 'a action"
  assumes "UserRef (pp_userId p) \<in> K" and "\<And>a. keeps (fk (K \<union> {ProviderRef (pp_id p)})) (f a)"
  shows "keeps (fk K) (andThen (insertRow providerProfiles providerProfiles_update profileViolation p) f)"
proof (rule learn)
  show "keeps (fk K) (insertRow providerProfiles providerProfiles_update profileViolation p)"
    using assms(1) by (intro inv.insertRow) (auto intro!: fk_insert simp: row_refs)
  show "learns stored foreignKeysHold K (insertRow providerProfiles providerProfiles_update profileViolation p)
      (\<lambda>_. {ProviderRef (pp_id p)})"
    by (auto simp: learns_def insertRow_def stored_def split: option.splits)
qed (rule assms(2))

lemma fk_createProfile: "UserRef u \<in> K \<Longrightarrow> keeps (fk K) (createProfile e u dto)"
  unfolding createProfile_def provider_create_def
  by (intro fk_profile_insert inv.combinators fk_statements) (auto intro!: fk_insert)

lemma fk_getOwnProfile: "keeps (fk K) (getOwnProfile u)"
  unfolding getOwnProfile_def by (intro inv.combinators)

lemma learns_getOwnProfile: "learns stored foreignKeysHold K (getOwnProfile u) (\<lambda>p. {ProviderRef (pp_id p)})"
  by (auto simp: learns_def getOwnProfile_def provider_findByUserId_def prog_simps
      split: option.splits dest!: findUnique_SomeD intro: stored_mem)

lemma fk_updateOwnProfile: "keeps (fk K) (updateOwnProfile e u dto)"
  unfolding updateOwnProfile_def provider_update_def
  by (intro inv.combinators fk_getOwnProfile fk_statements)
    (auto intro!: fk_update simp: row_refs profileWith_def locationWith_def)

lemma fk_uploadDocument: "keeps (fk K) (uploadDocument e u ty f)"
  unfolding uploadDocument_def uploadFile_def createDocument_def Let_def
  by (intro learn [OF fk_getOwnProfile learns_getOwnProfile] inv.combinators fk_statements)
    (auto intro!: fk_insert)

lemma fk_createOffering: "ProviderRef p \<in> K \<Longrightarrow> keeps (fk K) (createOffering e p dto)"
  unfolding createOffering_def providerService_create_def
  by (intro fk_intros) (auto intro!: fk_insert simp: row_refs)

lemma fk_offerings: "keeps (fk K) (updateOffering e p i dto)" "keeps (fk K) (removeOffering e p i)"
  unfolding updateOffering_def removeOffering_def ownOffering_def providerService_delete_def
    providerService_update_def
  by (intro inv.combinators fk_statements; auto intro!: fk_update simp: row_refs offeringWith_def)+

lemma fk_setAvailibity:
  assumes "ProviderRef p \<in> K"
  shows "keeps (fk K) (setAvailibity e p ss)"
proof -
  have "keeps (fk K) (availability_createMany e p ss)" for ss
    using assms by (induction ss) (auto intro!: inv.combinators fk_statements fk_insert)
  then show ?thesis
    unfolding setAvailibity_def replaceAvailibityTransaction_def
    by (intro inv.combinators fk_statements) (auto intro: fk_delete)
qed

section \<open>Catalogue and reviews\<close>

lemma fk_categories:
  "keeps (fk K) (createCategory e cd)" "keeps (fk K) (updateCategory e i ud)"
  "keeps (fk K) (removeCategory e i)" "keeps (fk K) (category_findAll e q)"
  unfolding createCategory_def category_create_def updateCategory_def removeCategory_def
    category_findOne_def category_delete_def category_update_def category_findAll_def Let_def
  by (intro inv.combinators fk_statements; auto intro!: fk_insert fk_update simp: categoryWith_def)+

lemma fk_createService: "keeps (fk K) (createService e dto)"
  unfolding createService_def service_create_def by (intro fk_intros) (auto intro!: fk_insert)

lemma fk_removeService: "keeps (fk K) (removeService e i)"
  unfolding removeService_def service_findOne_def service_delete_def service_update_def
  by (intro inv.combinators fk_statements) (auto intro!: fk_update_service)

text \<open>The check of \<open>updateService\<close> looks only at a category that is not the empty text.\<close>

lemma fk_updateService:
  assumes "us_categoryId dto \<noteq> Some []"
  shows "keeps (fk K) (updateService e i dto)"
proof -
  define known :: "unit \<Rightarrow> reference set" where "known = (\<lambda>_. CategoryRef ` set_option (us_categoryId dto))"
  define checked :: "unit action" where
    "checked = (case truthy (us_categoryId dto) of
       None \<Rightarrow> ret ()
     | Some c \<Rightarrow> andThen (reads (category_findById c)) (\<lambda>category. check (category \<noteq> None) (categoryMissing c)))"
  have "keeps (fk K) checked" unfolding checked_def by (intro inv.combinators)
  moreover have "learns stored foreignKeysHold K checked known"
    using assms
    by (auto simp: learns_def checked_def known_def truthy_def prog_simps category_findById_def stored_def
        split: option.splits if_splits dest!: findUnique_SomeD)
  moreover have "keeps (fk (K \<union> known ())) (service_update i (serviceWith dto slug))" for slug
    unfolding service_update_def
    by (intro inv.combinators)
      (auto intro!: fk_update_service simp: serviceWith_def known_def given_def split: option.splits)
  ultimately show ?thesis
    unfolding updateService_def service_findOne_def Let_def checked_def [symmetric]
    by (intro learn [of _ _ _ checked known] inv.combinators fk_statements) auto
qed

lemma fk_lists:
  "keeps (fk K) (service_findAll e sq)" "keeps (fk K) (getPublicProfileById e i)"
  "keeps (fk K) (searchPublicProviders e vq)"
  unfolding service_findAll_def getPublicProfileById_def searchPublicProviders_def getSearchVersion_def
  by (intro inv.combinators fk_statements)+

lemma fk_recalculate: "keeps (fk K) (recalculate p r)"
  unfolding recalculate_def updateProviderRatingStats_def Let_def
  by (intro inv.combinators) (auto intro!: inv.combinators fk_update simp: row_refs split: prod.split)

lemma fk_createReview: "UserRef c \<in> K \<Longrightarrow> keeps (fk K) (createReview e c dto i)"
  unfolding createReview_def review_create_def
  by (intro fk_intros fk_recalculate) (auto intro!: fk_insert simp: row_refs)

lemma fk_updateReview: "keeps (fk K) (updateReview e c i dto)"
  unfolding updateReview_def review_update_def
  by (intro inv.combinators fk_statements fk_recalculate)
    (auto intro!: inv.combinators fk_statements fk_update simp: row_refs split: prod.split)

section \<open>The notification worker\<close>

lemma fk_deliver: "keeps (fk K) (deliver e j k n m)"
  unfolding deliver_def sendEmail_def notification_update_def Let_def
  by (intro inv.combinators) (auto intro!: fk_update simp: row_refs)

lemma fk_notificationProcessor:
  "payloadRefs (nj_data j) \<subseteq> K \<Longrightarrow> keeps (fk K) (notificationProcessor_process e j k t)"
  unfolding notificationProcessor_process_def loadNotification_def
  by (intro inv.combinators fk_notification_create fk_deliver)
    (auto intro: fk_delete simp: row_refs notificationRow_def)

lemma fk_notifications:
  "keeps (fk K) (notificationProcessor_onFailed e j k m err)" "keeps (fk K) (markAsRead e i u)"
  "keeps (fk K) (markAllAsRead e u)"
  unfolding notificationProcessor_onFailed_def markAsRead_def notification_markAsRead_def
    markAllAsRead_def notification_markAllAsRead_def Let_def
  by (intro inv.combinators; auto intro!: fk_update simp: row_refs)+

end
