(* ===== verification/PaidFacts.thy ===== *)
theory PaidFacts
  imports System Learning
begin

text \<open>
  A booking is confirmed by a payment: whatever the services do, a booking that is
  confirmed or completed has a payment with a payment date. The webhook confirms the
  booking before it marks the payment, so the invariant has a set \<open>J\<close> of bookings whose
  payment the running transaction still owes.
\<close>

section \<open>The invariant\<close>

datatype paymentFact = Paid uuid | PaymentOf uuid uuid

definition paymentFacts :: "world \<Rightarrow> paymentFact set" where
  "paymentFacts w =
     (\<lambda>p. Paid (pay_bookingId p)) ` {p \<in> set (payments w). pay_paidAt p \<noteq> None}
     \<union> (\<lambda>p. PaymentOf (pay_id p) (pay_bookingId p)) ` set (payments w)"

definition isConfirmed :: "booking \<Rightarrow> bool" where
  "isConfirmed b \<longleftrightarrow> b_bookingStatus b \<in> {CONFIRMED, COMPLETED}"

definition confirmedPaid :: "uuid set \<Rightarrow> world \<Rightarrow> bool" where
  "confirmedPaid J w \<longleftrightarrow>
     (\<forall>b \<in> set (bookings w). isConfirmed b \<longrightarrow> b_id b \<in> J \<or> Paid (b_id b) \<in> paymentFacts w)"

abbreviation paid :: "uuid set \<Rightarrow> paymentFact set \<Rightarrow> world \<Rightarrow> bool" where
  "paid J \<equiv> knows paymentFacts (confirmedPaid J)"

lemma paid_mono:
  assumes "paid J K w" and "paymentFacts w \<subseteq> paymentFacts w'"
    and "\<And>b. b \<in> set (bookings w') \<Longrightarrow> isConfirmed b \<Longrightarrow>
      (\<exists>b' \<in> set (bookings w). b_id b' = b_id b \<and> isConfirmed b') \<or> b_id b \<in> J \<or> Paid (b_id b) \<in> K"
  shows "paid J K w'"
proof -
  have "b_id b \<in> J \<or> Paid (b_id b) \<in> paymentFacts w'" if "b \<in> set (bookings w')" "isConfirmed b" for b
    using assms(3) [OF that] assms(1,2) unfolding knows_def confirmedPaid_def
    by (metis subsetD)
  with assms(1,2) show ?thesis by (auto simp: knows_def confirmedPaid_def)
qed

text \<open>The invariant looks only at bookings and payments (offerings are for a later use).\<close>

definition sameBookings :: "world \<Rightarrow> world \<Rightarrow> bool" where
  "sameBookings w w' \<longleftrightarrow> bookings w' = bookings w \<and> payments w' = payments w
     \<and> providerServices w' = providerServices w"

interpretation sameBookings: state_order sameBookings
  by unfold_locales (auto simp: sameBookings_def)

lemma paid_same:
  assumes "steps sameBookings m"
  shows "keeps (paid J K) m"
proof (rule stepsI, rule impI)
  fix w
  assume "paid J K w"
  then show "paid J K (snd (m w))"
    using steps_snd [OF assms, of w]
    by (simp add: sameBookings_def knows_def confirmedPaid_def paymentFacts_def)
qed

lemma same_drawUuid: "steps sameBookings (drawUuid e)"
  by (simp add: steps_def drawUuid_def sameBookings_def)

lemma same_statements:
  "steps sameBookings (auditLog_create e a)" "steps sameBookings (createOrder e params)"
  "steps sameBookings (createRefund e i r)" "steps sameBookings (recordWebhookEvent e g v n payload t)"
  "steps sameBookings (markWebhookEventProcessed e v)"
  by (simp_all add: auditLog_create_def createOrder_eq createRefund_eq recordWebhookEvent_def
      markWebhookEventProcessed_def insertRow_def updateRow_def drawUuid_def steps_def prog_simps
      sameBookings_def split: option.split)

lemma same_queues:
  "steps sameBookings (schedulePaymentExpiration e i d)" "steps sameBookings (scheduleOverdueCheck e i d)"
  "steps sameBookings (cancelPaymentExpiration e i)" "steps sameBookings (cancelOverdueCheck e i)"
  "steps sameBookings (scheduleBookingOverdueCheck e i g)"
  unfolding schedulePaymentExpiration_def scheduleOverdueCheck_def cancelPaymentExpiration_def
    cancelOverdueCheck_def cancelBookingJob_def queueCommand_def scheduleBookingOverdueCheck_def scheduleOverdueCheck_def Let_def
  by (intro sameBookings.combinators; simp add: sameBookings_def)+

lemma same_notifications:
  "steps sameBookings (sendNotification e n d delay i)" "steps sameBookings (cancelBookingReminders e b)"
  unfolding sendNotification_def notification_create_def cancelBookingReminders_def removeReminder_def queueCommand_def Let_def
  by (intro sameBookings.combinators same_drawUuid; simp add: sameBookings_def)+

lemma same_scheduleConfirmed: "steps sameBookings (scheduleConfirmed e i)"
  unfolding scheduleConfirmed_def scheduleBookingLifecycleNotifications_def Let_def
  by (intro sameBookings.combinators same_queues same_notifications)

lemma same_texts:
  "steps sameBookings (asText v)" "steps sameBookings (asOptText v)"
  "steps sameBookings (capturedCurrencyOk p v)" "steps sameBookings (payment_booking p)"
proof -
  show t: "steps sameBookings (asText v)" for v
    unfolding asText_def by (cases v) (simp_all add: sameBookings.ret sameBookings.throw)
  show "steps sameBookings (asOptText v)"
    unfolding asOptText_def by (intro sameBookings.combinators t)
  show "steps sameBookings (capturedCurrencyOk p v)"
    unfolding capturedCurrencyOk_def
    by (cases "jget v ''currency''") (simp_all add: sameBookings.ret sameBookings.throw)
  show "steps sameBookings (payment_booking p)"
    unfolding payment_booking_def by (intro sameBookings.combinators)
qed

lemmas paid_texts = same_texts [THEN paid_same]

lemmas paid_others = same_statements [THEN paid_same] same_queues [THEN paid_same]
  same_notifications [THEN paid_same] same_scheduleConfirmed [THEN paid_same] paid_texts

section \<open>Writes to bookings and payments\<close>

lemma paid_booking_create:
  "bi_bookingStatus d = PENDING_PAYMENT \<Longrightarrow> keeps (paid J K) (booking_create e d)"
  unfolding booking_create_def
  by (intro inv.combinators same_drawUuid [THEN paid_same])
    (auto elim!: paid_mono simp: paymentFacts_def bookingRow_def isConfirmed_def)

lemma paid_booking_update:
  assumes "\<And>b. b_id (f b) = b_id b" and "\<And>b. isConfirmed (f b) \<Longrightarrow> isConfirmed b \<or> i \<in> J \<or> Paid i \<in> K"
  shows "paid J K w \<Longrightarrow> paid J K (bookings_update (mapRows (\<lambda>b. b_id b = i) f) w)"
  by (erule paid_mono) (use assms in \<open>auto simp: paymentFacts_def set_mapRows split: if_splits\<close>)

lemma paid_updateStatus:
  assumes "s \<notin> {CONFIRMED, COMPLETED} \<or> i \<in> J \<or> Paid i \<in> K"
  shows "keeps (paid J K) (booking_updateStatus e i s r)"
  unfolding booking_updateStatus_def
  by (intro inv.combinators impI paid_booking_update) (use assms in \<open>auto simp: isConfirmed_def\<close>)

lemma paid_complete:
  assumes "Paid i \<in> K"
  shows "keeps (paid J K) (booking_update i (\<lambda>x. x\<lparr>b_bookingStatus := COMPLETED, b_completedAt := t\<rparr>))"
  unfolding booking_update_def
  by (intro inv.combinators impI paid_booking_update) (use assms in auto)

lemma paid_updateMany:
  "keeps (paid J K) (booking_updateMany p (\<lambda>x. x\<lparr>b_bookingStatus := EXPIRED\<rparr>))"
  "keeps (paid J K) (booking_updateMany p (\<lambda>x. x\<lparr>b_needsReview := True, b_overdueAt := t\<rparr>))"
  unfolding booking_updateMany_def
  by (intro inv.combinators impI; erule paid_mono;
      auto simp: paymentFacts_def set_mapRows isConfirmed_def split: if_splits)+

lemma paid_payments:
  "keeps (paid J K) (payment_create e d)" "keeps (paid J K) (payment_updateStatus i ps details)"
  "keeps (paid J K) (payment_updateMany p (\<lambda>p. p\<lparr>pay_status := PaymentStatus.FAILED\<rparr>))"
proof -
  have facts: "paymentFacts w \<subseteq> paymentFacts (payments_update (mapRows p f) w)"
    if "\<And>x. pay_id (f x) = pay_id x" "\<And>x. pay_bookingId (f x) = pay_bookingId x"
      "\<And>x. pay_paidAt x \<noteq> None \<Longrightarrow> pay_paidAt (f x) \<noteq> None" for p f w
  proof -
    have "\<exists>y \<in> set (mapRows p f (payments w)). pay_id y = pay_id x \<and> pay_bookingId y = pay_bookingId x
        \<and> (pay_paidAt x \<noteq> None \<longrightarrow> pay_paidAt y \<noteq> None)" if "x \<in> set (payments w)" for x
      using that \<open>\<And>x. pay_id (f x) = pay_id x\<close> \<open>\<And>x. pay_bookingId (f x) = pay_bookingId x\<close>
        \<open>\<And>x. pay_paidAt x \<noteq> None \<Longrightarrow> pay_paidAt (f x) \<noteq> None\<close>
      by (intro bexI [of _ "if p x then f x else x"]) (auto simp: set_mapRows)
    then show ?thesis by (fastforce simp: paymentFacts_def image_iff)
  qed
  have upd: "paid J K w \<longrightarrow> paid J K (payments_update (mapRows p f) w)"
    if "\<And>x. pay_id (f x) = pay_id x" "\<And>x. pay_bookingId (f x) = pay_bookingId x"
      "\<And>x. pay_paidAt x \<noteq> None \<Longrightarrow> pay_paidAt (f x) \<noteq> None" for p f w
    using facts [OF that] by (auto elim!: paid_mono)
  show "keeps (paid J K) (payment_create e d)"
    unfolding payment_create_def
    by (intro inv.combinators same_drawUuid [THEN paid_same]) (auto elim!: paid_mono simp: paymentFacts_def)
  show "keeps (paid J K) (payment_updateStatus i ps details)"
    unfolding payment_updateStatus_def
    by (intro inv.combinators upd) (auto simp: paymentWith_def orKeep_def split: option.splits)
  show "keeps (paid J K) (payment_updateMany p (\<lambda>p. p\<lparr>pay_status := PaymentStatus.FAILED\<rparr>))"
    unfolding payment_updateMany_def by (intro inv.combinators upd) auto
qed

lemma learns_payment:
  assumes "PaymentOf (pay_id p) (pay_bookingId p) \<in> K" and "d_paidAt details \<noteq> None"
  shows "learns paymentFacts ok K (payment_updateStatus (pay_id p) ps details) (\<lambda>_. {Paid (pay_bookingId p)})"
proof (rule learnsI)
  fix w a w'
  assume w: "knows paymentFacts ok K w" and run: "payment_updateStatus (pay_id p) ps details w = (Inr a, w')"
  obtain x where x: "x \<in> set (payments w)" "pay_id x = pay_id p" "pay_bookingId x = pay_bookingId p"
    using assms(1) w by (auto simp: knows_def paymentFacts_def)
  have "payments w' = mapRows (\<lambda>y. pay_id y = pay_id p) (paymentWith ps details) (payments w)"
    using run by (auto simp: payment_updateStatus_def updateRow_def split: option.splits)
  with x have "paymentWith ps details x \<in> set (payments w')" by (force simp: set_mapRows)
  moreover have "pay_paidAt (paymentWith ps details x) \<noteq> None"
    using assms(2) by (auto simp: paymentWith_def orKeep_def)
  moreover have "pay_bookingId (paymentWith ps details x) = pay_bookingId p" using x by simp
  ultimately show "{Paid (pay_bookingId p)} \<subseteq> paymentFacts w'"
    unfolding paymentFacts_def by (metis (mono_tags, lifting) UnI1 empty_subsetI image_eqI insert_subset mem_Collect_eq)
qed

lemmas paid_statements = paid_others paid_booking_create paid_updateStatus paid_complete
  paid_updateMany paid_payments

section \<open>Handlers of bookings\<close>

lemma paid_createBooking: "keeps (paid J K) (createBooking e c dto)"
  unfolding createBooking_def createBookingTx_def Let_def by (intro inv.combinators paid_statements) simp

lemma paid_cancelBooking: "keeps (paid J K) (cancelBookingAsCustomer e i c dto)"
  unfolding cancelBookingAsCustomer_def Let_def by (intro inv.combinators paid_statements) simp

lemma paid_bookingProcessor: "keeps (paid J K) (bookingProcessor_process e j)"
  unfolding bookingProcessor_process_def expireBooking_def flagOverdueBooking_def
  by (cases "bj_name j") (simp_all, (intro inv.combinators paid_statements)+)

text \<open>Only a confirmed booking can be completed, and a confirmed booking has been paid.\<close>

lemma learns_confirmed:
  "learns paymentFacts (confirmedPaid {}) K (reads (booking_findById i))
     (found (\<lambda>b. if isConfirmed b then {Paid i} else {}))"
  by (rule learns_found)
    (auto simp: knows_def confirmedPaid_def booking_findById_def dest!: findUnique_SomeD)

lemma completed_from: "canTransitionBooking s COMPLETED \<Longrightarrow> s = CONFIRMED"
  by (cases s) (simp_all add: canTransitionBooking_def)

lemma paid_completeBooking: "keeps (paid {} K) (completeBooking e i u r)"
  unfolding completeBooking_def Let_def
  by (intro learn_case [OF learns_confirmed] check_learn inv.combinators paid_statements)
    (auto dest!: completed_from simp: isConfirmed_def)

section \<open>Handlers of payments\<close>

lemma paid_createPaymentOrder: "keeps (paid J K) (createPaymentOrder e c i)"
  unfolding createPaymentOrder_def by (intro inv.combinators paid_statements)

lemma paid_verifyCommit:
  assumes "PaymentOf (pay_id (fst pb)) (pay_bookingId (fst pb)) \<in> K"
  shows "keeps (paid J K) (verifyCommit e c dto pb)"
  unfolding verifyCommit_def verifyTx_def
  by (intro inv.andThen [OF inv.transaction] learn [OF _ learns_payment] inv.combinators paid_statements)
    (use assms in auto)

definition paymentOf :: "payment \<Rightarrow> paymentFact set" where
  "paymentOf p = {PaymentOf (pay_id p) (pay_bookingId p)}"

lemma learns_payments:
  "learns paymentFacts ok K (reads (payment_findByGatewayOrderId i)) (found paymentOf)"
  "learns paymentFacts ok K (reads (payment_findById i)) (found paymentOf)"
  by (rule learns_found; auto simp: payment_findByGatewayOrderId_def payment_findById_def paymentFacts_def
      paymentOf_def dest!: findUnique_SomeD)+

lemma paid_verifyClientPayment: "keeps (paid J K) (verifyClientPayment e c dto)"
proof -
  define facts :: "verifyResult + payment \<times> booking \<Rightarrow> paymentFact set"
    where "facts = case_sum (\<lambda>_. {}) (\<lambda>pb. paymentOf (fst pb))"
  have "keeps (paid J K) (verifyChecks e c dto)"
    unfolding verifyChecks_def by (intro inv.combinators paid_statements)
  moreover have "learns paymentFacts (confirmedPaid J) K (verifyChecks e c dto) facts"
  proof (rule learnsI)
    fix w a w'
    assume w: "paid J K w" and run: "verifyChecks e c dto w = (Inr a, w')"
    have "steps sameBookings (verifyChecks e c dto)"
      unfolding verifyChecks_def by (intro sameBookings.combinators same_texts)
    from stepsD [OF this run] have "sameBookings w w'" .
    moreover have "facts a \<subseteq> paymentFacts w"
    proof (cases a)
      case (Inr pb)
      with run have "payment_findByGatewayOrderId (vp_razorpayOrderId dto) w = Some (fst pb)"
        by (auto simp: verifyChecks_def payment_booking_def prog_simps split: option.splits if_splits)
      with Inr show ?thesis
        by (auto simp: facts_def paymentOf_def paymentFacts_def payment_findByGatewayOrderId_def
            dest: findUnique_SomeD)
    qed (simp add: facts_def)
    ultimately show "facts a \<subseteq> paymentFacts w'" by (simp add: sameBookings_def paymentFacts_def)
  qed
  ultimately show ?thesis
    unfolding verifyClientPayment_def
    by (rule learn) (auto intro!: inv.ret paid_verifyCommit simp: facts_def paymentOf_def split: sum.split)
qed

text \<open>
  The webhook: \<open>confirmIfPending\<close> confirms the booking first, and the transaction ends
  well only when the payment is marked as paid after it.
\<close>

lemma paid_confirmIfPending: "pay_bookingId p \<in> J \<Longrightarrow> keeps (paid J K) (confirmIfPending e p c)"
  unfolding confirmIfPending_def Let_def by (intro inv.combinators paid_statements) auto

lemma paid_owe: "paid {} K w \<Longrightarrow> paid J K w"
  by (auto simp: knows_def confirmedPaid_def)

lemma paid_settle: "paid {i} (K \<union> {Paid i}) w \<Longrightarrow> paid {} K w"
  by (auto simp: knows_def confirmedPaid_def)

lemma ends_webhookCaptured:
  assumes "PaymentOf (pay_id p) (pay_bookingId p) \<in> K"
  shows "ends (paid {} K) (webhookCaptured e p c n v) (paid {} K)"
proof -
  let ?J = "{pay_bookingId p}"
  have settle: "ends (paid ?J K) (payment_updateStatus (pay_id p) SUCCESS
      \<lparr>d_gatewayPaymentId = i, d_gatewaySignature = s, d_paidAt = Some t, d_refundedAt = r\<rparr>) (paid {} K)"
    for i s t r
    using assms
    by (intro ends_conseq [OF ends_learn [OF paid_payments(2) learns_payment], of _ K]) (auto intro: paid_settle)
  have confirm: "ends (paid {} K) (confirmIfPending e p c) (paid ?J K)"
    by (rule ends_conseq [OF ends_keeps [OF paid_confirmIfPending [of p ?J]]]) (auto intro: paid_owe)
  show ?thesis
    unfolding webhookCaptured_def
    by (intro ends_if ends_andThen [OF confirm] ends_andThen [OF settle]
        ends_andThen [OF ends_keeps [OF paid_texts(2)]] ends_andThen [OF ends_keeps [OF paid_texts(3)]]
        ends_andThen [OF ends_keeps [OF paid_others(1)]] ends_keeps inv.ret)
qed

lemma ends_webhookSwitch:
  assumes "PaymentOf (pay_id p) (pay_bookingId p) \<in> K"
  shows "ends (paid {} K) (webhookSwitch e p c n v) (paid {} K)"
  unfolding webhookSwitch_def
  by (intro ends_if ends_webhookCaptured assms ends_keeps)
    (unfold webhookFailed_def webhookRefunded_def, (intro inv.combinators paid_statements)+)

lemma paid_webhookCommit:
  assumes "PaymentOf (pay_id p) (pay_bookingId p) \<in> K"
  shows "keeps (paid {} K) (webhookCommit e p b i n pl pe)"
proof -
  have tx: "keeps (paid {} K) (transaction (webhookTx e p b i n pl pe))"
    unfolding webhookTx_def
    by (intro keeps_transaction ends_andThen [OF ends_webhookSwitch [OF assms]]
        ends_andThen [OF ends_keeps] ends_keeps paid_statements inv.ret)
  show ?thesis
    unfolding webhookCommit_def
    by (intro tx inv.tryCatch inv.andThen inv.case_option inv.if_then_else inv.ret inv.throw paid_statements)
qed

lemma paid_handleWebhookEvent: "keeps (paid {} K) (handleWebhookEvent e body sig hdr)"
proof -
  have "keeps (paid {} K) (recordIgnored e i n pl)" for i n pl
    unfolding recordIgnored_def by (intro inv.combinators paid_statements)
  then show ?thesis
    unfolding handleWebhookEvent_def processWebhookEvent_def Let_def
    by (intro learn_case [OF learns_payments(1)] inv.combinators paid_statements paid_webhookCommit)
      (auto simp: paymentOf_def)
qed

lemma paid_refundTx: "keeps (paid J K) (refundTx e a dto p b rr)"
  unfolding refundTx_def by (intro inv.combinators paid_statements) simp

lemma paid_refundPayment: "keeps (paid J K) (refundPayment e a i dto)"
  unfolding refundPayment_def refundChecks_def
  by (intro inv.combinators paid_statements) (auto intro!: inv.combinators paid_statements paid_refundTx)

end
