(* ===== verification/PriceFacts.thy ===== *)
theory PriceFacts
  imports PaidFacts
begin

text \<open>
  What is charged is what was booked: the amount of every payment is the price its
  booking was made at, and that price is at least one hundredth, because offerings have
  such prices (\<open>offeringsOk\<close>, the ranges of their request validation).
\<close>

section \<open>The invariant\<close>

definition offeringsOk :: "world \<Rightarrow> bool" where
  "offeringsOk w \<longleftrightarrow> (\<forall>s \<in> set (providerServices w).
     1 / 100 \<le> ps_price s \<and> 1 \<le> ps_durationMinutes s \<and> 0 \<le> ps_bufferMinutes s)"

datatype priceFact = BookedAt uuid rat | Payable rat

definition priceFacts :: "world \<Rightarrow> priceFact set" where
  "priceFacts w = (\<lambda>b. BookedAt (b_id b) (b_bookedPrice b)) ` set (bookings w) \<union> Payable ` {x. 1 / 100 \<le> x}"

definition chargesOk :: "world \<Rightarrow> bool" where
  "chargesOk w \<longleftrightarrow>
     (\<forall>p \<in> set (payments w). BookedAt (pay_bookingId p) (pay_amount p) \<in> priceFacts w)
     \<and> (\<forall>b \<in> set (bookings w). 1 / 100 \<le> b_bookedPrice b)"

definition pricesOk :: "world \<Rightarrow> bool" where
  "pricesOk w \<longleftrightarrow> chargesOk w \<and> offeringsOk w"

abbreviation priced :: "priceFact set \<Rightarrow> world \<Rightarrow> bool" where
  "priced \<equiv> knows priceFacts pricesOk"

section \<open>Statements\<close>

text \<open>Bookings keep their price, payments their booking and amount, and offerings are not written.\<close>

definition samePrices :: "world \<Rightarrow> world \<Rightarrow> bool" where
  "samePrices w w' \<longleftrightarrow>
     map (\<lambda>b. (b_id b, b_bookedPrice b)) (bookings w') = map (\<lambda>b. (b_id b, b_bookedPrice b)) (bookings w)
     \<and> map (\<lambda>p. (pay_bookingId p, pay_amount p)) (payments w') = map (\<lambda>p. (pay_bookingId p, pay_amount p)) (payments w)
     \<and> providerServices w' = providerServices w"

interpretation samePrices: state_order samePrices
  by unfold_locales (auto simp: samePrices_def)

lemma priceFacts_rows:
  "priceFacts w = case_prod BookedAt ` set (map (\<lambda>b. (b_id b, b_bookedPrice b)) (bookings w))
     \<union> Payable ` {x. 1 / 100 \<le> x}"
  by (simp add: priceFacts_def image_image)

lemma chargesOk_rows:
  "chargesOk w \<longleftrightarrow>
     (\<forall>y \<in> set (map (\<lambda>p. (pay_bookingId p, pay_amount p)) (payments w)). case_prod BookedAt y \<in> priceFacts w)
     \<and> (\<forall>y \<in> set (map (\<lambda>b. (b_id b, b_bookedPrice b)) (bookings w)). 1 / 100 \<le> snd y)"
  by (simp add: chargesOk_def)

lemma priced_same:
  assumes "steps samePrices m"
  shows "keeps (priced K) m"
proof -
  have "priced K w'" if same: "samePrices w w'" and w: "priced K w" for w w'
  proof -
    have facts: "priceFacts w' = priceFacts w"
      using same by (simp only: samePrices_def priceFacts_rows)
    moreover have "chargesOk w' = chargesOk w"
      using same facts by (simp only: samePrices_def chargesOk_rows)
    moreover have "offeringsOk w' = offeringsOk w"
      using same by (simp only: samePrices_def offeringsOk_def)
    ultimately show ?thesis using w by (simp only: knows_def pricesOk_def)
  qed
  with assms show ?thesis by (auto simp: steps_def)
qed

lemma prices_same:
  assumes "steps sameBookings m"
  shows "steps samePrices m"
  using assms by (simp add: steps_def sameBookings_def samePrices_def)

lemma prices_rows:
  "(\<And>b. b_id (f b) = b_id b) \<Longrightarrow> (\<And>b. b_bookedPrice (f b) = b_bookedPrice b) \<Longrightarrow>
     samePrices w (bookings_update (mapRows q f) w)"
  "(\<And>p. pay_bookingId (g p) = pay_bookingId p) \<Longrightarrow> (\<And>p. pay_amount (g p) = pay_amount p) \<Longrightarrow>
     samePrices w (payments_update (mapRows r g) w)"
  by (simp_all add: samePrices_def map_mapRows)

lemma prices_updates:
  "steps samePrices (booking_updateStatus e i s r)"
  "steps samePrices (booking_update i (\<lambda>x. x\<lparr>b_bookingStatus := COMPLETED, b_completedAt := t\<rparr>))"
  "steps samePrices (booking_updateMany q (\<lambda>x. x\<lparr>b_bookingStatus := EXPIRED\<rparr>))"
  "steps samePrices (booking_updateMany q (\<lambda>x. x\<lparr>b_needsReview := True, b_overdueAt := t\<rparr>))"
  "steps samePrices (payment_updateStatus i ps details)"
  "steps samePrices (payment_updateMany q' (\<lambda>p. p\<lparr>pay_status := PaymentStatus.FAILED\<rparr>))"
  unfolding booking_updateStatus_def booking_update_def booking_updateMany_def payment_updateStatus_def
    payment_updateMany_def
  by (intro samePrices.combinators prices_rows; simp)+

lemmas prices_statements = prices_updates same_statements [THEN prices_same]
  same_queues [THEN prices_same] same_notifications [THEN prices_same]
  same_scheduleConfirmed [THEN prices_same] same_texts [THEN prices_same]

section \<open>Handlers that write no price\<close>

lemma prices_bookings:
  "steps samePrices (cancelBookingAsCustomer e i c dto)" "steps samePrices (completeBooking e i u r)"
  "steps samePrices (bookingProcessor_process e j)"
proof -
  show "steps samePrices (cancelBookingAsCustomer e i c dto)"
    unfolding cancelBookingAsCustomer_def Let_def by (intro samePrices.combinators prices_statements)
  show "steps samePrices (completeBooking e i u r)"
    unfolding completeBooking_def Let_def by (intro samePrices.combinators prices_statements)
  show "steps samePrices (bookingProcessor_process e j)"
    unfolding bookingProcessor_process_def expireBooking_def flagOverdueBooking_def
    by (cases "bj_name j") (simp_all, (intro samePrices.combinators prices_statements)+)
qed

lemma prices_verifyCommit: "steps samePrices (verifyCommit e c dto pb)"
  unfolding verifyCommit_def verifyTx_def by (intro samePrices.combinators prices_statements)

lemma prices_verifyClientPayment: "steps samePrices (verifyClientPayment e c dto)"
  unfolding verifyClientPayment_def verifyChecks_def
  by (intro samePrices.combinators prices_statements)
    (auto intro: samePrices.ret prices_verifyCommit split: sum.split)

lemma prices_webhookCommit: "steps samePrices (webhookCommit e p b i n pl pe)"
  unfolding webhookCommit_def webhookTx_def webhookSwitch_def webhookCaptured_def confirmIfPending_def
    webhookFailed_def webhookRefunded_def Let_def
  by (intro samePrices.combinators prices_statements)

lemma prices_handleWebhookEvent: "steps samePrices (handleWebhookEvent e body sig hdr)"
  unfolding handleWebhookEvent_def processWebhookEvent_def recordIgnored_def Let_def
  by (intro samePrices.combinators prices_statements prices_webhookCommit)

lemma prices_refunds:
  "steps samePrices (refundTx e a dto p b rr)" "steps samePrices (refundPayment e a i dto)"
proof -
  show tx: "steps samePrices (refundTx e a dto p b rr)" for p b rr
    unfolding refundTx_def by (intro samePrices.combinators prices_statements)
  show "steps samePrices (refundPayment e a i dto)"
    unfolding refundPayment_def refundChecks_def
    by (intro samePrices.combinators prices_statements)
      (auto intro!: samePrices.combinators prices_statements tx)
qed

section \<open>Bookings and orders\<close>

lemma priced_booking_create:
  assumes "Payable (bi_bookedPrice d) \<in> K"
  shows "keeps (priced K) (booking_create e d)"
proof -
  have "1 / 100 \<le> bi_bookedPrice d" if "priced K w" for w
    using assms that by (auto simp: knows_def priceFacts_def)
  then show ?thesis
    unfolding booking_create_def
    by (intro inv.combinators same_drawUuid [THEN prices_same, THEN priced_same])
      (auto simp: knows_def pricesOk_def chargesOk_def priceFacts_def offeringsOk_def bookingRow_def)
qed

lemma learns_booked:
  "learns priceFacts pricesOk K (booking_create e d) (\<lambda>b. {BookedAt (b_id b) (bi_bookedPrice d)})"
  by (auto simp: learns_def booking_create_def drawUuid_def insertRow_def prog_simps priceFacts_def
      bookingRow_def split: option.splits)

lemma priced_payment_create:
  "BookedAt (pi_bookingId d) (pi_amount d) \<in> K \<Longrightarrow> keeps (priced K) (payment_create e d)"
  unfolding payment_create_def
  by (intro inv.combinators same_drawUuid [THEN prices_same, THEN priced_same])
    (auto simp: knows_def pricesOk_def chargesOk_def priceFacts_def offeringsOk_def paymentRow_def)

lemma learns_price:
  "learns priceFacts pricesOk K (reads (providerService_findById i)) (found (\<lambda>s. {Payable (ps_price s)}))"
  "learns priceFacts pricesOk K (reads (booking_findById i))
     (found (\<lambda>b. {BookedAt (b_id b) (b_bookedPrice b)}))"
  by (rule learns_found; auto simp: knows_def pricesOk_def offeringsOk_def priceFacts_def
      providerService_findById_def booking_findById_def dest!: findUnique_SomeD)+

lemmas priced_statements = prices_statements [THEN priced_same]

lemma priced_createBookingTx:
  assumes "Payable (ps_price s) \<in> K"
  shows "keeps (priced K) (createBookingTx e c dto s pp d t u gr)"
  unfolding createBookingTx_def
  by (intro inv.reads inv.andThen [OF inv.reads] inv.case_option inv.throw inv.ret
      learn [OF priced_booking_create learns_booked] inv.andThen [OF priced_payment_create]
      inv.andThen [OF priced_statements(7)]) (use assms in auto)

lemma priced_createBooking: "keeps (priced K) (createBooking e c dto)"
  unfolding createBooking_def Let_def
  by (intro learn_case [OF learns_price(1)] inv.combinators priced_statements priced_createBookingTx) simp

lemma priced_createPaymentOrder: "keeps (priced K) (createPaymentOrder e c i)"
  unfolding createPaymentOrder_def
  by (intro learn_case [OF learns_price(2)] inv.combinators priced_statements priced_payment_create) simp

end
