(* ===== verification/Served.thy ===== *)
theory Served
  imports ApiFacts ReferenceFacts PriceFacts ReviewFacts AvailabilityFacts
begin

text \<open>
  The states of the running service: what the HTTP interface, the two workers and the
  transactions of concurrent requests can do to a database that starts well-formed.
  The invariants proved here rely on the validation of request bodies and on the guards
  of the routes, so they hold behind the interface (\<open>served\<close>) and not for arbitrary
  calls of the services (\<open>reachable\<close>).
\<close>

section \<open>The invariant of the database\<close>

text \<open>Ratings are in the range of their request validation.\<close>

definition ratingsOk :: "world \<Rightarrow> bool" where
  "ratingsOk w \<longleftrightarrow> (\<forall>r \<in> set (reviews w). 1 \<le> rv_rating r \<and> rv_rating r \<le> 5)"

definition databaseOk :: "world \<Rightarrow> bool" where
  "databaseOk w \<longleftrightarrow> foreignKeysHold w \<and> confirmedPaid {} w \<and> chargesOk w \<and> offeringsOk w
     \<and> ratingsOk w \<and> reviewsOk w"

section \<open>The steps of the service\<close>

text \<open>
  The verification of a payment and the webhook read the payment before their
  transaction starts; other requests may run in between. A payment keeps its identifier
  and its booking, so what is known of the row read earlier is that it is still there.
\<close>

definition paymentRead :: "payment \<Rightarrow> world \<Rightarrow> bool" where
  "paymentRead p w \<longleftrightarrow> PaymentOf (pay_id p) (pay_bookingId p) \<in> paymentFacts w"

inductive served :: "world \<Rightarrow> bool" where
  start: "initialState w \<Longrightarrow> databaseOk w \<Longrightarrow> served w"
| http: "served w \<Longrightarrow> served (snd (serve e ctx r w))"
| bookingJob: "served w \<Longrightarrow> served (snd (bookingProcessor_process e j w))"
| notificationJob: "served w \<Longrightarrow> payloadRefs (nj_data n) \<subseteq> stored w \<Longrightarrow>
    served (snd (notificationProcessor_process e n k t w))"
| notificationFailed: "served w \<Longrightarrow> served (snd (notificationProcessor_onFailed e n k m err w))"
| verification: "served w \<Longrightarrow> paymentRead p w \<Longrightarrow> UserRef u \<in> stored w \<Longrightarrow>
    served (snd (verifyCommit e u dto (p, b) w))"
| webhook: "served w \<Longrightarrow> paymentRead p w \<Longrightarrow> UserRef (b_customerId b) \<in> stored w \<Longrightarrow>
    served (snd (webhookCommit e p b i name pl pe w))"
| refund: "served w \<Longrightarrow> UserRef ` set_option a \<subseteq> stored w \<Longrightarrow>
    served (snd (transaction (refundTx e a rdto p b rr) w))"

section \<open>Requests with an existing actor and a body in range\<close>

fun coreAdmissible :: "coreRequest \<Rightarrow> world \<Rightarrow> bool" where
  "coreAdmissible (CreateBooking u dto) w \<longleftrightarrow> UserRef u \<in> stored w"
| "coreAdmissible (CancelBooking b u dto) w \<longleftrightarrow> UserRef u \<in> stored w"
| "coreAdmissible (CompleteBooking b u r) w \<longleftrightarrow> UserRef u \<in> stored w"
| "coreAdmissible (VerifyPayment u dto) w \<longleftrightarrow> UserRef u \<in> stored w"
| "coreAdmissible (CommitVerification u dto p b) w \<longleftrightarrow> UserRef u \<in> stored w \<and> paymentRead p w"
| "coreAdmissible (CommitWebhook p b i n pl pe) w \<longleftrightarrow> UserRef (b_customerId b) \<in> stored w \<and> paymentRead p w"
| "coreAdmissible (Refund a p dto) w \<longleftrightarrow> UserRef ` set_option a \<subseteq> stored w"
| "coreAdmissible (CommitRefund a dto p b rr) w \<longleftrightarrow> UserRef ` set_option a \<subseteq> stored w"
| "coreAdmissible _ w \<longleftrightarrow> True"

fun sideAdmissible :: "sideRequest \<Rightarrow> world \<Rightarrow> bool" where
  "sideAdmissible (UpdateUserStatus u s a) w \<longleftrightarrow> UserRef ` set_option a \<subseteq> stored w"
| "sideAdmissible (VerifyProvider p a) w \<longleftrightarrow> UserRef ` set_option a \<subseteq> stored w"
| "sideAdmissible (RejectProvider p r a) w \<longleftrightarrow> UserRef ` set_option a \<subseteq> stored w"
| "sideAdmissible (SuspendProvider p a) w \<longleftrightarrow> UserRef ` set_option a \<subseteq> stored w"
| "sideAdmissible (CreateProfile u dto) w \<longleftrightarrow> UserRef u \<in> stored w"
| "sideAdmissible (CreateOffering p dto) w \<longleftrightarrow> ProviderRef p \<in> stored w
     \<and> 1 / 100 \<le> co_price dto \<and> 1 \<le> co_durationMinutes dto \<and> 0 \<le> co_bufferMinutes dto"
| "sideAdmissible (UpdateOffering p i dto) w \<longleftrightarrow>
     (\<forall>x \<in> set_option (uo_price dto). 1 / 100 \<le> x) \<and> (\<forall>x \<in> set_option (uo_durationMinutes dto). 1 \<le> x)
     \<and> (\<forall>x \<in> set_option (uo_bufferMinutes dto). 0 \<le> x)"
| "sideAdmissible (SetAvailability p ss) w \<longleftrightarrow> ProviderRef p \<in> stored w"
| "sideAdmissible (UpdateService i dto) w \<longleftrightarrow> us_categoryId dto \<noteq> Some []"
| "sideAdmissible (CreateReview u dto i) w \<longleftrightarrow>
     UserRef u \<in> stored w \<and> 1 \<le> cr_rating dto \<and> cr_rating dto \<le> 5"
| "sideAdmissible (UpdateReview u i dto) w \<longleftrightarrow> (\<forall>x \<in> set_option (ur_rating dto). 1 \<le> x \<and> x \<le> 5)"
| "sideAdmissible (NotificationJob j k t) w \<longleftrightarrow> payloadRefs (nj_data j) \<subseteq> stored w"
| "sideAdmissible _ w \<longleftrightarrow> True"

fun admissible :: "request \<Rightarrow> world \<Rightarrow> bool" where
  "admissible (Core r) w = coreAdmissible r w"
| "admissible (Side r) w = sideAdmissible r w"

section \<open>The interface only runs such requests\<close>

lemma sessionUser_stored: "sessionUser e t w = Some u \<Longrightarrow> UserRef (u_id u) \<in> stored w"
  by (auto simp: sessionUser_def user_findById_def stored_def dest!: findUnique_SomeD
      split: option.splits if_splits)

lemma sessionProvider_stored: "sessionProvider e t w = Some p \<Longrightarrow> ProviderRef (pp_id p) \<in> stored w"
  by (auto simp: sessionProvider_def provider_findByUserId_def stored_def dest!: findUnique_SomeD
      split: option.splits if_splits)

lemma granted_stored:
  "grants e t w Authenticated \<Longrightarrow> UserRef (u_id (the (sessionUser e t w))) \<in> stored w"
  "grants e t w (HasRole r) \<Longrightarrow> UserRef (u_id (the (sessionUser e t w))) \<in> stored w"
  "grants e t w VerifiedProvider \<Longrightarrow> ProviderRef (pp_id (the (sessionProvider e t w))) \<in> stored w"
  using sessionUser_stored [of e t w] sessionProvider_stored [of e t w]
  by (auto split: option.splits)

lemmas body_defs = validCreateOffering_def validUpdateOffering_def validCreateReview_def
  validUpdateReview_def validUpdateService_def trimUpdateService_def optional_def minNum_def maxNum_def
  isNotEmpty_def

lemma operation_admissible:
  assumes "grants e t w (requiredAccess r)" and "accepted e r"
    and "operation (the (sessionUser e t w)) (the (sessionProvider e t w)) r = Some q"
  shows "admissible q w"
  using assms
  by (cases r; rename_tac x; case_tac x)
    (auto simp del: grants.simps(2-) simp: body_defs dest: granted_stored split: option.splits)

section \<open>Foreign keys\<close>

lemma fkD: "keeps (fk (stored w)) m \<Longrightarrow> foreignKeysHold w \<Longrightarrow> foreignKeysHold (snd (m w))"
  by (auto simp: steps_def knows_def)

lemma executeCore_fk:
  assumes "coreAdmissible r w" and "foreignKeysHold w"
  shows "foreignKeysHold (executeCore e r w)"
  using assms
  by (cases r)
    (auto intro!: fkD fk_createBooking fk_cancelBooking fk_completeBooking fk_bookingProcessor
      fk_createPaymentOrder fk_verifyClientPayment fk_verifyCommit fk_handleWebhookEvent
      fk_webhookCommit fk_refundPayment fk_refundTx)

lemma executeSide_fk:
  assumes "sideAdmissible r w" and "foreignKeysHold w"
  shows "foreignKeysHold (executeSide e r w)"
  using assms
  by (cases r)
    (auto intro!: fkD fk_accounts fk_updateStatus fk_decisions fk_createProfile fk_updateOwnProfile
      fk_uploadDocument fk_createOffering fk_offerings fk_setAvailibity fk_categories fk_createService
      fk_updateService fk_removeService fk_lists fk_createReview fk_updateReview
      fk_notificationProcessor fk_notifications)

section \<open>Payments of confirmed bookings\<close>

lemma paidD:
  "keeps (paid {} (paymentFacts w)) m \<Longrightarrow> confirmedPaid {} w \<Longrightarrow> confirmedPaid {} (snd (m w))"
  by (auto simp: steps_def knows_def)

lemma executeCore_paid:
  assumes "coreAdmissible r w" and "confirmedPaid {} w"
  shows "confirmedPaid {} (executeCore e r w)"
  using assms
  by (cases r)
    (auto simp: paymentRead_def intro!: paidD paid_createBooking paid_cancelBooking paid_completeBooking
      paid_bookingProcessor paid_createPaymentOrder paid_verifyClientPayment paid_verifyCommit
      paid_handleWebhookEvent paid_webhookCommit paid_refundPayment paid_refundTx)

lemma executeSide_paid: "confirmedPaid {} w \<Longrightarrow> confirmedPaid {} (executeSide e r w)"
  using coreStays.executeSide [of w e r] by (simp add: coreStays_def confirmedPaid_def paymentFacts_def)

section \<open>Prices\<close>

lemma pricesD: "keeps (priced {}) m \<Longrightarrow> pricesOk w \<Longrightarrow> pricesOk (snd (m w))"
  by (auto simp: steps_def knows_def)

lemma executeCore_prices: "pricesOk w \<Longrightarrow> pricesOk (executeCore e r w)"
  by (cases r)
    (auto intro: pricesD priced_createBooking priced_createPaymentOrder priced_same [OF prices_bookings(1)]
      priced_same [OF prices_bookings(2)] priced_same [OF prices_bookings(3)]
      priced_same [OF prices_verifyCommit] priced_same [OF prices_verifyClientPayment]
      priced_same [OF prices_webhookCommit] priced_same [OF prices_handleWebhookEvent]
      priced_same [OF prices_refunds(1)] priced_same [OF prices_refunds(2)])

lemma executeSide_charges: "chargesOk w \<Longrightarrow> chargesOk (executeSide e r w)"
  using coreStays.executeSide [of w e r] by (simp add: coreStays_def chargesOk_def priceFacts_def)

section \<open>Offerings, ratings and statistics\<close>

definition valuesOk :: "world \<Rightarrow> bool" where
  "valuesOk w \<longleftrightarrow> offeringsOk w \<and> ratingsOk w \<and> reviewsOk w"

definition ratingOf :: "providerProfile \<Rightarrow> uuid \<times> rat \<times> nat" where
  "ratingOf p = (pp_id p, pp_averageRating p, pp_totalReviews p)"

definition ratedSame :: "world \<Rightarrow> world \<Rightarrow> bool" where
  "ratedSame w w' \<longleftrightarrow> providerServices w' = providerServices w \<and> reviews w' = reviews w
     \<and> map ratingOf (providerProfiles w') = map ratingOf (providerProfiles w)"

interpretation ratedSame: outer_order ratedSame
  by unfold_locales
    (auto simp: ratedSame_def steps_def auditLog_create_def drawUuid_def insertRow_def prog_simps
      map_mapRows keepsRating_def ratingOf_def split: option.splits)

lemma statsOk_iff:
  "statsOk w \<longleftrightarrow> (\<forall>x \<in> set (map ratingOf (providerProfiles w)). snd x = ratingStats (fst x) w)"
  by (simp add: statsOk_def ratingOf_def)

lemma ratedSame_values: "ratedSame w w' \<Longrightarrow> valuesOk w \<Longrightarrow> valuesOk w'"
  by (simp add: ratedSame_def valuesOk_def offeringsOk_def ratingsOk_def reviewsOk_def statsOk_iff
      ratingStats_def aggregateProviderRating_def)

lemma values_same: "steps ratedSame m \<Longrightarrow> keeps valuesOk m"
  by (auto simp: steps_def intro: ratedSame_values)

lemma provider_stored: "ProviderRef i \<in> stored w \<longleftrightarrow> i \<in> pp_id ` set (providerProfiles w)"
  by (auto simp: stored_def)

text \<open>No review is of a provider that does not exist yet, so a new profile has no statistics.\<close>

lemma provider_create_outcome:
  assumes "provider_create e u dto w = (res, w')"
  shows "ratedSame w w' \<or> providerServices w' = providerServices w \<and> reviews w' = reviews w
    \<and> (\<exists>p. providerProfiles w' = providerProfiles w @ [p] \<and> pp_averageRating p = 0 \<and> pp_totalReviews p = 0
        \<and> pp_id p \<notin> pp_id ` set (providerProfiles w))"
  using assms
  by (auto simp: provider_create_def transaction_app andThen_run drawUuid_def insertRow_def
      profileViolation_def ret_app ratedSame_def split: option.splits prod.splits sum.splits if_splits)

lemma createProfile_values:
  assumes fk: "foreignKeysHold w" and ok: "valuesOk w"
  shows "valuesOk (snd (createProfile e u dto w))"
proof -
  have new: "valuesOk w'"
    if w': "providerServices w' = providerServices w" "reviews w' = reviews w"
      "providerProfiles w' = providerProfiles w @ [p]" "pp_averageRating p = 0" "pp_totalReviews p = 0"
      and p: "pp_id p \<notin> pp_id ` set (providerProfiles w)" for w' p
  proof -
    have "ProviderRef (rv_providerId r) \<in> stored w" if "r \<in> set (reviews w)" for r
      using fk_mem(5) [of "{}" w r] fk that by (simp add: knows_def row_refs)
    then have none: "filter (\<lambda>r. rv_providerId r = pp_id p) (reviews w) = []"
      using p unfolding filter_empty_conv provider_stored by metis
    have stats: "ratingStats i w' = ratingStats i w" for i
      by (rule ratingStats_reviews) (simp add: w')
    from none have "ratingStats (pp_id p) w = (0, 0)"
      by (simp add: ratingStats_def aggregateProviderRating_def)
    with ok w' stats show ?thesis
      by (simp add: valuesOk_def offeringsOk_def ratingsOk_def reviewsOk_def statsOk_def)
  qed
  have "valuesOk (snd (provider_create e u dto w))"
    using provider_create_outcome [of e u dto w] new ratedSame_values [OF _ ok]
    by (metis prod.collapse)
  with ok show ?thesis by (simp add: createProfile_def)
qed

lemma values_cache: "keeps valuesOk (invalidateProvider e p)" "keeps valuesOk (redis_del e k)"
  "keeps valuesOk (drawUuid e)"
  by (intro values_same ratedSame.cache_steps ratedSame.drawUuid)+

lemma offering_insert_values:
  "valuesOk w \<Longrightarrow> 1 / 100 \<le> ps_price s \<Longrightarrow> 1 \<le> ps_durationMinutes s \<Longrightarrow> 0 \<le> ps_bufferMinutes s \<Longrightarrow>
     valuesOk (providerServices_update (\<lambda>t. t @ [s]) w)"
  by (auto simp: valuesOk_def offeringsOk_def ratingsOk_def reviewsOk_def statsOk_def ratingStats_def
      aggregateProviderRating_def)

lemma offering_update_values:
  assumes "valuesOk w" and "\<And>s. 1 / 100 \<le> ps_price s \<Longrightarrow> 1 / 100 \<le> ps_price (f s)"
    and "\<And>s. 1 \<le> ps_durationMinutes s \<Longrightarrow> 1 \<le> ps_durationMinutes (f s)"
    and "\<And>s. 0 \<le> ps_bufferMinutes s \<Longrightarrow> 0 \<le> ps_bufferMinutes (f s)"
  shows "valuesOk (providerServices_update (mapRows p f) w)"
  using assms
  by (auto simp: valuesOk_def offeringsOk_def ratingsOk_def reviewsOk_def statsOk_def ratingStats_def
      aggregateProviderRating_def set_mapRows)

lemma offerings_values:
  "1 / 100 \<le> co_price dto \<Longrightarrow> 1 \<le> co_durationMinutes dto \<Longrightarrow> 0 \<le> co_bufferMinutes dto \<Longrightarrow>
     keeps valuesOk (createOffering e p dto)"
  "\<forall>x \<in> set_option (uo_price ud). 1 / 100 \<le> x \<Longrightarrow> \<forall>x \<in> set_option (uo_durationMinutes ud). 1 \<le> x \<Longrightarrow>
     \<forall>x \<in> set_option (uo_bufferMinutes ud). 0 \<le> x \<Longrightarrow> keeps valuesOk (updateOffering e p i ud)"
  "keeps valuesOk (removeOffering e p i)"
  unfolding createOffering_def providerService_create_def updateOffering_def removeOffering_def
    ownOffering_def providerService_delete_def providerService_update_def
  by (intro inv.combinators values_cache;
      auto intro!: offering_insert_values offering_update_values simp: offeringWith_def given_def
        split: option.splits)+

lemma ratings_recalculate: "keeps ratingsOk (recalculate p r)"
  unfolding recalculate_def updateProviderRatingStats_def Let_def
  by (intro inv.combinators) (auto intro!: inv.combinators simp: ratingsOk_def split: prod.split)

lemma ratings_redis_del: "keeps ratingsOk (redis_del e k)"
  unfolding redis_del_def dropKey_def by (intro inv.combinators) (simp add: ratingsOk_def)

lemma createReview_ratings:
  "1 \<le> cr_rating dto \<Longrightarrow> cr_rating dto \<le> 5 \<Longrightarrow> keeps ratingsOk (createReview e c dto i)"
  unfolding createReview_def review_create_def drawUuid_def
  by (intro inv.combinators ratings_recalculate ratings_redis_del)
    (auto simp: ratingsOk_def steps_def)

lemma ratings_update:
  "ratingsOk w \<Longrightarrow> (\<And>r. 1 \<le> rv_rating r \<and> rv_rating r \<le> 5 \<Longrightarrow> 1 \<le> rv_rating (f r) \<and> rv_rating (f r) \<le> 5) \<Longrightarrow>
     ratingsOk (reviews_update (mapRows p f) w)"
  by (auto simp: ratingsOk_def set_mapRows)

lemma updateReview_ratings:
  "\<forall>x \<in> set_option (ur_rating dto). 1 \<le> x \<and> x \<le> 5 \<Longrightarrow> keeps ratingsOk (updateReview e c i dto)"
  unfolding updateReview_def review_update_def
  by (intro inv.combinators ratings_recalculate)
    (auto intro!: inv.combinators ratings_redis_del ratings_update split: prod.split)

lemma offerings_untouched:
  "offeringsOk (snd (createReview e c dto i w)) = offeringsOk w"
  "offeringsOk (snd (updateReview e c j udto w)) = offeringsOk w"
proof -
  have r: "steps (\<lambda>s t. providerServices t = providerServices s) (recalculate p x)" for p x
    unfolding recalculate_def updateProviderRatingStats_def Let_def
    by (intro same.combinators) (auto intro!: same.combinators split: prod.split)
  have d: "steps (\<lambda>s t. providerServices t = providerServices s) (redis_del e k)" for k
    unfolding redis_del_def dropKey_def by (intro same.combinators) simp
  have "steps (\<lambda>s t. providerServices t = providerServices s) (createReview e c dto i)"
    unfolding createReview_def review_create_def drawUuid_def
    by (intro same.combinators r d) (auto simp: steps_def)
  from steps_snd [OF this] show "offeringsOk (snd (createReview e c dto i w)) = offeringsOk w"
    by (simp add: offeringsOk_def)
  have "steps (\<lambda>s t. providerServices t = providerServices s) (updateReview e c j udto)"
    unfolding updateReview_def review_update_def
    by (intro same.combinators r) (auto intro!: same.combinators d split: prod.split)
  from steps_snd [OF this] show "offeringsOk (snd (updateReview e c j udto w)) = offeringsOk w"
    by (simp add: offeringsOk_def)
qed

lemma keepsI: "keeps I m \<Longrightarrow> I w \<Longrightarrow> I (snd (m w))"
  by (simp add: steps_def)

lemma reviews_values:
  assumes "valuesOk w"
  shows "1 \<le> cr_rating dto \<Longrightarrow> cr_rating dto \<le> 5 \<Longrightarrow> valuesOk (snd (createReview e c dto i w))"
    and "\<forall>x \<in> set_option (ur_rating udto). 1 \<le> x \<and> x \<le> 5 \<Longrightarrow> valuesOk (snd (updateReview e c j udto w))"
  using assms
  by (auto simp: valuesOk_def offerings_untouched
      intro: createReview_reviewsOk updateReview_reviewsOk keepsI [OF createReview_ratings]
        keepsI [OF updateReview_ratings])

section \<open>The invariant holds behind the interface\<close>

lemmas values_outer = ratedSame.outer_steps [THEN values_same, THEN keepsI]

lemma executeSide_values:
  assumes "sideAdmissible r w" and "foreignKeysHold w" and "valuesOk w"
  shows "valuesOk (executeSide e r w)"
  using assms
  by (cases r)
    (auto intro: createProfile_values reviews_values keepsI [OF offerings_values(1)]
      keepsI [OF offerings_values(2)] keepsI [OF offerings_values(3)] values_outer)

lemma executeCore_values: "valuesOk w \<Longrightarrow> valuesOk (executeCore e r w)"
  using sameMasterData.executeCore [of w e r]
  by (auto intro: ratedSame_values simp: sameMasterData_def ratedSame_def)

lemma execute_databaseOk:
  assumes "admissible q w" and "databaseOk w"
  shows "databaseOk (execute e q w)"
proof -
  have ok: "foreignKeysHold w" "confirmedPaid {} w" "pricesOk w" "chargesOk w" "valuesOk w"
    using assms(2) by (simp_all add: databaseOk_def pricesOk_def valuesOk_def)
  have "foreignKeysHold (execute e q w)" "confirmedPaid {} (execute e q w)"
    "chargesOk (execute e q w)" "valuesOk (execute e q w)"
    using assms(1) ok executeCore_prices [OF ok(3)]
    by (cases q; simp add: executeCore_fk executeSide_fk executeCore_paid executeSide_paid
        executeSide_charges executeCore_values executeSide_values pricesOk_def)+
  then show ?thesis by (simp add: databaseOk_def valuesOk_def)
qed

lemma databaseOk_drawn [simp]: "databaseOk (w\<lparr>drawn := n\<rparr>) = databaseOk w"
  by (simp add: databaseOk_def foreignKeysHold_def stored_def references_def confirmedPaid_def paymentFacts_def
      chargesOk_def priceFacts_def offeringsOk_def ratingsOk_def reviewsOk_def statsOk_def)

lemma serve_databaseOk:
  assumes "databaseOk w"
  shows "databaseOk (snd (serve e ctx r w))"
proof (rule serve_run [of w e ctx r])
  fix i n
  assume run: "serve e ctx r w =
      (case route e (hc_bearer ctx) r (w\<lparr>drawn := n\<rparr>) of
         (Inl x, w') \<Rightarrow> (Inl (exceptionFilters e ctx i x), w')
       | (Inr d, w') \<Rightarrow> (Inr (transformInterceptor e ctx (successCode r) d), w'))"
  have "snd (serve e ctx r w) = snd (route e (hc_bearer ctx) r (w\<lparr>drawn := n\<rparr>))"
    by (simp add: run split: prod.split sum.split)
  then show ?thesis
    using assms by (auto simp: route_refines split: option.split intro!: execute_databaseOk operation_admissible)
qed

lemma served_databaseOk: "served w \<Longrightarrow> databaseOk w"
proof (induction rule: served.induct)
  case (bookingJob w e j)
  then show ?case using execute_databaseOk [of "Core (BookingJob j)" w e] by simp
next
  case (notificationJob w n e k t)
  then show ?case using execute_databaseOk [of "Side (NotificationJob n k t)" w e] by simp
next
  case (notificationFailed w e n k m err)
  then show ?case using execute_databaseOk [of "Side (NotificationJobFailed n k m err)" w e] by simp
next
  case (verification w p u e dto b)
  then show ?case using execute_databaseOk [of "Core (CommitVerification u dto p b)" w e] by simp
next
  case (webhook w p b e i name pl pe)
  then show ?case using execute_databaseOk [of "Core (CommitWebhook p b i name pl pe)" w e] by simp
next
  case (refund w a e rdto p b rr)
  then show ?case
    using execute_databaseOk [of "Core (CommitRefund a rdto p b rr)" w e]
    by (auto simp: transaction_app split: prod.split sum.split)
qed (simp_all add: serve_databaseOk)

text \<open>The service only reaches states that the operations reach.\<close>

lemma served_reachable: "served w \<Longrightarrow> reachable w"
proof (induction rule: served.induct)
  case (bookingJob w e j)
  then show ?case using reachable.request [of w e "Core (BookingJob j)"] by simp
next
  case (notificationJob w n e k t)
  then show ?case using reachable.request [of w e "Side (NotificationJob n k t)"] by simp
next
  case (notificationFailed w e n k m err)
  then show ?case using reachable.request [of w e "Side (NotificationJobFailed n k m err)"] by simp
next
  case (verification w p u e dto b)
  then show ?case using reachable.request [of w e "Core (CommitVerification u dto p b)"] by simp
next
  case (webhook w p b e i name pl pe)
  then show ?case using reachable.request [of w e "Core (CommitWebhook p b i name pl pe)"] by simp
next
  case (refund w a e rdto p b rr)
  then show ?case
    using reachable.request [of w e "Core (CommitRefund a rdto p b rr)"]
    by (auto simp: transaction_app split: prod.split sum.split)
qed (simp_all add: serve_reachable reachable.start)

end
