(* ===== verification/ServedFacts.thy ===== *)
theory ServedFacts
  imports Served
begin

text \<open>
  What holds in every state of the running service (\<open>served\<close>): the foreign keys of the
  schema, the payment behind every confirmed booking, the statistics of the provider
  profiles, and that the slot query always returns. A small run of the service, from the
  booking request to the confirmed booking, shows that these states are not trivial.
\<close>

section \<open>A run of the service\<close>

definition demoCategory :: category where
  "demoCategory =
     \<lparr>cat_id = ''cat'', cat_name = ''Home'', cat_slug = ''home'', cat_icon = None, cat_description = None,
      cat_displayOrder = 0, cat_isActive = True, cat_createdAt = 0\<rparr>"

definition shopWorld :: world where
  "shopWorld = demoWorld\<lparr>categories := [demoCategory]\<rparr>"

definition shopEnv :: env where
  "shopEnv = demoEnv\<lparr>jwtVerify := (\<lambda>k t s. if s = ''tok''
     then Some \<lparr>jp_sub = ''cust'', jp_email = [], jp_role = USER\<rparr> else None)\<rparr>"

definition shopContext :: httpContext where
  "shopContext = \<lparr>hc_url = ''/api/v1'', hc_bearer = Some ''tok'', hc_requestIdHeader = Some ''req-1''\<rparr>"

lemma serve_named: "snd (serve e shopContext r w) = snd (route e (Some ''tok'') r w)"
proof -
  have "isSafeRequestId (trim ''req-1'')" "trim ''req-1'' = ''req-1''" by code_simp+
  then show ?thesis
    by (simp add: serve_def answer_def requestIdMiddleware_def shopContext_def ret_app split: prod.split sum.split)
qed

lemma shop_start: "served shopWorld"
  by (rule served.start)
    (simp_all add: shopWorld_def initialState_def databaseOk_def foreignKeysHold_def references_def row_refs
      stored_def confirmedPaid_def chargesOk_def offeringsOk_def ratingsOk_def reviewsOk_def statsOk_def
      ratingStats_def aggregateProviderRating_def demoCategory_def demo_defs)

definition bookedWorld :: world where
  "bookedWorld = snd (serve shopEnv shopContext (BookingRoute (PostBookings demoDto)) shopWorld)"
definition paidWorld :: world where
  "paidWorld = snd (serve shopEnv shopContext (PaymentRoute (PostPaymentVerify demoVerify)) bookedWorld)"

lemma bookedWorld_eq: "bookedWorld = snd (createBooking shopEnv ''cust'' demoDto shopWorld)"
proof -
  have "sessionUser shopEnv (Some ''tok'') shopWorld = Some (demoUser ''cust'')"
    by (simp add: sessionUser_def shopEnv_def shopWorld_def user_findById_def demo_defs)
  moreover have "validCreateBooking shopEnv demoDto"
    by (simp add: validCreateBooking_def shopEnv_def demo_defs isNotEmpty_def optional_def)
  ultimately show ?thesis
    unfolding bookedWorld_def serve_named route_refines by (simp add: demoUser_def)
qed

lemma bookedWorld_users: "users bookedWorld = users shopWorld"
  using sameMasterData.createBooking [of shopEnv "''cust''" demoDto, THEN steps_snd, of shopWorld]
  by (simp add: bookedWorld_eq sameMasterData_def)

lemma paidWorld_eq: "paidWorld = snd (verifyClientPayment shopEnv ''cust'' demoVerify bookedWorld)"
proof -
  have "sessionUser shopEnv (Some ''tok'') bookedWorld = Some (demoUser ''cust'')"
    by (simp add: sessionUser_def shopEnv_def shopWorld_def user_findById_def bookedWorld_users demo_defs)
  moreover have "validVerifyPayment demoVerify"
    by (simp add: validVerifyPayment_def demo_defs isNotEmpty_def optional_def)
  ultimately show ?thesis
    unfolding paidWorld_def serve_named route_refines by (simp add: demoUser_def)
qed

lemma paidWorld_run:
  "bookings paidWorld = [demoBooking CONFIRMED\<lparr>b_id := ''uu''\<rparr>] \<and> 
   map pay_paidAt (payments paidWorld) = [Some 0]"
  unfolding paidWorld_eq bookedWorld_eq shopWorld_def shopEnv_def
  by (simp add: createBooking_def createBookingTx_def verifyClientPayment_def verifyChecks_def payment_booking_def
      verifyPaymentSignature_iff keySecret_def
      verifyCommit_def verifyTx_def confirm_defs run_simps demo_defs read_defs date_defs
      write_defs queue_defs shift_times fitsInShift_def createOrder_eq isOk_def canTransitionPayment_def
      cong: andThen_first)

lemma paidWorld_served: "served paidWorld"
  unfolding paidWorld_def bookedWorld_def by (intro served.http shop_start)

section \<open>Foreign keys\<close>

lemma stored_refs:
  "UserRef i \<in> stored w \<longleftrightarrow> i \<in> u_id ` set (users w)"
  "ProviderRef i \<in> stored w \<longleftrightarrow> i \<in> pp_id ` set (providerProfiles w)"
  "CategoryRef i \<in> stored w \<longleftrightarrow> i \<in> cat_id ` set (categories w)"
  "ServiceRef i \<in> stored w \<longleftrightarrow> i \<in> sv_id ` set (services w)"
  "OfferingRef i \<in> stored w \<longleftrightarrow> i \<in> ps_id ` set (providerServices w)"
  "BookingRef i \<in> stored w \<longleftrightarrow> i \<in> b_id ` set (bookings w)"
  by (auto simp: stored_def)

text \<open>
  C4. The foreign keys of the schema hold in every state of the service, although no
  operation relies on the database to check them: the user of a profile, the provider of
  a location, document, offering or schedule, the category of a service, the service of an
  offering, the customer, provider and offering of a booking, the booking of a payment,
  the booking, customer and provider of a review, the user and booking of a notification
  and the actor of an audit entry are all rows of their tables.
\<close>

theorem foreign_keys_hold:
  assumes "served w"
  shows "(\<forall>p \<in> set (providerProfiles w). pp_userId p \<in> u_id ` set (users w))
    \<and> pl_providerId ` set (providerLocations w) \<union> pd_providerId ` set (providerDocuments w)
        \<union> ps_providerId ` set (providerServices w) \<union> av_providerId ` set (availabilities w)
        \<subseteq> pp_id ` set (providerProfiles w)
    \<and> sv_categoryId ` set (services w) \<subseteq> cat_id ` set (categories w)
    \<and> ps_serviceId ` set (providerServices w) \<subseteq> sv_id ` set (services w)
    \<and> (\<forall>b \<in> set (bookings w). b_customerId b \<in> u_id ` set (users w)
        \<and> b_providerId b \<in> pp_id ` set (providerProfiles w)
        \<and> b_providerServiceId b \<in> ps_id ` set (providerServices w))
    \<and> pay_bookingId ` set (payments w) \<subseteq> b_id ` set (bookings w)
    \<and> (\<forall>r \<in> set (reviews w). rv_bookingId r \<in> b_id ` set (bookings w)
        \<and> rv_customerId r \<in> u_id ` set (users w) \<and> rv_providerId r \<in> pp_id ` set (providerProfiles w))
    \<and> (\<forall>n \<in> set (notifications w). n_userId n \<in> u_id ` set (users w)
        \<and> (\<forall>i \<in> set_option (n_bookingId n). i \<in> b_id ` set (bookings w)))
    \<and> (\<forall>l \<in> set (auditLogs w). \<forall>i \<in> set_option (al_actorUserId l). i \<in> u_id ` set (users w))"
proof -
  have "references w \<subseteq> stored w"
    using served_databaseOk [OF assms] by (simp add: databaseOk_def foreignKeysHold_def)
  then show ?thesis
    unfolding references_def row_refs
    by (simp add: stored_refs UN_subset_iff image_subset_iff)
qed

theorem foreign_keys_hold_witness:
  "served paidWorld \<and> bookings paidWorld \<noteq> []
   \<and> b_customerId ` set (bookings paidWorld) \<subseteq> u_id ` set (users paidWorld)"
  using foreign_keys_hold [OF paidWorld_served] paidWorld_served paidWorld_run by auto

section \<open>Payments\<close>

text \<open>
  C3. No booking is confirmed without a payment: in every state of the service, in any
  order of requests, webhooks and jobs and of the commits of verification, webhook and refund, a booking that is confirmed or completed has a
  payment with a payment date, over the price the booking was made at, which is at least
  one hundredth.
\<close>

theorem confirmed_means_paid:
  assumes "served w" and "b \<in> set (bookings w)" and "b_bookingStatus b \<in> {CONFIRMED, COMPLETED}"
  shows "\<exists>p \<in> set (payments w). pay_bookingId p = b_id b \<and> pay_paidAt p \<noteq> None
    \<and> pay_amount p = b_bookedPrice b \<and> 1 / 100 \<le> b_bookedPrice b"
proof -
  have db: "confirmedPaid {} w" "chargesOk w"
    using served_databaseOk [OF assms(1)] by (simp_all add: databaseOk_def)
  obtain p where p: "p \<in> set (payments w)" "pay_bookingId p = b_id b" "pay_paidAt p \<noteq> None"
    using db(1) assms(2,3) by (fastforce simp: confirmedPaid_def isConfirmed_def paymentFacts_def)
  from db(2) p(1) obtain x where x: "x \<in> set (bookings w)" "b_id x = b_id b" "b_bookedPrice x = pay_amount p"
    by (force simp: chargesOk_def priceFacts_def p(2))
  have "distinct (map b_id (bookings w))"
    using reachable_invariants [OF served_reachable [OF assms(1)]] by (simp add: bookingsOk_def)
  with x assms(2) have "x = b" by (metis findUnique_mem option.inject)
  with p x db(2) assms(2) show ?thesis by (intro bexI [of _ p]) (auto simp: chargesOk_def)
qed

theorem confirmed_means_paid_witness:
  "\<exists>b p. served paidWorld \<and> bookings paidWorld = [b] \<and> b_bookingStatus b = CONFIRMED
     \<and> p \<in> set (payments paidWorld) \<and> pay_paidAt p \<noteq> None \<and> pay_amount p = b_bookedPrice b"
proof -
  let ?b = "demoBooking CONFIRMED\<lparr>b_id := ''uu''\<rparr>"
  have b: "bookings paidWorld = [?b]" "b_bookingStatus ?b = CONFIRMED"
    using paidWorld_run by (simp_all add: demoBooking_def)
  then have "\<exists>p \<in> set (payments paidWorld). pay_bookingId p = b_id ?b \<and> pay_paidAt p \<noteq> None
      \<and> pay_amount p = b_bookedPrice ?b \<and> 1 / 100 \<le> b_bookedPrice ?b"
    by (intro confirmed_means_paid [OF paidWorld_served]) simp_all
  with b paidWorld_served show ?thesis by blast
qed

section \<open>Slots\<close>

text \<open>
  C26. The slot query always returns. The generating loop would not end for an offering
  whose duration and buffer add up to zero or less, but the validation of the requests
  keeps such offerings out of the database: every answer of the route is an error or a
  page of slots, and the state is unchanged.
\<close>

theorem slots_always_answered:
  assumes "served w"
  shows "\<exists>r. providerController_getAvailableSlots e i q w = (r, w) \<and> r \<noteq> Inr None"
proof -
  have ok: "offeringsOk w" using served_databaseOk [OF assms] by (simp add: databaseOk_def)
  have "0 < ps_durationMinutes s + ps_bufferMinutes s"
    if "providerService_findByProviderAndServiceId i j w = Some s" for s j
    using that ok
    by (fastforce simp: providerService_findByProviderAndServiceId_def offeringsOk_def dest!: findUnique_SomeD)
  then have "allSlots d s t \<noteq> None"
    if "providerService_findByProviderAndServiceId i j w = Some s" for s j d t
    using that allSlots_returns by metis
  then show ?thesis
    by (auto simp: providerController_getAvailableSlots_def parseUUIDPipe_def validate_def generateSlot_def
        check_def prog_simps split: option.splits)
qed

theorem slots_always_answered_witness:
  "served paidWorld \<and> (\<exists>r. providerController_getAvailableSlots demoEnv ''prov''
     \<lparr>qs_date = ''1970-01-02'', qs_serviceId = ''svc''\<rparr> paidWorld = (r, paidWorld) \<and> r \<noteq> Inr None)"
  using paidWorld_served slots_always_answered by blast

section \<open>Ratings\<close>

text \<open>
  C5. The statistics of a provider are true: in every state of the service the profile
  shows the rounded average and the number of the reviews of that provider, every rating
  is between 1 and 5, and so is the average of a provider with reviews. There is at most
  one review per booking. Review transactions run one at a time here; two that overlap
  are the subject of theory \<open>Races\<close>.
\<close>

theorem ratings_true:
  assumes "served w"
  shows "distinct (map rv_bookingId (reviews w))
    \<and> (\<forall>r \<in> set (reviews w). 1 \<le> rv_rating r \<and> rv_rating r \<le> 5)
    \<and> (\<forall>p \<in> set (providerProfiles w).
        (pp_averageRating p, pp_totalReviews p) = ratingStats (pp_id p) w
        \<and> (pp_totalReviews p \<noteq> 0 \<longrightarrow> 1 \<le> pp_averageRating p \<and> pp_averageRating p \<le> 5))"
proof -
  have ok: "reviewsOk w" "ratingsOk w" using served_databaseOk [OF assms] by (simp_all add: databaseOk_def)
  then have "1 \<le> pp_averageRating p \<and> pp_averageRating p \<le> 5"
    if "p \<in> set (providerProfiles w)" "pp_totalReviews p \<noteq> 0" for p
    using average_in_range [OF _ _ that] by (simp add: ratingsOk_def)
  with ok show ?thesis by (simp add: reviewsOk_def statsOk_def ratingsOk_def)
qed

text \<open>The provider completes the booking, and its customer reviews it.\<close>

definition providerEnv :: env where
  "providerEnv = shopEnv\<lparr>jwtVerify := (\<lambda>k t s. Some \<lparr>jp_sub = ''provUser'', jp_email = [], jp_role = USER\<rparr>)\<rparr>"

definition shopReview :: createReviewDto where
  "shopReview = \<lparr>cr_bookingId = Some ''uu'', cr_rating = 4, cr_comment = Some ''fine''\<rparr>"

definition completedWorld :: world where
  "completedWorld = snd (serve providerEnv shopContext (BookingRoute (PostBookingComplete ''uu'')) paidWorld)"
definition reviewedWorld :: world where
  "reviewedWorld = snd (serve shopEnv shopContext (ReviewRoute (PostReviews shopReview)) completedWorld)"

lemma paidWorld_users: "users paidWorld = users shopWorld"
  using sameMasterData.verifyClientPayment [of shopEnv "''cust''" demoVerify, THEN steps_snd, of bookedWorld]
  by (simp add: paidWorld_eq bookedWorld_users sameMasterData_def)

lemma completedWorld_eq: "completedWorld = snd (completeBooking providerEnv ''uu'' ''provUser'' (Some USER) paidWorld)"
proof -
  have "sessionUser providerEnv (Some ''tok'') paidWorld = Some (demoUser ''provUser'')"
    by (simp add: sessionUser_def providerEnv_def shopEnv_def shopWorld_def user_findById_def paidWorld_users demo_defs)
  then show ?thesis
    unfolding completedWorld_def serve_named route_refines by (simp add: demoUser_def providerEnv_def shopEnv_def demo_defs)
qed

lemma completedWorld_users: "users completedWorld = users shopWorld"
  using sameMasterData.completeBooking [of providerEnv "''uu''" "''provUser''" "Some USER", THEN steps_snd, of paidWorld]
  by (simp add: completedWorld_eq paidWorld_users sameMasterData_def)

lemma reviewedWorld_eq: "reviewedWorld = snd (createReview shopEnv ''cust'' shopReview None completedWorld)"
proof -
  have "sessionUser shopEnv (Some ''tok'') completedWorld = Some (demoUser ''cust'')"
    by (simp add: sessionUser_def shopEnv_def shopWorld_def user_findById_def completedWorld_users demo_defs)
  moreover have "validCreateReview shopEnv shopReview"
    by (simp add: validCreateReview_def shopReview_def shopEnv_def demo_defs optional_def minNum_def maxNum_def maxLength_def)
  ultimately show ?thesis
    unfolding reviewedWorld_def serve_named route_refines by (simp add: demoUser_def)
qed

lemma reviewedWorld_run: "map rv_rating (reviews reviewedWorld) = [4]"
  unfolding reviewedWorld_eq completedWorld_eq paidWorld_eq bookedWorld_eq shopWorld_def shopEnv_def providerEnv_def shopReview_def
  by (simp add: createBooking_def createBookingTx_def verifyClientPayment_def verifyChecks_def payment_booking_def
      verifyPaymentSignature_iff keySecret_def completeBooking_def review_defs
      verifyCommit_def verifyTx_def confirm_defs run_simps demo_defs read_defs date_defs
      write_defs queue_defs shift_times fitsInShift_def createOrder_eq isOk_def canTransitionPayment_def
      cong: andThen_first)

lemma reviewedWorld_served: "served reviewedWorld"
  unfolding reviewedWorld_def completedWorld_def by (intro served.http paidWorld_served)

theorem ratings_true_witness:
  "served reviewedWorld \<and> map rv_rating (reviews reviewedWorld) = [4]
   \<and> map (\<lambda>p. (pp_averageRating p, pp_totalReviews p)) (providerProfiles reviewedWorld)
       = map (\<lambda>p. ratingStats (pp_id p) reviewedWorld) (providerProfiles reviewedWorld)"
  using reviewedWorld_served reviewedWorld_run ratings_true [OF reviewedWorld_served] by simp

end
