(* ===== verification/Seed.thy ===== *)
theory Seed
  imports Catalog
begin

text \<open>
  The seed of the catalogue (\<open>database/seed/seed.ts\<close>): the categories and services it
  lists, and the two loops of upserts that write them.
\<close>

section \<open>The catalogue of the seed\<close>

record seedCategory =
  sc_name :: string
  sc_slug :: string
  sc_displayOrder :: int

record seedService =
  se_categoryName :: string
  se_name :: string
  se_serviceMode :: "ServiceMode list"
  se_defaultDuration :: int

text \<open>The seed's own \<open>generateSlug\<close>: \<open>name.toLowerCase().replace(/\s+/g, "-")\<close>.\<close>

definition seedSlug :: "string \<Rightarrow> string" where
  "seedSlug name = hyphenRuns isSpace (toLowerCase name)"

definition seedCategories :: "seedCategory list" where
  "seedCategories =
     [\<lparr>sc_name = ''Tutor'', sc_slug = ''tutor'', sc_displayOrder = 1\<rparr>,
      \<lparr>sc_name = ''Electrician'', sc_slug = ''electrician'', sc_displayOrder = 2\<rparr>,
      \<lparr>sc_name = ''Tailor'', sc_slug = ''tailor'', sc_displayOrder = 3\<rparr>,
      \<lparr>sc_name = ''Plumber'', sc_slug = ''plumber'', sc_displayOrder = 4\<rparr>,
      \<lparr>sc_name = ''Salon'', sc_slug = ''salon'', sc_displayOrder = 5\<rparr>]"

definition seedServices :: "seedService list" where
  "seedServices =
     [\<lparr>se_categoryName = ''Tutor'', se_name = ''Mathematics'',
       se_serviceMode = [ONLINE, AT_CUSTOMER_LOCATION], se_defaultDuration = 60\<rparr>,
      \<lparr>se_categoryName = ''Tutor'', se_name = ''Physics'',
       se_serviceMode = [ONLINE, AT_CUSTOMER_LOCATION], se_defaultDuration = 60\<rparr>,
      \<lparr>se_categoryName = ''Tutor'', se_name = ''Chemistry'',
       se_serviceMode = [ONLINE, AT_CUSTOMER_LOCATION], se_defaultDuration = 60\<rparr>,
      \<lparr>se_categoryName = ''Electrician'', se_name = ''AC Repair'',
       se_serviceMode = [AT_CUSTOMER_LOCATION], se_defaultDuration = 90\<rparr>,
      \<lparr>se_categoryName = ''Electrician'', se_name = ''Home Wiring'',
       se_serviceMode = [AT_CUSTOMER_LOCATION], se_defaultDuration = 120\<rparr>,
      \<lparr>se_categoryName = ''Tailor'', se_name = ''Pant Stitching'',
       se_serviceMode = [AT_PROVIDER_LOCATION], se_defaultDuration = 45\<rparr>,
      \<lparr>se_categoryName = ''Tailor'', se_name = ''Shirt Stitching'',
       se_serviceMode = [AT_PROVIDER_LOCATION], se_defaultDuration = 45\<rparr>]"

section \<open>Upserts\<close>

text \<open>\<open>upsert\<close> with an empty \<open>update\<close>: the row that is there, or a new one.\<close>

definition upsertCategory :: "env \<Rightarrow> seedCategory \<Rightarrow> category action" where
  "upsertCategory e c =
     andThen (reads (category_findBySlug (sc_slug c))) (\<lambda>existing.
     case existing of
       Some r \<Rightarrow> ret r
     | None \<Rightarrow>
     andThen (drawUuid e) (\<lambda>i.
     insertRow categories categories_update categoryViolation
       \<lparr>cat_id = i, cat_name = sc_name c, cat_slug = sc_slug c, cat_icon = None,
        cat_description = None, cat_displayOrder = sc_displayOrder c, cat_isActive = True,
        cat_createdAt = nowMs e\<rparr>))"

text \<open>The mode of the created row is a constant; the list's modes are not used.\<close>

definition upsertService :: "env \<Rightarrow> uuid \<Rightarrow> seedService \<Rightarrow> service action" where
  "upsertService e categoryId s =
     andThen (reads (\<lambda>w. findUnique (\<lambda>x. (sv_categoryId x, sv_name x)) (categoryId, se_name s) (services w))) (\<lambda>existing.
     case existing of
       Some r \<Rightarrow> ret r
     | None \<Rightarrow>
     andThen (drawUuid e) (\<lambda>i.
     insertRow services services_update serviceViolation
       \<lparr>sv_id = i, sv_categoryId = categoryId, sv_name = se_name s, sv_slug = seedSlug (se_name s),
        sv_description = None, sv_serviceMode = ONLINE, sv_defaultDuration = Some (se_defaultDuration s),
        sv_isActive = True, sv_createdAt = nowMs e\<rparr>))"

text \<open>The first loop fills \<open>categoryMap\<close>, newest entry first.\<close>

fun seedCategoryLoop :: "env \<Rightarrow> seedCategory list \<Rightarrow> (string \<times> uuid) list \<Rightarrow> (string \<times> uuid) list action" where
  "seedCategoryLoop e [] categoryMap = ret categoryMap"
| "seedCategoryLoop e (c # cs) categoryMap =
     andThen (upsertCategory e c) (\<lambda>result.
     seedCategoryLoop e cs ((sc_name c, cat_id result) # categoryMap))"

definition seedOneService :: "env \<Rightarrow> (string \<times> uuid) list \<Rightarrow> seedService \<Rightarrow> unit action" where
  "seedOneService e categoryMap s =
     (case truthy (map_of categoryMap (se_categoryName s)) of
        None \<Rightarrow> throw (JsError (''Category \"'' @ se_categoryName s @ ''\" was not found.''))
      | Some categoryId \<Rightarrow> andThen (upsertService e categoryId s) (\<lambda>_. ret ()))"

definition seed :: "env \<Rightarrow> unit action" where
  "seed e =
     andThen (seedCategoryLoop e seedCategories []) (\<lambda>categoryMap.
     forEach seedServices (seedOneService e categoryMap))"

section \<open>A second run\<close>

text \<open>What an upsert that succeeded leaves behind: its row is found under its key.\<close>

lemma find_appended:
  "findUnique key k t = None \<Longrightarrow> findUnique key k (t @ [r]) = (if key r = k then Some r else None)"
  by (simp add: findUnique_append)

lemma upsertCategory_ok:
  assumes "upsertCategory e c w = (Inr r, w')"
  shows "category_findBySlug (sc_slug c) w' = Some r
    \<and> (\<exists>xs. categories w' = categories w @ xs) \<and> services w' = services w"
  using assms
  by (auto simp: upsertCategory_def andThen_run reads_app drawUuid_def insertRow_def ret_app
      category_findBySlug_def find_appended split: option.splits)

lemma upsertService_ok:
  assumes "upsertService e i s w = (Inr r, w')"
  shows "findUnique (\<lambda>x. (sv_categoryId x, sv_name x)) (i, se_name s) (services w') = Some r
    \<and> (\<exists>xs. services w' = services w @ xs) \<and> categories w' = categories w"
  using assms
  by (auto simp: upsertService_def andThen_run reads_app drawUuid_def insertRow_def ret_app
      find_appended split: option.splits)

lemma upsert_again:
  "category_findBySlug (sc_slug c) w = Some r \<Longrightarrow> upsertCategory e c w = (Inr r, w)"
  "findUnique (\<lambda>x. (sv_categoryId x, sv_name x)) (i, se_name s) (services w) = Some x \<Longrightarrow>
     upsertService e i s w = (Inr x, w)"
  by (simp_all add: upsertCategory_def upsertService_def ret_app)

lemma find_stays: "findUnique key k t = Some r \<Longrightarrow> findUnique key k (t @ xs) = Some r"
  by (simp add: findUnique_append)

lemma categoryLoop_again:
  "seedCategoryLoop e cs m w = (Inr m', w') \<Longrightarrow>
     (\<exists>xs. categories w' = categories w @ xs) \<and> services w' = services w
     \<and> (\<forall>e' v. categories v = categories w' \<longrightarrow> seedCategoryLoop e' cs m v = (Inr m', v))"
proof (induction cs arbitrary: m w)
  case Nil
  then show ?case by (auto simp: ret_app)
next
  case (Cons c cs)
  then obtain r w1 where r: "upsertCategory e c w = (Inr r, w1)"
    and rest: "seedCategoryLoop e cs ((sc_name c, cat_id r) # m) w1 = (Inr m', w')"
    by (auto elim: andThen_InrD)
  from upsertCategory_ok [OF r] obtain xs where
    u: "category_findBySlug (sc_slug c) w1 = Some r" "categories w1 = categories w @ xs" "services w1 = services w"
    by blast
  from Cons.IH [OF rest] obtain ys where
    ih: "categories w' = categories w1 @ ys" "services w' = services w1"
      "\<And>e' v. categories v = categories w' \<Longrightarrow>
        seedCategoryLoop e' cs ((sc_name c, cat_id r) # m) v = (Inr m', v)"
    by blast
  have "category_findBySlug (sc_slug c) v = Some r" if "categories v = categories w'" for v
    using u(1) by (simp add: category_findBySlug_def that ih(1) find_stays)
  then have "seedCategoryLoop e' (c # cs) m v = (Inr m', v)" if "categories v = categories w'" for e' v
    using that by (simp add: andThen_run upsert_again(1) ih(3))
  with u ih show ?case by simp
qed

lemma serviceLoop_again:
  "forEach ss (seedOneService e m) w = (Inr (), w') \<Longrightarrow>
     (\<exists>xs. services w' = services w @ xs) \<and> categories w' = categories w
     \<and> (\<forall>e' v. services v = services w' \<longrightarrow> forEach ss (seedOneService e' m) v = (Inr (), v))"
proof (induction ss arbitrary: w)
  case Nil
  then show ?case by (auto simp: ret_app)
next
  case (Cons s ss)
  then obtain w1 where s: "seedOneService e m s w = (Inr (), w1)"
    and rest: "forEach ss (seedOneService e m) w1 = (Inr (), w')"
    by (auto elim: andThen_InrD)
  from s obtain i r where i: "truthy (map_of m (se_categoryName s)) = Some i"
    and r: "upsertService e i s w = (Inr r, w1)"
    by (auto simp: seedOneService_def throw_app ret_app split: option.splits elim!: andThen_InrD)
  from upsertService_ok [OF r] obtain xs where
    u: "findUnique (\<lambda>x. (sv_categoryId x, sv_name x)) (i, se_name s) (services w1) = Some r"
      "services w1 = services w @ xs" "categories w1 = categories w"
    by blast
  from Cons.IH [OF rest] obtain ys where
    ih: "services w' = services w1 @ ys" "categories w' = categories w1"
      "\<And>e' v. services v = services w' \<Longrightarrow> forEach ss (seedOneService e' m) v = (Inr (), v)"
    by blast
  have "seedOneService e' m s v = (Inr (), v)" if "services v = services w'" for e' v
    using u(1) by (simp add: seedOneService_def i andThen_run upsert_again(2) [of i s v r] that ih(1) find_stays ret_app)
  then have "forEach (s # ss) (seedOneService e' m) v = (Inr (), v)" if "services v = services w'" for e' v
    using that by (simp add: andThen_run ih(3))
  with u ih show ?case by simp
qed

text \<open>
  C39. The seed can be run again: once it has succeeded, on whatever database, another
  run at any later time succeeds and changes nothing at all.
\<close>

theorem seed_idempotent:
  assumes "seed e w = (Inr (), w')"
  shows "seed e' w' = (Inr (), w')"
proof -
  obtain m w1 where m: "seedCategoryLoop e seedCategories [] w = (Inr m, w1)"
    and s: "forEach seedServices (seedOneService e m) w1 = (Inr (), w')"
    using assms unfolding seed_def by (auto elim: andThen_InrD)
  have "categories w' = categories w1" using serviceLoop_again [OF s] by blast
  then have "seedCategoryLoop e' seedCategories [] w' = (Inr m, w')"
    using categoryLoop_again [OF m] by blast
  moreover have "forEach seedServices (seedOneService e' m) w' = (Inr (), w')"
    using serviceLoop_again [OF s] by blast
  ultimately show ?thesis by (simp add: seed_def andThen_run)
qed

end
