(* ===== verification/SeedFacts.thy ===== *)
theory SeedFacts
  imports Seed ServedFacts
begin

text \<open>
  A seeded database is a state the service can start from, and what the seed does with
  the modes of its services.
\<close>

section \<open>The seed and the invariant of the database\<close>

text \<open>The seed writes categories and services only.\<close>

definition onlyCatalogue :: "world \<Rightarrow> world \<Rightarrow> bool" where
  "onlyCatalogue w w' \<longleftrightarrow> w' = w\<lparr>categories := categories w', services := services w', drawn := drawn w'\<rparr>"

lemma onlyCatalogueI:
  "onlyCatalogue w (categories_update f w)" "onlyCatalogue w (services_update g w)"
  "onlyCatalogue w (drawn_update h w)"
  by (simp_all add: onlyCatalogue_def)

interpretation onlyCatalogue: state_order onlyCatalogue
proof
  fix w w' w'' :: world
  assume "onlyCatalogue w w'" and "onlyCatalogue w' w''"
  then show "onlyCatalogue w w''"
    unfolding onlyCatalogue_def by (cases w; cases w'; cases w'') simp
qed (simp add: onlyCatalogue_def)

lemma seed_onlyCatalogue: "steps onlyCatalogue (seed e)"
proof -
  have draw: "steps onlyCatalogue (drawUuid e)"
    by (simp add: steps_def drawUuid_def onlyCatalogueI(3))
  have "steps onlyCatalogue (seedCategoryLoop e cs m)" for cs m
    by (induction cs arbitrary: m)
      (auto simp: upsertCategory_def intro!: onlyCatalogue.combinators draw onlyCatalogueI)
  then show ?thesis
    unfolding seed_def seedOneService_def upsertService_def
    by (intro onlyCatalogue.combinators draw) (auto intro: onlyCatalogueI)
qed

text \<open>Every service belongs to a category that the first loop found or inserted.\<close>

lemma fk_upsertCategory: "keeps (fk K) (upsertCategory e c)"
  unfolding upsertCategory_def by (intro inv.combinators fk_drawUuid) (auto intro: fk_insert)

lemma learns_upsertCategory:
  "learns stored foreignKeysHold K (upsertCategory e c) (\<lambda>r. {CategoryRef (cat_id r)})"
  by (auto simp: learns_def upsertCategory_def andThen_run reads_app drawUuid_def insertRow_def ret_app
      category_findBySlug_def stored_def split: option.splits dest!: findUnique_SomeD)

lemma andThen_assoc: "andThen (andThen m f) g = andThen m (\<lambda>a. andThen (f a) g)"
  by (rule ext) (auto simp: andThen_def split: prod.split sum.split)

lemma fk_categoryLoop:
  assumes "\<And>m K. CategoryRef ` snd ` set m \<subseteq> K \<Longrightarrow> keeps (fk K) (f m)"
  shows "CategoryRef ` snd ` set m \<subseteq> K \<Longrightarrow> keeps (fk K) (andThen (seedCategoryLoop e cs m) f)"
proof (induction cs arbitrary: m K)
  case Nil
  then show ?case by (simp add: assms)
next
  case (Cons c cs)
  show ?case
    unfolding seedCategoryLoop.simps andThen_assoc
    by (rule learn [OF fk_upsertCategory learns_upsertCategory]) (rule Cons.IH, use Cons.prems in auto)
qed

lemma fk_seedOneService:
  assumes "CategoryRef ` snd ` set m \<subseteq> K"
  shows "keeps (fk K) (seedOneService e m s)"
proof -
  have "CategoryRef i \<in> K" if "truthy (map_of m (se_categoryName s)) = Some i" for i
    using that assms by (force simp: truthy_def split: option.splits if_splits dest!: map_of_SomeD)
  then show ?thesis
    unfolding seedOneService_def upsertService_def
    by (intro inv.combinators fk_drawUuid) (auto intro!: fk_insert)
qed

lemma seed_foreignKeys: "keeps (fk {}) (seed e)"
  unfolding seed_def by (rule fk_categoryLoop) (auto intro!: inv.forEach fk_seedOneService)

text \<open>
  A seeded database is a database the service can start on: whether the seed runs to
  its end or stops with an error, it leaves a state of the service when it found one with
  no bookings, payments and jobs, so everything that is proved of these states holds of
  what the service does to it.
\<close>

theorem seed_served:
  assumes "initialState w" and "databaseOk w"
  shows "served (snd (seed e w))"
proof (rule served.start)
  obtain cs ss n where w': "snd (seed e w) = w\<lparr>categories := cs, services := ss, drawn := n\<rparr>"
    using steps_snd [OF seed_onlyCatalogue, of w e] unfolding onlyCatalogue_def by blast
  show "initialState (snd (seed e w))" using assms(1) by (simp add: w' initialState_def)
  have "foreignKeysHold (snd (seed e w))"
    using steps_snd [OF seed_foreignKeys, of w e] assms(2) by (simp add: knows_def databaseOk_def)
  moreover have "ratingStats i (snd (seed e w)) = ratingStats i w" for i
    by (rule ratingStats_reviews) (simp add: w')
  ultimately show "databaseOk (snd (seed e w))"
    using assms(2)
    by (simp add: databaseOk_def) (simp add: w' confirmedPaid_def paymentFacts_def chargesOk_def
        priceFacts_def offeringsOk_def ratingsOk_def reviewsOk_def statsOk_def)
qed

definition emptyDatabase :: world where
  "emptyDatabase = demoWorld\<lparr>users := [], providerProfiles := [], services := [],
     providerServices := [], availabilities := []\<rparr>"

lemma emptyDatabase_ok: "initialState emptyDatabase" "databaseOk emptyDatabase"
  by (simp_all add: emptyDatabase_def demoWorld_def initialState_def databaseOk_def foreignKeysHold_def
      references_def confirmedPaid_def chargesOk_def offeringsOk_def ratingsOk_def reviewsOk_def statsOk_def)

lemma seed_run:
  "\<exists>w'. seed demoEnv emptyDatabase = (Inr (), w')
     \<and> map cat_slug (categories w') = [''tutor'', ''electrician'', ''tailor'', ''plumber'', ''salon'']
     \<and> map (\<lambda>s. (sv_slug s, sv_serviceMode s)) (services w') =
         [(''mathematics'', ONLINE), (''physics'', ONLINE), (''chemistry'', ONLINE), (''ac-repair'', ONLINE),
          (''home-wiring'', ONLINE), (''pant-stitching'', ONLINE), (''shirt-stitching'', ONLINE)]"
proof -
  have slugs: "seedSlug ''Mathematics'' = ''mathematics''" "seedSlug ''Physics'' = ''physics''"
    "seedSlug ''Chemistry'' = ''chemistry''" "seedSlug ''AC Repair'' = ''ac-repair''"
    "seedSlug ''Home Wiring'' = ''home-wiring''" "seedSlug ''Pant Stitching'' = ''pant-stitching''"
    "seedSlug ''Shirt Stitching'' = ''shirt-stitching''"
    by code_simp+
  show ?thesis
    by (simp add: seed_def seedCategories_def seedServices_def upsertCategory_def seedOneService_def
        upsertService_def category_findBySlug_def slugs categoryViolation_def serviceViolation_def
        insertRow_def drawUuid_def emptyDatabase_def demoEnv_def demoWorld_def run_simps truthy_def
        cong: andThen_first)
qed

theorem seed_served_witness:
  "initialState emptyDatabase \<and> databaseOk emptyDatabase \<and> served (snd (seed demoEnv emptyDatabase))
   \<and> isOk (seed demoEnv emptyDatabase)"
  using emptyDatabase_ok seed_served [OF emptyDatabase_ok] seed_run by (auto simp: isOk_def)

theorem seed_idempotent_witness:
  "\<exists>w'. seed demoEnv emptyDatabase = (Inr (), w') \<and> length (services w') = 7
     \<and> seed (demoEnv\<lparr>nowMs := 86400000\<rparr>) w' = (Inr (), w')"
proof -
  obtain w' where run: "seed demoEnv emptyDatabase = (Inr (), w')"
    and slugs: "map (\<lambda>s. (sv_slug s, sv_serviceMode s)) (services w') =
         [(''mathematics'', ONLINE), (''physics'', ONLINE), (''chemistry'', ONLINE), (''ac-repair'', ONLINE),
          (''home-wiring'', ONLINE), (''pant-stitching'', ONLINE), (''shirt-stitching'', ONLINE)]"
    using seed_run by (elim exE conjE) (rule that)
  have "length (services w') = 7" using arg_cong [OF slugs, of length] by simp
  with run seed_idempotent [OF run] show ?thesis by blast
qed

end
