(* ===== verification/Observability.thy ===== *)
theory Observability
  imports BookingFacts Api Logging
begin

text \<open>
  What surrounds a request and what it leaves in the logs: the context of the request
  (\<open>common/logging/request-context.ts\<close>), the methods of the logger
  (\<open>common/logging/app.logger.ts\<close>), the timeout and logging interceptors
  (\<open>common/interceptors\<close>), and the lines of the exception filters. The order is the one of
  \<open>main.ts\<close>: middleware, guards, then timeout around transformation around logging around
  the handler, and the filters outside.
\<close>

section \<open>The context of a request\<close>

record requestStore =
  rs_requestId :: string
  rs_userId :: "string option"

definition getRequestId :: "requestStore option \<Rightarrow> string option" where
  "getRequestId store = map_option rs_requestId store"

definition getRequestUserId :: "requestStore option \<Rightarrow> string option" where
  "getRequestUserId store = Option.bind store rs_userId"

definition setRequestUserId :: "string \<Rightarrow> requestStore option \<Rightarrow> requestStore option" where
  "setRequestUserId userId store = map_option (\<lambda>s. s\<lparr>rs_userId := Some userId\<rparr>) store"

section \<open>The logger\<close>

text \<open>A call of a logger: the method, the message, and the further parameters.\<close>

datatype logLevel = LOG | ERROR | WARN | DEBUG

record logCall =
  lc_level :: logLevel
  lc_message :: json
  lc_params :: "json list"

text \<open>
  What a method does: with \<open>LOG_FORMAT=text\<close> it hands its arguments on to the console logger
  of the framework, otherwise it writes one structured line to a stream of the process.
\<close>

datatype stream = StdOut | StdErr

datatype written = Super logLevel json "json list" | Line stream "(string \<times> json) list"

definition appLogger_log ::
  "(json \<Rightarrow> string) \<Rightarrow> string \<Rightarrow> string option \<Rightarrow> requestStore option \<Rightarrow> json \<Rightarrow> json list \<Rightarrow> written" where
  "appLogger_log stringify now logFormat store message optionalParams =
     (if logFormat = Some ''text'' then Super LOG message optionalParams
      else Line StdOut (formatStructured stringify now None (getRequestId store) (getRequestUserId store)
        ''info'' message optionalParams))"

definition appLogger_error ::
  "(json \<Rightarrow> string) \<Rightarrow> string \<Rightarrow> string option \<Rightarrow> requestStore option \<Rightarrow> json \<Rightarrow> json list \<Rightarrow> written" where
  "appLogger_error stringify now logFormat store message optionalParams =
     (if logFormat = Some ''text'' then Super ERROR message optionalParams
      else Line StdErr (formatStructured stringify now None (getRequestId store) (getRequestUserId store)
        ''error'' message optionalParams))"

definition appLogger_warn ::
  "(json \<Rightarrow> string) \<Rightarrow> string \<Rightarrow> string option \<Rightarrow> requestStore option \<Rightarrow> json \<Rightarrow> json list \<Rightarrow> written" where
  "appLogger_warn stringify now logFormat store message optionalParams =
     (if logFormat = Some ''text'' then Super WARN message optionalParams
      else Line StdOut (formatStructured stringify now None (getRequestId store) (getRequestUserId store)
        ''warn'' message optionalParams))"

definition appLogger_debug ::
  "(json \<Rightarrow> string) \<Rightarrow> string \<Rightarrow> string option \<Rightarrow> requestStore option \<Rightarrow> json \<Rightarrow> json list \<Rightarrow> written" where
  "appLogger_debug stringify now logFormat store message optionalParams =
     (if logFormat = Some ''text'' then Super DEBUG message optionalParams
      else Line StdOut (formatStructured stringify now None (getRequestId store) (getRequestUserId store)
        ''debug'' message optionalParams))"

definition writeLog ::
  "(json \<Rightarrow> string) \<Rightarrow> string \<Rightarrow> string option \<Rightarrow> requestStore option \<Rightarrow> logCall \<Rightarrow> written" where
  "writeLog stringify now logFormat store c =
     (case lc_level c of LOG \<Rightarrow> appLogger_log | ERROR \<Rightarrow> appLogger_error | WARN \<Rightarrow> appLogger_warn
      | DEBUG \<Rightarrow> appLogger_debug) stringify now logFormat store (lc_message c) (lc_params c)"

section \<open>The lines of a request\<close>

text \<open>Code, message and details of an error of the database client are the client's.\<close>

record databaseError =
  de_code :: string
  de_message :: string
  de_meta :: json

definition exnMessage :: "(prismaCode \<Rightarrow> databaseError) \<Rightarrow> exn \<Rightarrow> string" where
  "exnMessage db x = (case x of PrismaError c \<Rightarrow> de_message (db c) | _ \<Rightarrow> errorMessage x)"

definition jnat :: "nat \<Rightarrow> json" where "jnat n = JNum (of_nat n)"

text \<open>A field whose value is \<open>undefined\<close> is not printed.\<close>

definition optField :: "string \<Rightarrow> string option \<Rightarrow> (string \<times> json) list" where
  "optField key v = (case v of None \<Rightarrow> [] | Some s \<Rightarrow> [(key, JStr s)])"

text \<open>
  \<open>LoggingInterceptor\<close>: the line for the outcome of the handler, and the context after it.
  \<open>request.user?.id\<close> reads a field of the request user by name.
\<close>

definition userField :: "requestUser option \<Rightarrow> string option" where
  "userField user = Option.bind user (currentUser ''id'')"

definition noteUser :: "requestUser option \<Rightarrow> requestStore option \<Rightarrow> requestStore option" where
  "noteUser user store =
     (case truthy (userField user) of None \<Rightarrow> store | Some i \<Rightarrow> setRequestUserId i store)"

definition errorStatus :: "exn \<Rightarrow> nat \<Rightarrow> nat" where
  "errorStatus x statusCode =
     (case httpException x of
        Some (status, _, _) \<Rightarrow> status
      | None \<Rightarrow> if statusCode = 0 then 500 else statusCode)"

definition loggingInterceptor ::
  "(prismaCode \<Rightarrow> databaseError) \<Rightarrow> string \<Rightarrow> httpContext \<Rightarrow> requestUser option \<Rightarrow> nat \<Rightarrow> nat \<Rightarrow> exn + 'a \<Rightarrow> logCall" where
  "loggingInterceptor db method ctx user statusCode duration outcome =
     (case outcome of
        Inr _ \<Rightarrow>
          \<lparr>lc_level = LOG, lc_message = JStr (method @ '' '' @ hc_url ctx @ '' completed''),
           lc_params = [JObj ([(''method'', JStr method), (''url'', JStr (hc_url ctx)),
             (''statusCode'', jnat statusCode), (''durationMs'', jnat duration)]
             @ optField ''userId'' (userField user)), JStr ''HTTP'']\<rparr>
      | Inl x \<Rightarrow>
          \<lparr>lc_level = ERROR,
           lc_message = JStr (method @ '' '' @ hc_url ctx @ '' failed: '' @ orElse (Some (exnMessage db x)) ''Unknown error''),
           lc_params = [JObj ([(''method'', JStr method), (''url'', JStr (hc_url ctx)),
             (''statusCode'', jnat (errorStatus x statusCode)), (''durationMs'', jnat duration)]
             @ optField ''userId'' (userField user) @ [(''error'', JStr (exnMessage db x))]), JStr ''HTTP'']\<rparr>)"

text \<open>The line of \<open>HttpExceptionFilter\<close>.\<close>

definition httpFilterLog ::
  "(prismaCode \<Rightarrow> databaseError) \<Rightarrow> env \<Rightarrow> string \<Rightarrow> httpContext \<Rightarrow> string \<Rightarrow> exn \<Rightarrow> logCall" where
  "httpFilterLog db e method ctx requestId x =
     (let reply = httpExceptionFilter e ctx requestId x; status = er_statusCode reply in
      \<lparr>lc_level = (if status \<ge> 500 then ERROR else WARN),
       lc_message = JStr (''HTTP '' @ natString status @ '' on '' @ method @ '' '' @ hc_url ctx @ '': '' @ er_message reply),
       lc_params = [JObj [(''statusCode'', jnat status), (''path'', JStr (hc_url ctx)), (''method'', JStr method),
         (''requestId'', JStr requestId), (''error'', JStr (orElse (er_error reply) (exnMessage db x)))],
         JStr ''HttpExceptionFilter'']\<rparr>)"

text \<open>The line of \<open>PrismaClientExceptionFilter\<close>.\<close>

definition prismaFilterLog ::
  "(prismaCode \<Rightarrow> databaseError) \<Rightarrow> string \<Rightarrow> httpContext \<Rightarrow> string \<Rightarrow> prismaCode \<Rightarrow> logCall" where
  "prismaFilterLog db method ctx requestId c =
     \<lparr>lc_level = ERROR,
      lc_message = JStr (''Database error ['' @ de_code (db c) @ ''] on '' @ method @ '' '' @ hc_url ctx
        @ '': '' @ de_message (db c)),
      lc_params = [JObj [(''code'', JStr (de_code (db c))), (''meta'', de_meta (db c)), (''requestId'', JStr requestId),
        (''path'', JStr (hc_url ctx))], JStr ''PrismaClientExceptionFilter'']\<rparr>"

definition filterLog ::
  "(prismaCode \<Rightarrow> databaseError) \<Rightarrow> env \<Rightarrow> string \<Rightarrow> httpContext \<Rightarrow> string \<Rightarrow> exn \<Rightarrow> logCall" where
  "filterLog db e method ctx requestId x =
     (case x of PrismaError c \<Rightarrow> prismaFilterLog db method ctx requestId c
      | _ \<Rightarrow> httpFilterLog db e method ctx requestId x)"

section \<open>The timeout\<close>

text \<open>
  \<open>TimeoutInterceptor\<close> on a handler that settles after \<open>took\<close> milliseconds. The timer is set
  before the handler starts. It does not stop the handler: only its outcome is dropped.
\<close>

definition timeoutInterceptor :: "nat \<Rightarrow> nat \<Rightarrow> exn + 'a \<Rightarrow> exn + 'a" where
  "timeoutInterceptor timeoutMs took outcome =
     (if timeoutMs \<le> took then Inl (RequestTimeoutException ''Request processing timed out'') else outcome)"

definition REQUEST_TIMEOUT :: nat where "REQUEST_TIMEOUT = 30000"

text \<open>
  One request with its guards and its handler. The line of the logging interceptor is
  written when the handler settles and the outer timeout still listens.
\<close>

definition exchange ::
  "(prismaCode \<Rightarrow> databaseError) \<Rightarrow> env \<Rightarrow> string \<Rightarrow> httpContext \<Rightarrow> nat \<Rightarrow> nat \<Rightarrow> requestUser option action \<Rightarrow>
   (requestUser option \<Rightarrow> 'a action) \<Rightarrow> world \<Rightarrow> ((errorReply + 'a payload) \<times> logCall list) \<times> world" where
  "exchange db e method ctx code took guards handler w =
     (case requestIdMiddleware e (hc_requestIdHeader ctx) w of
        (Inl x, w1) \<Rightarrow> ((Inl (exceptionFilters e ctx [] x), [filterLog db e method ctx [] x]), w1)
      | (Inr requestId, w1) \<Rightarrow>
          (case guards w1 of
             (Inl x, w2) \<Rightarrow>
               ((Inl (exceptionFilters e ctx requestId x), [filterLog db e method ctx requestId x]), w2)
           | (Inr user, w2) \<Rightarrow>
               (case handler user w2 of (outcome, w3) \<Rightarrow>
                  let logged = (if REQUEST_TIMEOUT \<le> took then []
                                else [loggingInterceptor db method ctx user code took outcome]) in
                  (case timeoutInterceptor REQUEST_TIMEOUT took outcome of
                     Inl x \<Rightarrow>
                       ((Inl (exceptionFilters e ctx requestId x), logged @ [filterLog db e method ctx requestId x]), w3)
                   | Inr d \<Rightarrow> ((Inr (transformInterceptor e ctx code d), logged), w3)))))"

section \<open>The exchange and the answer\<close>

text \<open>
  A request leaves the state that \<open>answer\<close> leaves on the guarded handler, whatever time it
  takes, and in time it also gets that answer: what is shown of the routes holds behind
  the interceptors.
\<close>

lemma exchange_state:
  "snd (exchange db e method ctx code took guards handler w) = snd (answer e ctx code (andThen guards handler) w)"
  by (auto simp: exchange_def answer_def andThen_def Let_def split: prod.splits sum.splits)

lemma exchange_in_time:
  "took < REQUEST_TIMEOUT \<Longrightarrow>
     fst (fst (exchange db e method ctx code took guards handler w))
       = fst (answer e ctx code (andThen guards handler) w)"
  by (auto simp: exchange_def answer_def andThen_def timeoutInterceptor_def Let_def split: prod.splits sum.splits)

text \<open>The same for a route, which draws its guards and handler together.\<close>

lemma exchange_late:
  assumes "answer e ctx code (andThen guards handler) w = (Inr p, w')" and "REQUEST_TIMEOUT \<le> took"
  shows "\<exists>r logs. exchange db e method ctx code took guards handler w = ((Inl r, logs), w')
    \<and> er_statusCode r = 408 \<and> logs = [httpFilterLog db e method ctx (the (er_requestId r))
        (RequestTimeoutException ''Request processing timed out'')]"
  using assms requestIdMiddleware_run [of e "hc_requestIdHeader ctx" w]
  by (auto simp: exchange_def answer_def andThen_def timeoutInterceptor_def filterLog_def
      exceptionFilters_def httpExceptionFilter_def errorReplyOf_def truthy_def Let_def
      split: prod.splits sum.splits)

section \<open>A booking that was answered late\<close>

lemma createBooking_inserts:
  assumes "createBooking e c dto w = (Inr (b, co), w')"
  shows "bookings w' = bookings w @ [b]"
proof -
  obtain ps pp start t where
    tx: "bookingTxFor e c dto ps pp start (orderFor e ps w) (w\<lparr>drawn := Suc (drawn w)\<rparr>) = (Inr (b, co), t)"
    and w': "w' = snd (schedulePaymentExpiration e (b_id b) paymentExpirationDelayMs t)"
    using assms by (rule createBooking_run)
  from createBookingTx_snd [OF tx] show ?thesis
    by (auto simp: w' schedulePaymentExpiration_def queueCommand_app modify_app split: option.split)
qed

text \<open>A request that repeats one that succeeded is refused: its own booking takes the slot.\<close>

lemma createBooking_again:
  assumes ok: "createBooking e c dto w = (Inr (b, co), w')" and slot: "slotStart b < slotEnd b"
  shows "createBooking e c dto (w'\<lparr>drawn := n\<rparr>) =
    (Inl (ConflictException ''The selected time slot is no longer available. Please select another slot.''),
     w'\<lparr>drawn := Suc n\<rparr>)"
proof -
  obtain ps pp start t where bk: "bookable e dto w ps pp start"
    and tx: "bookingTxFor e c dto ps pp start (orderFor e ps w) (w\<lparr>drawn := Suc (drawn w)\<rparr>) = (Inr (b, co), t)"
    using ok by (rule createBooking_run)
  obtain sv where sv: "providerService_service ps w = Some sv"
    and b: "b = requestedBooking e c dto ps pp sv start (uuidAt e (Suc (drawn w)))"
    using createBookingTx_snd [OF tx] by (auto simp: providerService_service_def)
  have "sameMasterData w w'"
    using sameMasterData.createBooking [of e c dto, THEN steps_snd, of w] ok by simp
  then have "bookable e dto (w'\<lparr>drawn := n\<rparr>) ps pp start"
    "providerService_service ps (w'\<lparr>drawn := n\<rparr>) = Some sv"
    using bk sv by (simp_all add: sameMasterData_def bookable_def read_defs)
  moreover have "conflicting b b" "b \<in> set (bookings w')"
    using slot createBooking_inserts [OF ok]
    by (simp_all add: b conflicting_def slotsOverlap_def requestedBooking_def bookingRow_def)
  ultimately show ?thesis
    using createBooking_taken [of e dto "w'\<lparr>drawn := n\<rparr>" ps pp start sv c "uuidAt e (Suc (drawn w))"] slot
    unfolding b [symmetric] by auto
qed

end
