(* ===== verification/ObservabilityFacts.thy ===== *)
theory ObservabilityFacts
  imports Observability ServedFacts
begin

text \<open>
  What a client and an operator see of a request: the answer of one that took too long,
  and the status in the request log.
\<close>

section \<open>A booking that was answered late\<close>

text \<open>The guard and the handler of \<open>POST bookings\<close>.\<close>

definition sessionGuard :: "env \<Rightarrow> httpContext \<Rightarrow> requestUser option action" where
  "sessionGuard e ctx = andThen (authDecorator e [] (hc_bearer ctx)) (\<lambda>user. ret (Some user))"

definition bookingHandler :: "env \<Rightarrow> createBookingDto \<Rightarrow> requestUser option \<Rightarrow> (booking \<times> checkout) action" where
  "bookingHandler e dto user =
     andThen (validate (validCreateBooking e dto)) (\<lambda>_. createBooking e (ru_userId (the user)) dto)"

lemma booking_route:
  "andThen (sessionGuard e ctx) (bookingHandler e dto) = bookingController_createBooking e (hc_bearer ctx) dto"
  by (rule ext) (auto simp: sessionGuard_def bookingHandler_def bookingController_createBooking_def andThen_def
      ret_app split: prod.split sum.split)

text \<open>What an accepted booking request did.\<close>

lemma booking_answered:
  assumes "answer e ctx code (bookingController_createBooking e (hc_bearer ctx) dto) w = (Inr p, w')"
  obtains n u b co where "sessionUser e (hc_bearer ctx) w = Some u" and "validCreateBooking e dto"
    and "createBooking e (u_id u) dto (w\<lparr>drawn := n\<rparr>) = (Inr (b, co), w')"
proof -
  obtain i n where i: "requestIdMiddleware e (hc_requestIdHeader ctx) w = (Inr i, w\<lparr>drawn := n\<rparr>)"
    using requestIdMiddleware_run by blast
  with assms obtain r where
    run: "bookingController_createBooking e (hc_bearer ctx) dto (w\<lparr>drawn := n\<rparr>) = (Inr r, w')"
    by (auto simp: answer_def split: prod.splits sum.splits)
  show thesis
  proof (cases "sessionUser e (hc_bearer ctx) w")
    case None
    then show thesis
      using run authDecorator_None [of e "hc_bearer ctx" "w\<lparr>drawn := n\<rparr>" "[]"]
      by (auto simp: bookingController_createBooking_def andThen_run session_drawn)
  next
    case (Some u)
    then have "authDecorator e [] (hc_bearer ctx) (w\<lparr>drawn := n\<rparr>) = (Inr (requestUserOf u), w\<lparr>drawn := n\<rparr>)"
      by (simp add: authDecorator_Some session_drawn)
    with run have "andThen (validate (validCreateBooking e dto)) (\<lambda>_. createBooking e (u_id u) dto) (w\<lparr>drawn := n\<rparr>)
        = (Inr r, w')"
      by (simp add: bookingController_createBooking_def andThen_run requestUserOf_def)
    then have "validCreateBooking e dto \<and> createBooking e (u_id u) dto (w\<lparr>drawn := n\<rparr>) = (Inr r, w')"
      by (auto simp: validate_def check_def andThen_run ret_app throw_app split: if_splits)
    then show thesis using that [OF Some, of n "fst r" "snd r"] by simp
  qed
qed

text \<open>
  C11. A booking that takes thirty seconds or longer is answered with a timeout, although
  it is made: the state is the one of the same request answered in time, with its
  booking in the table. The handler is not stopped and nothing is rolled back, so the client that
  repeats the request is refused with a conflict, by its own booking.
\<close>

theorem timed_out_booking:
  assumes "answer e ctx 201 (bookingController_createBooking e (hc_bearer ctx) dto) w = (Inr p, w')"
    and "REQUEST_TIMEOUT \<le> took"
  shows "\<exists>r logs b. exchange db e ''POST'' ctx 201 took (sessionGuard e ctx) (bookingHandler e dto) w = ((Inl r, logs), w')
    \<and> er_statusCode r = 408 \<and> bookings w' = bookings w @ [b]
    \<and> (slotStart b < slotEnd b \<longrightarrow>
        (\<exists>r' n. answer e ctx 201 (bookingController_createBooking e (hc_bearer ctx) dto) w'
            = (Inl r', w'\<lparr>drawn := n\<rparr>) \<and> er_statusCode r' = 409))"
proof -
  obtain n u b co where u: "sessionUser e (hc_bearer ctx) w = Some u" and valid: "validCreateBooking e dto"
    and ok: "createBooking e (u_id u) dto (w\<lparr>drawn := n\<rparr>) = (Inr (b, co), w')"
    using assms(1) by (rule booking_answered)
  have b: "bookings w' = bookings w @ [b]"
    using createBooking_inserts [OF ok] by simp
  have "users w' = users w"
    using sameMasterData.createBooking [of e "u_id u" dto, THEN steps_snd, of "w\<lparr>drawn := n\<rparr>"] ok
    by (simp add: sameMasterData_def)
  then have "user_findById i w' = user_findById i w" for i by (simp add: user_findById_def)
  then have u': "sessionUser e (hc_bearer ctx) w' = Some u" using u by (simp add: sessionUser_def cong: option.case_cong)
  have "\<exists>r' m. answer e ctx 201 (bookingController_createBooking e (hc_bearer ctx) dto) w'
      = (Inl r', w'\<lparr>drawn := m\<rparr>) \<and> er_statusCode r' = 409" if "slotStart b < slotEnd b"
  proof -
    obtain i k where i: "requestIdMiddleware e (hc_requestIdHeader ctx) w' = (Inr i, w'\<lparr>drawn := k\<rparr>)"
      using requestIdMiddleware_run by blast
    then show ?thesis
      using createBooking_again [OF ok that, of k] u' valid
      by (auto simp: answer_def bookingController_createBooking_def andThen_run authDecorator_Some
          requestUserOf_def validate_def check_def ret_app exceptionFilters_def httpExceptionFilter_def errorReplyOf_def)
  qed
  with exchange_late [OF assms(1) [folded booking_route] assms(2)] b show ?thesis
    by blast
qed

definition demoDb :: "prismaCode \<Rightarrow> databaseError" where
  "demoDb c = \<lparr>de_code = ''P2025'', de_message = ''No record was found'', de_meta = JNull\<rparr>"

lemma shop_booking_answered:
  "\<exists>p w'. answer shopEnv shopContext 201 (bookingController_createBooking shopEnv (hc_bearer shopContext) demoDto)
     shopWorld = (Inr p, w')"
proof -
  have "isSafeRequestId (trim ''req-1'')" "trim ''req-1'' = ''req-1''" by code_simp+
  moreover have "isOk (createBooking shopEnv ''cust'' demoDto shopWorld)"
    unfolding shopWorld_def shopEnv_def
    by (simp add: createBooking_def createBookingTx_def run_simps demo_defs read_defs date_defs
        write_defs queue_defs shift_times fitsInShift_def createOrder_eq isOk_def cong: andThen_first)
  then obtain r w' where "createBooking shopEnv ''cust'' demoDto shopWorld = (Inr r, w')"
    using isOk_Inr by blast
  moreover have "sessionUser shopEnv (Some ''tok'') shopWorld = Some (demoUser ''cust'')"
    by (simp add: sessionUser_def shopEnv_def shopWorld_def user_findById_def demo_defs)
  moreover have "validCreateBooking shopEnv demoDto"
    by (simp add: validCreateBooking_def shopEnv_def demo_defs isNotEmpty_def optional_def)
  ultimately show ?thesis
    by (simp add: answer_def requestIdMiddleware_def shopContext_def ret_app bookingController_createBooking_def
        andThen_run authDecorator_Some requestUserOf_def demoUser_def validate_def check_def)
qed

theorem timed_out_booking_witness:
  "\<exists>r logs w'. exchange demoDb shopEnv ''POST'' shopContext 201 31000 (sessionGuard shopEnv shopContext)
      (bookingHandler shopEnv demoDto) shopWorld = ((Inl r, logs), w')
    \<and> er_statusCode r = 408 \<and> bookings w' \<noteq> []"
proof -
  obtain p w' where run: "answer shopEnv shopContext 201
      (bookingController_createBooking shopEnv (hc_bearer shopContext) demoDto) shopWorld = (Inr p, w')"
    using shop_booking_answered by blast
  have "REQUEST_TIMEOUT \<le> 31000" by (simp add: REQUEST_TIMEOUT_def)
  from timed_out_booking [OF run this, of demoDb] show ?thesis by auto
qed

section \<open>The status in the request log\<close>

text \<open>The fields of the object that a line carries.\<close>

definition logField :: "string \<Rightarrow> logCall \<Rightarrow> json option" where
  "logField key c = (case lc_params c of x # _ \<Rightarrow> map_of (fieldsOf x) key | [] \<Rightarrow> None)"

definition isHttpException :: "exn \<Rightarrow> bool" where
  "isHttpException x \<longleftrightarrow> httpException x \<noteq> None"

text \<open>
  The line of the request log for a request that passed its guards in time. It shows
  the status of the answer when the handler succeeded or threw an HTTP exception. For any
  other error, every error of the database among them, it shows the status the route would have
  had on success, although the client got an error status. It never names the user, whose
  field \<open>id\<close> the strategy does not set.
\<close>

theorem request_log_status:
  assumes "requestIdMiddleware e (hc_requestIdHeader ctx) w = (Inr i, w1)"
    and "guards w1 = (Inr user, w2)" and "handler user w2 = (outcome, w3)"
    and "took < REQUEST_TIMEOUT" and "0 < code" "code < 400"
  shows "\<exists>reply line rest. exchange db e method ctx code took guards handler w = ((reply, line # rest), w3)
    \<and> logField ''userId'' line = None
    \<and> (case outcome of
         Inr d \<Rightarrow> rest = [] \<and> statusOf reply = code \<and> logField ''statusCode'' line = Some (jnat code)
       | Inl x \<Rightarrow>
           statusOf reply \<ge> 400
           \<and> logField ''statusCode'' line = Some (jnat (if isHttpException x then statusOf reply else code)))"
proof -
  have user: "userField user = None"
    by (cases user) (simp_all add: userField_def currentUser_def)
  show ?thesis
  proof (cases outcome)
    case (Inr d)
    then show ?thesis
      using assms
      by (simp add: exchange_def timeoutInterceptor_def loggingInterceptor_def logField_def user optField_def
          transformInterceptor_def statusOf_def)
  next
    case (Inl x)
    then show ?thesis
      using assms
      by (cases x) (simp_all add: exchange_def timeoutInterceptor_def loggingInterceptor_def logField_def user
          optField_def isHttpException_def errorStatus_def exceptionFilters_def httpExceptionFilter_def
          prismaFilter_def errorReplyOf_def statusOf_def split: prismaCode.split)
  qed
qed

text \<open>A handler that ends at a missing row: the client is told 404, the log says 200.\<close>

theorem request_log_status_witness:
  "\<exists>reply line rest. exchange demoDb demoEnv ''DELETE'' shopContext 200 5 (ret None)
       (\<lambda>_. throw (PrismaError P2025) :: unit action) demoWorld = ((reply, line # rest), demoWorld)
     \<and> statusOf reply \<ge> 400 \<and> logField ''statusCode'' line = Some (jnat 200)"
proof -
  have "isSafeRequestId (trim ''req-1'')" "trim ''req-1'' = ''req-1''" by code_simp+
  then have i: "requestIdMiddleware demoEnv (hc_requestIdHeader shopContext) demoWorld = (Inr ''req-1'', demoWorld)"
    by (simp add: requestIdMiddleware_def shopContext_def ret_app)
  show ?thesis
    using request_log_status [OF i, of "ret None" None demoWorld "\<lambda>_. throw (PrismaError P2025) :: unit action"
        "Inl (PrismaError P2025)" demoWorld 5 200 demoDb "''DELETE''"]
    by (auto simp: ret_app throw_app REQUEST_TIMEOUT_def isHttpException_def)
qed

end
