(* ===== verification/Health.thy ===== *)
theory Health
  imports Observability Examples
begin

text \<open>
  The health probes (\<open>modules/health/health.controller.ts\<close>), the \<open>ping\<close> of the cache
  (\<open>common/cache/redis.service.ts\<close>), the greeting (\<open>app.controller.ts\<close>), and the branch of
  \<open>HttpExceptionFilter\<close> that keeps the body of a failed probe.
\<close>

section \<open>Indicators\<close>

text \<open>\<open>client.ping()\<close> answers a text or rejects.\<close>

definition redis_ping :: "bool \<Rightarrow> string option \<Rightarrow> bool" where
  "redis_ping hasClient pong =
     (if \<not> hasClient then False else (case pong of Some p \<Rightarrow> p = ''PONG'' | None \<Rightarrow> False))"

definition live :: "env \<Rightarrow> rat \<Rightarrow> json" where
  "live e uptime =
     JObj [(''status'', JStr ''ok''), (''uptime'', JNum uptime), (''timestamp'', JStr (isoString e (nowMs e)))]"

text \<open>
  An indicator answers its result or throws a \<open>HealthCheckError\<close> with the causes.
  \<open>failure\<close> is the message with which \<open>SELECT 1\<close> failed, if it did.
\<close>

type_synonym indicator = "json + json"

definition healthy :: "indicator \<Rightarrow> bool" where
  "healthy x = (case x of Inr _ \<Rightarrow> True | Inl _ \<Rightarrow> False)"

definition databaseIndicator :: "string option \<Rightarrow> indicator" where
  "databaseIndicator failure =
     (case failure of
        None \<Rightarrow> Inr (JObj [(''database'', JObj [(''status'', JStr ''up'')])])
      | Some m \<Rightarrow> Inl (JObj [(''database'', JObj [(''status'', JStr ''down''), (''error'', JStr m)])]))"

definition redisIndicator :: "bool \<Rightarrow> indicator" where
  "redisIndicator isRedisUp =
     Inr (JObj [(''redis'', JObj ([(''status'', JStr ''up''), (''connected'', JBool isRedisUp)]
       @ (if isRedisUp then []
          else [(''degraded'', JBool True), (''note'', JStr ''Redis offline - caching degraded'')])))])"

text \<open>
  \<open>healthCheck\<close> is the health check service of the Terminus library: it answers the body of a
  healthy report, or throws an exception with status 503 and the body of a failed one.
\<close>

definition ready :: "(indicator list \<Rightarrow> json + json) \<Rightarrow> string option \<Rightarrow> bool \<Rightarrow> json + json" where
  "ready healthCheck failure isRedisUp = healthCheck [databaseIndicator failure, redisIndicator isRedisUp]"

definition health :: "(indicator list \<Rightarrow> json + json) \<Rightarrow> string option \<Rightarrow> bool \<Rightarrow> json + json" where
  "health healthCheck failure isRedisUp = ready healthCheck failure isRedisUp"

text \<open>
  What the library documents: the report is healthy when no indicator failed, and its
  \<open>status\<close> says so.
\<close>

definition terminus :: "(indicator list \<Rightarrow> json + json) \<Rightarrow> bool" where
  "terminus healthCheck \<longleftrightarrow>
     (\<forall>indicators. if list_all healthy indicators
        then \<exists>body. healthCheck indicators = Inr (JObj body) \<and> map_of body ''status'' = Some (JStr ''ok'')
        else \<exists>body. healthCheck indicators = Inl (JObj body) \<and> map_of body ''status'' = Some (JStr ''error''))"

definition getHello :: string where "getHello = ''Hello World!''"

section \<open>The answer to a probe\<close>

text \<open>
  The body that the filter sends for an exception with status 503: a body with \<open>status\<close>
  \<open>error\<close> is sent as it is with the request identifier, any other in the usual form.
\<close>

definition filterBody :: "env \<Rightarrow> httpContext \<Rightarrow> string \<Rightarrow> json \<Rightarrow> json + errorReply" where
  "filterBody e ctx requestId body =
     (if isObject body \<and> map_of (fieldsOf body) ''status'' = Some (JStr ''error'')
      then Inl (JObj (spread (fieldsOf body) (optField ''requestId'' (truthy (Some requestId)))))
      else Inr (errorReplyOf e ctx requestId 503
        (case map_of (fieldsOf body) ''message'' of Some (JStr m) \<Rightarrow> orElse (Some m) ''Internal server error''
         | _ \<Rightarrow> ''Internal server error'')
        (case map_of (fieldsOf body) ''error'' of Some (JStr m) \<Rightarrow> truthy (Some m) | _ \<Rightarrow> None)))"

text \<open>Status and body on the wire.\<close>

definition probe :: "env \<Rightarrow> httpContext \<Rightarrow> string \<Rightarrow> json + json \<Rightarrow> nat \<times> (json payload + json + errorReply)" where
  "probe e ctx requestId outcome =
     (case outcome of
        Inr body \<Rightarrow> (200, Inl (transformInterceptor e ctx 200 body))
      | Inl body \<Rightarrow> (503, Inr (filterBody e ctx requestId body)))"

section \<open>Facts\<close>

lemma map_of_setField: "map_of (setField kv a) k = (if k = fst kv then Some (snd kv) else map_of a k)"
proof -
  have "map_of (map (\<lambda>x. if fst x = fst kv then kv else x) a) k =
      (if k = fst kv \<and> fst kv \<in> fst ` set a then Some (snd kv) else map_of a k)"
    by (induction a) (auto, metis fst_conv image_eqI)
  moreover have "map_of (a @ [kv]) k = (if k = fst kv then Some (snd kv) else map_of a k)" if "fst kv \<notin> fst ` set a"
    using that map_of_eq_None_iff [of a "fst kv"] by (auto simp: map_add_def split: option.split)
  ultimately show ?thesis by (cases "k = fst kv") (simp_all add: setField_def)
qed

lemma healthy_indicators [simp]:
  "healthy (databaseIndicator f) \<longleftrightarrow> f = None" "healthy (redisIndicator up)"
  by (simp_all add: healthy_def databaseIndicator_def redisIndicator_def split: option.split)

text \<open>
  Readiness is the readiness of the database alone. Under the documented behaviour of
  the health library, \<open>GET /health/ready\<close> answers 200 with the plain report exactly when the
  query of the database succeeded, and otherwise 503 with the diagnostic report of the
  library, not the usual error body. A Redis that does not answer changes neither: its
  entry still has the status \<open>up\<close>.
\<close>

theorem readiness:
  assumes "terminus healthCheck" and "includesText (hc_url ctx) ''/health''"
  shows "(case probe e ctx i (ready healthCheck failure (redis_ping c pong)) of
       (status, Inl (Raw n body)) \<Rightarrow> failure = None \<and> status = 200 \<and> n = 200
         \<and> map_of (fieldsOf body) ''status'' = Some (JStr ''ok'')
     | (status, Inr (Inl body)) \<Rightarrow> failure \<noteq> None \<and> status = 503
         \<and> map_of (fieldsOf body) ''status'' = Some (JStr ''error'')
     | _ \<Rightarrow> False)
    \<and> (\<exists>r. redisIndicator (redis_ping c pong) = Inr (JObj [(''redis'', JObj r)])
         \<and> map_of r ''status'' = Some (JStr ''up''))"
proof -
  have "\<exists>body. ready healthCheck failure (redis_ping c pong) =
      (if failure = None then Inr (JObj body) else Inl (JObj body))
      \<and> map_of body ''status'' = Some (JStr (if failure = None then ''ok'' else ''error''))"
    using assms(1) [unfolded terminus_def, rule_format,
        of "[databaseIndicator failure, redisIndicator (redis_ping c pong)]"]
    by (cases failure) (simp_all add: ready_def)
  then obtain body where "ready healthCheck failure (redis_ping c pong) =
      (if failure = None then Inr (JObj body) else Inl (JObj body))"
    "map_of body ''status'' = Some (JStr (if failure = None then ''ok'' else ''error''))"
    by blast
  then show ?thesis
    using assms(2)
    by (cases failure) (auto simp: probe_def transformInterceptor_def filterBody_def isObject_def spread_def optField_def
        truthy_def map_of_setField redisIndicator_def)
qed

text \<open>The library as its documentation describes it.\<close>

definition terminusCheck :: "indicator list \<Rightarrow> json + json" where
  "terminusCheck indicators =
     (let info = concat (map (\<lambda>x. case x of Inr r \<Rightarrow> fieldsOf r | Inl _ \<Rightarrow> []) indicators);
          failed = concat (map (\<lambda>x. case x of Inl r \<Rightarrow> fieldsOf r | Inr _ \<Rightarrow> []) indicators);
          report = (\<lambda>s. JObj [(''status'', JStr s), (''info'', JObj info), (''error'', JObj failed),
            (''details'', JObj (spread info failed))])
      in if list_all healthy indicators then Inr (report ''ok'') else Inl (report ''error''))"

lemma terminus_terminusCheck: "terminus terminusCheck"
  by (simp add: terminus_def terminusCheck_def Let_def)

theorem readiness_witness:
  "\<exists>body. probe demoEnv \<lparr>hc_url = ''/health/ready'', hc_bearer = None, hc_requestIdHeader = None\<rparr> ''req_1''
       (ready terminusCheck None (redis_ping True None)) = (200, Inl (Raw 200 body))
     \<and> map_of (fieldsOf body) ''status'' = Some (JStr ''ok'')"
proof -
  let ?ctx = "\<lparr>hc_url = ''/health/ready'', hc_bearer = None, hc_requestIdHeader = None\<rparr>"
  have "includesText (hc_url ?ctx) ''/health''" by simp
  from readiness [OF terminus_terminusCheck this, where failure = None and e = demoEnv and i = "''req_1''" and c = True and pong = None]
  show ?thesis by (auto split: prod.splits sum.splits payload.splits)
qed

end
