(* ===== verification/Configuration.thy ===== *)
theory Configuration
  imports Gateway
begin

text \<open>
  The configuration: the validation of the environment variables
  (\<open>config/env.validation.ts\<close>), the namespaces that read them (\<open>config/*.config.ts\<close>), and
  what \<open>main.ts\<close> and \<open>redis.service.ts\<close> make of them. A set of environment variables is a
  map from names to texts.
\<close>

type_synonym processEnv = "string \<Rightarrow> string option"

section \<open>Validation\<close>

text \<open>The formats of the library Joi: PostgreSQL addresses, port numbers and booleans.\<close>

record joi =
  joiUri :: "string \<Rightarrow> bool"
  joiPort :: "string \<Rightarrow> bool"
  joiBoolean :: "string \<Rightarrow> bool"

definition required :: "(string \<Rightarrow> bool) \<Rightarrow> string option \<Rightarrow> bool" where
  "required ok v = (case v of None \<Rightarrow> False | Some s \<Rightarrow> ok s)"

definition ifSet :: "(string \<Rightarrow> bool) \<Rightarrow> string option \<Rightarrow> bool" where
  "ifSet ok v = (case v of None \<Rightarrow> True | Some s \<Rightarrow> ok s)"

text \<open>A \<open>Joi.string()\<close> is not empty unless the empty text is allowed.\<close>

definition joiString :: "string \<Rightarrow> bool" where "joiString s \<longleftrightarrow> s \<noteq> []"
definition joiText :: "string \<Rightarrow> bool" where "joiText s \<longleftrightarrow> True"

definition envValidationSchema :: "joi \<Rightarrow> processEnv \<Rightarrow> bool" where
  "envValidationSchema j p \<longleftrightarrow>
     ifSet (\<lambda>s. s \<in> set [''development'', ''production'', ''test'', ''staging'']) (p ''NODE_ENV'')
     \<and> ifSet (joiPort j) (p ''PORT'')
     \<and> required (\<lambda>s. joiString s \<and> joiUri j s) (p ''DATABASE_URL'')
     \<and> ifSet joiString (p ''REDIS_HOST'')
     \<and> ifSet (joiPort j) (p ''REDIS_PORT'')
     \<and> ifSet joiText (p ''REDIS_PASSWORD'')
     \<and> required (\<lambda>s. joiString s \<and> 8 \<le> length s) (p ''JWT_SECRET'')
     \<and> ifSet joiString (p ''JWT_EXPIRES_IN'')
     \<and> required (\<lambda>s. joiString s \<and> 8 \<le> length s) (p ''JWT_REFRESH_SECRET'')
     \<and> ifSet joiString (p ''JWT_REFRESH_EXPIRES_IN'')
     \<and> ifSet joiText (p ''RAZORPAY_KEY_ID'')
     \<and> ifSet joiText (p ''RAZORPAY_SECRET'')
     \<and> ifSet joiText (p ''RAZORPAY_KEY_SECRET'')
     \<and> ifSet joiText (p ''RAZORPAY_WEBHOOK_SECRET'')
     \<and> ifSet joiText (p ''CORS_ORIGINS'')
     \<and> ifSet (joiBoolean j) (p ''CORS_CREDENTIALS'')
     \<and> ifSet (\<lambda>s. s \<in> set [''json'', ''text'']) (p ''LOG_FORMAT'')
     \<and> ifSet (joiBoolean j) (p ''SWAGGER_ENABLED'')"

text \<open>
  The defaults of the schema. The configuration module writes them to \<open>process.env\<close> for the
  variables that are not set, before the namespaces are read.
\<close>

definition envDefaults :: "(string \<times> string) list" where
  "envDefaults =
     [(''NODE_ENV'', ''development''), (''PORT'', ''8000''), (''REDIS_HOST'', ''localhost''),
      (''REDIS_PORT'', ''6379''), (''REDIS_PASSWORD'', []), (''JWT_EXPIRES_IN'', ''15m''),
      (''JWT_REFRESH_EXPIRES_IN'', ''7d''), (''RAZORPAY_KEY_ID'', []), (''RAZORPAY_SECRET'', []),
      (''RAZORPAY_KEY_SECRET'', []), (''RAZORPAY_WEBHOOK_SECRET'', []), (''CORS_CREDENTIALS'', ''true''),
      (''LOG_FORMAT'', ''json''), (''SWAGGER_ENABLED'', ''false'')]"

definition withDefaults :: "processEnv \<Rightarrow> processEnv" where
  "withDefaults p = (\<lambda>k. case p k of Some v \<Rightarrow> Some v | None \<Rightarrow> map_of envDefaults k)"

section \<open>Namespaces\<close>

text \<open>\<open>a ?? d\<close> and \<open>parseInt(s, 10)\<close>, with \<open>NaN\<close> as \<open>None\<close>.\<close>

definition nullish :: "string option \<Rightarrow> string \<Rightarrow> string" where
  "nullish v d = (case v of None \<Rightarrow> d | Some s \<Rightarrow> s)"

definition parseInt10 :: "string \<Rightarrow> int option" where
  "parseInt10 s =
     (let t = dropWhile isSpace s;
          signed = t \<noteq> [] \<and> (hd t = CHR ''-'' \<or> hd t = CHR ''+'');
          digits = takeWhile isDigit (if signed then tl t else t);
          n = int (digitsValue digits)
      in if digits = [] then None else Some (if signed \<and> hd t = CHR ''-'' then - n else n))"

record appConfig =
  ac_port :: "int option"
  ac_nodeEnv :: string
  ac_corOrigin :: string

definition appConfigOf :: "processEnv \<Rightarrow> appConfig" where
  "appConfigOf p =
     \<lparr>ac_port = parseInt10 (nullish (p ''PORT'') ''3000''), ac_nodeEnv = nullish (p ''NODE_ENV'') ''development'',
      ac_corOrigin = ''http''\<rparr>"

record corsConfig =
  cc_origins :: "string list"
  cc_credentials :: bool

definition corsConfigOf :: "processEnv \<Rightarrow> corsConfig" where
  "corsConfigOf p =
     \<lparr>cc_origins = (case p ''CORS_ORIGINS'' of
        None \<Rightarrow> []
      | Some s \<Rightarrow> filter (\<lambda>origin. origin \<noteq> []) (map trim (splitOn (CHR '','') s))),
      cc_credentials = (p ''CORS_CREDENTIALS'' = Some ''true'')\<rparr>"

definition databaseConfigOf :: "processEnv \<Rightarrow> string option" where
  "databaseConfigOf p = p ''DATABASE_URL''"

record jwtConfig =
  jc_secret :: "string option"
  jc_expiresIn :: string
  jc_refreshSecret :: "string option"
  jc_refreshExpiresIn :: string

definition jwtConfigOf :: "processEnv \<Rightarrow> jwtConfig" where
  "jwtConfigOf p =
     \<lparr>jc_secret = p ''JWT_SECRET'', jc_expiresIn = nullish (p ''JWT_EXPIRES_IN'') ''15m'',
      jc_refreshSecret = p ''JWT_REFRESH_SECRET'',
      jc_refreshExpiresIn = nullish (p ''JWT_REFRESH_EXPIRES_IN'') ''7d''\<rparr>"

record razorpayConfig =
  rc_keyId :: string
  rc_keySecret :: string
  rc_webhookSecret :: string

definition razorpayConfigOf :: "processEnv \<Rightarrow> razorpayConfig" where
  "razorpayConfigOf p =
     \<lparr>rc_keyId = nullish (p ''RAZORPAY_KEY_ID'') [], rc_keySecret = nullish (p ''RAZORPAY_KEY_SECRET'') [],
      rc_webhookSecret = nullish (p ''RAZORPAY_WEBHOOK_SECRET'') []\<rparr>"

record redisConfig =
  rd_host :: string
  rd_port :: "int option"
  rd_password :: string

definition redisConfigOf :: "processEnv \<Rightarrow> redisConfig" where
  "redisConfigOf p =
     \<lparr>rd_host = nullish (p ''REDIS_HOST'') ''localhost'', rd_port = parseInt10 (nullish (p ''REDIS_PORT'') ''6379''),
      rd_password = nullish (p ''REDIS_PASSWORD'') []\<rparr>"

section \<open>Start-up\<close>

text \<open>The options of \<open>enableCors\<close>: no allowed origins is the option \<open>false\<close>, here \<open>None\<close>.\<close>

record corsOptions =
  co_origin :: "string list option"
  co_credentials :: bool
  co_methods :: "string list"
  co_allowedHeaders :: "string list"
  co_exposedHeaders :: "string list"

definition corsOptionsOf :: "corsConfig \<Rightarrow> corsOptions" where
  "corsOptionsOf cors =
     \<lparr>co_origin = (if length (cc_origins cors) > 0 then Some (cc_origins cors) else None),
      co_credentials = cc_credentials cors,
      co_methods = [''GET'', ''POST'', ''PUT'', ''PATCH'', ''DELETE'', ''OPTIONS''],
      co_allowedHeaders = [''Content-Type'', ''Authorization'', ''X-Request-ID'', ''x-razorpay-signature'',
        ''x-razorpay-event-id''],
      co_exposedHeaders = [''X-Request-ID'']\<rparr>"

definition isProduction :: "processEnv \<Rightarrow> bool" where
  "isProduction p \<longleftrightarrow> ac_nodeEnv (appConfigOf p) = ''production'' \<or> p ''NODE_ENV'' = Some ''production''"

text \<open>
  \<open>configService.get("SWAGGER_ENABLED")\<close> answers the validated value, a boolean; it never
  equals the text \<open>"true"\<close>, so the variable itself decides.
\<close>

definition swaggerEnabled :: "json option \<Rightarrow> processEnv \<Rightarrow> bool" where
  "swaggerEnabled validated p \<longleftrightarrow>
     validated = Some (JStr ''true'') \<or> p ''SWAGGER_ENABLED'' = Some ''true''"

definition swaggerExposed :: "json option \<Rightarrow> processEnv \<Rightarrow> bool" where
  "swaggerExposed validated p \<longleftrightarrow> \<not> isProduction p \<or> swaggerEnabled validated p"

definition listenPort :: "processEnv \<Rightarrow> int option" where
  "listenPort p = ac_port (appConfigOf p)"

text \<open>The connection of the cache.\<close>

record redisOptions =
  ro_host :: string
  ro_port :: int
  ro_password :: "string option"
  ro_maxRetriesPerRequest :: nat
  ro_enableOfflineQueue :: bool

definition redisOptionsOf :: "redisConfig \<Rightarrow> redisOptions" where
  "redisOptionsOf c =
     \<lparr>ro_host = orElse (Some (rd_host c)) ''localhost'',
      ro_port = (case rd_port c of None \<Rightarrow> 6379 | Some n \<Rightarrow> if n = 0 then 6379 else n),
      ro_password = truthy (Some (rd_password c)), ro_maxRetriesPerRequest = 1,
      ro_enableOfflineQueue = False\<rparr>"

definition retryStrategy :: "processEnv \<Rightarrow> nat \<Rightarrow> nat option" where
  "retryStrategy p attempts = (if p ''NODE_ENV'' = Some ''test'' then None else Some (min (attempts * 200) 2000))"

section \<open>Facts\<close>

lemma withDefaults_set [simp]: "p k = Some v \<Longrightarrow> withDefaults p k = Some v"
  by (simp add: withDefaults_def)

lemma withDefaults_unset: "p k = None \<Longrightarrow> withDefaults p k = map_of envDefaults k"
  by (simp add: withDefaults_def)

text \<open>The defaults satisfy the schema, so filling them in keeps an environment valid.\<close>

lemma filled_in:
  "ifSet ok (p k) \<Longrightarrow> ifSet ok (map_of envDefaults k) \<Longrightarrow> ifSet ok (withDefaults p k)"
  "required ok (p k) \<Longrightarrow> required ok (withDefaults p k)"
  by (auto simp: ifSet_def required_def withDefaults_def split: option.split)

lemma withDefaults_valid:
  assumes "envValidationSchema j p" and "joiPort j ''8000''" "joiPort j ''6379''"
    and "joiBoolean j ''true''" "joiBoolean j ''false''"
  shows "envValidationSchema j (withDefaults p)"
  unfolding envValidationSchema_def
  by (intro conjI filled_in)
    (use assms in \<open>simp_all add: envValidationSchema_def envDefaults_def ifSet_def joiString_def joiText_def\<close>)

lemma retry_delay: "retryStrategy p attempts = Some d \<Longrightarrow> d \<le> 2000"
  by (auto simp: retryStrategy_def split: if_splits)

lemma cors_origins:
  assumes "o' \<in> set (cc_origins (corsConfigOf p))"
  shows "o' \<noteq> []" and "\<exists>s. p ''CORS_ORIGINS'' = Some s \<and> (\<exists>x \<in> set (splitOn (CHR '','') s). o' = trim x)"
  using assms by (cases "p ''CORS_ORIGINS''"; auto simp: corsConfigOf_def)+

lemma cors_closed: "cc_origins c = [] \<Longrightarrow> co_origin (corsOptionsOf c) = None"
  by (simp add: corsOptionsOf_def)

end
