(* ===== verification/ConfigurationFacts.thy ===== *)
theory ConfigurationFacts
  imports Configuration Examples
begin

text \<open>
  What a validated configuration guarantees, and what it does not: the keys of the tokens
  are there, those of the payment gateway need not be.
\<close>

section \<open>Texts of the configuration\<close>

lemma trim_ends:
  assumes "trim s \<noteq> []"
  shows "\<not> isSpace (hd (trim s))" "\<not> isSpace (last (trim s))"
proof -
  let ?t = "dropWhile isSpace s"
  have r: "dropWhile isSpace (rev ?t) \<noteq> []" using assms by (simp add: trim_def)
  then show "\<not> isSpace (last (trim s))"
    by (simp add: trim_def last_rev hd_dropWhile)
  have "?t \<noteq> []" using r by (metis dropWhile.simps(1) rev.simps(1))
  moreover obtain u where u: "rev ?t = u @ dropWhile isSpace (rev ?t)"
    by (metis takeWhile_dropWhile_id)
  then have "?t = trim s @ rev u"
    by (metis rev_append rev_rev_ident trim_def)
  ultimately show "\<not> isSpace (hd (trim s))"
    using assms hd_dropWhile [of isSpace s] by (metis hd_append2)
qed

lemma parseInt10_natString: "parseInt10 (natString n) = Some (int n)"
proof -
  have d: "list_all isDigit (natString n)" by (rule list_all_natString)
  have ne: "natString n \<noteq> []" by (subst natString.simps) simp
  then have hd: "isDigit (hd (natString n))" using d by (cases "natString n") auto
  then have first: "\<not> isSpace (hd (natString n))" "hd (natString n) \<noteq> CHR ''-''" "hd (natString n) \<noteq> CHR ''+''"
    by (auto simp: isSpace_def isDigit_def)
  then have dw: "dropWhile isSpace (natString n) = natString n"
    using ne by (cases "natString n") auto
  have tw: "takeWhile isDigit (natString n) = natString n"
    using d by (simp add: list_all_iff)
  show ?thesis
    using ne first by (simp add: parseInt10_def Let_def digitsValue_natString dw tw)
qed

section \<open>What is guaranteed\<close>

text \<open>
  What the service runs with once its environment was accepted: both token secrets are
  there with eight characters or more, the life times are not empty, the mode is one of
  the four known ones, every allowed origin is a non-empty piece of \<open>CORS_ORIGINS\<close>
  without spaces at its ends, and a port that is not set is 8000, whatever \<open>app.config.ts\<close>
  says. The documentation is not exposed in production unless \<open>SWAGGER_ENABLED\<close> is the text
  \<open>true\<close>.
\<close>

theorem validated_configuration:
  assumes valid: "envValidationSchema j p" and p': "p' = withDefaults p"
  shows "(\<exists>s r. jc_secret (jwtConfigOf p') = Some s \<and> jc_refreshSecret (jwtConfigOf p') = Some r
      \<and> 8 \<le> length s \<and> 8 \<le> length r)
    \<and> jc_expiresIn (jwtConfigOf p') \<noteq> [] \<and> jc_refreshExpiresIn (jwtConfigOf p') \<noteq> []
    \<and> ac_nodeEnv (appConfigOf p') \<in> {''development'', ''production'', ''test'', ''staging''}
    \<and> (\<forall>q \<in> set (cc_origins (corsConfigOf p')). q \<noteq> [] \<and> \<not> isSpace (hd q) \<and> \<not> isSpace (last q))
    \<and> (p ''PORT'' = None \<longrightarrow> listenPort p' = Some 8000)
    \<and> (p ''NODE_ENV'' = Some ''production'' \<longrightarrow>
        swaggerExposed (Some (JBool b)) p' = (p ''SWAGGER_ENABLED'' = Some ''true''))"
proof -
  have "parseInt10 ''8000'' = Some 8000"
    by (simp add: parseInt10_def Let_def isSpace_def isDigit_def digitsValue_def digitValue_def)
  then have port: "p ''PORT'' = None \<longrightarrow> listenPort p' = Some 8000"
    by (simp add: p' listenPort_def appConfigOf_def withDefaults_unset envDefaults_def nullish_def)
  have origins: "\<forall>q \<in> set (cc_origins (corsConfigOf p')). q \<noteq> [] \<and> \<not> isSpace (hd q) \<and> \<not> isSpace (last q)"
    using cors_origins [of _ p'] trim_ends by fastforce
  have "swaggerExposed (Some (JBool b)) p' = (p ''SWAGGER_ENABLED'' = Some ''true'')"
    if "p ''NODE_ENV'' = Some ''production''"
    using that by (simp add: swaggerExposed_def isProduction_def swaggerEnabled_def p' appConfigOf_def nullish_def
        withDefaults_def envDefaults_def split: option.split)
  moreover have "\<exists>s r. jc_secret (jwtConfigOf p') = Some s \<and> jc_refreshSecret (jwtConfigOf p') = Some r
      \<and> 8 \<le> length s \<and> 8 \<le> length r"
    using valid by (auto simp: p' envValidationSchema_def jwtConfigOf_def required_def withDefaults_def split: option.splits)
  moreover have "jc_expiresIn (jwtConfigOf p') \<noteq> []" "jc_refreshExpiresIn (jwtConfigOf p') \<noteq> []"
    using valid by (auto simp: p' envValidationSchema_def jwtConfigOf_def ifSet_def nullish_def joiString_def
        withDefaults_def envDefaults_def split: option.splits)
  moreover have "ac_nodeEnv (appConfigOf p') \<in> {''development'', ''production'', ''test'', ''staging''}"
    using valid by (auto simp: p' envValidationSchema_def appConfigOf_def ifSet_def nullish_def
        withDefaults_def envDefaults_def split: option.splits)
  ultimately show ?thesis using port origins by blast
qed

definition demoJoi :: joi where
  "demoJoi = \<lparr>joiUri = (\<lambda>s. take 11 s = ''postgres://''), joiPort = list_all isDigit,
     joiBoolean = (\<lambda>s. s \<in> {''true'', ''false''})\<rparr>"

definition guideEnv :: processEnv where
  "guideEnv = map_of
     [(''NODE_ENV'', ''production''), (''DATABASE_URL'', ''postgres://db/servicehub''),
      (''JWT_SECRET'', ''access-token-key''), (''JWT_REFRESH_SECRET'', ''refresh-token-key''),
      (''CORS_ORIGINS'', ''https://a.example, ,https://b.example''), (''RAZORPAY_KEY_ID'', ''rzp_live_1''),
      (''RAZORPAY_SECRET'', ''live-secret''), (''RAZORPAY_WEBHOOK_SECRET'', ''live-webhook'')]"

lemma guideEnv_valid: "envValidationSchema demoJoi guideEnv"
  by (simp add: envValidationSchema_def guideEnv_def demoJoi_def required_def ifSet_def joiString_def joiText_def)

theorem validated_configuration_witness:
  "envValidationSchema demoJoi guideEnv \<and> listenPort (withDefaults guideEnv) = Some 8000
   \<and> \<not> swaggerExposed (Some (JBool False)) (withDefaults guideEnv)
   \<and> cc_origins (corsConfigOf (withDefaults guideEnv)) = [''https://a.example'', ''https://b.example'']"
proof -
  have "cc_origins (corsConfigOf (withDefaults guideEnv)) = [''https://a.example'', ''https://b.example'']"
    by code_simp
  then show ?thesis
    using guideEnv_valid validated_configuration [OF guideEnv_valid refl, of False]
    by (simp add: guideEnv_def)
qed

section \<open>What is not guaranteed\<close>

text \<open>
  C38. The secrets of the payment gateway are not required, in production either. The
  deployment guide names \<open>RAZORPAY_SECRET\<close>, which nothing reads: every valid environment
  stays valid in production with that variable in place of \<open>RAZORPAY_KEY_SECRET\<close>. The
  gateway then checks payment signatures under a constant of the source, so everyone who has read
  it can sign; likewise webhooks without \<open>RAZORPAY_WEBHOOK_SECRET\<close>. A secret that is set and
  not empty is the one that is used.
\<close>

theorem gateway_secret_optional:
  assumes valid: "envValidationSchema j p"
    and config: "\<And>k. k \<in> {''RAZORPAY_KEY_SECRET'', ''RAZORPAY_WEBHOOK_SECRET''} \<Longrightarrow> configGet e k = withDefaults p k"
  shows "envValidationSchema j
      (p(''NODE_ENV'' \<mapsto> ''production'', ''RAZORPAY_SECRET'' \<mapsto> secret, ''RAZORPAY_KEY_SECRET'' := None))
    \<and> verifyPaymentSignature e oid pid signature None =
        (signature = hmacSha256 e (case truthy (p ''RAZORPAY_KEY_SECRET'') of
           None \<Rightarrow> ''rzp_test_mock_secret'' | Some s \<Rightarrow> s) (oid @ ''|'' @ pid))
    \<and> verifyWebhookSignature e body signature None =
        (signature = hmacSha256 e (case truthy (p ''RAZORPAY_WEBHOOK_SECRET'') of
           None \<Rightarrow> ''rzp_test_webhook_secret'' | Some s \<Rightarrow> s) body)"
proof -
  have "envValidationSchema j
      (p(''NODE_ENV'' \<mapsto> ''production'', ''RAZORPAY_SECRET'' \<mapsto> secret, ''RAZORPAY_KEY_SECRET'' := None))"
    using valid by (simp add: envValidationSchema_def ifSet_def joiText_def)
  moreover have "orElse (withDefaults p k) d = (case truthy (p k) of None \<Rightarrow> d | Some s \<Rightarrow> s)"
    if "k \<in> {''RAZORPAY_KEY_SECRET'', ''RAZORPAY_WEBHOOK_SECRET''}" for k d
    using that by (auto simp: orElse_def truthy_def withDefaults_def envDefaults_def split: option.split)
  ultimately show ?thesis
    by (simp add: verifyPaymentSignature_iff verifyWebhookSignature_iff keySecret_def webhookSecret_def config)
qed

theorem gateway_secret_optional_witness:
  "envValidationSchema demoJoi guideEnv \<and> guideEnv ''NODE_ENV'' = Some ''production''
   \<and> verifyPaymentSignature (demoEnv\<lparr>configGet := withDefaults guideEnv\<rparr>) ''order_1'' ''pay_1''
       (hmacSha256 demoEnv ''rzp_test_mock_secret'' ''order_1|pay_1'') None"
proof -
  have "guideEnv ''RAZORPAY_KEY_SECRET'' = None" "guideEnv ''NODE_ENV'' = Some ''production''"
    by (simp_all add: guideEnv_def)
  then show ?thesis
    using guideEnv_valid gateway_secret_optional
      [OF guideEnv_valid, of "demoEnv\<lparr>configGet := withDefaults guideEnv\<rparr>" _ "''order_1''" "''pay_1''"]
    by (simp add: truthy_def)
qed

end
