(* ===== verification/Races.thy ===== *)
theory Races
  imports AccountFacts PaymentFacts ReviewFacts
begin

text \<open>
  Two requests at once. The handlers below read rows and check them before they write, and
  nothing ties the write to what was read: with two requests under way both may pass their
  checks before either writes. Each handler is split where it stops reading, and the
  schedule that runs both first halves before the second ones is compared with running
  the requests one after the other.
\<close>

section \<open>Handlers that check and then act\<close>

text \<open>Both first halves, then both second halves.\<close>

definition overlapped ::
  "('e, 's, 'c) prog \<Rightarrow> ('c \<Rightarrow> ('e, 's, 'a) prog) \<Rightarrow> ('e, 's, 'd) prog \<Rightarrow> ('d \<Rightarrow> ('e, 's, 'b) prog) \<Rightarrow>
   's \<Rightarrow> (('e + 'a) \<times> ('e + 'b)) \<times> 's" where
  "overlapped c1 k1 c2 k2 w =
     (let (x1, w1) = c1 w;
          (x2, w2) = c2 w1;
          (r1, w3) = (case x1 of Inl e \<Rightarrow> (Inl e, w2) | Inr a \<Rightarrow> k1 a w2);
          (r2, w4) = (case x2 of Inl e \<Rightarrow> (Inl e, w3) | Inr b \<Rightarrow> k2 b w3)
      in ((r1, r2), w4))"

text \<open>What a split of a handler promises: it is the handler, and its first half only reads.\<close>

locale check_then_act =
  fixes checks :: "('e, 's, 'c) prog"
    and commit :: "'c \<Rightarrow> ('e, 's, 'a) prog"
    and handler :: "('e, 's, 'a) prog"
  assumes split: "handler = andThen checks commit"
    and reads_only: "snd (checks w) = w"
begin

lemma passes: "checks w = (Inr c, w') \<Longrightarrow> handler w = commit c w \<and> w' = w"
  using reads_only [of w] by (simp add: split andThen_run)

lemma refused: "checks w = (Inl x, w') \<Longrightarrow> handler w = (Inl x, w)"
  using reads_only [of w] by (simp add: split andThen_run)

lemma handler_InrD:
  assumes "handler w = (Inr r, w')"
  obtains c where "checks w = (Inr c, w)" and "commit c w = (Inr r, w')"
  using assms passes refused by (cases "checks w"; cases "fst (checks w)") fastforce+

end

locale race = first: check_then_act c1 k1 h1 + second: check_then_act c2 k2 h2
  for c1 :: "('e, 's, 'c) prog" and k1 and h1 :: "('e, 's, 'a) prog"
    and c2 :: "('e, 's, 'd) prog" and k2 and h2 :: "('e, 's, 'b) prog"
begin

text \<open>Both requests commit what they decided on the state before either of them.\<close>

lemma both_pass:
  assumes "overlapped c1 k1 c2 k2 w = ((Inr r1, Inr r2), w')"
  obtains a b w1 where "c1 w = (Inr a, w)" and "c2 w = (Inr b, w)"
    and "k1 a w = (Inr r1, w1)" and "k2 b w1 = (Inr r2, w')"
proof -
  have "snd (c1 w) = w" "snd (c2 w) = w" by (rule first.reads_only, rule second.reads_only)
  with assms that show thesis
    by (cases "c1 w"; cases "c2 w") (auto simp: overlapped_def split: sum.splits prod.splits)
qed

text \<open>The first request runs as if it were alone.\<close>

lemma first_alone:
  assumes "overlapped c1 k1 c2 k2 w = ((Inr r1, Inr r2), w')"
  obtains b w1 where "h1 w = (Inr r1, w1)" and "c2 w = (Inr b, w)" and "k2 b w1 = (Inr r2, w')"
  using assms by (rule both_pass) (use first.passes that in fastforce)

end

section \<open>Administrators\<close>

text \<open>\<open>AdminUserService.updateStatus\<close>, split after its two invariants.\<close>

definition updateStatusChecks :: "uuid \<Rightarrow> UserStatus \<Rightarrow> uuid option \<Rightarrow> user action" where
  "updateStatusChecks i status adminUserId =
     andThen (adminUser_findOne i) (\<lambda>existing.
     andThen (check (Some (u_id existing) \<noteq> adminUserId)
       (BadRequestException ''Admin cannot change their own account status'')) (\<lambda>_.
     andThen
       (if u_role existing = ADMIN \<and> u_status existing = ACTIVE \<and> status \<noteq> ACTIVE then
          andThen (reads countActiveAdmin) (\<lambda>activeAdminCount.
          check (\<not> activeAdminCount \<le> 1)
            (BadRequestException ''Cannot suspend or deactivate the final active administrative account''))
        else ret ()) (\<lambda>_.
     ret existing)))"

definition updateStatusCommit :: "env \<Rightarrow> uuid \<Rightarrow> UserStatus \<Rightarrow> uuid option \<Rightarrow> user \<Rightarrow> user action" where
  "updateStatusCommit e i status adminUserId existing =
     andThen
       (case truthy adminUserId of
          None \<Rightarrow> ret ()
        | Some a \<Rightarrow>
            andThen (auditLog_create e
              \<lparr>ap_actorUserId = Some a, ap_entityType = ''User'', ap_entityId = i,
               ap_action = (if status = UserStatus.SUSPENDED then USER_SUSPENDED else USER_STATUS_UPDATED),
               ap_oldValue = Some (JObj [(''status'', JStr (userStatusName (u_status existing)))]),
               ap_newValue = Some (JObj [(''status'', JStr (userStatusName status))])\<rparr>) (\<lambda>_. ret ())) (\<lambda>_.
     adminUser_updateStatus i status)"

lemma updateStatus_split: "updateStatus e i s a = andThen (updateStatusChecks i s a) (updateStatusCommit e i s a)"
  unfolding updateStatus_def updateStatusChecks_def updateStatusCommit_def
  by (rule ext) (auto simp: andThen_def ret_app split: prod.split sum.split)

lemma updateStatusChecks_state: "snd (updateStatusChecks i s a w) = w"
  by (auto simp: updateStatusChecks_def adminUser_findOne_def run_simps split: option.split)

interpretation suspension: check_then_act "updateStatusChecks i s a" "updateStatusCommit e i s a" "updateStatus e i s a"
  for e i s a
  by unfold_locales (rule updateStatus_split, rule updateStatusChecks_state)

interpretation suspensions: race
    "updateStatusChecks i s a" "updateStatusCommit e i s a" "updateStatus e i s a"
    "updateStatusChecks i' s' a'" "updateStatusCommit e' i' s' a'" "updateStatus e' i' s' a'"
  for e i s a e' i' s' a' ..

lemma updateStatusCommit_users:
  assumes "updateStatusCommit e i s a u w = (Inr r, w')"
  shows "users w' = mapRows (\<lambda>x. u_id x = i) (\<lambda>x. x\<lparr>u_status := s\<rparr>) (users w)"
  using assms
  by (auto simp: updateStatusCommit_def adminUser_updateStatus_def andThen_run ret_app auditLog_create_app
      split: option.splits if_splits elim!: user_update_ok)

lemma user_findById_id: "user_findById i w = Some u \<Longrightarrow> u_id u = i"
  by (auto simp: user_findById_def dest: findUnique_SomeD)

text \<open>Changing one row of a kind to another kind takes one off the count.\<close>

lemma countRows_mapRows_less:
  assumes "distinct (map key t)" and "r \<in> set t" "key r = k" and "p r" "\<not> p (f r)"
  shows "Suc (countRows p (mapRows (\<lambda>x. key x = k) f t)) = countRows p t"
  using assms
proof (induction t)
  case (Cons x t)
  show ?case
  proof (cases "key x = k")
    case True
    have "key x \<notin> key ` set t" using Cons.prems(1) by simp
    with True have other: "\<forall>y \<in> set t. key y \<noteq> k" by (metis image_eqI)
    then have "x = r" "mapRows (\<lambda>x. key x = k) f t = t"
      using Cons.prems(2,3) by (auto intro: mapRows_id)
    then show ?thesis using Cons.prems True by (simp add: countRows_def)
  next
    case False
    then show ?thesis using Cons by (auto simp: countRows_def)
  qed
qed simp

lemma suspend_counts:
  assumes "distinct (map u_id (users w))" and "user_findById i w = Some a" "u_role a = ADMIN" "u_status a = ACTIVE"
  shows "Suc (countRows (\<lambda>u. u_role u = ADMIN \<and> u_status u = ACTIVE)
      (mapRows (\<lambda>x. u_id x = i) (\<lambda>x. x\<lparr>u_status := UserStatus.SUSPENDED\<rparr>) (users w))) = countActiveAdmin w"
  unfolding countActiveAdmin_def
  using assms by (intro countRows_mapRows_less) (auto simp: user_findById_def dest: findUnique_SomeD)

text \<open>
  C30. The last administrator is protected only against one request at a time. Two active
  administrators who suspend each other at the same moment both count two of them; when
  both requests succeed nobody is left who could undo it. One after the other, the second
  request is refused.
\<close>

theorem admins_suspend_each_other:
  assumes ids: "distinct (map u_id (users w))" and two: "countActiveAdmin w = 2"
    and a: "user_findById i w = Some a" "u_role a = ADMIN" "u_status a = ACTIVE"
    and b: "user_findById j w = Some b" "u_role b = ADMIN" "u_status b = ACTIVE" and "i \<noteq> j"
    and run: "overlapped (updateStatusChecks i UserStatus.SUSPENDED (Some j)) (updateStatusCommit e i UserStatus.SUSPENDED (Some j))
      (updateStatusChecks j UserStatus.SUSPENDED (Some i)) (updateStatusCommit e' j UserStatus.SUSPENDED (Some i)) w
      = ((Inr r, Inr r'), w')"
  shows "countActiveAdmin w' = 0
    \<and> isOk (updateStatus e i UserStatus.SUSPENDED (Some j) w)
    \<and> \<not> isOk (updateStatus e' j UserStatus.SUSPENDED (Some i) (snd (updateStatus e i UserStatus.SUSPENDED (Some j) w)))"
proof -
  let ?suspend = "\<lambda>k. mapRows (\<lambda>x. u_id x = k) (\<lambda>x. x\<lparr>u_status := UserStatus.SUSPENDED\<rparr>)"
  obtain x w1 where one: "updateStatus e i UserStatus.SUSPENDED (Some j) w = (Inr r, w1)"
    and second: "updateStatusCommit e' j UserStatus.SUSPENDED (Some i) x w1 = (Inr r', w')"
    using run by (rule suspensions.first_alone)
  have w1: "users w1 = ?suspend i (users w)"
    using one by (rule suspension.handler_InrD) (erule updateStatusCommit_users)
  have w': "users w' = ?suspend j (users w1)" using second by (rule updateStatusCommit_users)
  have ids1: "distinct (map u_id (users w1))" using ids by (simp add: w1 map_mapRows)
  have b1: "user_findById j w1 = Some b"
    using b(1) \<open>i \<noteq> j\<close> user_findById_id [OF b(1)] by (simp add: user_findById_def w1 findUnique_mapRows)
  have left: "countActiveAdmin w1 = 1"
    using suspend_counts [OF ids a] two by (simp add: countActiveAdmin_def w1)
  then have "countActiveAdmin w' = 0"
    using suspend_counts [OF ids1 b1 b(2,3)] by (simp add: countActiveAdmin_def w')
  moreover have "updateStatusChecks j UserStatus.SUSPENDED (Some i) w1
      = (Inl (BadRequestException ''Cannot suspend or deactivate the final active administrative account''), w1)"
    using b b1 left \<open>i \<noteq> j\<close> user_findById_id [OF b1]
    by (simp add: updateStatusChecks_def adminUser_findOne_def run_simps)
  then have "updateStatus e' j UserStatus.SUSPENDED (Some i) w1
      = (Inl (BadRequestException ''Cannot suspend or deactivate the final active administrative account''), w1)"
    by (rule suspension.refused)
  ultimately show ?thesis using one by (simp add: isOk_def)
qed

theorem admins_suspend_each_other_witness:
  "\<exists>r r' w'. overlapped (updateStatusChecks ''boss'' UserStatus.SUSPENDED (Some ''root''))
        (updateStatusCommit demoEnv ''boss'' UserStatus.SUSPENDED (Some ''root''))
        (updateStatusChecks ''root'' UserStatus.SUSPENDED (Some ''boss''))
        (updateStatusCommit demoEnv ''root'' UserStatus.SUSPENDED (Some ''boss'')) adminWorld = ((Inr r, Inr r'), w')
     \<and> countActiveAdmin w' = 0"
proof -
  have "\<exists>r r' w'. overlapped (updateStatusChecks ''boss'' UserStatus.SUSPENDED (Some ''root''))
        (updateStatusCommit demoEnv ''boss'' UserStatus.SUSPENDED (Some ''root''))
        (updateStatusChecks ''root'' UserStatus.SUSPENDED (Some ''boss''))
        (updateStatusCommit demoEnv ''root'' UserStatus.SUSPENDED (Some ''boss'')) adminWorld = ((Inr r, Inr r'), w')"
    by (simp add: overlapped_def updateStatusChecks_def updateStatusCommit_def admin_defs demo_defs write_defs
        run_simps countRows_def cong: andThen_first)
  then obtain r r' w' where run: "overlapped (updateStatusChecks ''boss'' UserStatus.SUSPENDED (Some ''root''))
        (updateStatusCommit demoEnv ''boss'' UserStatus.SUSPENDED (Some ''root''))
        (updateStatusChecks ''root'' UserStatus.SUSPENDED (Some ''boss''))
        (updateStatusCommit demoEnv ''root'' UserStatus.SUSPENDED (Some ''boss'')) adminWorld = ((Inr r, Inr r'), w')"
    by blast
  have "distinct (map u_id (users adminWorld))" "countActiveAdmin adminWorld = 2"
    "user_findById ''boss'' adminWorld = Some (demoAdmin ''boss'')" "user_findById ''root'' adminWorld = Some (demoAdmin ''root'')"
    "u_role (demoAdmin x) = ADMIN" "u_status (demoAdmin x) = ACTIVE" for x
    by (simp_all add: admin_defs demo_defs countRows_def)
  from admins_suspend_each_other [OF this(1,2,3,5,6,4,5,6) _ run] run show ?thesis by auto
qed

section \<open>Refunds\<close>

text \<open>\<open>PaymentService.refundPayment\<close> from the call of the gateway on.\<close>

definition refundCommit ::
  "env \<Rightarrow> uuid option \<Rightarrow> refundPaymentDto \<Rightarrow> payment \<times> booking \<times> string \<Rightarrow> refundResult action" where
  "refundCommit e adminUserId dto checked =
     (case checked of (p, b, gatewayPaymentId) \<Rightarrow>
        andThen (createRefund e gatewayPaymentId (Some (refundAmountOf dto p))) (\<lambda>refundResult.
        transaction (refundTx e adminUserId dto p b refundResult)))"

lemma refundChecks_state: "snd (refundChecks e i dto w) = w"
  by (auto simp: refundChecks_def run_simps payment_booking_app split: option.split)

interpretation refund: check_then_act "refundChecks e i dto" "refundCommit e u dto" "refundPayment e u i dto"
  for e u i dto
proof
  show "refundPayment e u i dto = andThen (refundChecks e i dto) (refundCommit e u dto)"
    unfolding refundPayment_def refundCommit_def by (rule arg_cong [where f = "andThen (refundChecks e i dto)"]) auto
qed (rule refundChecks_state)

interpretation refunds: race
    "refundChecks e i dto" "refundCommit e u dto" "refundPayment e u i dto"
    "refundChecks e' i' dto'" "refundCommit e' u' dto'" "refundPayment e' u' i' dto'"
  for e u i dto e' u' i' dto' ..

text \<open>The call of the gateway and the transaction of a refund that succeeds.\<close>

lemma refundCommit_ok:
  assumes "refundCommit e u dto (p, b, g) w = (Inr r, w')"
    and "booking_findById (pay_bookingId p) w = Some b'"
  shows "rf_refundId r = ''rfnd_'' @ randomHexAt e (drawn w)"
    and "\<exists>l. auditLogs w' = auditLogs w @ [l] \<and> al_action l = AuditAction.PAYMENT_REFUNDED \<and> al_entityId l = pay_id p"
    and "drawn w < drawn w'"
  using assms
  by (auto simp: refundCommit_def refundTx_def andThen_run ret_app createRefund_eq payment_updateStatus_app
      booking_updateStatus_app auditLog_create_app auditRow_def transaction_def
      split: option.splits if_splits prod.splits sum.splits)


text \<open>Two full refunds of the example payment at the same moment.\<close>

definition refundWorld :: world where
  "refundWorld = demoState CONFIRMED SUCCESS\<lparr>payments := [(demoPayment SUCCESS)\<lparr>pay_gatewayPaymentId := Some ''pay1''\<rparr>]\<rparr>"

definition fullRefund :: refundPaymentDto where
  "fullRefund = \<lparr>rp_amount = None, rp_reason = None\<rparr>"


section \<open>Reviews\<close>

text \<open>
  The two statements of the review transaction that recompute the statistics, where the
  aggregate is computed over the rows that the transaction sees. At the database's default
  isolation level a statement sees what was committed before it and what its own transaction
  wrote.
\<close>

definition recalculateFrom :: "world \<Rightarrow> uuid \<Rightarrow> review \<Rightarrow> reviewResult action" where
  "recalculateFrom seen providerId r =
     (case aggregateProviderRating providerId seen of (avg, cnt) \<Rightarrow>
      let averageRating = (case avg of None \<Rightarrow> 0 | Some a \<Rightarrow> a) in
      andThen (updateProviderRatingStats providerId averageRating cnt) (\<lambda>_.
      ret (r, toFixed2 averageRating, cnt)))"

lemma recalculate_from: "recalculate providerId r w = recalculateFrom w providerId r w"
  by (simp add: recalculate_def recalculateFrom_def split: prod.split)

record reviewInput =
  ri_bookingId :: uuid
  ri_customerId :: uuid
  ri_rating :: int
  ri_comment :: "string option"

abbreviation createFor :: "env \<Rightarrow> uuid \<Rightarrow> reviewInput \<Rightarrow> review action" where
  "createFor e providerId x \<equiv>
     review_create e (ri_bookingId x) (ri_customerId x) providerId (ri_rating x) (ri_comment x)"

text \<open>The transaction of \<open>createReview\<close>: alone, and started in \<open>start\<close> next to another one.\<close>

definition reviewTx :: "env \<Rightarrow> uuid \<Rightarrow> reviewInput \<Rightarrow> reviewResult action" where
  "reviewTx e providerId x = transaction (andThen (createFor e providerId x) (recalculate providerId))"

definition reviewTxBeside :: "env \<Rightarrow> uuid \<Rightarrow> reviewInput \<Rightarrow> world \<Rightarrow> reviewResult action" where
  "reviewTxBeside e providerId x start =
     transaction (andThen (createFor e providerId x)
       (recalculateFrom (snd (createFor e providerId x start)) providerId))"

lemma updateProviderRatingStats_ok:
  assumes "updateProviderRatingStats i avg n w = (Inr p, w')"
  shows "reviews w' = reviews w" and "\<exists>q \<in> set (providerProfiles w'). pp_id q = i"
    and "\<forall>q \<in> set (providerProfiles w'). pp_id q = i \<longrightarrow> pp_totalReviews q = n"
proof -
  let ?f = "\<lambda>p. p\<lparr>pp_averageRating := toFixed2 avg, pp_totalReviews := n\<rparr>"
  obtain q where q: "q \<in> set (providerProfiles w)" "pp_id q = i"
    and w': "w' = providerProfiles_update (mapRows (\<lambda>x. pp_id x = i) ?f) w"
    using assms by (auto simp: updateProviderRatingStats_def updateRow_def split: option.splits dest: findUnique_SomeD)
  then have "?f q \<in> set (providerProfiles w')" by (force simp: set_mapRows)
  with q(2) show "\<exists>q \<in> set (providerProfiles w'). pp_id q = i" by (intro bexI [of _ "?f q"]) simp_all
  show "reviews w' = reviews w" by (simp add: w')
  show "\<forall>q \<in> set (providerProfiles w'). pp_id q = i \<longrightarrow> pp_totalReviews q = n"
    unfolding w' mapRows_def by (simp add: ball_Un)
qed

lemma ratingStats_count: "snd (ratingStats i w) = countRows (\<lambda>r. rv_providerId r = i) (reviews w)"
  by (simp add: ratingStats_def aggregateProviderRating_def Let_def countRows_def)

lemma reviewTxBeside_ok:
  assumes "reviewTxBeside e i x start w = (Inr res, w')" and "isOk (createFor e i x start)"
  shows "map rv_providerId (reviews w') = map rv_providerId (reviews w) @ [i]"
    and "\<exists>q \<in> set (providerProfiles w'). pp_id q = i"
    and "\<forall>q \<in> set (providerProfiles w'). pp_id q = i \<longrightarrow>
      pp_totalReviews q = Suc (countRows (\<lambda>r. rv_providerId r = i) (reviews start))"
proof -
  obtain r w1 where c: "createFor e i x w = (Inr r, w1)"
    and k: "recalculateFrom (snd (createFor e i x start)) i r w1 = (Inr res, w')"
    using transaction_InrD [OF assms(1) [unfolded reviewTxBeside_def]] by (rule andThen_InrD)
  obtain r' v where s: "createFor e i x start = (Inr r', v)" using assms(2) isOk_Inr by blast
  obtain avg cnt where agg: "aggregateProviderRating i v = (avg, cnt)" by (cases "aggregateProviderRating i v")
  have cnt: "cnt = Suc (countRows (\<lambda>r. rv_providerId r = i) (reviews start))"
    using review_create_ok [OF s] agg by (simp add: aggregateProviderRating_def Let_def countRows_def)
  obtain p where u: "updateProviderRatingStats i (case avg of None \<Rightarrow> 0 | Some a \<Rightarrow> a) cnt w1 = (Inr p, w')"
    using k s agg by (auto simp: recalculateFrom_def Let_def ret_app elim!: andThen_InrD)
  note up = updateProviderRatingStats_ok [OF u]
  show "map rv_providerId (reviews w') = map rv_providerId (reviews w) @ [i]"
    using up(1) review_create_ok [OF c] by simp
  show "\<exists>q \<in> set (providerProfiles w'). pp_id q = i" using up(2) by blast
  show "\<forall>q \<in> set (providerProfiles w'). pp_id q = i \<longrightarrow>
      pp_totalReviews q = Suc (countRows (\<lambda>r. rv_providerId r = i) (reviews start))"
    using up(3) cnt by blast
qed

lemma reviewTx_alone:
  assumes "reviewTx e i x w = (Inr res, w')"
  shows "reviewTxBeside e i x w w = (Inr res, w')" and "isOk (createFor e i x w)"
proof -
  obtain r w1 where c: "createFor e i x w = (Inr r, w1)" and k: "recalculate i r w1 = (Inr res, w')"
    using transaction_InrD [OF assms [unfolded reviewTx_def]] by (rule andThen_InrD)
  then show "isOk (createFor e i x w)" by (simp add: isOk_def)
  have "andThen (createFor e i x) (recalculateFrom w1 i) w = (Inr res, w')"
    using c k by (simp add: andThen_run recalculate_from)
  then show "reviewTxBeside e i x w w = (Inr res, w')" by (simp add: reviewTxBeside_def c transaction_app)
qed

lemma reviewTx_reviewsOk:
  assumes "reviewsOk w"
  shows "reviewsOk (snd (reviewTx e i x w))"
  using assms by (auto simp: reviewTx_def transaction_app split: prod.split sum.split intro: createTx_reviewsOk)

lemma count_provider: "countRows (\<lambda>r. rv_providerId r = i) t = countRows (\<lambda>x. x = i) (map rv_providerId t)"
  by (simp add: countRows_def filter_map o_def)

text \<open>
  C24. The statistics of a provider are right as long as review transactions do not overlap. Two
  reviews of the same provider whose transactions overlap do not see each other's row: both
  are stored, but the profile counts one review less than there are, so that the statistics
  are wrong in the state both transactions leave. Run one after the other the same
  transactions leave them right.
\<close>

theorem concurrent_reviews_miscount:
  assumes ok: "reviewsOk w" and one: "reviewTx e i x w = (Inr res, w1)"
    and two: "reviewTxBeside e' i x' w w1 = (Inr res', w')" and start: "isOk (createFor e' i x' w)"
  shows "length (reviews w') = length (reviews w) + 2
    \<and> (\<exists>p \<in> set (providerProfiles w'). pp_id p = i
        \<and> Suc (pp_totalReviews p) = countRows (\<lambda>r. rv_providerId r = i) (reviews w'))
    \<and> \<not> statsOk w' \<and> statsOk (snd (reviewTx e' i x' w1))"
proof -
  have ok1: "reviewsOk w1" using reviewTx_reviewsOk [OF ok, of e i x] one by simp
  have alone: "statsOk (snd (reviewTx e' i x' w1))"
    using reviewTx_reviewsOk [OF ok1] by (simp add: reviewsOk_def)
  have first: "map rv_providerId (reviews w1) = map rv_providerId (reviews w) @ [i]"
    using reviewTxBeside_ok(1) one reviewTx_alone [OF one] by blast
  note t = reviewTxBeside_ok [OF two start]
  have n: "countRows (\<lambda>r. rv_providerId r = i) (reviews w') = Suc (Suc (countRows (\<lambda>r. rv_providerId r = i) (reviews w)))"
    unfolding count_provider t(1) first by (simp add: countRows_def)
  obtain p where p: "p \<in> set (providerProfiles w')" "pp_id p = i" using t(2) by blast
  then have count: "Suc (pp_totalReviews p) = countRows (\<lambda>r. rv_providerId r = i) (reviews w')"
    using t(3) n by simp
  moreover have "\<not> statsOk w'"
  proof
    assume "statsOk w'"
    then have "pp_totalReviews p = snd (ratingStats i w')" using p by (metis snd_conv statsOk_def)
    with count show False by (simp add: ratingStats_count)
  qed
  moreover have "length (reviews w') = length (reviews w) + 2"
    using arg_cong [OF t(1), of length] arg_cong [OF first, of length] by simp
  ultimately show ?thesis using p alone by blast
qed

theorem concurrent_reviews_miscount_witness:
  "\<exists>res res' w1 w'. reviewTx demoEnv ''prov'' (reviewInput.make ''book'' ''cust'' 5 None) demoWorld = (Inr res, w1)
     \<and> reviewTxBeside demoEnv ''prov'' (reviewInput.make ''book2'' ''cust2'' 1 None) demoWorld w1 = (Inr res', w')
     \<and> length (reviews w') = 2 \<and> \<not> statsOk w'"
proof -
  let ?x = "reviewInput.make ''book'' ''cust'' 5 None" and ?y = "reviewInput.make ''book2'' ''cust2'' 1 None"
  have ok: "reviewsOk demoWorld"
    by (simp add: reviewsOk_def statsOk_def demo_defs ratingStats_def aggregateProviderRating_def)
  have start: "isOk (createFor demoEnv ''prov'' ?y demoWorld)"
    by (simp add: review_defs reviewInput.make_def run_simps demo_defs write_defs isOk_def cong: andThen_first)
  have "\<exists>res res' w1 w'. reviewTx demoEnv ''prov'' ?x demoWorld = (Inr res, w1)
      \<and> reviewTxBeside demoEnv ''prov'' ?y demoWorld w1 = (Inr res', w')"
    by (simp add: reviewTx_def reviewTxBeside_def recalculateFrom_def review_defs reviewInput.make_def run_simps demo_defs
        write_defs transaction_app cong: andThen_first)
  then obtain res res' w1 w' where run: "reviewTx demoEnv ''prov'' ?x demoWorld = (Inr res, w1)"
    "reviewTxBeside demoEnv ''prov'' ?y demoWorld w1 = (Inr res', w')"
    by blast
  have "length (reviews demoWorld) = 0" by (simp add: demoWorld_def)
  then have "length (reviews w') = 2 \<and> \<not> statsOk w'"
    using concurrent_reviews_miscount [OF ok run start] by simp
  with run show ?thesis by blast
qed

end
