(* ===== verification/SlotFacts.thy ===== *)
theory SlotFacts
  imports AvailabilityFacts BookingFacts
begin

text \<open>
  What becomes of an offered slot when the customer asks for it: the slot service
  labels its slots with the offset \<open>+05:30\<close>, and the booking service checks the
  working hours in UTC, against the same windows.
\<close>

section \<open>The labels of the slots\<close>

text \<open>
  What \<open>Date\<close> reads on one calendar day: the day itself begins at midnight UTC, and a
  time of day with the offset \<open>+05:30\<close> is the instant 330 minutes earlier.
\<close>

definition zonedDay :: "env \<Rightarrow> string \<Rightarrow> date \<Rightarrow> bool" where
  "zonedDay e dateStr day \<longleftrightarrow>
     day mod dayMs = 0 \<and> parseDate e (dateStr @ ''T00:00:00Z'') = Some day
     \<and> (\<forall>m. 0 \<le> m \<longrightarrow> m < 24 * 60 \<longrightarrow>
          parseDate e (dateStr @ ''T'' @ minutesToTimeString m @ '':00+05:30'') = Some (day + (m - 330) * 60000))"

lemma instant_of_minute:
  assumes "day mod dayMs = 0" and "0 \<le> k" and "k < 24 * 60"
  shows "getUTCDay (day + k * 60000) = getUTCDay day"
    and "getUTCHours (day + k * 60000) * 60 + getUTCMinutes (day + k * 60000) = k"
proof -
  obtain n where day: "day = dayMs * n" using assms(1) by (auto simp: dayMs_def)
  have "(day + k * 60000) div dayMs = n" "day div dayMs = n" using assms(2,3) by (simp_all add: day dayMs_def)
  then show "getUTCDay (day + k * 60000) = getUTCDay day" by (simp add: getUTCDay_def)
  have "(day + k * 60000) div 3600000 = 24 * n + k div 60" "(day + k * 60000) div 60000 = 60 * (24 * n) + k"
    by (simp_all add: day dayMs_def)
  moreover have "(24 * n + k div 60) mod 24 = k div 60" using assms(2,3) by simp
  moreover have "(60 * (24 * n) + k) mod 60 = k mod 60" by (rule mod_mult_self4)
  ultimately have "getUTCHours (day + k * 60000) = k div 60" "getUTCMinutes (day + k * 60000) = k mod 60"
    by (simp_all only: getUTCHours_def getUTCMinutes_def)
  then show "getUTCHours (day + k * 60000) * 60 + getUTCMinutes (day + k * 60000) = k"
    by (simp only: div_mult_mod_eq)
qed

lemma slots_of_day:
  assumes "generateSlot e p q w = (Inr (Some page), w1)"
    and "providerService_findByProviderAndServiceId p (qs_serviceId q) w = Some ps"
    and "parseDate e (qs_date q @ ''T00:00:00Z'') = Some day"
    and "availability_findByProviderIdAndWeekday p (getUTCDay day) w = [x]"
    and "timeToMinutes (av_startTime x) = Some s" and "timeToMinutes (av_endTime x) = Some t"
  obtains xs where "slotStarts (ps_durationMinutes ps) (ps_bufferMinutes ps) t s = Some xs"
    and "sp_slots page = map (\<lambda>m. slotAt (qs_date q) m (m + ps_durationMinutes ps)) xs"
    and "sp_id page = ps_id ps"
  using assms that
  by (auto simp: generateSlot_def windowSlots_def prog_simps split: if_splits option.splits)

text \<open>
  The conditions of a booking request at an instant, other than that its text is
  read as that instant and the working hours.
\<close>

definition otherwiseBookable ::
  "env \<Rightarrow> createBookingDto \<Rightarrow> world \<Rightarrow> providerService \<Rightarrow> providerProfile \<Rightarrow> date \<Rightarrow> bool" where
  "otherwiseBookable e dto w ps pp start \<longleftrightarrow>
     providerService_findById (cb_providerServiceId dto) w = Some ps \<and> ps_isActive ps
     \<and> providerService_provider ps w = Some pp \<and> pp_verificationStatus pp = VERIFIED
     \<and> map_option u_status (providerService_user pp w) = Some ACTIVE
     \<and> nowMs e \<le> start \<and> start \<le> plusLocalDays e (nowMs e) 30"

lemma createBooking_in_window:
  assumes ok: "otherwiseBookable e dto w ps pp start" "parseDate e (cb_startsAt dto) = Some start"
    and day: "{y \<in> set (availabilities w). av_providerId y = ps_providerId ps
      \<and> av_weekday y = getUTCDay start \<and> av_isAvailable y} = {x}"
    and m: "getUTCHours start * 60 + getUTCMinutes start = m"
  shows "createBooking e c dto w =
    (if fitsInShift m (m + ps_durationMinutes ps + ps_bufferMinutes ps) x
     then createBookingCommit e c dto ps pp start (orderFor e ps w) (w\<lparr>drawn := Suc (drawn w)\<rparr>)
     else (Inl (BadRequestException
       ''Requested booking slot (including post-service buffer) exceeds provider working shift hours''), w))"
proof (cases "fitsInShift m (m + ps_durationMinutes ps + ps_bufferMinutes ps) x")
  case True
  then have "bookable e dto w ps pp start"
    using ok day m by (auto simp: bookable_def otherwiseBookable_def list_ex_iff)
  with True show ?thesis by (simp add: createBooking_bookable)
next
  case False
  let ?today = "filter (\<lambda>s. av_weekday s = getUTCDay start \<and> av_isAvailable s)
    (availability_findByProviderId (ps_providerId ps) w)"
  have today: "set ?today = {x}" using day by (auto simp: set_findByProviderId)
  then have "?today \<noteq> []" by (metis empty_iff empty_set insertI1)
  moreover have "\<not> list_ex (fitsInShift m (m + ps_durationMinutes ps + ps_bufferMinutes ps)) ?today"
    using False by (simp only: list_ex_iff today) simp
  ultimately show ?thesis
    using ok m False by (simp add: createBooking_def otherwiseBookable_def Let_def not_less throw_app)
qed

text \<open>
  C28. A slot is offered in one time zone and checked in another. Take a day on which
  the provider has one available window, from minute \<open>s\<close> (05:30 or later) to minute \<open>t\<close>, and ask for
  one of the slots the slot query answers, by the label it carries, with every other
  condition of a booking met. The check compares the slot's time less 330 minutes with the
  window, so the request goes on to the payment order exactly when the slot starts at least
  330 minutes after the beginning of the window (and the buffer ends at most 330 minutes after its
  end); otherwise it is refused as exceeding the working hours. In particular
  the first slot offered of the day is always refused.
\<close>

theorem offered_slot_shifted:
  assumes answer: "generateSlot e p q w = (Inr (Some page), w1)"
    and offering: "providerService_findByProviderAndServiceId p (qs_serviceId q) w = Some ps"
      "0 < ps_durationMinutes ps" "0 \<le> ps_bufferMinutes ps"
    and zone: "zonedDay e (qs_date q) day" "zonedDay e' (qs_date q) day"
    and window: "availability_findByProviderIdAndWeekday p (getUTCDay day) w = [x]"
      "timeToMinutes (av_startTime x) = Some s" "timeToMinutes (av_endTime x) = Some t"
      "330 \<le> s" "t < 24 * 60"
    and asked: "i < length (sp_slots page)" "cb_startsAt dto = sl_startsAt (sp_slots page ! i)"
      "m = s + int i * (ps_durationMinutes ps + ps_bufferMinutes ps)"
      "otherwiseBookable e' dto w ps pp (day + (m - 330) * 60000)"
  shows "createBooking e' c dto w =
    (if s + 330 \<le> m \<and> m + ps_durationMinutes ps + ps_bufferMinutes ps \<le> t + 330
     then createBookingCommit e' c dto ps pp (day + (m - 330) * 60000) (orderFor e' ps w)
       (w\<lparr>drawn := Suc (drawn w)\<rparr>)
     else (Inl (BadRequestException
       ''Requested booking slot (including post-service buffer) exceeds provider working shift hours''), w))"
proof -
  let ?d = "ps_durationMinutes ps" and ?b = "ps_bufferMinutes ps"
  have parse: "parseDate e (qs_date q @ ''T00:00:00Z'') = Some day" and day: "day mod dayMs = 0"
    using zone(1) by (simp_all add: zonedDay_def)
  obtain xs where xs: "slotStarts ?d ?b t s = Some xs"
      "sp_slots page = map (\<lambda>m. slotAt (qs_date q) m (m + ?d)) xs"
    using slots_of_day [OF answer offering(1) parse window(1-3)] by metis
  have m: "xs ! i = m" "s \<le> m" "m + ?d \<le> t"
    using slotStarts_steps [of ?d ?b t s] xs asked(1,3) offering(2,3) by auto
  have k: "0 \<le> m - 330" "m - 330 < 24 * 60" using m window(4,5) offering(2) by simp_all
  have "cb_startsAt dto = qs_date q @ ''T'' @ minutesToTimeString m @ '':00+05:30''"
    using asked(1,2) m(1) by (simp add: xs(2) slotAt_def formatISOString_def)
  then have start: "parseDate e' (cb_startsAt dto) = Some (day + (m - 330) * 60000)"
    using zone(2) m(2,3) window(4,5) offering(2) by (simp add: zonedDay_def)
  have owner: "ps_providerId ps = p"
    using offering(1) by (auto simp: providerService_findByProviderAndServiceId_def dest: findUnique_SomeD)
  have "set (availability_findByProviderIdAndWeekday p (getUTCDay day) w) =
      {y \<in> set (availabilities w). av_providerId y = p \<and> av_weekday y = getUTCDay day \<and> av_isAvailable y}"
    by (simp add: availability_findByProviderIdAndWeekday_def orderAsc_def)
  then have "{y \<in> set (availabilities w). av_providerId y = p \<and> av_weekday y = getUTCDay day \<and> av_isAvailable y} = {x}"
    by (simp add: window(1))
  then have "{y \<in> set (availabilities w). av_providerId y = ps_providerId ps
      \<and> av_weekday y = getUTCDay (day + (m - 330) * 60000) \<and> av_isAvailable y} = {x}"
    by (simp only: owner instant_of_minute(1) [OF day k])
  from createBooking_in_window [OF asked(4) start this instant_of_minute(2) [OF day k], of c]
  show ?thesis using window(2,3) by (simp add: fitsInShift_def algebra_simps)
qed

text \<open>
  The window from 09:00 to 17:00 and the offering of 60 minutes with 15 minutes of buffer:
  the slot offered for 09:00 is refused, the one for 15:15 accepted.
\<close>

definition zonedEnv :: env where
  "zonedEnv = demoEnv\<lparr>parseDate := (\<lambda>t. if t = ''1970-01-02T00:00:00Z'' then Some dayMs
     else map_option (\<lambda>m. dayMs + (m - 330) * 60000) (timeToMinutes (drop 11 t)))\<rparr>"

definition zonedDto :: "int \<Rightarrow> createBookingDto" where
  "zonedDto m = \<lparr>cb_providerServiceId = ''offer'',
     cb_startsAt = ''1970-01-02T'' @ minutesToTimeString m @ '':00+05:30'', cb_notes = None\<rparr>"

lemma timeToMinutes_label:
  assumes "0 \<le> m"
  shows "timeToMinutes (minutesToTimeString m @ '':00+05:30'') = Some m"
proof -
  have h: "0 \<le> m div 60" and mm: "0 \<le> m mod 60" using assms by simp_all
  let ?h = "padStart2 (intString (m div 60))" and ?m = "padStart2 (intString (m mod 60))"
  have "CHR '':'' \<notin> set ?h" and "CHR '':'' \<notin> set ?m"
    by (rule colon_not_digit, rule list_all_padStart2, rule list_all_intString, fact)+
  then have "splitOn (CHR '':'') (?h @ CHR '':'' # ?m @ CHR '':'' # t) = ?h # ?m # splitOn (CHR '':'') t" for t
    by (simp add: splitOn_append)
  then show ?thesis
    using h mm
    by (simp add: timeToMinutes_def minutesToTimeString_def Let_def jsNumber_padStart2_intString)
qed

lemma demo_zoned: "zonedDay zonedEnv ''1970-01-02'' dayMs"
  using timeToMinutes_label by (simp add: zonedDay_def zonedEnv_def formatISOString_def)

lemma demo_slots_of_day:
  "\<exists>page. generateSlot zonedEnv ''prov'' slotQuery demoWorld = (Inr (Some page), demoWorld)
     \<and> sp_slots page = map (\<lambda>m. slotAt ''1970-01-02'' m (m + 60)) [540, 615, 690, 765, 840, 915]"
  by (simp add: generateSlot_def zonedEnv_def slotQuery_def windowSlots_def prog_simps demo_defs date_defs
      providerService_findByProviderAndServiceId_def availability_findByProviderIdAndWeekday_def
      orderAsc_def shift_times slotStarts.simps)

theorem offered_slot_shifted_witness:
  "createBooking zonedEnv ''cust'' (zonedDto 540) demoWorld = (Inl (BadRequestException
       ''Requested booking slot (including post-service buffer) exceeds provider working shift hours''), demoWorld)
   \<and> createBooking zonedEnv ''cust'' (zonedDto 915) demoWorld =
       createBookingCommit zonedEnv ''cust'' (zonedDto 915) demoOffering demoProvider (dayMs + 585 * 60000)
         (orderFor zonedEnv demoOffering demoWorld) (demoWorld\<lparr>drawn := Suc 0\<rparr>)"
proof -
  obtain page where answer: "generateSlot zonedEnv ''prov'' slotQuery demoWorld = (Inr (Some page), demoWorld)"
    and slots: "sp_slots page = map (\<lambda>m. slotAt ''1970-01-02'' m (m + 60)) [540, 615, 690, 765, 840, 915]"
    using demo_slots_of_day by blast
  have offering: "providerService_findByProviderAndServiceId ''prov'' (qs_serviceId slotQuery) demoWorld =
      Some demoOffering" "0 < ps_durationMinutes demoOffering" "0 \<le> ps_bufferMinutes demoOffering"
    by (simp_all add: providerService_findByProviderAndServiceId_def slotQuery_def demo_defs)
  have zone: "zonedDay zonedEnv (qs_date slotQuery) dayMs" using demo_zoned by (simp add: slotQuery_def)
  have window: "availability_findByProviderIdAndWeekday ''prov'' (getUTCDay dayMs) demoWorld = [demoShift]"
    "timeToMinutes (av_startTime demoShift) = Some 540" "timeToMinutes (av_endTime demoShift) = Some 1020"
    by (simp_all add: availability_findByProviderIdAndWeekday_def orderAsc_def demo_defs date_defs shift_times)
  have asked: "otherwiseBookable zonedEnv (zonedDto m) demoWorld demoOffering demoProvider (dayMs + (m - 330) * 60000)"
    if "m \<in> {540, 915}" for m
  proof -
    have "0 \<le> dayMs + (m - 330) * 60000" "dayMs + (m - 330) * 60000 \<le> 30 * dayMs"
      using that by (auto simp: dayMs_def)
    then show ?thesis
      by (simp add: otherwiseBookable_def read_defs)
        (simp add: zonedEnv_def zonedDto_def demo_defs)
  qed
  note booked = offered_slot_shifted [OF answer offering zone zone window]
  have "createBooking zonedEnv ''cust'' (zonedDto 540) demoWorld = (Inl (BadRequestException
       ''Requested booking slot (including post-service buffer) exceeds provider working shift hours''), demoWorld)"
    using booked [of 0 "zonedDto 540" 540 demoProvider "''cust''"] asked [of 540]
    by (simp add: slots slotAt_def zonedDto_def formatISOString_def)
  moreover have "createBooking zonedEnv ''cust'' (zonedDto 915) demoWorld =
       createBookingCommit zonedEnv ''cust'' (zonedDto 915) demoOffering demoProvider (dayMs + 585 * 60000)
         (orderFor zonedEnv demoOffering demoWorld) (demoWorld\<lparr>drawn := Suc 0\<rparr>)"
    using booked [of 5 "zonedDto 915" 915 demoProvider "''cust''"] asked [of 915]
    by (simp add: slots slotAt_def zonedDto_def formatISOString_def) (simp add: demoOffering_def demoWorld_def)
  ultimately show ?thesis by blast
qed

end
