(* ===== verification/SmokeTest.thy ===== *)
theory SmokeTest
  imports Health
begin

text \<open>
  The post-deployment smoke test (\<open>scripts/post-deploy-smoke-test.ts\<close>), the program that
  decides whether a release is kept: its seven steps as functions of the server they talk to, and
  what they say of a server that answers as this development describes.
\<close>

section \<open>Talking to the server\<close>

record fetchRequest =
  fr_method :: string
  fr_url :: string
  fr_bearer :: "json option"
  fr_body :: "(string \<times> json) list option"

text \<open>\<open>await res.json()\<close> throws when the body is no JSON, here \<open>None\<close>.\<close>

record fetchReply =
  fp_status :: nat
  fp_statusText :: string
  fp_json :: "json option"

definition replyOk :: "fetchReply \<Rightarrow> bool" where
  "replyOk res \<longleftrightarrow> 200 \<le> fp_status res \<and> fp_status res \<le> 299"

text \<open>A server of state \<open>'s\<close>; an error is its message.\<close>

type_synonym 's server = "fetchRequest \<Rightarrow> (string, 's, fetchReply) prog"

definition getRequest :: "string \<Rightarrow> json option \<Rightarrow> fetchRequest" where
  "getRequest url bearer = \<lparr>fr_method = ''GET'', fr_url = url, fr_bearer = bearer, fr_body = None\<rparr>"

definition postRequest :: "string \<Rightarrow> (string \<times> json) list \<Rightarrow> fetchRequest" where
  "postRequest url body = \<lparr>fr_method = ''POST'', fr_url = url, fr_bearer = None, fr_body = Some body\<rparr>"

definition bodyOf :: "fetchReply \<Rightarrow> (string, 's, json) prog" where
  "bodyOf res = (case fp_json res of Some j \<Rightarrow> ret j | None \<Rightarrow> throw ''Unexpected token in JSON'')"

definition httpMessage :: "fetchReply \<Rightarrow> string" where
  "httpMessage res = ''HTTP '' @ natString (fp_status res) @ '': '' @ fp_statusText res"

section \<open>The steps\<close>

text \<open>
  A step takes the access token that is known and answers the one known after it; the
  header of a request holds it before it is interpolated as a text. The messages of the errors
  end before the echo of the server's body, and the texts of the console are left out.
\<close>

type_synonym 's step = "json \<Rightarrow> (string, 's, json) prog"

record testUser =
  tu_email :: string
  tu_password :: string
  tu_firstName :: string
  tu_lastName :: string
  tu_phone :: string

definition testUserAt :: "string \<Rightarrow> testUser" where
  "testUserAt timestamp =
     \<lparr>tu_email = ''smoke_test_'' @ timestamp @ ''@example.com'', tu_password = ''P@ssw0rd_'' @ timestamp,
      tu_firstName = ''Smoke'', tu_lastName = ''Tester'',
      tu_phone = ''+9198'' @ drop (length timestamp - 8) timestamp\<rparr>"

definition liveStep :: "'s server \<Rightarrow> string \<Rightarrow> 's step" where
  "liveStep fetch baseUrl token =
     andThen (fetch (getRequest (baseUrl @ ''/health/live'') None)) (\<lambda>res.
     andThen (check (replyOk res) (httpMessage res)) (\<lambda>_.
     andThen (bodyOf res) (\<lambda>json.
     andThen (check (jget json ''status'' = JStr ''ok'') ''Unexpected body'') (\<lambda>_.
     ret token))))"

definition readyStep :: "'s server \<Rightarrow> string \<Rightarrow> 's step" where
  "readyStep fetch baseUrl token =
     andThen (fetch (getRequest (baseUrl @ ''/health/ready'') None)) (\<lambda>res.
     andThen (check (replyOk res) (httpMessage res)) (\<lambda>_.
     andThen (bodyOf res) (\<lambda>json.
     andThen (check (jget json ''status'' = JStr ''ok'') ''Readiness check not ok'') (\<lambda>_.
     andThen (check (jget (jget (jget json ''info'') ''database'') ''status'' = JStr ''up'') ''Database is DOWN'') (\<lambda>_.
     andThen (check (jget (jget (jget json ''info'') ''redis'') ''status'' = JStr ''up'') ''Redis is DOWN'') (\<lambda>_.
     ret token))))))"

definition catalogStep :: "'s server \<Rightarrow> string \<Rightarrow> 's step" where
  "catalogStep fetch baseUrl token =
     andThen (fetch (getRequest (baseUrl @ ''/categories'') None)) (\<lambda>res.
     andThen (check (replyOk res) (httpMessage res)) (\<lambda>_.
     andThen (bodyOf res) (\<lambda>json.
     andThen (check (json \<noteq> JNull) ''Cannot read properties of null'') (\<lambda>_.
     ret token))))"

text \<open>\<open>if (!json.accessToken) throw\<close>\<close>

definition tokenOf :: "json \<Rightarrow> string \<Rightarrow> (string, 's, json) prog" where
  "tokenOf json message =
     andThen (check (jTruthy (jget json ''accessToken'')) message) (\<lambda>_. ret (jget json ''accessToken''))"

definition registerRequest :: "string \<Rightarrow> testUser \<Rightarrow> fetchRequest" where
  "registerRequest baseUrl u = postRequest (baseUrl @ ''/auth/register'')
     [(''email'', JStr (tu_email u)), (''password'', JStr (tu_password u)), (''firstName'', JStr (tu_firstName u)),
      (''lastName'', JStr (tu_lastName u)), (''phone'', JStr (tu_phone u))]"

definition registerStep :: "'s server \<Rightarrow> string \<Rightarrow> testUser \<Rightarrow> 's step" where
  "registerStep fetch baseUrl u token =
     andThen (fetch (registerRequest baseUrl u)) (\<lambda>res.
     andThen (check (fp_status res = 201)
       (''Registration failed with status '' @ natString (fp_status res))) (\<lambda>_.
     andThen (bodyOf res) (\<lambda>json.
     tokenOf json ''No accessToken returned in registration response'')))"

definition loginStep :: "'s server \<Rightarrow> string \<Rightarrow> testUser \<Rightarrow> 's step" where
  "loginStep fetch baseUrl u token =
     andThen (fetch (postRequest (baseUrl @ ''/auth/login'')
       [(''email'', JStr (tu_email u)), (''password'', JStr (tu_password u))])) (\<lambda>res.
     andThen (check (replyOk res) (''Login failed with status '' @ natString (fp_status res))) (\<lambda>_.
     andThen (bodyOf res) (\<lambda>json.
     tokenOf json ''No accessToken returned in login response'')))"

definition bookingsStep :: "'s server \<Rightarrow> string \<Rightarrow> 's step" where
  "bookingsStep fetch baseUrl token =
     andThen (fetch (getRequest (baseUrl @ ''/bookings/my-bookings'') (Some token))) (\<lambda>res.
     andThen (check (replyOk res)
       (''Authenticated query failed with status '' @ natString (fp_status res))) (\<lambda>_.
     andThen (bodyOf res) (\<lambda>json.
     andThen (check (json \<noteq> JNull) ''Cannot read properties of null'') (\<lambda>_.
     ret token))))"

definition queueStep :: "'s server \<Rightarrow> string \<Rightarrow> 's step" where
  "queueStep fetch baseUrl token =
     andThen (fetch (getRequest (baseUrl @ ''/health/ready'') None)) (\<lambda>res.
     andThen (bodyOf res) (\<lambda>json.
     andThen (check (jget (jget (jget json ''info'') ''redis'') ''status'' = JStr ''up'')
       ''Worker queue backend (Redis) is unresponsive'') (\<lambda>_.
     ret token)))"

section \<open>The run\<close>

datatype outcome = PASSED | FAILED string

type_synonym testResult = "string \<times> outcome"

text \<open>\<open>runStep\<close> records the outcome of a step and passes its error on, which ends the run.\<close>

fun runSteps :: "(string \<times> 's step) list \<Rightarrow> json \<Rightarrow> testResult list \<Rightarrow> 's \<Rightarrow> (testResult list \<times> nat) \<times> 's" where
  "runSteps [] token results s = ((results, 0), s)"
| "runSteps ((name, step) # rest) token results s =
     (case step token s of
        (Inr token', s') \<Rightarrow> runSteps rest token' (results @ [(name, PASSED)]) s'
      | (Inl message, s') \<Rightarrow> ((results @ [(name, FAILED message)], 1), s'))"

text \<open>\<open>(process.env.API_URL || default).replace(/\/$/, "")\<close>\<close>

definition baseUrlOf :: "string option \<Rightarrow> string" where
  "baseUrlOf apiUrl =
     (let url = orElse apiUrl ''http://localhost:8000'' in
      if url \<noteq> [] \<and> last url = CHR ''/'' then butlast url else url)"

definition smokeSteps :: "'s server \<Rightarrow> string \<Rightarrow> testUser \<Rightarrow> (string \<times> 's step) list" where
  "smokeSteps fetch baseUrl u =
     [(''1. Health Liveness Probe (/health/live)'', liveStep fetch baseUrl),
      (''2. Health Readiness Probe (/health/ready)'', readyStep fetch baseUrl),
      (''3. Public Catalog Retrieval (GET /categories)'', catalogStep fetch baseUrl),
      (''4. User Registration (POST /auth/register)'', registerStep fetch baseUrl u),
      (''5. User Authentication / Login (POST /auth/login)'', loginStep fetch baseUrl u),
      (''6. Authenticated Database Query (GET /bookings/my-bookings)'', bookingsStep fetch baseUrl),
      (''7. Worker & BullMQ Queue Operational Health'', queueStep fetch baseUrl)]"

text \<open>The results and the exit code.\<close>

definition smokeTest :: "'s server \<Rightarrow> string option \<Rightarrow> string \<Rightarrow> 's \<Rightarrow> (testResult list \<times> nat) \<times> 's" where
  "smokeTest fetch apiUrl timestamp =
     runSteps (smokeSteps fetch (baseUrlOf apiUrl) (testUserAt timestamp)) (JStr []) []"

section \<open>The answers of the service as JSON\<close>

text \<open>
  \<open>render\<close> is the serialisation of the handler's value. An answer of the pipeline is the
  envelope, the bare value (health probes), or the body of an exception filter.
\<close>

definition payloadJson :: "('a \<Rightarrow> json) \<Rightarrow> 'a payload \<Rightarrow> json" where
  "payloadJson render p =
     (case p of
        Raw _ d \<Rightarrow> render d
      | Envelope r \<Rightarrow> JObj [(''statusCode'', jnat (ar_statusCode r)), (''success'', JBool (ar_success r)),
          (''data'', render (ar_data r)), (''timestamp'', JStr (ar_timestamp r))])"

definition errorJson :: "errorReply \<Rightarrow> json" where
  "errorJson r = JObj ([(''statusCode'', jnat (er_statusCode r)), (''success'', JBool (er_success r)),
     (''message'', JStr (er_message r))] @ optField ''error'' (er_error r)
     @ [(''timestamp'', JStr (er_timestamp r)), (''path'', JStr (er_path r))] @ optField ''requestId'' (er_requestId r))"

definition serverReply :: "('a \<Rightarrow> json) \<Rightarrow> errorReply + 'a payload \<Rightarrow> fetchReply" where
  "serverReply render r =
     \<lparr>fp_status = statusOf r, fp_statusText = [],
      fp_json = Some (case r of Inl x \<Rightarrow> errorJson x | Inr p \<Rightarrow> payloadJson render p)\<rparr>"

text \<open>No answer of a route outside the health probes has a field \<open>accessToken\<close> of its own.\<close>

lemma answer_no_token:
  assumes "\<not> includesText (hc_url ctx) ''/health''"
  shows "\<exists>j. fp_json (serverReply render (fst (answer e ctx code handler w))) = Some j \<and> jget j ''accessToken'' = JNull"
  using assms requestIdMiddleware_run [of e "hc_requestIdHeader ctx" w]
  by (auto simp: serverReply_def answer_def transformInterceptor_def payloadJson_def errorJson_def optField_def jget_def
      split: prod.split sum.split option.split)

lemma registerStep_fails:
  assumes "fetch (registerRequest baseUrl u) s = (Inr (serverReply render (fst (answer e ctx code handler w))), s')"
    and "\<not> includesText (hc_url ctx) ''/health''"
  shows "\<exists>m. registerStep fetch baseUrl u token s = (Inl m, s')"
proof -
  obtain j where "fp_json (serverReply render (fst (answer e ctx code handler w))) = Some j" "jget j ''accessToken'' = JNull"
    using answer_no_token [OF assms(2)] by blast
  then show ?thesis
    by (auto simp: registerStep_def andThen_run assms(1) check_app bodyOf_def tokenOf_def ret_app throw_app)
qed

text \<open>A step that fails wherever it is reached keeps the run from passing.\<close>

lemma runSteps_blocked:
  assumes "\<And>token s. \<exists>m s'. step token s = (Inl m, s')" and "(name, step) \<in> set ss"
  shows "\<exists>m n. fst (runSteps ss token results s) = (m, n) \<and> n = 1"
  using assms(2)
proof (induction ss arbitrary: token results s)
  case (Cons x ss)
  show ?case
  proof (cases x)
    case (Pair name' step')
    show ?thesis
    proof (cases "step' token s")
      case step: (Pair r s')
      show ?thesis
      proof (cases r)
        case (Inl m)
        then show ?thesis using Pair step by simp
      next
        case (Inr t)
        moreover have "step' \<noteq> step" using assms(1) [of token s] step Inr by auto
        ultimately show ?thesis using Pair step Cons by auto
      qed
    qed
  qed
qed simp

text \<open>
  C40. The smoke test cannot pass against this service. Its fourth step looks for the
  access token at the top of the answer to the registration; every answer of the service but
  those of the health probes is an envelope (or an error body), where the token is under
  \<open>data\<close>. So for whatever server that answers the registration through the pipeline of
  this development, with whatever handler, state and base address, the script ends with
  exit code 1 and recommends to roll the release back.
\<close>

theorem smoke_test_cannot_pass:
  fixes render :: "'a \<Rightarrow> json"
  assumes "\<And>s. \<exists>e ctx handler w s'. fetch (registerRequest (baseUrlOf apiUrl) (testUserAt timestamp)) s
        = (Inr (serverReply render (fst (answer e ctx 201 handler w))), s')
      \<and> \<not> includesText (hc_url ctx) ''/health''"
  shows "snd (fst (smokeTest fetch apiUrl timestamp s)) = 1"
proof -
  let ?step = "registerStep fetch (baseUrlOf apiUrl) (testUserAt timestamp)"
  have "\<exists>m s'. ?step token s = (Inl m, s')" for token s
  proof -
    obtain e ctx handler w s' where
      "fetch (registerRequest (baseUrlOf apiUrl) (testUserAt timestamp)) s
        = (Inr (serverReply render (fst (answer e ctx 201 handler w))), s')"
      and "\<not> includesText (hc_url ctx) ''/health''"
      using assms [of s] by blast
    then have "\<exists>m. ?step token s = (Inl m, s')" by (intro registerStep_fails)
    then show ?thesis by blast
  qed
  moreover have "(''4. User Registration (POST /auth/register)'', ?step)
      \<in> set (smokeSteps fetch (baseUrlOf apiUrl) (testUserAt timestamp))"
    by (simp add: smokeSteps_def)
  ultimately show ?thesis
    unfolding smokeTest_def using runSteps_blocked [of ?step] by (metis snd_conv)
qed

text \<open>
  A server whose first three answers are as the test wants them, and whose registration
  succeeds: the run gets as far as the token.
\<close>

definition sessionJson :: "sessionBody \<times> cookie \<Rightarrow> json" where
  "sessionJson b = JObj [(''user'', JObj [(''id'', JStr (sb_userId (fst b)))]), (''accessToken'', JStr (sb_accessToken (fst b)))]"

definition demoServer :: "world server" where
  "demoServer req w =
     (if fr_method req = ''POST'' then
        (let (r, w') = answer demoEnv \<lparr>hc_url = ''/api/v1/auth/register'', hc_bearer = None, hc_requestIdHeader = None\<rparr> 201
           (authController_register demoEnv \<lparr>rg_email = ''a@b.in'', rg_password = ''P@ssw0rd'', rg_firstName = ''Smoke'',
              rg_lastName = ''Tester'', rg_phone = ''+919800000000''\<rparr>) w
         in (Inr (serverReply sessionJson r), w'))
      else (Inr \<lparr>fp_status = 200, fp_statusText = [], fp_json = Some (JObj [(''status'', JStr ''ok''),
        (''info'', JObj [(''database'', JObj [(''status'', JStr ''up'')]), (''redis'', JObj [(''status'', JStr ''up'')])])])\<rparr>, w))"

theorem smoke_test_cannot_pass_witness:
  "snd (fst (smokeTest demoServer (Some ''http://localhost:8000/api/v1/'') ''1700000000000'' demoWorld)) = 1
   \<and> isOk (liveStep demoServer ''x'' (JStr []) demoWorld) \<and> isOk (readyStep demoServer ''x'' (JStr []) demoWorld)
   \<and> isOk (catalogStep demoServer ''x'' (JStr []) demoWorld)"
proof -
  have "\<exists>e ctx handler w s'. demoServer (registerRequest (baseUrlOf (Some ''http://localhost:8000/api/v1/'')) (testUserAt ''1700000000000'')) s
        = (Inr (serverReply sessionJson (fst (answer e ctx 201 handler w))), s')
      \<and> \<not> includesText (hc_url ctx) ''/health''" for s
    by (rule exI [of _ demoEnv], rule exI [of _ "\<lparr>hc_url = ''/api/v1/auth/register'', hc_bearer = None, hc_requestIdHeader = None\<rparr>"])
      (auto simp: demoServer_def registerRequest_def postRequest_def Let_def case_prod_beta)
  then have "snd (fst (smokeTest demoServer (Some ''http://localhost:8000/api/v1/'') ''1700000000000'' demoWorld)) = 1"
    by (rule smoke_test_cannot_pass)
  moreover have "isOk (liveStep demoServer ''x'' (JStr []) demoWorld)" "isOk (readyStep demoServer ''x'' (JStr []) demoWorld)"
    "isOk (catalogStep demoServer ''x'' (JStr []) demoWorld)"
    by (simp_all add: liveStep_def readyStep_def catalogStep_def demoServer_def getRequest_def andThen_run check_app
        bodyOf_def replyOk_def jget_def ret_app isOk_def)
  ultimately show ?thesis by blast
qed

section \<open>What the last step sees of Redis\<close>

text \<open>
  The step that is to find an outage of Redis passes on every readiness report that has the
  entry of the Redis indicator, connected or not.
\<close>

lemma queueStep_blind_to_redis:
  assumes "fetch (getRequest (baseUrl @ ''/health/ready'') None) s = (Inr res, s')" and "fp_json res = Some j"
    and "redisIndicator (redis_ping c pong) = Inr (JObj [(''redis'', entry)])" and "jget (jget j ''info'') ''redis'' = entry"
  shows "queueStep fetch baseUrl token s = (Inr token, s')"
proof -
  have "jget entry ''status'' = JStr ''up''"
    using assms(3) by (auto simp: redisIndicator_def jget_def split: if_splits)
  then show ?thesis
    using assms by (simp add: queueStep_def andThen_run bodyOf_def check_app ret_app)
qed

end
