(* ===== verification/Mailer.thy ===== *)
theory Mailer
  imports JsText Processors
begin

text \<open>
  The mail service with the provider it is given (\<open>shared/mailer\<close>): the interface of a
  provider, the one provider there is, and the proof that \<open>sendEmail\<close> of the workers, which
  knows a provider by its answers only, is the service over any provider that answers so.
\<close>

section \<open>The interface of a provider\<close>

record sendEmailOption =
  so_to :: string
  so_subject :: string
  so_text :: "string option"
  so_html :: "string option"

record emailSendResult =
  es_success :: bool
  es_messageId :: "string option"
  es_error :: "string option"

text \<open>What a provider answers, and the lines it writes to the log.\<close>

type_synonym emailProvider = "sendEmailOption \<Rightarrow> emailSendResult \<times> string list"

section \<open>The provider of the module\<close>

text \<open>
  \<open>now\<close> is \<open>Date.now()\<close>, \<open>random\<close> the six characters of \<open>Math.random()\<close>. The pictogram
  in front of each line is left out.
\<close>

definition devEmailProvider_sendEmail :: "nat \<Rightarrow> string \<Rightarrow> emailProvider" where
  "devEmailProvider_sendEmail now random options =
     (\<lparr>es_success = True, es_messageId = Some (''msg_'' @ natString now @ ''_'' @ random), es_error = None\<rparr>,
      [''[EMAIL OUTBOX] Delivering to: <'' @ so_to options @ ''>'',
       ''Subject: '' @ so_subject options,
       ''Content: '' @ (case truthy (so_text options) of
            Some t \<Rightarrow> t
          | None \<Rightarrow> (case so_html options of Some h \<Rightarrow> h | None \<Rightarrow> ''undefined''))])"

section \<open>The service\<close>

definition emailService_sendEmail :: "emailProvider \<Rightarrow> sendEmailOption \<Rightarrow> (exn + emailSendResult) \<times> string list" where
  "emailService_sendEmail provider options =
     (if so_to options = [] \<or> CHR ''@'' \<notin> set (so_to options) then
        (Inl (JsError (''Invalid recipient email address: \"'' @ so_to options @ ''\"'')), [])
      else
        (let (result, lines) = provider options in
         if \<not> es_success result then
           (Inl (JsError (orElse (es_error result) ''Email provider failed to deliver email'')),
            lines @ [''Failed to send email to '' @ so_to options @ '': '' @ orElse (es_error result) ''Provider failure''])
         else (Inr result, lines)))"

text \<open>
  The workers' \<open>sendEmail\<close> and the service agree: they throw the same error, and a mail goes
  to the outbox exactly when the service answers the result of the provider.
\<close>

lemma emailService_refines:
  assumes "sendMail e to subject txt = (es_success r, es_error r)"
    and "fst (provider options) = r" and "so_to options = to"
  shows "fst (emailService_sendEmail provider options) = map_sum id (\<lambda>_. r) (fst (sendEmail e to subject txt w))"
    and "outbox (snd (sendEmail e to subject txt w)) =
      (case fst (emailService_sendEmail provider options) of
         Inl _ \<Rightarrow> outbox w
       | Inr _ \<Rightarrow> outbox w @ [\<lparr>ml_to = to, ml_subject = subject, ml_text = txt\<rparr>])"
  using assms
  by (auto simp: emailService_sendEmail_def sendEmail_def Let_def andThen_run check_app modify_app case_prod_beta)

text \<open>
  The provider of the module delivers nothing and always reports success. A worker whose
  recipient has an \<open>@\<close> therefore records the mail as sent, and the whole text of it is in the
  log.
\<close>

lemma dev_provider_reports_success:
  assumes "CHR ''@'' \<in> set (so_to options)" and "so_text options = Some t" and "t \<noteq> []"
  shows "\<exists>r. emailService_sendEmail (devEmailProvider_sendEmail now random) options =
      (Inr r, [''[EMAIL OUTBOX] Delivering to: <'' @ so_to options @ ''>'', ''Subject: '' @ so_subject options, ''Content: '' @ t])"
  using assms by (auto simp: emailService_sendEmail_def devEmailProvider_sendEmail_def truthy_def)

lemma dev_provider_sends:
  assumes "\<And>to subject txt. sendMail e to subject txt = (True, None)"
  shows "isOk (sendEmail e to subject txt w) \<longleftrightarrow> CHR ''@'' \<in> set to"
  using assms by (auto simp: sendEmail_def Let_def andThen_run check_app modify_app isOk_def)

end
