(* ===== verification/Lifecycle.thy ===== *)
theory Lifecycle
  imports Prelude
begin

text \<open>
  The rehearsal of the database migrations (\<open>scripts/test-database-lifecycle.ts\<close>): its run
  against a PostgreSQL server and the \<open>prisma\<close> command, which are arguments, and what
  becomes of the temporary database.
\<close>

section \<open>What the script talks to\<close>

datatype statement =
    TERMINATE_BACKENDS string
  | DROP_DATABASE_IF_EXISTS string
  | CREATE_DATABASE string
  | CREATE_EXTENSION_BTREE_GIST
  | LIST_TABLES
  | INSERT_USERS
  | ADD_PREFERENCES
  | SELECT_USERS

datatype migrateCommand = MIGRATE_DEPLOY | MIGRATE_STATUS

record sqlResult =
  sq_rowCount :: nat
  sq_tableNames :: "string list"

text \<open>A parsed \<open>URL\<close>; its \<open>toString\<close> is the runtime's.\<close>

record parsedUrl =
  ur_origin :: string
  ur_pathname :: string
  ur_searchParams :: "(string \<times> string) list"

text \<open>
  The two clients by the address they connect to, and \<open>execSync\<close> of \<open>npx prisma migrate\<close>
  with the address of a database in its environment. An error is its message.
\<close>

record 's server =
  sv_connect :: "parsedUrl \<Rightarrow> (string, 's, unit) prog"
  sv_query :: "parsedUrl \<Rightarrow> statement \<Rightarrow> (string, 's, sqlResult) prog"
  sv_end :: "parsedUrl \<Rightarrow> (string, 's, unit) prog"
  sv_migrate :: "parsedUrl \<Rightarrow> migrateCommand \<Rightarrow> (string, 's, unit) prog"

section \<open>The script\<close>

text \<open>\<open>searchParams.set\<close> changes the first value of the name and deletes the others.\<close>

fun searchParams_set :: "string \<Rightarrow> string \<Rightarrow> (string \<times> string) list \<Rightarrow> (string \<times> string) list" where
  "searchParams_set k v [] = [(k, v)]"
| "searchParams_set k v ((k', v') # ps) =
     (if k' = k then (k, v) # filter (\<lambda>p. fst p \<noteq> k) ps else (k', v') # searchParams_set k v ps)"

definition TEST_DB_NAME :: string where
  "TEST_DB_NAME = ''servicehub_lifecycle_test''"

definition getDatabaseUrl :: "parsedUrl \<Rightarrow> string \<Rightarrow> parsedUrl" where
  "getDatabaseUrl baseUrl dbName = baseUrl\<lparr>ur_pathname := ''/'' @ dbName,
     ur_searchParams := searchParams_set ''schema'' ''public'' (ur_searchParams baseUrl)\<rparr>"

text \<open>Steps 1, 2 to 5, and 6 of the \<open>try\<close> block.\<close>

definition prepareDatabase :: "'s server \<Rightarrow> parsedUrl \<Rightarrow> (string, 's, unit) prog" where
  "prepareDatabase sv baseUrl =
     (let maintenance = getDatabaseUrl baseUrl ''postgres''; testDb = getDatabaseUrl baseUrl TEST_DB_NAME in
      andThen (sv_connect sv maintenance) (\<lambda>_.
      andThen (sv_query sv maintenance (TERMINATE_BACKENDS TEST_DB_NAME)) (\<lambda>_.
      andThen (sv_query sv maintenance (DROP_DATABASE_IF_EXISTS TEST_DB_NAME)) (\<lambda>_.
      andThen (sv_query sv maintenance (CREATE_DATABASE TEST_DB_NAME)) (\<lambda>_.
      sv_connect sv testDb)))))"

definition verifyMigrations :: "'s server \<Rightarrow> parsedUrl \<Rightarrow> (string, 's, unit) prog" where
  "verifyMigrations sv baseUrl =
     (let testDb = getDatabaseUrl baseUrl TEST_DB_NAME in
      andThen (sv_query sv testDb CREATE_EXTENSION_BTREE_GIST) (\<lambda>_.
      andThen (sv_migrate sv testDb MIGRATE_DEPLOY) (\<lambda>_.
      andThen (sv_migrate sv testDb MIGRATE_STATUS) (\<lambda>_.
      andThen (sv_query sv testDb LIST_TABLES) (\<lambda>tablesRes.
      andThen (check (''users'' \<in> set (sq_tableNames tablesRes) \<and> ''bookings'' \<in> set (sq_tableNames tablesRes))
        ''Core tables missing after fresh migration.'') (\<lambda>_.
      andThen (sv_query sv testDb INSERT_USERS) (\<lambda>_.
      andThen (sv_query sv testDb ADD_PREFERENCES) (\<lambda>_.
      andThen (sv_migrate sv testDb MIGRATE_DEPLOY) (\<lambda>_.
      andThen (sv_query sv testDb SELECT_USERS) (\<lambda>usersAfterUpgrade.
      check (sq_rowCount usersAfterUpgrade = 2) ''Data loss detected after migration/upgrade!''))))))))))"

definition dropTestDatabase :: "'s server \<Rightarrow> parsedUrl \<Rightarrow> (string, 's, unit) prog" where
  "dropTestDatabase sv baseUrl =
     (let maintenance = getDatabaseUrl baseUrl ''postgres''; testDb = getDatabaseUrl baseUrl TEST_DB_NAME in
      andThen (sv_end sv testDb) (\<lambda>_.
      andThen (sv_query sv maintenance (TERMINATE_BACKENDS TEST_DB_NAME)) (\<lambda>_.
      andThen (sv_query sv maintenance (DROP_DATABASE_IF_EXISTS TEST_DB_NAME)) (\<lambda>_.
      ret ()))))"

text \<open>
  The exit code. The \<open>catch\<close> drops the database, ignores an error of that, and ends the
  process before \<open>finally\<close>; an error of the last \<open>end()\<close> is an unhandled rejection.
\<close>

definition lifecycleMain :: "'s server \<Rightarrow> parsedUrl \<Rightarrow> 's \<Rightarrow> nat \<times> 's" where
  "lifecycleMain sv baseUrl s =
     (let maintenance = getDatabaseUrl baseUrl ''postgres'' in
      case andThen (prepareDatabase sv baseUrl) (\<lambda>_.
           andThen (verifyMigrations sv baseUrl) (\<lambda>_.
           dropTestDatabase sv baseUrl)) s of
        (Inr _, s') \<Rightarrow> (case sv_end sv maintenance s' of (Inr _, s'') \<Rightarrow> (0, s'') | (Inl _, s'') \<Rightarrow> (1, s''))
      | (Inl _, s') \<Rightarrow> (1, snd (sv_query sv maintenance (DROP_DATABASE_IF_EXISTS TEST_DB_NAME) s')))"

text \<open>\<open>parseUrl\<close> is \<open>new URL\<close>, which throws outside the \<open>try\<close>.\<close>

definition lifecycle :: "'s server \<Rightarrow> (string \<Rightarrow> parsedUrl option) \<Rightarrow> string option \<Rightarrow> 's \<Rightarrow> nat \<times> 's" where
  "lifecycle sv parseUrl databaseUrl s =
     (case databaseUrl of
        None \<Rightarrow> (1, s)
      | Some url \<Rightarrow> if url = [] then (1, s)
          else (case parseUrl url of None \<Rightarrow> (1, s) | Some baseUrl \<Rightarrow> lifecycleMain sv baseUrl s))"

section \<open>The addresses\<close>

lemma map_of_filter_other: "k' \<noteq> k \<Longrightarrow> map_of (filter (\<lambda>p. fst p \<noteq> k) ps) k' = map_of ps k'"
  by (induction ps) auto

lemma searchParams_set_lookup: "map_of (searchParams_set k v ps) k' = (if k' = k then Some v else map_of ps k')"
  by (induction k v ps rule: searchParams_set.induct) (auto simp: map_of_filter_other)

text \<open>The two clients differ in the database only, and both read the schema \<open>public\<close>.\<close>

lemma getDatabaseUrl_schema: "map_of (ur_searchParams (getDatabaseUrl baseUrl dbName)) ''schema'' = Some ''public''"
  by (simp add: getDatabaseUrl_def searchParams_set_lookup)

lemma getDatabaseUrl_twice: "getDatabaseUrl (getDatabaseUrl baseUrl d) d' = getDatabaseUrl baseUrl d'"
proof -
  have "filter (\<lambda>p. fst p \<noteq> k) (filter (\<lambda>p. fst p \<noteq> k) ps) = filter (\<lambda>p. fst p \<noteq> k) ps" for k and ps :: "(string \<times> string) list"
    by (simp add: filter_id_conv)
  then have "searchParams_set k v (searchParams_set k v ps) = searchParams_set k v ps" for k v ps
    by (induction k v ps rule: searchParams_set.induct) auto
  then show ?thesis by (simp add: getDatabaseUrl_def)
qed

section \<open>What is left behind\<close>

text \<open>
  \<open>held s\<close>: the temporary database exists in \<open>s\<close> and the script's own client is connected
  to it. What PostgreSQL documents: \<open>DROP DATABASE\<close> is refused while somebody is connected,
  and an error of another statement, or of a command, ends neither the connection nor the
  database.
\<close>

lemma verifyMigrations_keeps:
  assumes "\<And>q. keeps held (sv_query sv (getDatabaseUrl baseUrl TEST_DB_NAME) q)"
    and "\<And>c. keeps held (sv_migrate sv (getDatabaseUrl baseUrl TEST_DB_NAME) c)"
  shows "keeps held (verifyMigrations sv baseUrl)"
  unfolding verifyMigrations_def Let_def by (intro inv.andThen inv.check assms)

text \<open>
  A verification that fails leaves the temporary database on the server: the clean-up of the
  \<open>catch\<close> drops it without ending the connection first, which the clean-up of the last step
  does.
\<close>

lemma failed_verification_leaves_database:
  assumes "\<And>q. keeps held (sv_query sv (getDatabaseUrl baseUrl TEST_DB_NAME) q)"
    and "\<And>c. keeps held (sv_migrate sv (getDatabaseUrl baseUrl TEST_DB_NAME) c)"
    and "\<And>s. held s \<Longrightarrow> \<exists>m. sv_query sv (getDatabaseUrl baseUrl ''postgres'') (DROP_DATABASE_IF_EXISTS TEST_DB_NAME) s = (Inl m, s)"
    and "prepareDatabase sv baseUrl s = (Inr (), s1)" and "held s1"
    and "verifyMigrations sv baseUrl s1 = (Inl m, s2)"
  shows "\<exists>s'. lifecycleMain sv baseUrl s = (1, s') \<and> held s'"
proof -
  have "held s2"
    using stepsD [OF verifyMigrations_keeps [of held, OF assms(1,2)] assms(6)] assms(5) by blast
  then show ?thesis
    using assms(3) [of s2] assms(4,6) by (auto simp: lifecycleMain_def Let_def andThen_run)
qed

text \<open>A run that ends with exit code 0 has dropped the database as its last statement.\<close>

lemma passed_run_dropped:
  assumes "lifecycleMain sv baseUrl s = (0, s')"
  shows "\<exists>s1 s2 r. sv_query sv (getDatabaseUrl baseUrl ''postgres'') (DROP_DATABASE_IF_EXISTS TEST_DB_NAME) s1 = (Inr r, s2)
     \<and> sv_end sv (getDatabaseUrl baseUrl ''postgres'') s2 = (Inr (), s')"
proof -
  obtain w where "andThen (prepareDatabase sv baseUrl) (\<lambda>_. andThen (verifyMigrations sv baseUrl) (\<lambda>_.
      dropTestDatabase sv baseUrl)) s = (Inr (), w)" and e: "sv_end sv (getDatabaseUrl baseUrl ''postgres'') w = (Inr (), s')"
    using assms by (auto simp: lifecycleMain_def Let_def split: prod.splits sum.splits)
  then obtain v where "dropTestDatabase sv baseUrl v = (Inr (), w)" by (auto elim!: andThen_InrD)
  then obtain t r where "sv_query sv (getDatabaseUrl baseUrl ''postgres'') (DROP_DATABASE_IF_EXISTS TEST_DB_NAME) t = (Inr r, w)"
    by (auto simp: dropTestDatabase_def Let_def ret_app elim!: andThen_InrD)
  with e show ?thesis by blast
qed

text \<open>
  A server of one temporary database and one connection to it, on which the migrations fail: the
  next run clears what the last one left.
\<close>

definition brokenMigration :: "(bool \<times> bool) server" where
  "brokenMigration = \<lparr>sv_connect = (\<lambda>u. if ur_pathname u = ''/'' @ TEST_DB_NAME then modify (\<lambda>(db, _). (db, db)) else ret ()),
     sv_query = (\<lambda>u q (db, connected).
       let ok = (\<lambda>s. (Inr \<lparr>sq_rowCount = 0, sq_tableNames = []\<rparr>, s)) in
       case q of
         TERMINATE_BACKENDS _ \<Rightarrow> ok (db, False)
       | DROP_DATABASE_IF_EXISTS _ \<Rightarrow>
           if db \<and> connected then (Inl ''database is being accessed by other users'', (db, connected)) else ok (False, False)
       | CREATE_DATABASE _ \<Rightarrow> ok (True, connected)
       | _ \<Rightarrow> ok (db, connected)),
     sv_end = (\<lambda>u. if ur_pathname u = ''/'' @ TEST_DB_NAME then modify (\<lambda>(db, _). (db, False)) else ret ()),
     sv_migrate = (\<lambda>u c. throw ''Command failed'')\<rparr>"

lemma brokenMigration_leaves_database:
  "lifecycle brokenMigration (\<lambda>url. Some \<lparr>ur_origin = url, ur_pathname = ''/app'', ur_searchParams = []\<rparr>)
     (Some ''postgresql://db'') s = (1, (True, True))"
  by (cases s) (simp add: lifecycle_def lifecycleMain_def prepareDatabase_def verifyMigrations_def brokenMigration_def
      getDatabaseUrl_def TEST_DB_NAME_def Let_def andThen_run ret_app throw_app modify_app)

end
