(* ===== verification/Spec2Isabelle.thy ===== *)
theory Spec2Isabelle
  imports System BookingFacts PaymentFacts ReviewFacts AvailabilityFacts CatalogFacts ProviderFacts
    AccountFacts NotificationFacts ApiFacts ValidationFacts Logging ServedFacts SeedFacts
    ObservabilityFacts Health ConfigurationFacts Races SlotFacts SmokeTest Mailer Lifecycle
begin

text \<open>
  Service-hub is a NestJS back end for booking home services: customers book an
  offering of a verified provider, pay through a gateway, and the booking is
  confirmed, completed and reviewed. This development models its services as
  functions on one explicit state and proves what makes them correct.

  \<^bold>\<open>Parts and theories.\<close>

  \<^item> \<open>Prelude\<close>: handlers as state transformers with exceptions (\<open>andThen\<close> for
    \<open>await\<close>, \<open>check\<close> for \<open>if (!b) throw\<close>, \<open>transaction\<close> for \<open>prisma.$transaction\<close>),
    table operations (\<open>insertRow\<close>, \<open>updateRow\<close>, \<open>updateRows\<close>, \<open>deleteRows\<close> for the
    Prisma calls), \<open>steps R m\<close> (\<open>m\<close> moves the state along the preorder \<open>R\<close>) with the
    locale \<open>state_order\<close>, and the contract of a table, locale \<open>table\<close>.
  \<^item> \<open>Model\<close>: the enums and rows of \<open>prisma/schema.prisma\<close>, queues and cache as the record
    \<open>world\<close>; exceptions; the environment \<open>env\<close> (clock, drawn identifiers, and the
    functions of code outside the repository: hashing, tokens, JSON, dates, mail).
  \<^item> \<open>JsText\<close>: the string operations of JavaScript on ASCII text.
  \<^item> \<open>StateMachines\<close>: \<open>booking-state-machine.ts\<close>, \<open>payment-state-machine.ts\<close>.
  \<^item> \<open>Repositories\<close>: pagination, audit logs, bookings, payments, offerings and availability
    reads, with the constraints of schema and migrations, among them the exclusion
    constraint on overlapping bookings.
  \<^item> \<open>Queues\<close>: \<open>booking.queue.ts\<close>, \<open>notification.queue.ts\<close>; jobs are unique by their id
    (locale \<open>job_queue\<close>, interpreted for both queues). \<open>Gateway\<close>: \<open>razor.gateway.ts\<close>,
    \<open>currency.util.ts\<close>. \<open>Redis\<close>: \<open>redis.service.ts\<close> and the contract of a cache
    (locale \<open>cache\<close>). \<open>Storage\<close>: \<open>local-storage.service.ts\<close>.
  \<^item> \<open>Booking\<close>, \<open>Payment\<close>: every operation of \<open>booking.service.ts\<close> and
    \<open>payment.service.ts\<close>. \<open>Processors\<close>: both workers, the mail service and
    \<open>notification.service.ts\<close>. \<open>Review\<close>, \<open>Availability\<close>, \<open>Catalog\<close>, \<open>Provider\<close>, \<open>Auth\<close>,
    \<open>Admin\<close>: the services and repositories of these modules, and the guards.
  \<^item> \<open>Contracts\<close> states what a preorder has to respect so that every booking and payment
    handler respects it (locale \<open>repository_order\<close>); \<open>Invariants\<close> interprets it for the
    invariants. \<open>System\<close> has the second contract, \<open>side_order\<close>, for the other components,
    the requests, and the reachable states.
  \<^item> \<open>Validation\<close>: the checks of the request objects under \<open>modules/*/dto\<close> and the pipes.
    \<open>Http\<close>: request identifiers, the \<open>Auth\<close> decorator, exception filters and the response
    envelope. \<open>Api\<close>: every route of the controllers with its guards, pipes and service
    call. \<open>Logging\<close>: the sanitiser and the structured log entry. \<open>Observability\<close>: the methods
    of the logger, the request context, the timeout and logging interceptors and the lines
    of the filters, composed as \<open>main.ts\<close> composes them (\<open>exchange\<close>). \<open>Health\<close>: the probes.
  \<^item> \<open>Configuration\<close>: the schema of the environment variables, the namespaces under
    \<open>config\<close>, and what \<open>main.ts\<close> and the cache connection make of them. \<open>Seed\<close>:
    \<open>database/seed/seed.ts\<close>.
  \<^item> \<open>Learning\<close> states what a handler knows of the database after its queries (\<open>learns\<close>) and
    the triples \<open>ends\<close> over it. On it rest \<open>References\<close> and \<open>ReferenceFacts\<close> (every
    operation keeps the foreign keys), \<open>PaidFacts\<close> (a confirmed booking has a paid payment)
    and \<open>PriceFacts\<close> (over its price). \<open>Served\<close> has the states the service reaches through
    its routes, workers and interleaved commits, the step relation \<open>served\<close>.
  \<^item> \<open>Races\<close>: handlers split where they stop reading (locale \<open>check_then_act\<close>, interpreted on
    \<open>updateStatus\<close> and \<open>refundPayment\<close>), two of them overlapping (locale \<open>race\<close>), and
    \<open>createReview\<close>'s transaction next to another one.
  \<^item> \<open>Mailer\<close>: the mail service over its providers, and the development provider, under
    \<open>shared/mailer\<close>. \<open>SmokeTest\<close>: \<open>scripts/post-deploy-smoke-test.ts\<close>, as a function of the
    server it talks to. \<open>Lifecycle\<close>: \<open>scripts/test-database-lifecycle.ts\<close>, as a function of the
    database server and the \<open>prisma\<close> command.
  \<^item> \<open>Examples\<close>: a small system on which the witnesses run. The theories \<open>...Facts\<close> hold
    the properties of their component.

  \<^bold>\<open>What is shown.\<close> Bookings: what a successful request established and changed; that a
  failing one changes nothing, unless the queue refuses the job after the commit, which leaves the
  booking behind; that an overlapping one is refused and a free one succeeds; cancellation, expiration, completion and overdue flags, with their
  idempotence. Payments: forged signatures are refused, verification and webhooks
  confirm exactly pending bookings, webhooks are idempotent, amounts are checked,
  what is asked of the gateway as a refund is positive and bounded by the payment; and four places where the code does less than it means to (a
  verification that overtakes an expiration, a capture that the expiration job turned away, a
  failure event that overrides a success, a used refresh token that stays valid).
  Reviews: one per booking, statistics that always match. Schedules: validation is
  equivalent to disjointness, slot generation ends and fills the window; and which of
  the offered slots, labelled in one time zone and checked in another, can be booked
  (\<open>SlotFacts\<close>). Catalogue and search: canonical slugs, and when cached
  results follow a change, over every history of the cache (\<open>searchHistory\<close>). Accounts: the last administrator stays, suspension locks
  out. Notifications: delivered once while the tracking row of the job exists, and again by every
  run when it is gone. The API (\<open>ApiFacts\<close>, \<open>ValidationFacts\<close>): a request
  without the access its route demands is refused and changes nothing; with it, the
  state changes exactly as by the service operation on behalf of the token's user, so
  the API refines the state machine of \<open>System\<close>; schedules behind it are well formed;
  refunds on one of two routes lose their actor. Logs: which parts of an entry are
  redacted, down to which depth, and which texts are logged as given.
  Two requests at once (\<open>Races\<close>): the last administrator, the refund of a payment and the
  statistics of a provider are protected against one request at a time only; where the
  handlers overlap, each of the three can go wrong, and one after the other they do not.
  The smoke test fails on a service that answers as this one does; the migration rehearsal
  leaves its database behind when a verification fails; the workers' mail is the mail
  service's, and its only provider reports success for whatever it is given.
  A request that is answered late takes effect; which status the request log shows.
  Configuration: what a validated environment guarantees, and that it does not guarantee
  the secrets of the gateway. The seed can be run again, and the service can start on what
  it leaves. The system: in every reachable state no two
  live bookings of a provider overlap, and history is never rewritten; in every state
  behind the API (\<open>ServedFacts\<close>) the foreign keys hold, confirmed bookings are paid, the
  statistics of the providers are true, and the slot query returns.

  \<^bold>\<open>Modelling decisions.\<close> A table is the list of its rows in insertion order; ties of an
  \<open>orderBy\<close> keep that order. A transaction that throws discards all its effects. A
  handler runs with one reading of the clock. Three handlers that read rows outside their
  transaction, verification, webhook and refund, are also split there (\<open>CommitVerification\<close>,
  \<open>CommitWebhook\<close>, \<open>CommitRefund\<close> in \<open>System\<close>), so that the invariants hold under any
  interleaving of these commits with the other requests. The others that read outside are
  single steps in \<open>System\<close>: \<open>createBooking\<close>, \<open>cancelBookingAsCustomer\<close>, \<open>completeBooking\<close>,
  \<open>createReview\<close>, \<open>updateStatus\<close> and the services of the catalogue, the providers and the accounts;
  what happens when another request commits between their reads and their writes is
  shown for \<open>updateStatus\<close> and \<open>createReview\<close> only, in \<open>Races\<close>.
  A transaction is one step there. \<open>Races\<close> goes further where it matters: a transaction of
  the default isolation level (read committed) reads what was committed before, and its own
  writes, so two that overlap may both read the state before either of them; \<open>reviewTxBeside\<close>
  is that transaction when its aggregate runs before the other one commits.

  The queue may reject any command, by the identifier of its job (\<open>queueError\<close>): the call then
  throws where the code awaits it, after the commit. Redis as a cache is ready
  or not (\<open>redisReady\<close>); \<open>redis.service.ts\<close> also swallows the error of a single
  command, which is the same as not being ready during it, so the theorems on the cache say
  that Redis answers. The database reports violated constraints and missing rows;
  other errors of a query, a lost connection in the middle of a handler say, are not modelled,
  and so not the notification whose mail went out before such an error.
  Amounts are exact rationals, \<open>toFixed2\<close> included: JavaScript rounds the binary number, which
  differs on ties at most. \<open>updateMany\<close> does not check constraints again: its uses
  only release slots or change flags. A loop that may not end (\<open>slotStarts\<close>) is a partial
  function; where it ends is a theorem. There is no fuel in the development.
  Hypotheses on the environment are the documented behaviour of the code they stand
  for and appear in the statements that need them.

  Foreign keys are not checked on insertion: \<open>foreign_keys_hold\<close> shows that the handlers
  keep them, so the error \<open>P2003\<close> of the database does not arise. The time a handler takes
  is an argument of \<open>exchange\<close>.

  \<^bold>\<open>Not modelled.\<close> Modules and dependency injection: wiring. Throttling: the decorators give
  limits to the library's guard, which counts requests in its own store. The rendering of
  the API documentation. The connection handling of Prisma, BullMQ and Redis, the retries of
  BullMQ (the options of the jobs are modelled, the schedule is the library's), and the
  console logger of the framework: input and output of libraries. The parsing of a request
  body into its object, with implicit conversions and default values. The columns
  \<open>updatedAt\<close>, \<open>deletedAt\<close>, \<open>isEmailVerified\<close>, which no modelled operation reads (\<open>updatedAt\<close> changes
  with every write of a row, also where the development says that nothing changes). The end-to-end
  tests. What remains of the source is imports, constructors, decorators of the
  documentation and module declarations.
\<close>

section \<open>The system\<close>

text \<open>
  C1. In every state that requests and jobs can lead to, in any order and with the
  commits of verification, webhook and refund in between, two bookings of one provider that are pending or confirmed never
  overlap; gateway orders, processed webhook events and queued jobs are unique.
\<close>

theorem no_double_booking:
  assumes "reachable w"
  shows "(\<forall>a \<in> set (bookings w). \<forall>b \<in> set (bookings w).
      b_id a \<noteq> b_id b \<longrightarrow> b_providerId a = b_providerId b \<longrightarrow>
      occupiesSlot (b_bookingStatus a) \<longrightarrow> occupiesSlot (b_bookingStatus b) \<longrightarrow> \<not> slotsOverlap a b)
    \<and> distinct (map b_id (bookings w)) \<and> distinct (map pay_gatewayOrderId (payments w))
    \<and> distinct (map (\<lambda>x. (we_gateway x, we_eventId x)) (webhookEvents w))
    \<and> distinct (map bj_jobId (bookingQueue w)) \<and> distinct (map nj_jobId (notificationQueue w))"
  using reachable_invariants [OF assms]
  by (auto simp: bookingsOk_def noOverlap_def conflicting_def paymentsOk_def queuesOk_def)

text \<open>The example customer books twice: at 10:00, and at 12:00.\<close>

definition laterEnv :: env where
  "laterEnv = demoEnv\<lparr>parseDate := (\<lambda>s. Some (demoStart + 7200000))\<rparr>"

definition twoBookings :: world where
  "twoBookings = runAll [(demoEnv, Core (CreateBooking ''cust'' demoDto)),
     (laterEnv, Core (CreateBooking ''cust'' demoDto))] demoWorld"

lemma twoBookings_length: "length (bookings twoBookings) = 2"
  by (simp add: twoBookings_def runAll_def createBooking_def createBookingTx_def run_simps demo_defs
      laterEnv_def read_defs date_defs write_defs queue_defs shift_times fitsInShift_def createOrder_eq
      cong: andThen_first)

theorem no_double_booking_witness:
  "length (bookings twoBookings) = 2 \<and> distinct (map b_id (bookings twoBookings))"
proof -
  have "initialState demoWorld" by (simp add: initialState_def demoWorld_def)
  then have "reachable twoBookings"
    unfolding twoBookings_def by (intro reachable_runAll reachable.start)
  from no_double_booking [OF this] twoBookings_length show ?thesis by blast
qed

text \<open>
  C2. History is never rewritten, whatever requests follow: the audit log only grows;
  every booking and every payment stays, with its customer, provider, times, price and
  order as they were when it was created; no recorded webhook event is lost.
\<close>

theorem history_immutable:
  "prefix (auditLogs w) (auditLogs (runAll rs w))
   \<and> prefix (map bookingSnapshot (bookings w)) (map bookingSnapshot (bookings (runAll rs w)))
   \<and> prefix (map paymentSnapshot (payments w)) (map paymentSnapshot (payments (runAll rs w)))
   \<and> prefix (map eventSnapshot (webhookEvents w)) (map eventSnapshot (webhookEvents (runAll rs w)))"
  using runAll_evolves [of w rs] by (simp add: evolves_def)

end
